(* ===== verification/Prelude.thy ===== *)
theory Prelude
  imports Main "HOL-Library.Word" "HOL-Library.Sublist"
begin

text \<open>
  Shared vocabulary of the development.

  A \<open>flex_buffer\<close> (include/aquarius/detail/flex_buffer.hpp, an alias of a \<open>std::streambuf\<close>)
  is modelled by the sequence of characters that can still be read from it: \<open>sputc\<close> and
  \<open>sputn\<close> append at the end, \<open>sgetn\<close> and \<open>consume\<close> remove from the front. A C++
  \<open>std::string\<close> is a \<open>string\<close>; both are sequences of bytes.

  Code that may throw is a function to a sum type. \<open>Thrown\<close> is a C++ exception, which a
  \<open>catch (...)\<close> stops; \<open>Undefined\<close> is undefined behaviour of the abstract machine, which
  nothing stops. A reader keeps the buffer on both branches, because an exception leaves the
  bytes that were consumed before it consumed.
\<close>

section \<open>Types and effects\<close>

type_synonym flex_buffer = string

datatype exc = out_of_range | length_error | runtime_error | bad_expected

datatype fault = Thrown exc | Undefined

type_synonym 'a reader = "flex_buffer \<Rightarrow> (fault + 'a) \<times> flex_buffer"

type_synonym writer = "flex_buffer \<Rightarrow> flex_buffer"

named_theorems codec \<open>how encoders append and how decoders invert them\<close>

definition r_return :: "'a \<Rightarrow> 'a reader" where
  "r_return x b = (Inr x, b)"

definition r_fail :: "fault \<Rightarrow> 'a reader" where
  "r_fail e b = (Inl e, b)"

definition r_bind :: "'a reader \<Rightarrow> ('a \<Rightarrow> 'c reader) \<Rightarrow> 'c reader" where
  "r_bind m f b = (case m b of (Inl e, b') \<Rightarrow> (Inl e, b') | (Inr x, b') \<Rightarrow> f x b')"

definition sputc :: "char \<Rightarrow> writer" where
  "sputc c b = b @ [c]"

definition sputn :: "string \<Rightarrow> writer" where
  "sputn s b = b @ s"

definition sgetn :: "nat \<Rightarrow> flex_buffer \<Rightarrow> string \<times> flex_buffer" where
  "sgetn n b = (take n b, drop n b)"

definition consume :: "nat \<Rightarrow> writer" where
  "consume n b = drop n b"

section \<open>Decoders that invert an encoding\<close>

text \<open>
  \<open>appends f bs\<close>: the writer \<open>f\<close> appends exactly \<open>bs\<close>. \<open>decodes m bs x\<close>: in front of
  any remaining input the reader \<open>m\<close> reads exactly \<open>bs\<close> and returns \<open>x\<close>.
\<close>

definition appends :: "writer \<Rightarrow> string \<Rightarrow> bool" where
  "appends f bs \<longleftrightarrow> (\<forall>b. f b = b @ bs)"

definition decodes :: "'a reader \<Rightarrow> string \<Rightarrow> 'a \<Rightarrow> bool" where
  "decodes m bs x \<longleftrightarrow> (\<forall>rest. m (bs @ rest) = (Inr x, rest))"

lemma appendsD: "appends f bs \<Longrightarrow> f b = b @ bs"
  by (simp add: appends_def)

lemma appends_comp [codec]:
  "appends f bs \<Longrightarrow> appends g cs \<Longrightarrow> appends (\<lambda>b. g (f b)) (bs @ cs)"
  by (simp add: appends_def)

lemma appends_sputn [codec]: "appends (sputn s) s"
  by (simp add: appends_def sputn_def)

lemma appends_sputc [codec]: "appends (sputc c) [c]"
  by (simp add: appends_def sputc_def)

lemma decodesD: "decodes m bs x \<Longrightarrow> m (bs @ rest) = (Inr x, rest)"
  by (simp add: decodes_def)

lemma decodesD_all: "decodes m bs x \<Longrightarrow> m bs = (Inr x, [])"
  using decodesD [of m bs x "[]"] by simp

lemma decodes_return [codec]: "decodes (r_return x) [] x"
  by (simp add: decodes_def r_return_def)

lemma decodes_bind [codec]:
  assumes "decodes m bs x" and "decodes (f x) cs y"
  shows "decodes (r_bind m f) (bs @ cs) y"
  using assms by (simp add: decodes_def r_bind_def)

lemma decodes_map:
  assumes "decodes m bs x" and "y = f x"
  shows "decodes (r_bind m (\<lambda>z. r_return (f z))) bs y"
  using assms by (simp add: decodes_def r_bind_def r_return_def)

lemma r_bind_return [simp]: "r_bind (r_return x) f = f x"
  by (rule ext) (simp add: r_bind_def r_return_def)

lemma r_bind_fail [simp]: "r_bind (r_fail e) f = r_fail e"
  by (rule ext) (simp add: r_bind_def r_fail_def)

section \<open>Consumption\<close>

text \<open>
  A reader is well behaved when what it leaves is a suffix of what it was given. Every decoder
  of the library is, whichever branch it takes.
\<close>

definition reads_prefix :: "'a reader \<Rightarrow> bool" where
  "reads_prefix m \<longleftrightarrow> (\<forall>b. suffix (snd (m b)) b)"

lemma reads_prefix_return [intro]: "reads_prefix (r_return x)"
  by (simp add: reads_prefix_def r_return_def)

lemma reads_prefix_fail [intro]: "reads_prefix (r_fail e)"
  by (simp add: reads_prefix_def r_fail_def)

lemma reads_prefix_bind [intro]:
  assumes "reads_prefix m" and "\<And>x. reads_prefix (f x)"
  shows "reads_prefix (r_bind m f)"
  unfolding reads_prefix_def
proof
  fix b
  obtain r b' where m: "m b = (r, b')" by (cases "m b")
  with assms(1) have s: "suffix b' b" unfolding reads_prefix_def by (metis snd_conv)
  show "suffix (snd (r_bind m f b)) b"
  proof (cases r)
    case (Inl e)
    with m s show ?thesis by (simp add: r_bind_def)
  next
    case (Inr x)
    have "suffix (snd (f x b')) b'" using assms(2) by (simp add: reads_prefix_def)
    with s have "suffix (snd (f x b')) b" by (rule suffix_order.trans [rotated])
    with m Inr show ?thesis by (simp add: r_bind_def)
  qed
qed

section \<open>Loading an object field by field\<close>

text \<open>
  A member function that fills an object with statements \<open>field_ = from_datas<T>(buffer);\<close>
  keeps the fields assigned before an exception. A loader returns the exception, if any, the
  object and the buffer as they are then. \<open>l_assign m upd\<close> is one such statement.
\<close>

type_synonym 's loader = "'s \<Rightarrow> flex_buffer \<Rightarrow> fault option \<times> 's \<times> flex_buffer"

definition l_skip :: "'s loader" where
  "l_skip s b = (None, s, b)"

definition l_assign :: "'a reader \<Rightarrow> ('a \<Rightarrow> 's \<Rightarrow> 's) \<Rightarrow> 's loader" where
  "l_assign m upd s b = (case m b of (Inl e, b') \<Rightarrow> (Some e, s, b') | (Inr x, b') \<Rightarrow> (None, upd x s, b'))"

definition l_then :: "'s loader \<Rightarrow> 's loader \<Rightarrow> 's loader" where
  "l_then l1 l2 s b = (case l1 s b of (Some e, s', b') \<Rightarrow> (Some e, s', b') | (None, s', b') \<Rightarrow> l2 s' b')"

definition loads :: "'s loader \<Rightarrow> string \<Rightarrow> 's \<Rightarrow> 's \<Rightarrow> bool" where
  "loads l bs s s' \<longleftrightarrow> (\<forall>rest. l s (bs @ rest) = (None, s', rest))"

lemma loadsD: "loads l bs s s' \<Longrightarrow> l s (bs @ rest) = (None, s', rest)"
  by (simp add: loads_def)

lemma loads_skip [codec]: "loads l_skip [] s s"
  by (simp add: loads_def l_skip_def)

lemma loads_assign [codec]: "decodes m bs x \<Longrightarrow> loads (l_assign m upd) bs s (upd x s)"
  by (simp add: loads_def decodes_def l_assign_def)

lemma loads_assignI: "decodes m bs x \<Longrightarrow> s' = upd x s \<Longrightarrow> loads (l_assign m upd) bs s s'"
  by (simp add: loads_assign)

lemma loads_then [codec]:
  "loads l1 bs s s' \<Longrightarrow> loads l2 cs s' s'' \<Longrightarrow> loads (l_then l1 l2) (bs @ cs) s s''"
  by (simp add: loads_def l_then_def)

text \<open>
  \<open>l_focus get put l\<close> runs a member function of a subobject.
\<close>

definition l_focus :: "('s \<Rightarrow> 't) \<Rightarrow> ('t \<Rightarrow> 's \<Rightarrow> 's) \<Rightarrow> 't loader \<Rightarrow> 's loader" where
  "l_focus get put l s b = (case l (get s) b of (e, t, b') \<Rightarrow> (e, put t s, b'))"

lemma loads_focus [codec]: "loads l bs (get s) t \<Longrightarrow> loads (l_focus get put l) bs s (put t s)"
  by (simp add: loads_def l_focus_def)

text \<open>\<open>l_prefix l\<close>: on every branch \<open>l\<close> leaves a suffix of its input.\<close>

definition l_prefix :: "'s loader \<Rightarrow> bool" where
  "l_prefix l \<longleftrightarrow> (\<forall>s b. suffix (snd (snd (l s b))) b)"

lemma l_prefixD: "l_prefix l \<Longrightarrow> l s b = (e, s', b') \<Longrightarrow> suffix b' b"
  unfolding l_prefix_def by (metis snd_conv)

lemma l_prefix_skip [intro]: "l_prefix l_skip"
  by (simp add: l_prefix_def l_skip_def)

lemma l_prefixI: "(\<And>s b e s' b'. l s b = (e, s', b') \<Longrightarrow> suffix b' b) \<Longrightarrow> l_prefix l"
  unfolding l_prefix_def by (metis prod.collapse)

lemma reads_prefixD: "reads_prefix m \<Longrightarrow> m b = (r, b') \<Longrightarrow> suffix b' b"
  unfolding reads_prefix_def by (metis snd_conv)

lemma l_prefix_assign [intro]: "reads_prefix m \<Longrightarrow> l_prefix (l_assign m upd)"
  by (rule l_prefixI) (auto simp: l_assign_def split: prod.splits sum.splits dest: reads_prefixD)

lemma l_prefix_then [intro]:
  assumes "l_prefix l1" and "l_prefix l2"
  shows "l_prefix (l_then l1 l2)"
proof (rule l_prefixI)
  fix s b e s' b'
  assume r: "l_then l1 l2 s b = (e, s', b')"
  obtain e1 s1 b1 where 1: "l1 s b = (e1, s1, b1)" by (cases "l1 s b")
  note s1 = l_prefixD [OF assms(1) 1]
  show "suffix b' b"
  proof (cases e1)
    case None
    with r 1 have "l2 s1 b1 = (e, s', b')" by (simp add: l_then_def)
    from l_prefixD [OF assms(2) this] s1 show ?thesis by (rule suffix_order.trans)
  next
    case (Some x)
    with r 1 s1 show ?thesis by (simp add: l_then_def)
  qed
qed

lemma l_prefix_focus [intro]: "l_prefix l \<Longrightarrow> l_prefix (l_focus get put l)"
  by (rule l_prefixI) (auto simp: l_focus_def split: prod.splits dest: l_prefixD)

text \<open>
  \<open>rejects m bs\<close>: a strict prefix of \<open>bs\<close> makes the reader throw; \<open>l_rejects\<close> says the
  same of a loader.
\<close>

definition rejects :: "'a reader \<Rightarrow> string \<Rightarrow> bool" where
  "rejects m bs \<longleftrightarrow> (\<forall>b. strict_prefix b bs \<longrightarrow> (\<exists>e. fst (m b) = Inl (Thrown e)))"

definition l_rejects :: "'s loader \<Rightarrow> string \<Rightarrow> 's \<Rightarrow> bool" where
  "l_rejects l bs s \<longleftrightarrow> (\<forall>b. strict_prefix b bs \<longrightarrow> (\<exists>e. fst (l s b) = Some (Thrown e)))"

lemma strict_prefix_append_cases:
  assumes "strict_prefix b (bs @ cs)"
  obtains "strict_prefix b bs" | c where "b = bs @ c" and "strict_prefix c cs"
  using assms by (cases "b = bs") (auto simp: strict_prefix_def prefix_append)

lemma rejects_map: "rejects m bs \<Longrightarrow> rejects (r_bind m f) bs"
  unfolding rejects_def r_bind_def by (fastforce split: prod.splits sum.splits)

lemma l_rejects_assign: "rejects m bs \<Longrightarrow> l_rejects (l_assign m upd) bs s"
  unfolding l_rejects_def rejects_def l_assign_def by (fastforce split: prod.splits sum.splits)

lemma l_rejects_then:
  assumes "loads l1 bs s s'" and "l_rejects l1 bs s" and "l_rejects l2 cs s'"
  shows "l_rejects (l_then l1 l2) (bs @ cs) s"
  unfolding l_rejects_def
proof (intro allI impI)
  fix b assume "strict_prefix b (bs @ cs)"
  then show "\<exists>e. fst (l_then l1 l2 s b) = Some (Thrown e)"
  proof (cases rule: strict_prefix_append_cases)
    case 1
    with assms(2) obtain e where "fst (l1 s b) = Some (Thrown e)" by (auto simp: l_rejects_def)
    then show ?thesis by (auto simp: l_then_def split: prod.splits)
  next
    case (2 c)
    with assms(1,3) show ?thesis by (simp add: l_then_def loadsD l_rejects_def)
  qed
qed

text \<open>
  A member function that writes an object, and may throw on the way. \<open>s_then\<close> is sequencing;
  \<open>saves f s bs\<close>: on the object \<open>s\<close> it appends \<open>bs\<close> and does not throw.
\<close>

type_synonym 's saver = "'s \<Rightarrow> flex_buffer \<Rightarrow> fault option \<times> flex_buffer"

definition s_write :: "('s \<Rightarrow> writer) \<Rightarrow> 's saver" where
  "s_write w s b = (None, w s b)"

definition s_then :: "'s saver \<Rightarrow> 's saver \<Rightarrow> 's saver" where
  "s_then f g s b = (case f s b of (Some e, b') \<Rightarrow> (Some e, b') | (None, b') \<Rightarrow> g s b')"

definition s_focus :: "('s \<Rightarrow> 't) \<Rightarrow> 't saver \<Rightarrow> 's saver" where
  "s_focus get f s = f (get s)"

definition saves :: "'s saver \<Rightarrow> 's \<Rightarrow> string \<Rightarrow> bool" where
  "saves f s bs \<longleftrightarrow> (\<forall>b. f s b = (None, b @ bs))"

lemma savesD: "saves f s bs \<Longrightarrow> f s b = (None, b @ bs)"
  by (simp add: saves_def)

lemma saves_write [codec]: "appends (w s) bs \<Longrightarrow> saves (s_write w) s bs"
  by (simp add: saves_def appends_def s_write_def)

lemma saves_then [codec]: "saves f s bs \<Longrightarrow> saves g s cs \<Longrightarrow> saves (s_then f g) s (bs @ cs)"
  by (simp add: saves_def s_then_def)

lemma saves_focus [codec]: "saves f (get s) bs \<Longrightarrow> saves (s_focus get f) s bs"
  by (simp add: saves_def s_focus_def)

section \<open>Little-endian representation of words\<close>

text \<open>
  \<open>buff.sputn((char*)&value, sizeof(T))\<close> writes the object representation; the supported
  hosts store the least significant byte first.
\<close>

unbundle bit_operations_syntax

fun le_bytes :: "nat \<Rightarrow> 'a::len word \<Rightarrow> string" where
  "le_bytes 0 w = []"
| "le_bytes (Suc n) w = char_of (unat w) # le_bytes n (drop_bit 8 w)"

fun le_word :: "string \<Rightarrow> 'a::len word" where
  "le_word [] = 0"
| "le_word (c # cs) = word_of_nat (of_char c) + push_bit 8 (le_word cs)"

lemma length_le_bytes [simp]: "length (le_bytes n w) = n"
  by (induction n arbitrary: w) auto

lemma unat_drop_bit_div: "unat (drop_bit n w) = unat w div 2 ^ n"
  unfolding unat_drop_bit_eq by (simp add: drop_bit_eq_div)

lemma word_of_nat_mod_add_push:
  fixes w :: "'a::len word"
  shows "word_of_nat (unat w mod 2 ^ n) + push_bit n (drop_bit n w) = w"
proof -
  have "word_of_nat (unat w mod 2 ^ n) + push_bit n (drop_bit n w)
      = word_of_nat (unat w mod 2 ^ n + 2 ^ n * (unat w div 2 ^ n))"
    by (simp add: push_bit_eq_mult unat_drop_bit_div [symmetric] mult.commute)
  also have "\<dots> = word_of_nat (unat w)"
    by simp
  finally show ?thesis by simp
qed

lemma le_word_le_bytes:
  fixes w :: "'a::len word"
  assumes "unat w < 2 ^ (8 * n)"
  shows "le_word (le_bytes n w) = w"
  using assms
proof (induction n arbitrary: w)
  case 0
  then show ?case by (simp add: unat_eq_zero)
next
  case (Suc n)
  have "unat (drop_bit 8 w) < 2 ^ (8 * n)"
    using Suc.prems by (simp add: unat_drop_bit_div less_mult_imp_div_less power_add mult.commute)
  then have "le_word (le_bytes n (drop_bit 8 w)) = drop_bit 8 w"
    by (rule Suc.IH)
  then show ?case
    using word_of_nat_mod_add_push [of w 8] by (simp add: of_char_of)
qed

lemma le_word_le_bytes_full [simp]:
  fixes w :: "'a::len word"
  assumes "LENGTH('a) \<le> 8 * n"
  shows "le_word (le_bytes n w) = w"
proof (rule le_word_le_bytes)
  have "unat w < 2 ^ LENGTH('a)" by (rule unsigned_less)
  also have "\<dots> \<le> (2::nat) ^ (8 * n)" using assms by (simp add: power_increasing)
  finally show "unat w < 2 ^ (8 * n)" .
qed

end
