(* ===== verification/Varint.thy ===== *)
theory Varint
  imports Prelude
begin

text \<open>
  The integer codecs of \<open>binary_parse\<close> (include/aquarius/serialize/binary.hpp): base-128
  varints for \<open>uint32_t\<close> and \<open>uint64_t\<close> (concept \<open>integer_t\<close>), zig-zag on top of them for
  \<open>int16_t\<close>, \<open>int32_t\<close> and \<open>int64_t\<close> (concept \<open>zig_zag\<close>). A signed C++ integer is the
  word that holds its two's complement; \<open>sint\<close> reads its value.
\<close>

section \<open>The code\<close>

function to_datas_integer :: "'a::len word \<Rightarrow> writer" where
  "to_datas_integer temp buff =
     (if 0x80 \<le> unat temp
      then to_datas_integer (drop_bit 7 temp) (sputc (char_of (unat (temp OR 0x80))) buff)
      else sputc (char_of (unat temp)) buff)"
  by pat_completeness auto
termination
proof (relation "measure (\<lambda>(temp, buff). unat temp)")
  fix temp :: "'a word" and buff :: flex_buffer
  assume "0x80 \<le> unat temp"
  then show "((drop_bit 7 temp, sputc (char_of (unat (temp OR 0x80))) buff), temp, buff)
      \<in> measure (\<lambda>(temp, buff). unat temp)"
    by (simp only: in_measure case_prod_conv unat_drop_bit_div) simp
qed simp

declare to_datas_integer.simps [simp del]

text \<open>
  The loop that reads the continuation bytes. The shift count is \<open>temp_bit\<close>; shifting a
  \<open>T\<close> by its width or more is undefined. (\<open>temp_bit\<close> is an \<open>int8_t\<close>; it reaches the width of
  \<open>T\<close>, at most 64, before it could wrap.)
\<close>

fun from_datas_continue :: "'a::len word \<Rightarrow> nat \<Rightarrow> 'a word reader" where
  "from_datas_continue value temp_bit [] = (Inl (Thrown out_of_range), [])"
| "from_datas_continue value temp_bit (c # buff) =
     (let temp = word_of_nat (of_char c) :: 8 word
      in if LENGTH('a) \<le> temp_bit then (Inl Undefined, buff)
         else if temp AND 0x80 = 0 then (Inr (value + push_bit temp_bit (ucast temp)), buff)
         else from_datas_continue (value + push_bit temp_bit (ucast (temp AND 0x7F)))
                (temp_bit + 7) buff)"

fun from_datas_integer :: "'a::len word reader" where
  "from_datas_integer [] = (Inl (Thrown out_of_range), [])"
| "from_datas_integer (c # buff) =
     (let value = word_of_nat (of_char c) :: 'a word
      in if 0x80 \<le> unat value then from_datas_continue (value - 0x80) 7 buff
         else (Inr value, buff))"

definition zig_zag16 :: "16 word \<Rightarrow> 64 word" where
  "zig_zag16 value = scast (push_bit 1 (scast value :: 32 word) XOR
                            signed_drop_bit 15 (scast value :: 32 word))"

definition zig_zag32 :: "32 word \<Rightarrow> 64 word" where
  "zig_zag32 value = scast (push_bit 1 value XOR signed_drop_bit 31 value)"

definition zig_zag64 :: "64 word \<Rightarrow> 64 word" where
  "zig_zag64 value = push_bit 1 value XOR signed_drop_bit 63 value"

definition to_datas_int16 :: "16 word \<Rightarrow> writer" where
  "to_datas_int16 value = to_datas_integer (zig_zag16 value)"

definition to_datas_int32 :: "32 word \<Rightarrow> writer" where
  "to_datas_int32 value = to_datas_integer (zig_zag32 value)"

definition to_datas_int64 :: "64 word \<Rightarrow> writer" where
  "to_datas_int64 value = to_datas_integer (zig_zag64 value)"

definition un_zig_zag :: "64 word \<Rightarrow> 'a::len word" where
  "un_zig_zag temp = ucast (drop_bit 1 temp XOR (- (temp AND 0x1)))"

definition from_datas_zig_zag :: "'a::len word reader" where
  "from_datas_zig_zag = r_bind from_datas_integer (\<lambda>temp. r_return (un_zig_zag temp))"

section \<open>The reference encoding\<close>

text \<open>Base 128, least significant group first, the top bit set on every byte but the last.\<close>

fun varint :: "nat \<Rightarrow> string" where
  "varint n = (if n < 128 then [char_of n] else char_of (n mod 128 + 128) # varint (n div 128))"

declare varint.simps [simp del]

lemma varint_small: "n < 128 \<Longrightarrow> varint n = [char_of n]"
  by (simp add: varint.simps)

lemma varint_large: "128 \<le> n \<Longrightarrow> varint n = char_of (n mod 128 + 128) # varint (n div 128)"
  by (simp add: varint.simps [of n])

lemma varint_nonempty [simp]: "varint n \<noteq> []"
  by (subst varint.simps) simp

lemma or_128_mod_256: "(n OR 128) mod 256 = n mod 128 + (128::nat)"
proof -
  have "(n OR 128) mod 256 = take_bit 8 (n OR 128)"
    by (simp add: take_bit_eq_mod)
  also have "\<dots> = take_bit 7 n OR 128"
  proof (rule bit_eqI)
    fix k
    have "bit (128::nat) k \<longleftrightarrow> k = 7"
      using bit_exp_iff [of 7 k, where ?'a = nat] by simp
    then show "bit (take_bit 8 (n OR 128)) k \<longleftrightarrow> bit (take_bit 7 n OR 128) k"
      by (auto simp: bit_take_bit_iff bit_or_iff)
  qed
  also have "\<dots> = take_bit 7 n + 128"
  proof (rule disjunctive_add_eq_or [symmetric])
    show "take_bit 7 n AND 128 = 0"
    proof (rule bit_eqI)
      fix k
      have "bit (128::nat) k \<longleftrightarrow> k = 7"
        using bit_exp_iff [of 7 k, where ?'a = nat] by simp
      then show "bit (take_bit 7 n AND 128) k \<longleftrightarrow> bit 0 k"
        by (auto simp: bit_take_bit_iff bit_and_iff)
    qed
  qed
  finally show ?thesis by (simp add: take_bit_eq_mod)
qed

lemma char_of_or_128: "char_of (n OR 128) = char_of (n mod 128 + (128::nat))"
  by (metis char_of_mod_256 or_128_mod_256)

lemma length_word_ge_8:
  fixes w :: "'a::len word"
  assumes "128 \<le> unat w"
  shows "8 \<le> LENGTH('a)"
proof (rule ccontr)
  assume "\<not> 8 \<le> LENGTH('a)"
  then have "(2::nat) ^ LENGTH('a) \<le> 2 ^ 7" by (intro power_increasing) auto
  moreover have "unat w < 2 ^ LENGTH('a)" by (rule unsigned_less)
  ultimately show False using assms by simp
qed

lemma unat_128:
  fixes w :: "'a::len word"
  assumes "128 \<le> unat w"
  shows "unat (128 :: 'a word) = 128"
proof -
  have "(2::nat) ^ 8 \<le> 2 ^ LENGTH('a)"
    using length_word_ge_8 [OF assms] by (rule power_increasing) simp
  then show ?thesis by (simp add: unsigned_numeral take_bit_eq_mod)
qed

lemma to_datas_integer_varint: "to_datas_integer w b = b @ varint (unat w)"
proof (induction w b rule: to_datas_integer.induct)
  case (1 w b)
  show ?case
  proof (cases "128 \<le> unat w")
    case True
    have "unat (w OR 128) = unat w OR 128"
      using unat_128 [OF True] by (simp add: unsigned_or_eq)
    with True "1.IH" show ?thesis
      by (subst to_datas_integer.simps)
        (simp add: sputc_def unat_drop_bit_div varint_large char_of_or_128)
  next
    case False
    then show ?thesis
      by (subst to_datas_integer.simps) (simp add: sputc_def varint_small)
  qed
qed

lemma appends_integer [codec]: "appends (to_datas_integer w) (varint (unat w))"
  by (simp add: appends_def to_datas_integer_varint)

section \<open>Decoding\<close>

lemma of_char_less_256 [simp]: "of_char c < (256::nat)"
  using of_char_mod_256 [of c, where ?'a = nat] by (metis mod_less_divisor zero_less_numeral)

lemma byte_mod_128:
  assumes "n < 256" and "\<not> n < (128::nat)"
  shows "n mod 128 = n - 128"
  using assms by (subst le_mod_geq) auto

lemma byte_bit_7:
  assumes "n < (256::nat)"
  shows "bit n 7 \<longleftrightarrow> \<not> n < 128"
proof (cases "n < 128")
  case True
  then show ?thesis by (simp add: bit_iff_odd)
next
  case False
  with assms have "n div 128 = 1" by (intro div_nat_eqI) auto
  with False show ?thesis by (simp add: bit_iff_odd)
qed

lemma byte_and_128:
  assumes "n < 256"
  shows "(word_of_nat n :: 8 word) AND 0x80 = 0 \<longleftrightarrow> n < 128"
proof -
  have "(word_of_nat n :: 8 word) AND 0x80 = 0 \<longleftrightarrow> \<not> bit (word_of_nat n :: 8 word) 7"
    using and_exp_eq_0_iff_not_bit [of "word_of_nat n :: 8 word" 7] by simp
  also have "\<dots> \<longleftrightarrow> \<not> bit n 7"
    by (simp add: bit_simps)
  also have "\<dots> \<longleftrightarrow> n < 128"
    using assms by (simp add: byte_bit_7)
  finally show ?thesis .
qed

lemma ucast_byte:
  assumes "n < 256"
  shows "ucast (word_of_nat n :: 8 word) = (word_of_nat n :: 'a::len word)"
  using assms by (simp add: unsigned_of_nat take_bit_eq_mod)

lemma byte_and_127:
  assumes "n < 256"
  shows "(word_of_nat n :: 8 word) AND 0x7F = word_of_nat (n mod 128)"
proof -
  have "(word_of_nat n :: 8 word) AND 0x7F = take_bit 7 (word_of_nat n)"
    by (simp add: take_bit_eq_mask mask_eq_exp_minus_1)
  also have "\<dots> = word_of_nat (take_bit 7 n)"
    by (rule bit_word_eqI) (auto simp: bit_simps)
  finally show ?thesis by (simp add: take_bit_eq_mod)
qed

lemma from_datas_continue_Cons:
  "from_datas_continue (v :: 'a::len word) k (c # b) =
     (if LENGTH('a) \<le> k then (Inl Undefined, b)
      else if of_char c < (128::nat) then (Inr (v + push_bit k (word_of_nat (of_char c))), b)
      else from_datas_continue (v + push_bit k (word_of_nat (of_char c mod 128))) (k + 7) b)"
  by (simp add: Let_def byte_and_128 ucast_byte byte_and_127 less_trans [OF mod_less_divisor])

lemma from_datas_integer_Cons:
  assumes "8 \<le> LENGTH('a)"
  shows "from_datas_integer (c # b) =
     (if of_char c < (128::nat) then (Inr (word_of_nat (of_char c) :: 'a::len word), b)
      else from_datas_continue (word_of_nat (of_char c mod 128)) 7 b)"
proof -
  have "of_char c < (2::nat) ^ LENGTH('a)"
  proof -
    have "of_char c < (2::nat) ^ 8" by simp
    also have "\<dots> \<le> 2 ^ LENGTH('a)" using assms by (rule power_increasing) simp
    finally show ?thesis .
  qed
  then have u: "unat (word_of_nat (of_char c) :: 'a word) = of_char c"
    by (simp add: unsigned_of_nat take_bit_eq_mod)
  have s: "(word_of_nat (of_char c) :: 'a word) - 0x80 = word_of_nat (of_char c mod 128)"
    if "\<not> of_char c < (128::nat)"
  proof -
    from that have "of_char c mod 128 = of_char c - (128::nat)"
      by (intro byte_mod_128) auto
    with that show ?thesis by (simp add: of_nat_diff)
  qed
  show ?thesis by (auto simp: Let_def u s)
qed

declare from_datas_continue.simps(2) [simp del] from_datas_integer.simps(2) [simp del]

lemma from_datas_continue_varint:
  assumes "n * 2 ^ k < 2 ^ LENGTH('a)" and "k < LENGTH('a)"
  shows "from_datas_continue (v :: 'a::len word) k (varint n @ rest)
       = (Inr (v + word_of_nat (n * 2 ^ k)), rest)"
  using assms
proof (induction n arbitrary: v k rule: varint.induct)
  case (1 n)
  show ?case
  proof (cases "n < 128")
    case True
    with "1.prems" show ?thesis
      by (simp add: varint_small from_datas_continue_Cons of_char_of push_bit_eq_mult)
  next
    case False
    have le: "n div 128 * 2 ^ (k + 7) \<le> n * 2 ^ k"
      using div_times_less_eq_dividend [of n 128] by (simp add: power_add)
    have "2 ^ (k + 7) \<le> n div 128 * 2 ^ (k + 7)"
      using False by simp
    with le "1.prems"(1) have "(2::nat) ^ (k + 7) < 2 ^ LENGTH('a)" by linarith
    then have k: "k + 7 < LENGTH('a)" by simp
    have IH: "from_datas_continue w (k + 7) (varint (n div 128) @ rest)
        = (Inr (w + word_of_nat (n div 128 * 2 ^ (k + 7))), rest)" for w :: "'a word"
      using False k le "1.prems"(1) by (intro "1.IH") auto
    have "n mod 128 * 2 ^ k + n div 128 * 2 ^ (k + 7) = (n mod 128 + 128 * (n div 128)) * 2 ^ k"
      by (simp only: power_add add_mult_distrib) simp
    then have sum: "n mod 128 * 2 ^ k + n div 128 * 2 ^ (k + 7) = n * 2 ^ k"
      by (simp only: mod_mult_div_eq)
    have "from_datas_continue v k (varint n @ rest)
        = from_datas_continue (v + word_of_nat (n mod 128 * 2 ^ k)) (k + 7) (varint (n div 128) @ rest)"
      using False "1.prems"(2)
      by (simp add: varint_large from_datas_continue_Cons of_char_of push_bit_eq_mult)
    also have "\<dots> = (Inr (v + word_of_nat (n * 2 ^ k)), rest)"
      unfolding IH by (simp only: add.assoc of_nat_add [symmetric] sum)
    finally show ?thesis .
  qed
qed

lemma decodes_integer:
  assumes "8 \<le> LENGTH('a)"
  shows "decodes from_datas_integer (varint (unat w)) (w :: 'a::len word)"
  unfolding decodes_def
proof
  fix rest
  show "from_datas_integer (varint (unat w) @ rest) = (Inr w, rest)"
  proof (cases "unat w < 128")
    case True
    then show ?thesis
      by (simp add: varint_small from_datas_integer_Cons [OF assms] of_char_of)
  next
    case False
    have "unat w div 128 * 128 \<le> unat w" by (rule div_times_less_eq_dividend)
    moreover have "unat w < 2 ^ LENGTH('a)" by (rule unsigned_less)
    ultimately have "unat w div 128 * 128 < 2 ^ LENGTH('a)" by (rule le_less_trans)
    then have lt: "unat w div 128 * 2 ^ 7 < 2 ^ LENGTH('a)" by simp
    have "from_datas_integer (varint (unat w) @ rest)
        = from_datas_continue (word_of_nat (unat w mod 128) :: 'a word) 7 (varint (unat w div 128) @ rest)"
      using False by (simp add: varint_large from_datas_integer_Cons [OF assms] of_char_of)
    also have "\<dots> = (Inr (word_of_nat (unat w mod 128) + word_of_nat (unat w div 128 * 2 ^ 7)), rest)"
      using lt assms by (intro from_datas_continue_varint) auto
    also have "word_of_nat (unat w mod 128) + word_of_nat (unat w div 128 * 2 ^ 7)
        = (word_of_nat (unat w mod 128 + 128 * (unat w div 128)) :: 'a word)"
      by (simp only: of_nat_add) simp
    finally show ?thesis by (simp only: mod_mult_div_eq) simp
  qed
qed

lemma decodes_uint64 [codec]: "decodes from_datas_integer (varint (unat w)) (w :: 64 word)"
  by (rule decodes_integer) simp

text \<open>The number of bytes a decoder of \<open>T\<close> can read before a shift becomes undefined.\<close>

definition max_groups :: "nat \<Rightarrow> nat" where
  "max_groups l = (l + 6) div 7"

definition continuation :: "char \<Rightarrow> bool" where
  "continuation c \<longleftrightarrow> 128 \<le> (of_char c :: nat)"

lemma max_groups_step: "k < l \<Longrightarrow> max_groups (l - k) = Suc (max_groups (l - (k + 7)))"
  unfolding max_groups_def by (cases "k + 7 \<le> l") (auto simp: le_div_geq)

lemma from_datas_continue_undefined:
  "fst (from_datas_continue (v :: 'a::len word) k b) = Inl Undefined \<longleftrightarrow>
     max_groups (LENGTH('a) - k) < length b \<and>
     list_all continuation (take (max_groups (LENGTH('a) - k)) b)"
proof (induction b arbitrary: v k)
  case Nil
  then show ?case by simp
next
  case (Cons c b)
  then show ?case
    by (auto simp: from_datas_continue_Cons max_groups_step continuation_def)
       (simp_all add: max_groups_def)
qed

lemma from_datas_continue_thrown:
  "fst (from_datas_continue (v :: 'a::len word) k b) = Inl (Thrown e) \<longleftrightarrow>
     e = out_of_range \<and> length b \<le> max_groups (LENGTH('a) - k) \<and> list_all continuation b"
proof (induction b arbitrary: v k)
  case Nil
  then show ?case by auto
next
  case (Cons c b)
  then show ?case
    by (auto simp: from_datas_continue_Cons max_groups_step continuation_def)
       (simp_all add: max_groups_def)
qed

lemma from_datas_integer_undefined:
  assumes "8 \<le> LENGTH('a)"
  shows "fst (from_datas_integer b :: (fault + 'a::len word) \<times> flex_buffer) = Inl Undefined \<longleftrightarrow>
     max_groups LENGTH('a) < length b \<and> list_all continuation (take (max_groups LENGTH('a)) b)"
  using assms max_groups_step [of 0 "LENGTH('a)"]
  by (cases b) (auto simp: from_datas_integer_Cons from_datas_continue_undefined continuation_def)

lemma from_datas_integer_thrown:
  assumes "8 \<le> LENGTH('a)"
  shows "fst (from_datas_integer b :: (fault + 'a::len word) \<times> flex_buffer) = Inl (Thrown e) \<longleftrightarrow>
     e = out_of_range \<and> length b \<le> max_groups LENGTH('a) \<and> list_all continuation b"
  using assms max_groups_step [of 0 "LENGTH('a)"]
  by (cases b) (auto simp: from_datas_integer_Cons from_datas_continue_thrown continuation_def)

lemma length_varint: "n < 128 ^ Suc k \<Longrightarrow> length (varint n) \<le> Suc k"
proof (induction k arbitrary: n)
  case 0
  then show ?case by (simp add: varint_small)
next
  case (Suc k)
  have "n div 128 < 128 ^ Suc k"
    using Suc.prems by (simp add: less_mult_imp_div_less mult.commute)
  then have "length (varint (n div 128)) \<le> Suc k" by (rule Suc.IH)
  then show ?case by (cases "n < 128") (auto simp: varint_small varint_large)
qed

lemma length_varint_word: "length (varint (unat (w :: 64 word))) \<le> 10"
proof -
  have "unat w < 128 ^ Suc 9"
    using unsigned_less [of w] by (rule less_trans) simp
  then show ?thesis using length_varint [of "unat w" 9] by simp
qed

lemma strict_prefix_varint: "strict_prefix b (varint n) \<Longrightarrow> list_all continuation b"
proof (induction n arbitrary: b rule: varint.induct)
  case (1 n)
  show ?case
  proof (cases "n < 128")
    case True
    with "1.prems" show ?thesis by (cases b) (auto simp: varint_small strict_prefix_def)
  next
    case False
    with 1 show ?thesis
      by (cases b) (auto simp: varint_large strict_prefix_def continuation_def of_char_of)
  qed
qed

lemma rejects_uint64 [codec]: "rejects (from_datas_integer :: 64 word reader) (varint (unat (w :: 64 word)))"
  unfolding rejects_def
proof (intro allI impI)
  fix b assume b: "strict_prefix b (varint (unat w))"
  from length_varint_word [of w] prefix_length_less [OF b] have "length b \<le> max_groups LENGTH(64)"
    by (simp add: max_groups_def)
  then show "\<exists>e. fst (from_datas_integer b :: (fault + 64 word) \<times> flex_buffer) = Inl (Thrown e)"
    using strict_prefix_varint [OF b] by (simp add: from_datas_integer_thrown)
qed

section \<open>Zig-zag\<close>

lemma bit_word_too_big: "LENGTH('a) \<le> i \<Longrightarrow> \<not> bit (w :: 'a::len word) i"
  using bit_imp_le_length [of w i] by auto

lemma bit_uminus_and_one:
  "bit (- ((w :: 'a::len word) AND 1)) i \<longleftrightarrow> i < LENGTH('a) \<and> bit w 0"
proof (cases "odd w")
  case True
  then have "w AND 1 = 1" by (simp add: and_one_eq odd_iff_mod_2_eq_one)
  with True show ?thesis by (simp add: bit_0 bit_minus_1_iff possible_bit_word)
next
  case False
  then have "w AND 1 = 0" by (simp add: and_one_eq even_iff_mod_2_eq_zero [symmetric])
  with False show ?thesis by (simp add: bit_0)
qed

lemma bit_un_zig_zag:
  "bit (un_zig_zag t :: 'a::len word) i \<longleftrightarrow>
     i < LENGTH('a) \<and> i < 64 \<and> (bit t (Suc i) \<noteq> bit t 0)"
proof -
  have "bit t (Suc i) \<Longrightarrow> i < 64"
    using bit_imp_le_length [of t "Suc i"] by simp
  then show ?thesis
    unfolding un_zig_zag_def bit_ucast_iff bit_xor_iff bit_drop_bit_eq bit_uminus_and_one
    by auto
qed

lemma bit_zig_zag64: "i < 64 \<Longrightarrow>
    bit (zig_zag64 v) i \<longleftrightarrow> ((0 < i \<and> bit v (i - 1)) \<noteq> bit v 63)"
  unfolding zig_zag64_def bit_xor_iff bit_push_bit_iff bit_signed_drop_bit_iff
  by (cases i) (auto simp: possible_bit_word)

lemma un_zig_zag64: "un_zig_zag (zig_zag64 v) = v"
proof (rule bit_word_eqI)
  fix i assume "i < LENGTH(64)"
  then show "bit (un_zig_zag (zig_zag64 v) :: 64 word) i = bit v i"
    by (cases "i = 63") (auto simp: bit_un_zig_zag bit_zig_zag64 bit_word_too_big)
qed

lemma bit_zig_zag32: "i < 64 \<Longrightarrow>
    bit (zig_zag32 v) i \<longleftrightarrow> ((0 < min i 31 \<and> bit v (min i 31 - 1)) \<noteq> bit v 31)"
  unfolding zig_zag32_def bit_word_scast_iff bit_xor_iff bit_push_bit_iff bit_signed_drop_bit_iff
  by (cases i) (auto simp: min_def bit_word_too_big)

lemma un_zig_zag32: "un_zig_zag (zig_zag32 v) = signed_take_bit 30 v"
proof (rule bit_word_eqI)
  fix i assume "i < LENGTH(32)"
  then show "bit (un_zig_zag (zig_zag32 v) :: 32 word) i = bit (signed_take_bit 30 v) i"
    by (cases "i = 31"; cases "i = 30")
      (auto simp: bit_un_zig_zag bit_zig_zag32 bit_signed_take_bit_iff min_def)
qed

lemma bit_zig_zag16: "i < 64 \<Longrightarrow>
    bit (zig_zag16 v) i \<longleftrightarrow> i < 16 \<and> ((0 < i \<and> bit v (i - 1)) \<noteq> bit v 15)"
  unfolding zig_zag16_def bit_word_scast_iff bit_xor_iff bit_push_bit_iff bit_signed_drop_bit_iff
  by (cases i; cases "i = 16") (auto simp: bit_word_too_big)

lemma un_zig_zag16: "un_zig_zag (zig_zag16 v) = v"
proof (rule bit_word_eqI)
  fix i assume "i < LENGTH(16)"
  then show "bit (un_zig_zag (zig_zag16 v) :: 16 word) i = bit v i"
    by (cases "i = 15") (auto simp: bit_un_zig_zag bit_zig_zag16)
qed

lemma bit_sint_32: "bit (sint (v :: 32 word)) i \<longleftrightarrow> bit v (min i 31)"
  by (simp add: bit_signed_iff min.commute)

lemma signed_take_bit_30_eq_iff:
  "signed_take_bit 30 v = (v :: 32 word) \<longleftrightarrow> - (2 ^ 30) \<le> sint v \<and> sint v < 2 ^ 30"
proof -
  have "signed_take_bit 30 v = v \<longleftrightarrow> bit v 30 = bit v 31"
  proof
    assume "signed_take_bit 30 v = v"
    then have "bit v 31 = bit (signed_take_bit 30 v) 31" by simp
    then show "bit v 30 = bit v 31" by (simp add: bit_signed_take_bit_iff min_def)
  next
    assume eq: "bit v 30 = bit v 31"
    show "signed_take_bit 30 v = v"
    proof (rule bit_word_eqI)
      fix i assume "i < LENGTH(32)"
      then show "bit (signed_take_bit 30 v) i = bit v i"
        using eq by (cases "i = 31"; cases "i = 30") (auto simp: bit_signed_take_bit_iff min_def)
    qed
  qed
  also have "\<dots> \<longleftrightarrow> signed_take_bit 30 (sint v) = sint v"
  proof
    assume eq: "bit v 30 = bit v 31"
    show "signed_take_bit 30 (sint v) = sint v"
    proof (rule bit_eqI)
      fix i
      show "bit (signed_take_bit 30 (sint v)) i = bit (sint v) i"
        using eq by (cases "i < 30"; cases "i = 30"; cases "i = 31")
          (auto simp: bit_signed_take_bit_iff bit_sint_32 min_def)
    qed
  next
    assume "signed_take_bit 30 (sint v) = sint v"
    then have "bit (signed_take_bit 30 (sint v)) 31 = bit (sint v) 31" by simp
    then show "bit v 30 = bit v 31" by (simp add: bit_signed_take_bit_iff bit_sint_32 min_def)
  qed
  also have "\<dots> \<longleftrightarrow> - (2 ^ 30) \<le> sint v \<and> sint v < 2 ^ 30"
    using signed_take_bit_int_eq_self_iff [of 30 "sint v"] by simp
  finally show ?thesis .
qed

lemma signed_drop_bit_63: "signed_drop_bit 63 (v :: 64 word) = (if sint v < 0 then -1 else 0)"
proof (rule bit_word_eqI)
  fix i assume "i < LENGTH(64)"
  moreover have "bit v 63 \<longleftrightarrow> sint v < 0" using bit_last_iff [of v] by simp
  ultimately show "bit (signed_drop_bit 63 v) i = bit (if sint v < 0 then - 1 else 0 :: 64 word) i"
    by (cases i) (auto simp: bit_signed_drop_bit_iff)
qed

lemma zig_zag64_value:
  "uint (zig_zag64 v) = (if 0 \<le> sint v then 2 * sint v else - 2 * sint v - 1)"
proof -
  let ?k = "if 0 \<le> sint v then 2 * sint v else - 2 * sint v - 1"
  have "zig_zag64 v = word_of_int ?k"
    by (auto simp: zig_zag64_def signed_drop_bit_63 push_bit_eq_mult not_eq_complement)
  moreover have "0 \<le> ?k" by simp
  moreover have "?k < 2 ^ 64"
    using sint_lt [of v] sint_ge [of v] by auto
  ultimately show ?thesis by (simp add: uint_word_of_int_eq take_bit_int_eq_self)
qed

lemma appends_int16 [codec]: "appends (to_datas_int16 v) (varint (unat (zig_zag16 v)))"
  unfolding to_datas_int16_def by (rule appends_integer)

lemma appends_int32 [codec]: "appends (to_datas_int32 v) (varint (unat (zig_zag32 v)))"
  unfolding to_datas_int32_def by (rule appends_integer)

lemma appends_int64 [codec]: "appends (to_datas_int64 v) (varint (unat (zig_zag64 v)))"
  unfolding to_datas_int64_def by (rule appends_integer)

lemma decodes_zig_zag: "x = un_zig_zag t \<Longrightarrow> decodes from_datas_zig_zag (varint (unat t)) x"
  unfolding from_datas_zig_zag_def by (rule decodes_map) (rule decodes_integer, simp)

lemma decodes_int16 [codec]: "decodes from_datas_zig_zag (varint (unat (zig_zag16 v))) v"
  by (rule decodes_zig_zag) (simp add: un_zig_zag16)

lemma decodes_int64 [codec]: "decodes from_datas_zig_zag (varint (unat (zig_zag64 v))) v"
  by (rule decodes_zig_zag) (simp add: un_zig_zag64)

lemma decodes_int32:
  "- (2 ^ 30) \<le> sint v \<Longrightarrow> sint v < 2 ^ 30 \<Longrightarrow>
     decodes from_datas_zig_zag (varint (unat (zig_zag32 v))) v"
  using signed_take_bit_30_eq_iff [of v] by (intro decodes_zig_zag) (simp add: un_zig_zag32)

lemma rejects_zig_zag [codec]: "rejects from_datas_zig_zag (varint (unat (t :: 64 word)))"
  unfolding from_datas_zig_zag_def by (intro rejects_map codec)

lemma suffix_from_datas_continue: "suffix (snd (from_datas_continue v k b)) b"
  by (induction b arbitrary: v k) (auto simp: from_datas_continue_Cons suffix_ConsI)

lemma reads_prefix_integer [intro]: "reads_prefix from_datas_integer"
  unfolding reads_prefix_def
proof
  fix b
  show "suffix (snd (from_datas_integer b :: (fault + 'a word) \<times> flex_buffer)) b"
    by (cases b) (auto simp: from_datas_integer.simps Let_def suffix_ConsI suffix_from_datas_continue)
qed

lemma reads_prefix_zig_zag [intro]: "reads_prefix from_datas_zig_zag"
  unfolding from_datas_zig_zag_def by (intro reads_prefix_bind reads_prefix_integer reads_prefix_return)

section \<open>Properties\<close>

text \<open>
  A \<open>uint32_t\<close> or \<open>uint64_t\<close> written by \<open>binary_parse::to_datas\<close> is read back by
  \<open>from_datas\<close> unchanged, whatever follows it in the buffer, and nothing else is consumed.
\<close>

theorem varint_roundtrip:
  "from_datas_integer (to_datas_integer (w32 :: 32 word) [] @ rest) = (Inr w32, rest) \<and>
   from_datas_integer (to_datas_integer (w64 :: 64 word) [] @ rest) = (Inr w64, rest)"
  unfolding to_datas_integer_varint append_Nil
  by (intro conjI decodesD decodes_integer) simp_all

text \<open>
  The encoding loop appends the base-128 reference encoding of the value: one to five bytes
  for a \<open>uint32_t\<close>, one to ten for a \<open>uint64_t\<close>, the bounds docs/virgo.md states.
\<close>

theorem varint_bytes:
  "to_datas_integer (w32 :: 32 word) buff = buff @ varint (unat w32) \<and>
   to_datas_integer (w64 :: 64 word) buff = buff @ varint (unat w64) \<and>
   length (varint (unat w32)) \<in> {1..5} \<and> length (varint (unat w64)) \<in> {1..10}"
proof -
  have "unat w32 < 2 ^ LENGTH(32)" and "unat w64 < 2 ^ LENGTH(64)"
    by (rule unsigned_less)+
  then have "length (varint (unat w32)) \<le> Suc 4" and "length (varint (unat w64)) \<le> Suc 9"
    using length_varint [of "unat w32" 4] length_varint [of "unat w64" 9] by simp_all
  moreover have "1 \<le> length (varint n)" for n
    by (simp add: Suc_le_eq)
  ultimately show ?thesis by (simp add: to_datas_integer_varint)
qed

text \<open>
  C29. Every input has one of three outcomes. Reading a \<open>uint64_t\<close> throws \<open>out_of_range\<close>
  exactly when the buffer ends, within ten bytes, before a byte without the continuation bit;
  it is undefined (a shift by 70) exactly when ten continuation bytes are followed by another
  byte; otherwise it returns a value.
\<close>

theorem varint_outcome:
  "(fst (from_datas_integer b :: (fault + 64 word) \<times> flex_buffer) = Inl (Thrown e) \<longleftrightarrow>
      e = out_of_range \<and> length b \<le> 10 \<and> list_all continuation b) \<and>
   (fst (from_datas_integer b :: (fault + 64 word) \<times> flex_buffer) = Inl Undefined \<longleftrightarrow>
      10 < length b \<and> list_all continuation (take 10 b))"
proof -
  have "max_groups LENGTH(64) = 10" by (simp add: max_groups_def)
  then show ?thesis
    using from_datas_integer_thrown [where ?'a = 64, of b e]
      from_datas_integer_undefined [where ?'a = 64, of b] by simp
qed

text \<open>
  An \<open>int16_t\<close> or \<open>int64_t\<close> survives the zig-zag encoding, and the 64-bit encoding maps
  \<open>n\<close> to \<open>2 n\<close> and \<open>- n\<close> to \<open>2 n - 1\<close>.
\<close>

theorem zig_zag_roundtrip:
  "from_datas_zig_zag (to_datas_int16 v16 [] @ rest) = (Inr v16, rest) \<and>
   from_datas_zig_zag (to_datas_int64 v64 [] @ rest) = (Inr v64, rest) \<and>
   uint (zig_zag64 v64) = (if 0 \<le> sint v64 then 2 * sint v64 else - 2 * sint v64 - 1)"
  using decodesD [OF decodes_int16, of v16 rest] decodesD [OF decodes_int64, of v64 rest]
  by (simp add: appendsD [OF appends_int16] appendsD [OF appends_int64] zig_zag64_value)

text \<open>
  C30. An \<open>int32_t\<close> survives the zig-zag encoding exactly when it lies in
  \<open>[-2^30, 2^30)\<close>: for larger magnitudes \<open>value << 1\<close> overflows into the sign bit of the
  32-bit operand before it is widened to \<open>uint64_t\<close>, and the reader returns the value with
  bit 31 replaced by bit 30.
\<close>

theorem int32_zig_zag_range:
  "from_datas_zig_zag (to_datas_int32 v [] @ rest) = (Inr (signed_take_bit 30 v), rest) \<and>
   (from_datas_zig_zag (to_datas_int32 v [] @ rest) = (Inr v, rest) \<longleftrightarrow>
      - (2 ^ 30) \<le> sint v \<and> sint v < 2 ^ 30)"
proof -
  have "decodes from_datas_zig_zag (varint (unat (zig_zag32 v))) (signed_take_bit 30 v)"
    by (rule decodes_zig_zag) (simp add: un_zig_zag32)
  then have r: "from_datas_zig_zag (to_datas_int32 v [] @ rest) = (Inr (signed_take_bit 30 v), rest)"
    using decodesD by (simp add: appendsD [OF appends_int32])
  show ?thesis
    unfolding r by (simp only: prod.inject sum.inject signed_take_bit_30_eq_iff simp_thms)
qed

end
