(* ===== verification/Key_Order.thy ===== *)
theory Key_Order
  imports Main
begin

text \<open>
  The order in which \<open>std::map\<close> keeps its keys (include/aquarius/serialize/binary.hpp reads and
  writes maps). A key is compared by its rank: a number, or a sequence of ranks that is compared
  lexicographically, as \<open>std::less\<close> compares strings, vectors, pairs and maps. Ranks are linearly
  ordered, so that the lemmas of the library on linear orders apply to the keys.
\<close>

datatype rank = R_num int | R_seq "rank list"

fun rank_less :: "rank \<Rightarrow> rank \<Rightarrow> bool" and ranks_less :: "rank list \<Rightarrow> rank list \<Rightarrow> bool" where
  "rank_less (R_num a) (R_num b) = (a < b)"
| "rank_less (R_num a) (R_seq ys) = True"
| "rank_less (R_seq xs) (R_num b) = False"
| "rank_less (R_seq xs) (R_seq ys) = ranks_less xs ys"
| "ranks_less xs [] = False"
| "ranks_less [] (y # ys) = True"
| "ranks_less (x # xs) (y # ys) = (rank_less x y \<or> x = y \<and> ranks_less xs ys)"

lemma rank_less_asym:
  "rank_less x y \<Longrightarrow> \<not> rank_less y x" "ranks_less xs ys \<Longrightarrow> \<not> ranks_less ys xs"
  by (induction x y and xs ys rule: rank_less_ranks_less.induct) auto

lemma rank_less_trans:
  "rank_less x y \<Longrightarrow> rank_less y z \<Longrightarrow> rank_less x z"
  "ranks_less xs ys \<Longrightarrow> ranks_less ys zs \<Longrightarrow> ranks_less xs zs"
proof (induction x y and xs ys arbitrary: z and zs rule: rank_less_ranks_less.induct)
  case (1 a b)
  then show ?case by (cases z) auto
next
  case (2 a ys)
  then show ?case by (cases z) auto
next
  case (4 xs ys)
  then show ?case by (cases z) auto
next
  case (6 y ys)
  then show ?case by (cases zs) auto
next
  case (7 x xs y ys)
  then show ?case by (cases zs) auto
qed auto

lemma rank_less_total:
  "x \<noteq> y \<Longrightarrow> rank_less x y \<or> rank_less y x" "xs \<noteq> ys \<Longrightarrow> ranks_less xs ys \<or> ranks_less ys xs"
proof (induction x y and xs ys rule: rank_less_ranks_less.induct)
  case (5 xs)
  then show ?case by (cases xs) auto
qed auto

instantiation rank :: linorder
begin

definition less_rank :: "rank \<Rightarrow> rank \<Rightarrow> bool" where
  "less_rank x y = rank_less x y"

definition less_eq_rank :: "rank \<Rightarrow> rank \<Rightarrow> bool" where
  "less_eq_rank x y = (x = y \<or> rank_less x y)"

instance
  by standard
    (auto simp: less_rank_def less_eq_rank_def intro: rank_less_trans dest: rank_less_asym rank_less_total)

end

lemma rank_less_simps [simp]:
  "R_num a < R_num b \<longleftrightarrow> a < b" "R_num a < R_seq ys" "\<not> R_seq xs < R_num b"
  "\<not> R_seq xs < R_seq []" "R_seq [] < R_seq (y # ys)"
  "R_seq (x # xs) < R_seq (y # ys) \<longleftrightarrow> x < y \<or> x = y \<and> R_seq xs < R_seq ys"
  by (simp_all add: less_rank_def)

end
