(* ===== verification/Binary.thy ===== *)
theory Binary
  imports Varint Key_Order
begin

text \<open>
  \<open>binary_parse\<close> (include/aquarius/serialize/binary.hpp) for every type the concepts of
  include/aquarius/concepts.hpp admit. The overload set of \<open>to_datas\<close> and \<open>from_datas\<close> is one
  function by recursion on a value, respectively on a type; template instantiation at a C++
  type is application to the corresponding \<open>ty\<close>.
\<close>

section \<open>Types and values\<close>

text \<open>
  \<open>integer_t\<close>: uint32 and uint64; \<open>zig_zag\<close>: int16, int32 and int64; \<open>pod_t\<close>: char, bool,
  float and double (the last two by their object representation); \<open>fixed_t\<close>: fixed32 and
  fixed64; \<open>string_t\<close>, \<open>repeated_t\<close>, \<open>map_t\<close>, and \<open>reflectable\<close> for aggregates.
\<close>

datatype ty =
    T_uint32 | T_uint64 | T_int16 | T_int32 | T_int64
  | T_char | T_bool | T_float | T_double | T_fixed32 | T_fixed64
  | T_string | T_vector ty | T_map ty ty | T_struct "ty list"

datatype val =
    V_uint32 "32 word" | V_uint64 "64 word" | V_int16 "16 word" | V_int32 "32 word" | V_int64 "64 word"
  | V_char char | V_bool bool | V_float "32 word" | V_double "64 word"
  | V_fixed32 "32 word" | V_fixed64 "64 word"
  | V_string string | V_vector "val list" | V_map "(val \<times> val) list" | V_struct "val list"

text \<open>
  The largest size \<open>resize\<close> accepts before it throws (\<open>length_error\<close> beyond \<open>max_size()\<close>,
  \<open>bad_alloc\<close> beyond the memory): a property of the host.
\<close>

record limits =
  string_max :: nat
  vector_max :: nat

section \<open>Writing\<close>

definition to_datas_size :: "nat \<Rightarrow> writer" where
  "to_datas_size n = to_datas_integer (word_of_nat n :: 64 word)"

definition to_datas_string :: "string \<Rightarrow> writer" where
  "to_datas_string value buff = sputn value (to_datas_size (length value) buff)"

definition to_datas_bool :: "bool \<Rightarrow> writer" where
  "to_datas_bool value = sputn [if value then CHR 0x01 else CHR 0x00]"

fun write_all :: "writer list \<Rightarrow> writer" where
  "write_all [] buff = buff"
| "write_all (w # ws) buff = write_all ws (w buff)"

primrec to_datas :: "val \<Rightarrow> writer" where
  "to_datas (V_uint32 w) = to_datas_integer w"
| "to_datas (V_uint64 w) = to_datas_integer w"
| "to_datas (V_int16 w) = to_datas_int16 w"
| "to_datas (V_int32 w) = to_datas_int32 w"
| "to_datas (V_int64 w) = to_datas_int64 w"
| "to_datas (V_char c) = sputn [c]"
| "to_datas (V_bool v) = to_datas_bool v"
| "to_datas (V_float w) = sputn (le_bytes 4 w)"
| "to_datas (V_double w) = sputn (le_bytes 8 w)"
| "to_datas (V_fixed32 w) = sputn (le_bytes 4 w)"
| "to_datas (V_fixed64 w) = sputn (le_bytes 8 w)"
| "to_datas (V_string s) = to_datas_string s"
| "to_datas (V_vector vs) = (\<lambda>buff. write_all (map to_datas vs) (to_datas_size (length vs) buff))"
| "to_datas (V_map kvs) =
     (\<lambda>buff. write_all (map (\<lambda>(k, v) b. v (k b)) (map (map_prod to_datas to_datas) kvs))
                (to_datas_size (length kvs) buff))"
| "to_datas (V_struct vs) = write_all (map to_datas vs)"

section \<open>Reading\<close>

definition from_datas_pod :: "nat \<Rightarrow> string reader" where
  "from_datas_pod value_size buff =
     (if length buff < value_size then (Inl (Thrown out_of_range), buff)
      else let (tmp, buff') = sgetn value_size buff
           in if length tmp \<noteq> value_size then (Inl (Thrown out_of_range), buff')
              else (Inr tmp, buff'))"

text \<open>A \<open>bool\<close> whose byte is neither 0 nor 1 has no value: reading it is undefined.\<close>

definition from_datas_bool :: "bool reader" where
  "from_datas_bool =
     r_bind (from_datas_pod 1)
       (\<lambda>s. if s = [CHR 0x00] then r_return False
             else if s = [CHR 0x01] then r_return True
             else r_fail Undefined)"

definition from_datas_fixed :: "nat \<Rightarrow> 'a::len word reader" where
  "from_datas_fixed sz buffer =
     (let (s, buffer') = sgetn sz buffer
      in if length s \<noteq> sz then (Inl (Thrown out_of_range), buffer')
         else (Inr (le_word s), buffer'))"

definition from_datas_size :: "nat reader" where
  "from_datas_size = r_bind (from_datas_integer :: 64 word reader) (\<lambda>w. r_return (unat w))"

text \<open>
  \<open>value.resize(size)\<close> fills with NUL; \<open>sgetn\<close> then overwrites as many characters as the
  buffer has. Its result is not checked.
\<close>

definition from_datas_string :: "limits \<Rightarrow> string reader" where
  "from_datas_string lim =
     r_bind from_datas_size
       (\<lambda>sz buff.
          if string_max lim < sz then (Inl (Thrown length_error), buff)
          else let (s, buff') = sgetn sz buff
               in (Inr (s @ replicate (sz - length s) (CHR 0x00)), buff'))"

fun read_n :: "nat \<Rightarrow> 'a reader \<Rightarrow> 'a list reader" where
  "read_n 0 m = r_return []"
| "read_n (Suc n) m = r_bind m (\<lambda>x. r_bind (read_n n m) (\<lambda>xs. r_return (x # xs)))"

fun read_all :: "'a reader list \<Rightarrow> 'a list reader" where
  "read_all [] = r_return []"
| "read_all (m # ms) = r_bind m (\<lambda>x. r_bind (read_all ms) (\<lambda>xs. r_return (x # xs)))"

definition from_datas_vector :: "limits \<Rightarrow> 'a reader \<Rightarrow> 'a list reader" where
  "from_datas_vector lim elem =
     r_bind from_datas_size
       (\<lambda>sz. if vector_max lim < sz then r_fail (Thrown length_error) else read_n sz elem)"

text \<open>
  \<open>std::map\<close> is the association list in the order of its keys under \<open>std::less\<close>; \<open>value[first] = second\<close>
  inserts or overwrites. The number a key is compared by: a \<open>char\<close> is signed, as on x86, while the
  characters of a string compare as unsigned ones (\<open>char_traits\<close>); a floating-point number has the
  order of its magnitude with its sign, under which both zeros are the same key. Aggregates and
  fixed-width numbers have no \<open>operator<\<close>, so that a map cannot have them as keys (\<open>key_type\<close>).
\<close>

definition float_num :: "'a::len word \<Rightarrow> int" where
  "float_num w = (let m = uint (take_bit (LENGTH('a) - 1) w) in if bit w (LENGTH('a) - 1) then - m else m)"

primrec key_rank :: "val \<Rightarrow> rank" where
  "key_rank (V_uint32 w) = R_num (uint w)"
| "key_rank (V_uint64 w) = R_num (uint w)"
| "key_rank (V_int16 w) = R_num (sint w)"
| "key_rank (V_int32 w) = R_num (sint w)"
| "key_rank (V_int64 w) = R_num (sint w)"
| "key_rank (V_char c) = R_num (sint (of_char c :: 8 word))"
| "key_rank (V_bool v) = R_num (of_bool v)"
| "key_rank (V_float w) = R_num (float_num w)"
| "key_rank (V_double w) = R_num (float_num w)"
| "key_rank (V_fixed32 w) = R_num (uint w)"
| "key_rank (V_fixed64 w) = R_num (uint w)"
| "key_rank (V_string s) = R_seq (map (\<lambda>c. R_num (of_char c)) s)"
| "key_rank (V_vector vs) = R_seq (map key_rank vs)"
| "key_rank (V_map kvs) = R_seq (map (\<lambda>(k, v). R_seq [k, v]) (map (map_prod key_rank key_rank) kvs))"
| "key_rank (V_struct vs) = R_seq (map key_rank vs)"

definition key_less :: "val \<Rightarrow> val \<Rightarrow> bool" where
  "key_less a b \<longleftrightarrow> key_rank a < key_rank b"

primrec key_type :: "ty \<Rightarrow> bool" where
  "key_type T_uint32 = True"
| "key_type T_uint64 = True"
| "key_type T_int16 = True"
| "key_type T_int32 = True"
| "key_type T_int64 = True"
| "key_type T_char = True"
| "key_type T_bool = True"
| "key_type T_float = True"
| "key_type T_double = True"
| "key_type T_fixed32 = False"
| "key_type T_fixed64 = False"
| "key_type T_string = True"
| "key_type (T_vector t) = key_type t"
| "key_type (T_map k t) = (key_type k \<and> key_type t)"
| "key_type (T_struct ts) = False"

text \<open>
  A key with a part that is not a number (NaN) has no place in the order: \<open>std::less\<close> is then not
  the strict weak order that \<open>std::map\<close> requires, and using it is undefined.
\<close>

primrec has_nan :: "val \<Rightarrow> bool" where
  "has_nan (V_uint32 w) = False"
| "has_nan (V_uint64 w) = False"
| "has_nan (V_int16 w) = False"
| "has_nan (V_int32 w) = False"
| "has_nan (V_int64 w) = False"
| "has_nan (V_char c) = False"
| "has_nan (V_bool v) = False"
| "has_nan (V_float w) = (take_bit 31 w > 0x7F800000)"
| "has_nan (V_double w) = (take_bit 63 w > 0x7FF0000000000000)"
| "has_nan (V_fixed32 w) = False"
| "has_nan (V_fixed64 w) = False"
| "has_nan (V_string s) = False"
| "has_nan (V_vector vs) = list_ex id (map has_nan vs)"
| "has_nan (V_map kvs) = list_ex (\<lambda>(k, v). k \<or> v) (map (map_prod has_nan has_nan) kvs)"
| "has_nan (V_struct vs) = list_ex id (map has_nan vs)"

fun map_assign :: "val \<Rightarrow> val \<Rightarrow> (val \<times> val) list \<Rightarrow> (val \<times> val) list" where
  "map_assign k v [] = [(k, v)]"
| "map_assign k v ((k', v') # m) =
     (if key_less k k' then (k, v) # (k', v') # m
      else if key_less k' k then (k', v') # map_assign k v m
      else (k', v) # m)"

fun read_map :: "nat \<Rightarrow> val reader \<Rightarrow> val reader \<Rightarrow> (val \<times> val) list \<Rightarrow> (val \<times> val) list reader" where
  "read_map 0 key elem value = r_return value"
| "read_map (Suc n) key elem value =
     r_bind key (\<lambda>first. r_bind elem (\<lambda>second.
       if has_nan first then r_fail Undefined else read_map n key elem (map_assign first second value)))"

primrec from_datas :: "limits \<Rightarrow> ty \<Rightarrow> val reader" where
  "from_datas lim T_uint32 = r_bind from_datas_integer (\<lambda>w. r_return (V_uint32 w))"
| "from_datas lim T_uint64 = r_bind from_datas_integer (\<lambda>w. r_return (V_uint64 w))"
| "from_datas lim T_int16 = r_bind from_datas_zig_zag (\<lambda>w. r_return (V_int16 w))"
| "from_datas lim T_int32 = r_bind from_datas_zig_zag (\<lambda>w. r_return (V_int32 w))"
| "from_datas lim T_int64 = r_bind from_datas_zig_zag (\<lambda>w. r_return (V_int64 w))"
| "from_datas lim T_char = r_bind (from_datas_pod 1) (\<lambda>s. r_return (V_char (hd s)))"
| "from_datas lim T_bool = r_bind from_datas_bool (\<lambda>v. r_return (V_bool v))"
| "from_datas lim T_float = r_bind (from_datas_pod 4) (\<lambda>s. r_return (V_float (le_word s)))"
| "from_datas lim T_double = r_bind (from_datas_pod 8) (\<lambda>s. r_return (V_double (le_word s)))"
| "from_datas lim T_fixed32 = r_bind (from_datas_fixed 4) (\<lambda>w. r_return (V_fixed32 w))"
| "from_datas lim T_fixed64 = r_bind (from_datas_fixed 8) (\<lambda>w. r_return (V_fixed64 w))"
| "from_datas lim T_string = r_bind (from_datas_string lim) (\<lambda>s. r_return (V_string s))"
| "from_datas lim (T_vector t) =
     r_bind (from_datas_vector lim (from_datas lim t)) (\<lambda>vs. r_return (V_vector vs))"
| "from_datas lim (T_map k t) =
     r_bind from_datas_size
       (\<lambda>sz. r_bind (read_map sz (from_datas lim k) (from_datas lim t) [])
                  (\<lambda>m. r_return (V_map m)))"
| "from_datas lim (T_struct ts) =
     r_bind (read_all (map (from_datas lim) ts)) (\<lambda>vs. r_return (V_struct vs))"

section \<open>Values the wire format can carry\<close>

text \<open>
  \<open>fits lim v t\<close>: \<open>v\<close> is a value of type \<open>t\<close> whose containers are within the host's limits and
  whose \<open>int32_t\<close> parts are in the range the zig-zag encoding preserves. A \<open>std::map\<close> has keys of a
  type with an order, none of them with a NaN, in strictly increasing order.
\<close>

primrec fits :: "limits \<Rightarrow> val \<Rightarrow> ty \<Rightarrow> bool" where
  "fits lim (V_uint32 w) t = (t = T_uint32)"
| "fits lim (V_uint64 w) t = (t = T_uint64)"
| "fits lim (V_int16 w) t = (t = T_int16)"
| "fits lim (V_int32 w) t = (t = T_int32 \<and> - (2 ^ 30) \<le> sint w \<and> sint w < 2 ^ 30)"
| "fits lim (V_int64 w) t = (t = T_int64)"
| "fits lim (V_char c) t = (t = T_char)"
| "fits lim (V_bool v) t = (t = T_bool)"
| "fits lim (V_float w) t = (t = T_float)"
| "fits lim (V_double w) t = (t = T_double)"
| "fits lim (V_fixed32 w) t = (t = T_fixed32)"
| "fits lim (V_fixed64 w) t = (t = T_fixed64)"
| "fits lim (V_string s) t = (t = T_string \<and> length s \<le> string_max lim \<and> length s < 2 ^ 64)"
| "fits lim (V_vector vs) t =
     (case t of T_vector u \<Rightarrow> list_all (\<lambda>f. f u) (map (fits lim) vs)
                  \<and> length vs \<le> vector_max lim \<and> length vs < 2 ^ 64
      | _ \<Rightarrow> False)"
| "fits lim (V_map kvs) t =
     (case t of T_map k u \<Rightarrow>
          list_all (\<lambda>(f, g). f k \<and> g u) (map (map_prod (fits lim) (fits lim)) kvs)
          \<and> key_type k \<and> list_all (\<lambda>(k, _). \<not> has_nan k) kvs
          \<and> sorted_wrt key_less (map fst kvs) \<and> length kvs < 2 ^ 64
      | _ \<Rightarrow> False)"
| "fits lim (V_struct vs) t =
     (case t of T_struct ts \<Rightarrow> list_all2 (\<lambda>f u. f u) (map (fits lim) vs) ts | _ \<Rightarrow> False)"

section \<open>Leaf codecs\<close>

lemma appends_size [codec]: "n < 2 ^ 64 \<Longrightarrow> appends (to_datas_size n) (varint n)"
  using appends_integer [of "word_of_nat n :: 64 word"]
  by (simp add: to_datas_size_def unsigned_of_nat take_bit_eq_mod)

lemma decodes_size [codec]:
  assumes "n < 2 ^ 64"
  shows "decodes from_datas_size (varint n) n"
proof -
  have u: "unat (word_of_nat n :: 64 word) = n"
    using assms by (simp add: unsigned_of_nat take_bit_eq_mod)
  have "decodes from_datas_integer (varint (unat (word_of_nat n :: 64 word))) (word_of_nat n :: 64 word)"
    by (rule decodes_integer) simp
  then show ?thesis
    unfolding from_datas_size_def u by (rule decodes_map) (simp add: u)
qed

lemma appends_string [codec]:
  "length s < 2 ^ 64 \<Longrightarrow> appends (to_datas_string s) (varint (length s) @ s)"
  unfolding to_datas_string_def by (rule appends_comp) (rule codec, assumption, rule codec)

lemma decodes_string [codec]:
  assumes "length s \<le> string_max lim" and "length s < 2 ^ 64"
  shows "decodes (from_datas_string lim) (varint (length s) @ s) s"
  unfolding from_datas_string_def
  by (rule decodes_bind [OF decodes_size])
    (use assms in \<open>auto simp: decodes_def sgetn_def\<close>)

lemma appends_bool [codec]: "appends (to_datas_bool v) [if v then CHR 0x01 else CHR 0x00]"
  unfolding to_datas_bool_def by (rule codec)

lemma decodes_pod [codec]: "length s = n \<Longrightarrow> decodes (from_datas_pod n) s s"
  by (auto simp: decodes_def from_datas_pod_def sgetn_def)

lemma decodes_fixed [codec]: "length s = n \<Longrightarrow> decodes (from_datas_fixed n) s (le_word s)"
  by (auto simp: decodes_def from_datas_fixed_def sgetn_def)

lemma decodes_bool [codec]: "decodes from_datas_bool [if v then CHR 0x01 else CHR 0x00] v"
  unfolding from_datas_bool_def
  using decodes_bind [OF decodes_pod [of "[if v then CHR 0x01 else CHR 0x00]" 1],
      of "\<lambda>s. if s = [CHR 0x00] then r_return False
             else if s = [CHR 0x01] then r_return True else r_fail Undefined" "[]" v]
  by (cases v) (simp_all add: decodes_return)

section \<open>Composite codecs\<close>

lemma appends_write_all:
  "list_all2 appends ws bss \<Longrightarrow> appends (write_all ws) (concat bss)"
  by (induction rule: list_all2_induct) (auto simp: appends_def)

lemma decodes_read_all:
  assumes "length ms = length xs" and "length bss = length xs"
    and "\<And>i. i < length xs \<Longrightarrow> decodes (ms ! i) (bss ! i) (xs ! i)"
  shows "decodes (read_all ms) (concat bss) xs"
  using assms
proof (induction xs arbitrary: ms bss)
  case Nil
  then show ?case by (simp add: decodes_return)
next
  case (Cons x xs)
  then obtain m ms' bs bss' where eq: "ms = m # ms'" "bss = bs # bss'"
    by (metis length_Suc_conv)
  have "decodes m bs x" using Cons.prems(3) [of 0] eq by simp
  moreover have "decodes (read_all ms') (concat bss') xs"
    using Cons.prems(1,2) Cons.prems(3) [of "Suc _"] eq by (intro Cons.IH) auto
  ultimately show ?case
    unfolding eq by (simp add: decodes_def r_bind_def r_return_def)
qed

lemma read_n_replicate: "read_n n m = read_all (replicate n m)"
  by (induction n) auto

lemma key_less_asym: "key_less a b \<Longrightarrow> \<not> key_less b a"
  by (auto simp: key_less_def)

lemma map_assign_last:
  "\<forall>(k', v') \<in> set m. key_less k' k \<Longrightarrow> map_assign k v m = m @ [(k, v)]"
  by (induction m) (auto dest: key_less_asym)

text \<open>The bytes \<open>to_datas v\<close> appends.\<close>

definition wire :: "val \<Rightarrow> string" where
  "wire v = to_datas v []"

definition appending :: "writer \<Rightarrow> bool" where
  "appending f \<longleftrightarrow> (\<exists>bs. appends f bs)"

lemma appending_comp: "appending f \<Longrightarrow> appending g \<Longrightarrow> appending (\<lambda>b. g (f b))"
  unfolding appending_def by (blast intro: appends_comp)

lemma appendingD: "appending f \<Longrightarrow> appends f (f [])"
  by (auto simp: appending_def appends_def)

lemma appending_write_all: "\<forall>w \<in> set ws. appending w \<Longrightarrow> appending (write_all ws)"
  by (induction ws) (auto simp: appending_def appends_def)

lemma write_all_Nil:
  "\<forall>w \<in> set ws. appending w \<Longrightarrow> write_all ws b = b @ concat (map (\<lambda>w. w []) ws)"
proof (induction ws arbitrary: b)
  case (Cons w ws)
  then have "w b = b @ w []" by (auto intro: appendsD appendingD)
  with Cons show ?case by simp
qed simp

lemma appending_size: "appending (to_datas_size n)"
  unfolding to_datas_size_def appending_def by (blast intro: appends_integer)

lemma appending_string: "appending (to_datas_string s)"
proof -
  have "to_datas_string s = (\<lambda>b. sputn s (to_datas_size (length s) b))"
    by (rule ext) (simp add: to_datas_string_def)
  then show ?thesis
    using appending_comp [OF appending_size, of "sputn s"] appends_sputn by (auto simp: appending_def)
qed

lemma appending_to_datas: "appending (to_datas v)"
proof (induction v)
  case (V_vector vs)
  then have "appending (write_all (map to_datas vs))" by (intro appending_write_all) auto
  then show ?case using appending_comp [OF appending_size] by simp
next
  case (V_map kvs)
  then have "appending (to_datas k)" "appending (to_datas v)" if "(k, v) \<in> set kvs" for k v
    using that by (metis fst_conv fsts.intros snd_conv snds.intros)+
  then have "appending (\<lambda>b. to_datas v (to_datas k b))" if "(k, v) \<in> set kvs" for k v
    using that appending_comp [of "to_datas k" "to_datas v"] by blast
  then have "appending (write_all (map (\<lambda>(k, v) b. v (k b)) (map (map_prod to_datas to_datas) kvs)))"
    by (intro appending_write_all) auto
  then show ?case using appending_comp [OF appending_size] by simp
next
  case (V_struct vs)
  then show ?case by (auto intro!: appending_write_all)
next
  case (V_string s)
  show ?case by (simp add: appending_string)
qed (auto simp: appending_def intro: codec)

lemma appends_to_datas: "appends (to_datas v) (wire v)"
  unfolding wire_def by (rule appendingD [OF appending_to_datas])

lemma wire_vector: "wire (V_vector vs) = to_datas_size (length vs) [] @ concat (map wire vs)"
  by (simp add: wire_def [abs_def] write_all_Nil appending_to_datas comp_def)

lemma wire_struct: "wire (V_struct vs) = concat (map wire vs)"
  by (simp add: wire_def [abs_def] write_all_Nil appending_to_datas comp_def)

lemma wire_map:
  "wire (V_map kvs) = to_datas_size (length kvs) [] @ concat (map (\<lambda>(k, v). wire k @ wire v) kvs)"
proof -
  let ?ws = "map (\<lambda>(k, v) b. v (k b)) (map (map_prod to_datas to_datas) kvs)"
  have "appending (\<lambda>b. to_datas v (to_datas k b))" for k v
    by (rule appending_comp [OF appending_to_datas appending_to_datas])
  then have "\<forall>w \<in> set ?ws. appending w" by auto
  then have "wire (V_map kvs) = to_datas_size (length kvs) [] @ concat (map (\<lambda>w. w []) ?ws)"
    by (simp add: wire_def write_all_Nil)
  also have "to_datas v (to_datas k []) = wire k @ wire v" for k v
    using appendsD [OF appends_to_datas, of v "wire k"] by (simp only: wire_def)
  then have "map (\<lambda>w. w []) ?ws = map (\<lambda>(k, v). wire k @ wire v) kvs" by auto
  finally show ?thesis .
qed

lemma decodes_read_map:
  assumes "\<forall>(k, v) \<in> set kvs. decodes key (wire k) k \<and> decodes elem (wire v) v"
    and "list_all (\<lambda>(k, _). \<not> has_nan k) kvs" and "sorted_wrt key_less (map fst (acc @ kvs))"
  shows "decodes (read_map (length kvs) key elem acc) (concat (map (\<lambda>(k, v). wire k @ wire v) kvs)) (acc @ kvs)"
  using assms
proof (induction kvs arbitrary: acc)
  case Nil
  then show ?case by (simp add: decodes_return)
next
  case (Cons p kvs)
  obtain k v where p: "p = (k, v)" by (cases p)
  have "map_assign k v acc = acc @ [(k, v)]"
    using Cons.prems(3) p by (intro map_assign_last) (auto simp: sorted_wrt_append)
  moreover have "decodes (read_map (length kvs) key elem (acc @ [(k, v)]))
      (concat (map (\<lambda>(k, v). wire k @ wire v) kvs)) ((acc @ [(k, v)]) @ kvs)"
    using Cons.prems p by (intro Cons.IH) auto
  ultimately show ?case
    using Cons.prems(1,2) p by (simp add: decodes_def r_bind_def)
qed

lemma to_datas_size_varint: "n < 2 ^ 64 \<Longrightarrow> to_datas_size n [] = varint n"
  using appendsD [OF appends_size, of n "[]"] by simp

lemma decodes_val:
  assumes "decodes m bs x"
  shows "decodes (r_bind m (\<lambda>z. r_return (c z))) bs (c x)"
  using assms by (rule decodes_map) simp

lemma wire_leaf:
  "wire (V_uint32 a) = varint (unat a)" "wire (V_uint64 b) = varint (unat b)"
  "wire (V_int16 i) = varint (unat (zig_zag16 i))" "wire (V_int32 a) = varint (unat (zig_zag32 a))"
  "wire (V_int64 b) = varint (unat (zig_zag64 b))"
  "wire (V_char c) = [c]" "wire (V_bool v) = [if v then CHR 0x01 else CHR 0x00]"
  "wire (V_float a) = le_bytes 4 a" "wire (V_double b) = le_bytes 8 b"
  "wire (V_fixed32 a) = le_bytes 4 a" "wire (V_fixed64 b) = le_bytes 8 b"
  by (simp_all add: wire_def to_datas_integer_varint to_datas_int16_def to_datas_int32_def
      to_datas_int64_def to_datas_bool_def sputn_def)

lemma wire_string: "length s < 2 ^ 64 \<Longrightarrow> wire (V_string s) = varint (length s) @ s"
  using appendsD [OF appends_string, of s "[]"] by (simp add: wire_def)

lemma decodes_le_pod:
  "LENGTH('a) \<le> 8 * n \<Longrightarrow>
     decodes (r_bind (from_datas_pod n) (\<lambda>s. r_return (c (le_word s)))) (le_bytes n (w :: 'a::len word)) (c w)"
  using decodes_val [OF decodes_pod, of "le_bytes n w" n "\<lambda>s. c (le_word s)"] by simp

lemma decodes_le_fixed:
  "LENGTH('a) \<le> 8 * n \<Longrightarrow> decodes (from_datas_fixed n) (le_bytes n w) (w :: 'a::len word)"
  using decodes_fixed [of "le_bytes n w" n, where ?'a = 'a] by simp

lemma decodes_vector:
  assumes "length xs \<le> vector_max lim" and "length xs < 2 ^ 64"
    and "\<And>x. x \<in> set xs \<Longrightarrow> decodes m (f x) x"
  shows "decodes (from_datas_vector lim m) (varint (length xs) @ concat (map f xs)) xs"
  unfolding from_datas_vector_def
proof (rule decodes_bind [OF decodes_size [OF assms(2)]])
  have "decodes (read_n (length xs) m) (concat (map f xs)) xs"
    unfolding read_n_replicate using assms(3) by (intro decodes_read_all) auto
  with assms(1) show "decodes (if vector_max lim < length xs then r_fail (Thrown length_error)
      else read_n (length xs) m) (concat (map f xs)) xs" by simp
qed

lemma decodes_from_datas: "fits lim v t \<Longrightarrow> decodes (from_datas lim t) (wire v) v"
proof (induction v arbitrary: t)
  case (V_int32 w)
  then show ?case by (auto simp: wire_leaf intro!: decodes_val decodes_int32)
next
  case (V_bool v)
  then show ?case
    using decodes_val [OF decodes_bool [of v], of V_bool] by (simp add: wire_leaf)
next
  case (V_char c)
  then show ?case
    using decodes_val [OF decodes_pod, of "[c]" 1 "\<lambda>s. V_char (hd s)"] by (simp add: wire_leaf)
next
  case (V_string s)
  then show ?case by (auto simp: wire_string intro!: decodes_val decodes_string)
next
  case (V_vector vs)
  then obtain u where "t = T_vector u" "length vs \<le> vector_max lim" "length vs < 2 ^ 64"
    and el: "\<And>v. v \<in> set vs \<Longrightarrow> decodes (from_datas lim u) (wire v) v"
    by (auto simp: list_all_iff split: ty.splits)
  then show ?case
    by (simp add: wire_vector to_datas_size_varint decodes_val [OF decodes_vector])
next
  case (V_map kvs)
  then obtain k u where t: "t = T_map k u" "sorted_wrt key_less (map fst kvs)" "length kvs < 2 ^ 64"
      "list_all (\<lambda>(k, _). \<not> has_nan k) kvs"
    and el: "list_all (\<lambda>(f, g). f k \<and> g u) (map (map_prod (fits lim) (fits lim)) kvs)"
    by (auto split: ty.splits)
  have "\<forall>(a, b) \<in> set kvs. decodes (from_datas lim k) (wire a) a \<and> decodes (from_datas lim u) (wire b) b"
    using el V_map.IH by (fastforce simp: list_all_iff)
  with t have "decodes (read_map (length kvs) (from_datas lim k) (from_datas lim u) [])
      (concat (map (\<lambda>(k, v). wire k @ wire v) kvs)) ([] @ kvs)"
    by (intro decodes_read_map) simp_all
  then show ?case
    using t by (auto simp: wire_map to_datas_size_varint intro!: decodes_bind [OF decodes_size] decodes_val)
next
  case (V_struct vs)
  then obtain ts where t: "t = T_struct ts" and l: "list_all2 (\<lambda>f u. f u) (map (fits lim) vs) ts"
    by (auto split: ty.splits)
  have "decodes (read_all (map (from_datas lim) ts)) (concat (map wire vs)) vs"
    using l V_struct.IH by (intro decodes_read_all) (auto simp: list_all2_conv_all_nth)
  then show ?case by (simp add: t wire_struct decodes_val)
qed (auto simp: wire_leaf intro!: decodes_val decodes_integer decodes_int16 decodes_int64 decodes_bool
    decodes_le_pod decodes_le_fixed)

lemma reads_prefix_take:
  assumes "\<And>b. \<exists>n. snd (m b) = drop n b"
  shows "reads_prefix m"
  unfolding reads_prefix_def using assms by (metis suffix_drop)

lemma reads_prefix_pod [intro]: "reads_prefix (from_datas_pod n)"
proof (rule reads_prefix_take)
  fix b
  have "snd (from_datas_pod n b) = drop (if length b < n then 0 else n) b"
    by (simp add: from_datas_pod_def sgetn_def)
  then show "\<exists>n'. snd (from_datas_pod n b) = drop n' b" ..
qed

lemma reads_prefix_fixed [intro]: "reads_prefix (from_datas_fixed n)"
proof (rule reads_prefix_take)
  fix b
  have "snd (from_datas_fixed n b) = drop n b" by (simp add: from_datas_fixed_def sgetn_def)
  then show "\<exists>n'. snd (from_datas_fixed n b) = drop n' b" ..
qed

lemma reads_prefix_size [intro]: "reads_prefix from_datas_size"
  unfolding from_datas_size_def by (intro reads_prefix_bind reads_prefix_integer reads_prefix_return)

lemma reads_prefix_string [intro]: "reads_prefix (from_datas_string lim)"
  unfolding from_datas_string_def
proof (intro reads_prefix_bind reads_prefix_size reads_prefix_take)
  fix sz b
  show "\<exists>n. snd (if string_max lim < sz then (Inl (Thrown length_error), b)
      else let (s, buff') = sgetn sz b in (Inr (s @ replicate (sz - length s) (CHR 0x00)), buff')) = drop n b"
    by (rule exI [of _ "if string_max lim < sz then 0 else sz"]) (simp add: sgetn_def)
qed

lemma reads_prefix_n [intro]: "reads_prefix m \<Longrightarrow> reads_prefix (read_n n m)"
  by (induction n) auto

lemma reads_prefix_all [intro]: "\<forall>m \<in> set ms. reads_prefix m \<Longrightarrow> reads_prefix (read_all ms)"
  by (induction ms) auto

lemma reads_prefix_map [intro]:
  "reads_prefix key \<Longrightarrow> reads_prefix elem \<Longrightarrow> reads_prefix (read_map n key elem acc)"
  by (induction n arbitrary: acc) (auto intro!: reads_prefix_bind)

lemma reads_prefix_vector [intro]: "reads_prefix m \<Longrightarrow> reads_prefix (from_datas_vector lim m)"
  unfolding from_datas_vector_def by (auto intro!: reads_prefix_bind)

lemma reads_prefix_from_datas: "reads_prefix (from_datas lim t)"
proof (induction t)
  case T_bool
  have "reads_prefix from_datas_bool"
    unfolding from_datas_bool_def by (auto intro!: reads_prefix_bind)
  then show ?case by auto
next
  case (T_struct ts)
  then have "reads_prefix (read_all (map (from_datas lim) ts))" by (intro reads_prefix_all) auto
  then show ?case by auto
qed auto

section \<open>Properties\<close>

text \<open>
  C7. Every value of every serializable type (scalars, strings, vectors, aggregates, and maps with
  any ordered key type, nested in any way) that fits the host's limits and keeps its \<open>int32_t\<close>
  parts in the preserved range is read back unchanged from the bytes \<open>to_datas\<close> writes, and the
  bytes behind them are left for the next reader. Maps have their entries in the order of their
  keys, with no NaN in a key.
\<close>

theorem binary_roundtrip:
  assumes "fits lim v t"
  shows "from_datas lim t (to_datas v [] @ rest) = (Inr v, rest)"
  using decodesD [OF decodes_from_datas [OF assms]] by (simp add: wire_def)

theorem binary_roundtrip_witness:
  "from_datas \<lparr>string_max = 100, vector_max = 100\<rparr>
     (T_struct [T_string, T_vector T_int32, T_map T_char T_bool, T_map (T_vector T_uint32) T_string])
     (to_datas (V_struct [V_string ''ab'', V_vector [V_int32 (-5), V_int32 7],
        V_map [(V_char CHR ''a'', V_bool True), (V_char CHR ''b'', V_bool False)],
        V_map [(V_vector [], V_string ''x''), (V_vector [V_uint32 1, V_uint32 300], V_string ''y'')]]) [] @ ''zz'')
   = (Inr (V_struct [V_string ''ab'', V_vector [V_int32 (-5), V_int32 7],
        V_map [(V_char CHR ''a'', V_bool True), (V_char CHR ''b'', V_bool False)],
        V_map [(V_vector [], V_string ''x''), (V_vector [V_uint32 1, V_uint32 300], V_string ''y'')]]), ''zz'')"
  by (rule binary_roundtrip) (simp add: key_less_def)

text \<open>
  Writing only appends, and reading, whatever the type and whether it succeeds, throws or
  is undefined, only drops a prefix of the buffer.
\<close>

theorem binary_framing:
  "to_datas v buff = buff @ to_datas v [] \<and> suffix (snd (from_datas lim t buff')) buff'"
  using appendsD [OF appends_to_datas, of v buff] reads_prefix_from_datas [of lim t]
  by (simp add: wire_def reads_prefix_def)

text \<open>
  A string whose length prefix promises more bytes than the buffer holds is not rejected:
  \<open>from_datas<std::string>\<close> returns the bytes that are there, padded with NUL to the promised
  length.
\<close>

theorem truncated_string_padded:
  assumes "length s < n" and "n \<le> string_max lim" and "n < 2 ^ 64"
  shows "from_datas_string lim (varint n @ s) = (Inr (s @ replicate (n - length s) (CHR 0x00)), [])"
  using decodesD [OF decodes_size [OF assms(3)], of s] assms(1,2)
  by (simp add: from_datas_string_def r_bind_def sgetn_def)

theorem truncated_string_padded_witness:
  "from_datas_string \<lparr>string_max = 100, vector_max = 0\<rparr> (varint 4 @ ''ab'')
   = (Inr (''ab'' @ replicate (4 - length ''ab'') (CHR 0x00)), [])"
  by (rule truncated_string_padded) simp_all

end
