(* ===== verification/Binary_Types.thy ===== *)
theory Binary_Types
  imports Binary
begin

text \<open>
  Types of what the binary readers return (include/aquarius/serialize/binary.hpp): whatever bytes
  arrive, a reader that succeeds returns a value of the type it was asked for, with its containers
  within the limits of the host and its maps in key order.
\<close>

section \<open>Typing\<close>

text \<open>
  \<open>typed lim v t\<close> is \<open>fits\<close> without the range of \<open>int32_t\<close>: a reader can return any value of the
  type, also one that the writer would not preserve.
\<close>

primrec typed :: "limits \<Rightarrow> val \<Rightarrow> ty \<Rightarrow> bool" where
  "typed lim (V_uint32 w) t = (t = T_uint32)"
| "typed lim (V_uint64 w) t = (t = T_uint64)"
| "typed lim (V_int16 w) t = (t = T_int16)"
| "typed lim (V_int32 w) t = (t = T_int32)"
| "typed lim (V_int64 w) t = (t = T_int64)"
| "typed lim (V_char c) t = (t = T_char)"
| "typed lim (V_bool v) t = (t = T_bool)"
| "typed lim (V_float w) t = (t = T_float)"
| "typed lim (V_double w) t = (t = T_double)"
| "typed lim (V_fixed32 w) t = (t = T_fixed32)"
| "typed lim (V_fixed64 w) t = (t = T_fixed64)"
| "typed lim (V_string s) t = (t = T_string \<and> length s \<le> string_max lim)"
| "typed lim (V_vector vs) t =
     (case t of T_vector u \<Rightarrow> list_all (\<lambda>f. f u) (map (typed lim) vs) \<and> length vs \<le> vector_max lim | _ \<Rightarrow> False)"
| "typed lim (V_map kvs) t =
     (case t of T_map k u \<Rightarrow>
          list_all (\<lambda>(f, g). f k \<and> g u) (map (map_prod (typed lim) (typed lim)) kvs) \<and>
          sorted_wrt key_less (map fst kvs) \<and> list_all (\<lambda>(k, _). \<not> has_nan k) kvs
      | _ \<Rightarrow> False)"
| "typed lim (V_struct vs) t =
     (case t of T_struct ts \<Rightarrow> list_all2 (\<lambda>f u. f u) (map (typed lim) vs) ts | _ \<Rightarrow> False)"

section \<open>The order of keys\<close>

lemma key_less_trans: "key_less a b \<Longrightarrow> key_less b c \<Longrightarrow> key_less a c"
  by (simp add: key_less_def)

lemma keys_map_assign: "fst ` set (map_assign k v m) \<subseteq> insert k (fst ` set m)"
  by (induction k v m rule: map_assign.induct) auto

lemma sorted_map_assign: "sorted_wrt key_less (map fst m) \<Longrightarrow> sorted_wrt key_less (map fst (map_assign k v m))"
proof (induction k v m rule: map_assign.induct)
  case (2 k v k' v' m)
  have "key_less k' y" if "key_less k' k" "y \<in> fst ` set (map_assign k v m)" for y
  proof -
    from that(2) keys_map_assign [of k v m] have "y = k \<or> y \<in> fst ` set m" by blast
    then show ?thesis using that(1) "2.prems" by auto
  qed
  with 2 show ?case by (fastforce intro: key_less_trans)
qed simp

section \<open>What a reader yields\<close>

definition yields :: "('a \<Rightarrow> bool) \<Rightarrow> 'a reader \<Rightarrow> bool" where
  "yields P m \<longleftrightarrow> (\<forall>b v r. m b = (Inr v, r) \<longrightarrow> P v)"

lemma yields_return: "P x \<Longrightarrow> yields P (r_return x)"
  by (simp add: yields_def r_return_def)

lemma yields_fail: "yields P (r_fail e)"
  by (simp add: yields_def r_fail_def)

lemma yields_bind: "yields Q m \<Longrightarrow> (\<And>x. Q x \<Longrightarrow> yields P (f x)) \<Longrightarrow> yields P (r_bind m f)"
  by (fastforce simp: yields_def r_bind_def split: prod.splits sum.splits)

lemma yields_any: "yields (\<lambda>_. True) m"
  by (simp add: yields_def)

lemma yields_weaken: "yields Q m \<Longrightarrow> (\<And>x. Q x \<Longrightarrow> P x) \<Longrightarrow> yields P m"
  by (auto simp: yields_def)

lemma yields_string: "yields (\<lambda>s. length s \<le> string_max lim) (from_datas_string lim)"
  unfolding from_datas_string_def
  by (rule yields_bind [OF yields_any]) (auto simp: yields_def sgetn_def split: if_splits)

lemma yields_read_n: "yields P m \<Longrightarrow> yields (\<lambda>xs. list_all P xs \<and> length xs = n) (read_n n m)"
proof (induction n)
  case (Suc n)
  then show ?case
    by (auto intro!: yields_bind [OF Suc.prems] yields_bind [OF Suc.IH] yields_return)
qed (simp add: yields_return)

lemma yields_read_all:
  "list_all2 yields Ps ms \<Longrightarrow> yields (\<lambda>xs. list_all2 (\<lambda>P x. P x) Ps xs) (read_all ms)"
proof (induction rule: list_all2_induct)
  case (Cons P Ps m ms)
  then show ?case by (auto intro!: yields_bind [OF Cons.hyps(1)] yields_bind [OF Cons.IH] yields_return)
qed (simp add: yields_return)

definition typed_entry :: "limits \<Rightarrow> ty \<Rightarrow> ty \<Rightarrow> val \<times> val \<Rightarrow> bool" where
  "typed_entry lim tk tv e \<longleftrightarrow> typed lim (fst e) tk \<and> typed lim (snd e) tv \<and> \<not> has_nan (fst e)"

lemma typed_entryI: "typed lim k tk \<Longrightarrow> typed lim v tv \<Longrightarrow> \<not> has_nan k \<Longrightarrow> typed_entry lim tk tv (k, v)"
  by (simp add: typed_entry_def)

lemma typed_map_assign:
  "typed_entry lim tk tv (k, v) \<Longrightarrow> list_all (typed_entry lim tk tv) m \<Longrightarrow> list_all (typed_entry lim tk tv) (map_assign k v m)"
  by (induction k v m rule: map_assign.induct) (auto simp: typed_entry_def)

lemma yields_read_map:
  assumes "yields (\<lambda>k. typed lim k tk) key" and "yields (\<lambda>v. typed lim v tv) elem"
  shows "sorted_wrt key_less (map fst m) \<Longrightarrow> list_all (typed_entry lim tk tv) m \<Longrightarrow>
    yields (\<lambda>m. sorted_wrt key_less (map fst m) \<and> list_all (typed_entry lim tk tv) m) (read_map n key elem m)"
proof (induction n arbitrary: m)
  case (Suc n)
  then show ?case
    by (auto intro!: yields_bind [OF assms(1)] yields_bind [OF assms(2)] Suc.IH sorted_map_assign typed_map_assign yields_fail typed_entryI)
qed (simp add: yields_return)

lemma from_datas_yields: "yields (\<lambda>v. typed lim v t) (from_datas lim t)"
proof (induction t)
  case T_string
  show ?case by (auto intro!: yields_bind [OF yields_string] yields_return)
next
  case (T_vector t)
  have "yields (\<lambda>vs. list_all (\<lambda>v. typed lim v t) vs \<and> length vs \<le> vector_max lim) (from_datas_vector lim (from_datas lim t))"
    unfolding from_datas_vector_def
    by (rule yields_bind [OF yields_any]) (auto intro: yields_fail yields_weaken [OF yields_read_n [OF T_vector]])
  then show ?case
    unfolding from_datas.simps by (rule yields_bind) (auto intro!: yields_return simp: list_all_iff)
next
  case (T_map k t)
  show ?case
    unfolding from_datas.simps
    by (intro yields_bind [OF yields_any] yields_bind [OF yields_read_map [OF T_map]] yields_return)
      (auto simp: list_all_iff typed_entry_def)
next
  case (T_struct ts)
  then have "list_all2 yields (map (\<lambda>t v. typed lim v t) ts) (map (from_datas lim) ts)"
    by (auto simp: list_all2_conv_all_nth)
  from yields_read_all [OF this] show ?case
    unfolding from_datas.simps
    by (rule yields_bind) (auto intro!: yields_return simp: list_all2_conv_all_nth)
qed (auto intro!: yields_bind [OF yields_any] yields_return)

section \<open>Properties\<close>

text \<open>
  C14. Types are preserved by reading. Whatever bytes a buffer holds, when a reader for a type
  succeeds, the value it returns has that type, at every depth: strings and vectors are within
  the limits of the host, the entries of a map have the types of its keys and values and stand in
  strictly increasing order of their keys, no two of which the order takes for the same and none
  of which has a NaN, and a struct has one value for each of its members.
\<close>

theorem binary_reader_typed:
  assumes "from_datas lim t b = (Inr v, r)"
  shows "typed lim v t"
  using from_datas_yields [of lim t] assms unfolding yields_def by blast

theorem binary_reader_typed_witness:
  "from_datas \<lparr>string_max = 10, vector_max = 10\<rparr> (T_map T_char T_bool) [CHR 0x02, CHR ''b'', CHR 0x01, CHR ''a'', CHR 0x00] =
     (Inr (V_map [(V_char CHR ''a'', V_bool False), (V_char CHR ''b'', V_bool True)]), []) \<and>
   typed \<lparr>string_max = 10, vector_max = 10\<rparr> (V_map [(V_char CHR ''a'', V_bool False), (V_char CHR ''b'', V_bool True)]) (T_map T_char T_bool)"
proof -
  have 1: "from_datas \<lparr>string_max = 10, vector_max = 10\<rparr> (T_map T_char T_bool) [CHR 0x02, CHR ''b'', CHR 0x01, CHR ''a'', CHR 0x00] =
     (Inr (V_map [(V_char CHR ''a'', V_bool False), (V_char CHR ''b'', V_bool True)]), [])" by code_simp
  from binary_reader_typed [OF this] 1 show ?thesis by blast
qed

end
