(* ===== verification/Error_Code.thy ===== *)
theory Error_Code
  imports Prelude
begin

text \<open>
  Error codes and the error enumerations of the program: include/aquarius/virgo/error.hpp,
  include/aquarius/ip/handler_error.hpp, src/gateway/gate_error_code.h, src/serviced/error.hpp
  and src/login/error.hpp. An \<open>error_code\<close> is a value together with the category that gives
  the value its meaning; the test \<open>if (ec)\<close> is \<open>failed\<close>.
\<close>

datatype category =
    system_category | asio_misc_category | proto_category | handler_category
  | http_status_category | gate_op_category | serviced_category | login_category | srdh_category

record error_code =
  ec_value :: int
  ec_category :: category

definition no_error :: error_code where
  "no_error = \<lparr>ec_value = 0, ec_category = system_category\<rparr>"

definition failed :: "error_code \<Rightarrow> bool" where
  "failed ec \<longleftrightarrow> ec_value ec \<noteq> 0"

text \<open>\<open>asio::error::eof\<close>, which the library itself returns.\<close>

definition eof :: error_code where
  "eof = \<lparr>ec_value = 2, ec_category = asio_misc_category\<rparr>"

section \<open>The enumerations\<close>

datatype ip_error = ip_success | ip_commit | ip_consume

datatype handle_error = handle_success | handle_not_exist

datatype gate_op = gate_success | gate_auth_failed | gate_pedding | gate_not_exist_in_pool

datatype serviced_errc =
    srvd_success | srvd_no_return | srvd_invalid_cmd | srvd_not_connected | srvd_no_player
  | srvd_create_client_error | srvd_channel_not_find | srvd_not_subscriber | srvd_not_exist_in_pool

datatype login_error =
  login_success | login_not_exist_account | login_incorrect_passwd | login_not_exist_in_pool

datatype srdh_errc = srdh_success | srdh_no_return | srdh_invalid_cmd

definition ip_errors :: "ip_error list" where
  "ip_errors = [ip_success, ip_commit, ip_consume]"

definition handle_errors :: "handle_error list" where
  "handle_errors = [handle_success, handle_not_exist]"

definition gate_ops :: "gate_op list" where
  "gate_ops = [gate_success, gate_auth_failed, gate_pedding, gate_not_exist_in_pool]"

definition serviced_errcs :: "serviced_errc list" where
  "serviced_errcs =
     [srvd_success, srvd_no_return, srvd_invalid_cmd, srvd_not_connected, srvd_no_player,
      srvd_create_client_error, srvd_channel_not_find, srvd_not_subscriber, srvd_not_exist_in_pool]"

definition login_errors :: "login_error list" where
  "login_errors =
     [login_success, login_not_exist_account, login_incorrect_passwd, login_not_exist_in_pool]"

definition srdh_errcs :: "srdh_errc list" where
  "srdh_errcs = [srdh_success, srdh_no_return, srdh_invalid_cmd]"

text \<open>An enumerator without an initialiser has its position as value.\<close>

fun position :: "'a list \<Rightarrow> 'a \<Rightarrow> nat" where
  "position [] x = 0"
| "position (y # ys) x = (if x = y then 0 else Suc (position ys x))"

definition enum_value :: "'a list \<Rightarrow> 'a \<Rightarrow> int" where
  "enum_value es e = int (position es e)"

text \<open>\<open>static_cast<E>(n)\<close> names an enumerator when one has that value.\<close>

definition enum_of :: "'a list \<Rightarrow> int \<Rightarrow> 'a option" where
  "enum_of es n = (if 0 \<le> n \<and> nat n < length es then Some (es ! nat n) else None)"

section \<open>Making and printing codes\<close>

text \<open>
  A code has the address of its category. Those of the handlers, of the directory and of the login
  service are local statics of static functions in headers (ip/handler_error.hpp,
  src/serviced/error.hpp, src/login/error.hpp), of which every translation unit has its own, and
  which the inline functions \<open>make_error_code\<close> call. The definitions of these functions differ between
  translation units, against the one-definition rule; the model is the program in which all calls use
  the one definition the linker keeps, so that each enumeration has one category. The
  one comparison that depends on it is that of \<open>ctx_login\<close> with a code made in auth_module.cpp: where
  the compiler inlines \<open>make_error_code\<close>, the two success codes have different categories and differ.
\<close>

definition make_error_code_ip :: "ip_error \<Rightarrow> error_code" where
  "make_error_code_ip e = \<lparr>ec_value = enum_value ip_errors e, ec_category = proto_category\<rparr>"

definition make_error_code_handle :: "handle_error \<Rightarrow> error_code" where
  "make_error_code_handle e = \<lparr>ec_value = enum_value handle_errors e, ec_category = handler_category\<rparr>"

definition make_error_code_gate :: "gate_op \<Rightarrow> error_code" where
  "make_error_code_gate e = \<lparr>ec_value = enum_value gate_ops e, ec_category = gate_op_category\<rparr>"

definition make_error_code_serviced :: "serviced_errc \<Rightarrow> error_code" where
  "make_error_code_serviced e = \<lparr>ec_value = enum_value serviced_errcs e, ec_category = serviced_category\<rparr>"

definition make_error_code_login :: "login_error \<Rightarrow> error_code" where
  "make_error_code_login e = \<lparr>ec_value = enum_value login_errors e, ec_category = login_category\<rparr>"

definition make_error_code_srdh :: "srdh_errc \<Rightarrow> error_code" where
  "make_error_code_srdh e = \<lparr>ec_value = enum_value srdh_errcs e, ec_category = srdh_category\<rparr>"

primrec ip_desc :: "ip_error \<Rightarrow> string" where
  "ip_desc ip_success = ''success''"
| "ip_desc ip_commit = ''commit error when parse proto''"
| "ip_desc ip_consume = ''consume error when parse proto''"

definition ip_message :: "int \<Rightarrow> string" where
  "ip_message n = (case enum_of ip_errors n of None \<Rightarrow> ''unknown error'' | Some e \<Rightarrow> ip_desc e)"

primrec handle_desc :: "handle_error \<Rightarrow> string" where
  "handle_desc handle_success = ''success''"
| "handle_desc handle_not_exist = ''handler not exist''"

definition handle_message :: "int \<Rightarrow> string" where
  "handle_message n =
     (case enum_of handle_errors n of None \<Rightarrow> ''unknown error'' | Some e \<Rightarrow> handle_desc e)"

primrec gate_desc :: "gate_op \<Rightarrow> string" where
  "gate_desc gate_success = ''success''"
| "gate_desc gate_auth_failed = ''auth_failed''"
| "gate_desc gate_pedding = ''op pedding''"
| "gate_desc gate_not_exist_in_pool = ''not_exist_in_pool''"

definition gate_message :: "int \<Rightarrow> string" where
  "gate_message n =
     (case enum_of gate_ops n of None \<Rightarrow> ''unknown error!'' | Some e \<Rightarrow> gate_desc e)"

primrec login_desc :: "login_error \<Rightarrow> string" where
  "login_desc login_success = ''success''"
| "login_desc login_not_exist_account = ''account is not exist''"
| "login_desc login_incorrect_passwd = ''incorrect password''"
| "login_desc login_not_exist_in_pool = ''not exist in pool''"

definition login_message :: "int \<Rightarrow> string" where
  "login_message n =
     (case enum_of login_errors n of None \<Rightarrow> ''unknown error'' | Some e \<Rightarrow> login_desc e)"

primrec serviced_desc :: "serviced_errc \<Rightarrow> string" where
  "serviced_desc srvd_success = ''success''"
| "serviced_desc srvd_no_return = ''no operator for return back''"
| "serviced_desc srvd_invalid_cmd = ''invalid command''"
| "serviced_desc srvd_not_connected = ''not connect server''"
| "serviced_desc srvd_no_player = ''no player''"
| "serviced_desc srvd_create_client_error = ''create client error''"
| "serviced_desc srvd_channel_not_find = ''channel not find''"
| "serviced_desc srvd_not_subscriber = ''not subscriber''"
| "serviced_desc srvd_not_exist_in_pool = ''not exist in pool''"

text \<open>
  \<open>db_results[result]\<close> inserts an empty \<open>string_view\<close> for an unknown code, whose \<open>data()\<close> is
  null: building the message from it is undefined. The same holds in src/serviced-ssh/error.hpp.
\<close>

definition serviced_message :: "int \<Rightarrow> fault + string" where
  "serviced_message n =
     (case enum_of serviced_errcs n of None \<Rightarrow> Inl Undefined | Some e \<Rightarrow> Inr (serviced_desc e))"

primrec srdh_desc :: "srdh_errc \<Rightarrow> string" where
  "srdh_desc srdh_success = ''success''"
| "srdh_desc srdh_no_return = ''no operator for return back''"
| "srdh_desc srdh_invalid_cmd = ''invalid command''"

definition srdh_message :: "int \<Rightarrow> fault + string" where
  "srdh_message n =
     (case enum_of srdh_errcs n of None \<Rightarrow> Inl Undefined | Some e \<Rightarrow> Inr (srdh_desc e))"

section \<open>Enumerators and their values\<close>

text \<open>
  What the error tables rely on: the enumerator list has every enumerator once, so a value
  determines its enumerator.
\<close>

locale error_enum =
  fixes es :: "'a list"
  assumes distinct_es: "distinct es" and every_e: "set es = UNIV"
begin

lemma position_less: "position es e < length es" and nth_position: "es ! position es e = e"
proof -
  have "x \<in> set ys \<Longrightarrow> position ys x < length ys \<and> ys ! position ys x = x" for x :: 'a and ys
    by (induction ys) auto
  moreover have "e \<in> set es" using every_e by simp
  ultimately show "position es e < length es" and "es ! position es e = e" by blast+
qed

lemma enum_of_value: "enum_of es (enum_value es e) = Some e"
  using position_less nth_position by (simp add: enum_of_def enum_value_def)

lemma enum_value_eq_iff: "enum_value es e = enum_value es e' \<longleftrightarrow> e = e'"
  using enum_of_value by (metis option.inject)

lemma enum_of_None_iff: "enum_of es n = None \<longleftrightarrow> n < 0 \<or> int (length es) \<le> n"
  by (auto simp: enum_of_def)

end

interpretation ip: error_enum ip_errors
  by unfold_locales (auto simp: ip_errors_def intro: ip_error.exhaust)

interpretation handle: error_enum handle_errors
  by unfold_locales (auto simp: handle_errors_def intro: handle_error.exhaust)

interpretation gate: error_enum gate_ops
  by unfold_locales (auto simp: gate_ops_def intro: gate_op.exhaust)

interpretation srvd: error_enum serviced_errcs
  by unfold_locales (auto simp: serviced_errcs_def intro: serviced_errc.exhaust)

interpretation lgn: error_enum login_errors
  by unfold_locales (auto simp: login_errors_def intro: login_error.exhaust)

interpretation srdh: error_enum srdh_errcs
  by unfold_locales (auto simp: srdh_errcs_def intro: srdh_errc.exhaust)

section \<open>Properties\<close>

text \<open>
  A code made from an enumerator prints as its description, in all six categories. For a
  value outside the enumeration the protocol, handler, gateway and login categories say that
  the error is unknown, while the two categories of the service daemon build a string from a
  null pointer.
\<close>

theorem error_messages:
  "ip_message (ec_value (make_error_code_ip e1)) = ip_desc e1 \<and>
   handle_message (ec_value (make_error_code_handle e2)) = handle_desc e2 \<and>
   gate_message (ec_value (make_error_code_gate e3)) = gate_desc e3 \<and>
   login_message (ec_value (make_error_code_login e4)) = login_desc e4 \<and>
   serviced_message (ec_value (make_error_code_serviced e5)) = Inr (serviced_desc e5) \<and>
   srdh_message (ec_value (make_error_code_srdh e6)) = Inr (srdh_desc e6) \<and>
   (serviced_message n = Inl Undefined \<longleftrightarrow> n < 0 \<or> 9 \<le> n) \<and>
   (srdh_message n = Inl Undefined \<longleftrightarrow> n < 0 \<or> 3 \<le> n)"
proof -
  have "enum_of serviced_errcs n = None \<longleftrightarrow> n < 0 \<or> 9 \<le> n" "enum_of srdh_errcs n = None \<longleftrightarrow> n < 0 \<or> 3 \<le> n"
    unfolding srvd.enum_of_None_iff srdh.enum_of_None_iff by (simp_all add: serviced_errcs_def srdh_errcs_def)
  then show ?thesis
    by (auto simp: ip_message_def handle_message_def gate_message_def login_message_def
        serviced_message_def srdh_message_def make_error_code_ip_def make_error_code_handle_def
        make_error_code_gate_def make_error_code_login_def make_error_code_serviced_def make_error_code_srdh_def
        ip.enum_of_value handle.enum_of_value gate.enum_of_value lgn.enum_of_value srvd.enum_of_value
        srdh.enum_of_value split: option.splits)
qed

end
