(* ===== verification/Tcp_Protocol.thy ===== *)
theory Tcp_Protocol
  imports Binary Error_Code
begin

text \<open>
  The messages of the TCP protocol: \<open>basic_protocol\<close> (include/aquarius/basic_protocol.hpp),
  \<open>tcp_header\<close> (include/aquarius/virgo/tcp_header.hpp), the interface \<open>serialization\<close>
  (include/aquarius/serialize/serialization.hpp) and both specialisations of
  \<open>basic_tcp_protocol\<close> (include/aquarius/virgo/basic_tcp_protocol.hpp).

  \<open>commit\<close> writes the router, the header and the body; the receiver reads the router itself
  to find the context and gives the rest to \<open>consume\<close>. Both stop every exception with
  \<open>catch (...)\<close>; the bytes written or read before it stay written or read.
\<close>

section \<open>Header\<close>

record tcp_header =
  uuid :: "64 word"
  timestamp :: "64 word"
  way :: "16 word"

definition tcp_header_default :: tcp_header where
  "tcp_header_default = \<lparr>uuid = 0, timestamp = 0, way = 0\<rparr>"

definition tcp_header_copy_assign :: "tcp_header \<Rightarrow> tcp_header \<Rightarrow> tcp_header" where
  "tcp_header_copy_assign this other =
     this\<lparr>uuid := uuid other, timestamp := timestamp other, way := way other\<rparr>"

text \<open>A move returns the target and what is left in the source.\<close>

definition tcp_header_move :: "tcp_header \<Rightarrow> tcp_header \<times> tcp_header" where
  "tcp_header_move other =
     (\<lparr>uuid = uuid other, timestamp = timestamp other, way = way other\<rparr>,
      other\<lparr>uuid := 0, timestamp := 0, way := 0\<rparr>)"

definition tcp_header_serialize :: "tcp_header saver" where
  "tcp_header_serialize =
     s_then (s_write (\<lambda>h. to_datas_integer (uuid h)))
       (s_then (s_write (\<lambda>h. to_datas_int64 (timestamp h)))
          (s_write (\<lambda>h. to_datas_int16 (way h))))"

definition tcp_header_deserialize :: "tcp_header loader" where
  "tcp_header_deserialize =
     l_then (l_assign from_datas_integer (\<lambda>v h. h\<lparr>uuid := v\<rparr>))
       (l_then (l_assign from_datas_zig_zag (\<lambda>v h. h\<lparr>timestamp := v\<rparr>))
          (l_assign from_datas_zig_zag (\<lambda>v h. h\<lparr>way := v\<rparr>)))"

section \<open>Body\<close>

text \<open>The virtual functions of \<open>serialization\<close>, as a table.\<close>

record 'b serialization =
  to_binary :: "'b saver"
  from_binary :: "'b loader"
  to_json :: "'b saver"
  from_json :: "'b loader"
  to_kv :: "'b saver"
  from_kv :: "'b loader"

datatype serialize_way = way_binary | way_json | way_kv

definition serialize_way_of :: "16 word \<Rightarrow> serialize_way option" where
  "serialize_way_of w =
     (if w = 0 then Some way_binary else if w = 1 then Some way_json
      else if w = 2 then Some way_kv else None)"

definition body_save :: "'b serialization \<Rightarrow> 16 word \<Rightarrow> 'b saver" where
  "body_save ops w =
     (case serialize_way_of w of
        Some way_binary \<Rightarrow> to_binary ops
      | Some way_json \<Rightarrow> to_json ops
      | Some way_kv \<Rightarrow> to_kv ops
      | None \<Rightarrow> (\<lambda>_ b. (None, b)))"

definition body_load :: "'b serialization \<Rightarrow> 16 word \<Rightarrow> 'b loader" where
  "body_load ops w =
     (case serialize_way_of w of
        Some way_binary \<Rightarrow> from_binary ops
      | Some way_json \<Rightarrow> from_json ops
      | Some way_kv \<Rightarrow> from_kv ops
      | None \<Rightarrow> l_skip)"

section \<open>Messages\<close>

record ('h, 'b) basic_protocol =
  header :: 'h
  body :: 'b

type_synonym 'b tcp_request = "(tcp_header, 'b) basic_protocol"

record 'b tcp_response = "(tcp_header, 'b) basic_protocol" +
  result :: "32 word"

definition basic_protocol_move ::
  "'h \<Rightarrow> 'b \<Rightarrow> ('h, 'b) basic_protocol \<Rightarrow> ('h, 'b) basic_protocol \<times> ('h, 'b) basic_protocol" where
  "basic_protocol_move header_type body_type other =
     (\<lparr>header = header other, body = body other\<rparr>,
      other\<lparr>header := header_type, body := body_type\<rparr>)"

definition tcp_response_move :: "'b \<Rightarrow> 'b tcp_response \<Rightarrow> 'b tcp_response \<times> 'b tcp_response" where
  "tcp_response_move body_type other =
     (\<lparr>header = header other, body = body other, result = result other\<rparr>,
      other\<lparr>header := tcp_header_default, body := body_type, result := 0\<rparr>)"

text \<open>\<open>try \<dots> catch (...) { ec = e; }\<close>\<close>

definition catch_all :: "error_code \<Rightarrow> fault option \<Rightarrow> fault + error_code" where
  "catch_all e f =
     (case f of None \<Rightarrow> Inr no_error | Some (Thrown x) \<Rightarrow> Inr e | Some Undefined \<Rightarrow> Inl Undefined)"

text \<open>
  The members are those of the base class, so one definition serves both message types; the
  request passes \<open>s_write (\<lambda>_ b. b)\<close> and \<open>l_skip\<close> where the response has its result.
\<close>

definition commit_body ::
  "'b serialization \<Rightarrow> (tcp_header, 'b, 'z) basic_protocol_scheme saver" where
  "commit_body ops =
     s_then (s_focus header tcp_header_serialize)
       (\<lambda>m. s_focus body (body_save ops (way (header m))) m)"

definition commit_request :: "string \<Rightarrow> 'b serialization \<Rightarrow> 'b tcp_request \<Rightarrow> flex_buffer
    \<Rightarrow> (fault + error_code) \<times> flex_buffer" where
  "commit_request router ops m buffer =
     (case s_then (s_write (\<lambda>_. to_datas_string router)) (commit_body ops) m buffer of
        (f, buffer') \<Rightarrow> (catch_all (make_error_code_ip ip_commit) f, buffer'))"

definition commit_response :: "string \<Rightarrow> 'b serialization \<Rightarrow> 'b tcp_response \<Rightarrow> flex_buffer
    \<Rightarrow> (fault + error_code) \<times> flex_buffer" where
  "commit_response router ops m buffer =
     (case s_then (s_write (\<lambda>_. to_datas_string router))
             (s_then (s_write (\<lambda>m. to_datas_int32 (result m))) (commit_body ops)) m buffer of
        (f, buffer') \<Rightarrow> (catch_all (make_error_code_ip ip_commit) f, buffer'))"

definition consume_body ::
  "'b serialization \<Rightarrow> (tcp_header, 'b, 'z) basic_protocol_scheme loader" where
  "consume_body ops =
     l_then (l_focus header (\<lambda>h. header_update (\<lambda>_. h)) tcp_header_deserialize)
       (\<lambda>m. l_focus body (\<lambda>x. body_update (\<lambda>_. x)) (body_load ops (way (header m))) m)"

definition consume_request :: "'b serialization \<Rightarrow> 'b tcp_request \<Rightarrow> flex_buffer
    \<Rightarrow> (fault + error_code) \<times> 'b tcp_request \<times> flex_buffer" where
  "consume_request ops m buffer =
     (case consume_body ops m buffer of
        (f, m', buffer') \<Rightarrow> (catch_all (make_error_code_ip ip_consume) f, m', buffer'))"

definition consume_response :: "'b serialization \<Rightarrow> 'b tcp_response \<Rightarrow> flex_buffer
    \<Rightarrow> (fault + error_code) \<times> 'b tcp_response \<times> flex_buffer" where
  "consume_response ops m buffer =
     (case l_then (l_assign from_datas_zig_zag (\<lambda>v. result_update (\<lambda>_. v))) (consume_body ops) m buffer of
        (f, m', buffer') \<Rightarrow> (catch_all (make_error_code_ip ip_consume) f, m', buffer'))"

section \<open>Header lemmas\<close>

definition header_bytes :: "tcp_header \<Rightarrow> string" where
  "header_bytes h =
     varint (unat (uuid h)) @ varint (unat (zig_zag64 (timestamp h))) @ varint (unat (zig_zag16 (way h)))"

lemma length_header_bytes: "length (header_bytes h) \<le> 30"
  using length_varint_word [of "uuid h"] length_varint_word [of "zig_zag64 (timestamp h)"]
    length_varint_word [of "zig_zag16 (way h)"]
  by (simp add: header_bytes_def)

lemma saves_header [codec]: "saves tcp_header_serialize h (header_bytes h)"
  unfolding tcp_header_serialize_def header_bytes_def by (intro codec)

lemma loads_header [codec]: "loads tcp_header_deserialize (header_bytes h) h0 h"
  unfolding tcp_header_deserialize_def header_bytes_def
  by ((rule loads_then loads_assignI codec refl)+, simp)

lemma l_prefix_header [intro]: "l_prefix tcp_header_deserialize"
  unfolding tcp_header_deserialize_def by (intro l_prefix_then l_prefix_assign) auto

lemma l_rejects_header [codec]: "l_rejects tcp_header_deserialize (header_bytes h) h0"
  unfolding tcp_header_deserialize_def header_bytes_def
  by (rule l_rejects_then l_rejects_assign codec)+

lemma serialize_way_values [simp]:
  "serialize_way_of 0 = Some way_binary" "serialize_way_of 1 = Some way_json"
  "serialize_way_of 2 = Some way_kv"
  by (simp_all add: serialize_way_of_def)

lemma catch_all_None [simp]: "catch_all e None = Inr no_error"
  by (simp add: catch_all_def)

section \<open>The contract of a body\<close>

text \<open>
  What a message promises about its body class: on a valid body \<open>to_binary\<close> appends
  \<open>bytes x\<close>, \<open>from_binary\<close> restores the body from them whatever the target object held
  before, and it never reads past its input. Everything a message type adds to that is proved
  here once; the theory of the generated messages interprets the locale on each body class.
\<close>

definition router_bytes :: "string \<Rightarrow> string" where
  "router_bytes router = varint (length router) @ router"

lemma appends_router [codec]:
  "length router < 2 ^ 64 \<Longrightarrow> appends (to_datas_string router) (router_bytes router)"
  unfolding router_bytes_def by (rule appends_string)

lemma sint32_zig_zag:
  assumes "- (2 ^ 30) \<le> sint r" and "sint r < 2 ^ 30"
  shows "decodes from_datas_zig_zag (varint (unat (zig_zag32 r))) (r :: 32 word)"
  using assms by (rule decodes_int32)

locale body_codec =
  fixes ops :: "'b serialization"
    and valid :: "'b \<Rightarrow> bool"
    and bytes :: "'b \<Rightarrow> string"
  assumes saves_binary: "valid x \<Longrightarrow> saves (to_binary ops) x (bytes x)"
    and loads_binary: "valid x \<Longrightarrow> loads (from_binary ops) (bytes x) y x"
    and prefix_binary: "l_prefix (from_binary ops)"
begin

lemma saves_commit_body:
  assumes "valid (body m)" and "way (header m) = 0"
  shows "saves (commit_body ops) m (header_bytes (header m) @ bytes (body m))"
proof -
  have "saves (s_focus body (body_save ops (way (header m)))) m (bytes (body m))"
    using assms by (auto simp: body_save_def intro: saves_focus saves_binary)
  then have "saves (\<lambda>m. s_focus body (body_save ops (way (header m))) m) m (bytes (body m))"
    by (simp add: saves_def)
  then show ?thesis
    unfolding commit_body_def by (intro saves_then saves_focus saves_header)
qed

lemma loads_consume_body:
  assumes "valid x" and "way h = 0"
  shows "loads (consume_body ops) (header_bytes h @ bytes x) m
           (body_update (\<lambda>_. x) (header_update (\<lambda>_. h) m))"
proof -
  have "loads (l_focus body (\<lambda>x. body_update (\<lambda>_. x)) (body_load ops (way h))) (bytes x)
          (header_update (\<lambda>_. h) m) (body_update (\<lambda>_. x) (header_update (\<lambda>_. h) m))"
    using assms by (auto simp: body_load_def intro: loads_focus loads_binary)
  then have "loads (\<lambda>m. l_focus body (\<lambda>x. body_update (\<lambda>_. x)) (body_load ops (way (header m))) m)
      (bytes x) (header_update (\<lambda>_. h) m) (body_update (\<lambda>_. x) (header_update (\<lambda>_. h) m))"
    by (simp add: loads_def)
  then show ?thesis
    unfolding consume_body_def by (rule loads_then [OF loads_focus [OF loads_header]])
qed

lemma commit_request_bytes:
  assumes "valid (body m)" and "way (header m) = 0" and "length router < 2 ^ 64"
  shows "commit_request router ops m b =
           (Inr no_error, b @ router_bytes router @ header_bytes (header m) @ bytes (body m))"
proof -
  have "saves (s_then (s_write (\<lambda>_. to_datas_string router)) (commit_body ops)) m
          (router_bytes router @ header_bytes (header m) @ bytes (body m))"
    using assms by (intro saves_then saves_write appends_router saves_commit_body)
  then show ?thesis by (simp add: commit_request_def saves_def)
qed

lemma commit_response_bytes:
  assumes "valid (body m)" and "way (header m) = 0" and "length router < 2 ^ 64"
  shows "commit_response router ops m b =
           (Inr no_error, b @ router_bytes router @ varint (unat (zig_zag32 (result m))) @
              header_bytes (header m) @ bytes (body m))"
proof -
  have "saves (s_then (s_write (\<lambda>_. to_datas_string router))
             (s_then (s_write (\<lambda>m. to_datas_int32 (result m))) (commit_body ops))) m
          (router_bytes router @ varint (unat (zig_zag32 (result m))) @
             header_bytes (header m) @ bytes (body m))"
    using assms by (intro saves_then saves_write appends_router appends_int32 saves_commit_body)
  then show ?thesis by (simp add: commit_response_def saves_def)
qed

lemma request_roundtrip:
  assumes "valid (body m)" and "way (header m) = 0" and "length router < 2 ^ 64"
  shows "\<exists>bs. commit_request router ops m b = (Inr no_error, b @ router_bytes router @ bs) \<and>
              consume_request ops m0 (bs @ rest) = (Inr no_error, m, rest)"
proof (intro exI conjI)
  show "commit_request router ops m b =
          (Inr no_error, b @ router_bytes router @ header_bytes (header m) @ bytes (body m))"
    using assms by (rule commit_request_bytes)
  show "consume_request ops m0 ((header_bytes (header m) @ bytes (body m)) @ rest) = (Inr no_error, m, rest)"
    using loadsD [OF loads_consume_body [OF assms(1,2)], of m0 rest]
    by (simp add: consume_request_def)
qed

lemma response_roundtrip:
  assumes "valid (body m)" and "way (header m) = 0" and "length router < 2 ^ 64"
    and "- (2 ^ 30) \<le> sint (result m)" and "sint (result m) < 2 ^ 30"
  shows "\<exists>bs. commit_response router ops m b = (Inr no_error, b @ router_bytes router @ bs) \<and>
              consume_response ops m0 (bs @ rest) = (Inr no_error, m, rest)"
proof (intro exI conjI)
  let ?bs = "varint (unat (zig_zag32 (result m))) @ header_bytes (header m) @ bytes (body m)"
  show "commit_response router ops m b = (Inr no_error, b @ router_bytes router @ ?bs)"
    using assms(1-3) by (rule commit_response_bytes)
  have "loads (l_then (l_assign from_datas_zig_zag (\<lambda>v. result_update (\<lambda>_. v))) (consume_body ops)) ?bs m0
          (body_update (\<lambda>_. body m) (header_update (\<lambda>_. header m) (result_update (\<lambda>_. result m) m0)))"
    by (rule loads_then [OF loads_assign [OF sint32_zig_zag [OF assms(4,5)]]
          loads_consume_body [OF assms(1,2)]])
  from loadsD [OF this, of rest]
  show "consume_response ops m0 (?bs @ rest) = (Inr no_error, m, rest)"
    by (simp add: consume_response_def)
qed

end

section \<open>Properties\<close>

text \<open>
  A request cut anywhere inside its header is refused with \<open>ip::error::consume\<close>, and the
  body of the receiving object is untouched.
\<close>

theorem truncated_header_refused:
  assumes "strict_prefix b (header_bytes h)"
  shows "fst (consume_request ops m b) = Inr (make_error_code_ip ip_consume) \<and>
         body (fst (snd (consume_request ops m b))) = body m"
proof -
  obtain e where "fst (tcp_header_deserialize (header m) b) = Some (Thrown e)"
    using l_rejects_header [of h "header m"] assms by (auto simp: l_rejects_def)
  then obtain h' b' where "tcp_header_deserialize (header m) b = (Some (Thrown e), h', b')"
    by (cases "tcp_header_deserialize (header m) b") auto
  then have "consume_body ops m b = (Some (Thrown e), m\<lparr>header := h'\<rparr>, b')"
    by (simp add: consume_body_def l_then_def l_focus_def)
  then show ?thesis by (simp add: consume_request_def catch_all_def)
qed

text \<open>
  A serialisation way that is not one of \<open>binary\<close>, \<open>json\<close> and \<open>kv\<close> is not an error:
  \<open>commit\<close> reports success having written the router and the header only, and \<open>consume\<close>
  reports success having read the header only, with the body as it was.
\<close>

theorem unknown_way_skips_body:
  assumes "serialize_way_of (way h) = None" and "length router < 2 ^ 64"
  shows "commit_request router ops \<lparr>header = h, body = x\<rparr> b =
           (Inr no_error, b @ router_bytes router @ header_bytes h) \<and>
         consume_request ops m0 (header_bytes h @ rest) = (Inr no_error, m0\<lparr>header := h\<rparr>, rest)"
proof
  show "commit_request router ops \<lparr>header = h, body = x\<rparr> b =
          (Inr no_error, b @ router_bytes router @ header_bytes h)"
    using assms
    by (simp add: commit_request_def s_then_def s_write_def appendsD [OF appends_router]
        commit_body_def s_focus_def savesD [OF saves_header] body_save_def)
  show "consume_request ops m0 (header_bytes h @ rest) = (Inr no_error, m0\<lparr>header := h\<rparr>, rest)"
    using assms
    by (simp add: consume_request_def consume_body_def l_then_def l_focus_def l_skip_def
        loadsD [OF loads_header] body_load_def)
qed

end
