(* ===== verification/Decimal.thy ===== *)
theory Decimal
  imports Prelude
begin

text \<open>
  The number formatting of the C++ standard library that the text protocols use:
  \<open>std::to_string\<close> and the extraction \<open>stream >> integer\<close> of \<open>std::istream\<close> in the classic
  locale with the decimal base.
\<close>

section \<open>Printing\<close>

definition digit_char :: "nat \<Rightarrow> char" where
  "digit_char d = char_of (48 + d)"

fun decimal :: "nat \<Rightarrow> string" where
  "decimal n = (if n < 10 then [digit_char n] else decimal (n div 10) @ [digit_char (n mod 10)])"

declare decimal.simps [simp del]

definition to_string :: "int \<Rightarrow> string" where
  "to_string i = (if i < 0 then CHR ''-'' # decimal (nat (- i)) else decimal (nat i))"

section \<open>Scanning\<close>

definition is_digit :: "char \<Rightarrow> bool" where
  "is_digit c \<longleftrightarrow> 48 \<le> (of_char c :: nat) \<and> (of_char c :: nat) \<le> 57"

definition is_space :: "char \<Rightarrow> bool" where
  "is_space c \<longleftrightarrow> c = CHR 0x20 \<or> 9 \<le> (of_char c :: nat) \<and> (of_char c :: nat) \<le> 13"

definition digits_value :: "string \<Rightarrow> nat" where
  "digits_value ds = foldl (\<lambda>n c. 10 * n + (of_char c - 48)) 0 ds"

text \<open>The optional sign, then the longest run of digits.\<close>

definition scan_number :: "string \<Rightarrow> bool \<times> string" where
  "scan_number s =
     (case dropWhile is_space s of
        [] \<Rightarrow> (False, [])
      | c # r \<Rightarrow> if c = CHR ''-'' then (True, takeWhile is_digit r)
                else if c = CHR ''+'' then (False, takeWhile is_digit r)
                else (False, takeWhile is_digit (c # r)))"

text \<open>
  Without a digit the target becomes 0. A magnitude that does not fit stores the largest
  value (for a signed target the closest); a minus sign before an unsigned number negates
  modulo \<open>2^w\<close>.
\<close>

definition extract_unsigned :: "string \<Rightarrow> 'a::len word" where
  "extract_unsigned s =
     (case scan_number s of (neg, ds) \<Rightarrow>
        if ds = [] then 0
        else if 2 ^ LENGTH('a) \<le> digits_value ds then - 1
        else if neg then - word_of_nat (digits_value ds) else word_of_nat (digits_value ds))"

definition extract_signed :: "string \<Rightarrow> 'a::len word" where
  "extract_signed s =
     (case scan_number s of (neg, ds) \<Rightarrow>
        let v = (if neg then - int (digits_value ds) else int (digits_value ds))
        in if ds = [] then 0
           else word_of_int (max (- (2 ^ (LENGTH('a) - 1))) (min (2 ^ (LENGTH('a) - 1) - 1) v)))"

text \<open>\<open>stream >> string\<close>: leading white space is skipped, the next white space ends the word.\<close>

definition extract_word :: "string \<Rightarrow> string" where
  "extract_word s = takeWhile (\<lambda>c. \<not> is_space c) (dropWhile is_space s)"

lemma extract_word_iff: "extract_word s = s \<longleftrightarrow> (\<forall>c \<in> set s. \<not> is_space c)"
proof
  have "\<forall>c \<in> set (extract_word s). \<not> is_space c"
    unfolding extract_word_def by (blast dest: set_takeWhileD)
  moreover assume "extract_word s = s"
  ultimately show "\<forall>c \<in> set s. \<not> is_space c" by (simp only:)
next
  assume "\<forall>c \<in> set s. \<not> is_space c"
  then show "extract_word s = s"
    by (auto simp: extract_word_def takeWhile_eq_all_conv dropWhile_eq_self_iff dest: hd_in_set)
qed

section \<open>Scanning inverts printing\<close>

lemma of_char_digit_char [simp]: "d < 10 \<Longrightarrow> of_char (digit_char d) = 48 + d"
  unfolding digit_char_def by (simp add: of_char_of)

lemma is_digit_digit_char [simp]: "d < 10 \<Longrightarrow> is_digit (digit_char d)"
  by (simp add: is_digit_def)

lemma decimal_nonempty [simp]: "decimal n \<noteq> []"
  by (subst decimal.simps) simp

lemma decimal_digits: "list_all is_digit (decimal n)"
proof (induction n rule: decimal.induct)
  case (1 n)
  then show ?case by (subst decimal.simps) simp
qed

lemma digits_value_decimal [simp]: "digits_value (decimal n) = n"
proof (induction n rule: decimal.induct)
  case (1 n)
  show ?case
  proof (cases "n < 10")
    case True
    then show ?thesis by (subst decimal.simps) (simp add: digits_value_def)
  next
    case False
    then have "digits_value (decimal n) = 10 * digits_value (decimal (n div 10)) + n mod 10"
      by (subst decimal.simps) (simp add: digits_value_def)
    with 1 False show ?thesis by simp
  qed
qed

lemma takeWhile_digits: "list_all is_digit ds \<Longrightarrow> takeWhile is_digit ds = ds"
  by (simp add: list_all_iff)

lemma is_digit_not_space: "is_digit c \<Longrightarrow> \<not> is_space c \<and> c \<noteq> CHR ''-'' \<and> c \<noteq> CHR ''+''"
  by (auto simp: is_digit_def is_space_def)

lemma scan_decimal [simp]: "scan_number (decimal n) = (False, decimal n)"
proof (cases "decimal n")
  case (Cons c r)
  with decimal_digits [of n] is_digit_not_space [of c] show ?thesis
    by (simp add: scan_number_def takeWhile_digits)
qed simp

lemma scan_minus_decimal [simp]: "scan_number (CHR ''-'' # decimal n) = (True, decimal n)"
  by (simp add: scan_number_def is_space_def takeWhile_digits decimal_digits)

lemma extract_unsigned_decimal: "extract_unsigned (to_string (uint w)) = (w :: 'a::len word)"
proof -
  have "(2 ^ LENGTH('a) \<le> unat w) = False" by (simp add: not_le)
  then show ?thesis
    by (simp add: extract_unsigned_def to_string_def nat_uint_eq)
qed

lemma extract_signed_decimal: "extract_signed (to_string (sint w)) = (w :: 'a::len word)"
proof -
  have "- (2 ^ (LENGTH('a) - 1)) \<le> sint w" and "sint w < 2 ^ (LENGTH('a) - 1)"
    by (rule sint_ge, rule sint_lt)
  then show ?thesis
    by (simp add: extract_signed_def to_string_def)
qed

lemma to_string_chars: "set (to_string i) \<subseteq> {c. is_digit c} \<union> {CHR ''-''}"
  using decimal_digits by (auto simp: to_string_def list_all_iff)

end
