(* ===== verification/Key_Value.thy ===== *)
theory Key_Value
  imports Decimal
begin

text \<open>
  \<open>kv_parse\<close> (include/aquarius/serialize/kv.hpp) and \<open>cookie_parse\<close>
  (include/aquarius/serialize/cookie.hpp): \<open>name=value\<close> pairs, separated by \<open>&\<close> or \<open>#\<close> in a
  query string and by a comma in a cookie. Both classes have the same functions up to the
  separators, so the readers take the separators as an argument.
\<close>

section \<open>Writing\<close>

definition named_to_datas_unsigned :: "'a::len word \<Rightarrow> string \<Rightarrow> writer" where
  "named_to_datas_unsigned value name = sputn (name @ ''='' @ to_string (uint value))"

definition named_to_datas_signed :: "'a::len word \<Rightarrow> string \<Rightarrow> writer" where
  "named_to_datas_signed value name = sputn (name @ ''='' @ to_string (sint value))"

definition named_to_datas_bool :: "bool \<Rightarrow> string \<Rightarrow> writer" where
  "named_to_datas_bool value name = sputn (name @ ''='' @ (if value then ''true'' else ''false''))"

definition named_to_datas_string :: "string \<Rightarrow> string \<Rightarrow> writer" where
  "named_to_datas_string value name = sputn (name @ ''='' @ value)"

text \<open>
  The unconstrained overload. A call without a name, \<open>kv_parse::to_datas(value, buffer)\<close>,
  selects it for every type: the other overloads have no default for the name.
\<close>

definition kv_to_datas_any :: "'a \<Rightarrow> writer" where
  "kv_to_datas_any value buffer = buffer"

section \<open>Reading\<close>

definition get_first_range :: "char list \<Rightarrow> flex_buffer \<Rightarrow> string \<times> flex_buffer" where
  "get_first_range args buffer =
     (let len = length (takeWhile (\<lambda>c. c \<notin> set args) buffer)
      in if len = length buffer then (buffer, consume (length buffer) buffer)
         else (take len buffer, consume (len + 1) buffer))"

text \<open>The key, then the value when the key is the expected one.\<close>

definition named_value :: "char list \<Rightarrow> string \<Rightarrow> flex_buffer \<Rightarrow> string option \<times> flex_buffer" where
  "named_value seps name buffer =
     (case get_first_range ''='' buffer of (key, buffer1) \<Rightarrow>
        if key \<noteq> name \<or> key = [] then (None, buffer1)
        else case get_first_range seps buffer1 of (value, buffer2) \<Rightarrow> (Some value, buffer2))"

definition named_from_datas_unsigned :: "char list \<Rightarrow> string \<Rightarrow> flex_buffer \<Rightarrow> 'a::len word \<times> flex_buffer" where
  "named_from_datas_unsigned seps name buffer =
     (case named_value seps name buffer of
        (None, buffer') \<Rightarrow> (0, buffer')
      | (Some value, buffer') \<Rightarrow> (extract_unsigned value, buffer'))"

definition named_from_datas_signed :: "char list \<Rightarrow> string \<Rightarrow> flex_buffer \<Rightarrow> 'a::len word \<times> flex_buffer" where
  "named_from_datas_signed seps name buffer =
     (case named_value seps name buffer of
        (None, buffer') \<Rightarrow> (0, buffer')
      | (Some value, buffer') \<Rightarrow> (extract_signed value, buffer'))"

text \<open>\<open>return "true" ? true : false;\<close> does not look at the value it has read.\<close>

definition named_from_datas_bool :: "char list \<Rightarrow> string \<Rightarrow> flex_buffer \<Rightarrow> bool \<times> flex_buffer" where
  "named_from_datas_bool seps name buffer =
     (case named_value seps name buffer of
        (None, buffer') \<Rightarrow> (False, buffer')
      | (Some value, buffer') \<Rightarrow> (True, buffer'))"

definition named_from_datas_string :: "char list \<Rightarrow> string \<Rightarrow> flex_buffer \<Rightarrow> string \<times> flex_buffer" where
  "named_from_datas_string seps name buffer =
     (case named_value seps name buffer of
        (None, buffer') \<Rightarrow> ([], buffer')
      | (Some value, buffer') \<Rightarrow> (if length value < 2 then [] else value, buffer'))"

text \<open>
  The overloads that return \<open>T{}\<close>. A second argument that is not a \<open>const std::string\<close>
  lvalue selects \<open>from_datas(flex_buffer&, U&&)\<close>, whatever \<open>T\<close> is.
\<close>

definition kv_from_datas_any :: "'a \<Rightarrow> 'u \<Rightarrow> flex_buffer \<Rightarrow> 'a \<times> flex_buffer" where
  "kv_from_datas_any T u buffer = (T, buffer)"

section \<open>The two classes\<close>

definition kv_separators :: "char list" where
  "kv_separators = [CHR ''&'', CHR ''#'']"

definition cookie_separators :: "char list" where
  "cookie_separators = [CHR '','']"

definition kv_from_datas_unsigned :: "string \<Rightarrow> flex_buffer \<Rightarrow> 'a::len word \<times> flex_buffer" where
  "kv_from_datas_unsigned = named_from_datas_unsigned kv_separators"

definition kv_from_datas_signed :: "string \<Rightarrow> flex_buffer \<Rightarrow> 'a::len word \<times> flex_buffer" where
  "kv_from_datas_signed = named_from_datas_signed kv_separators"

definition kv_from_datas_bool :: "string \<Rightarrow> flex_buffer \<Rightarrow> bool \<times> flex_buffer" where
  "kv_from_datas_bool = named_from_datas_bool kv_separators"

definition kv_from_datas_string :: "string \<Rightarrow> flex_buffer \<Rightarrow> string \<times> flex_buffer" where
  "kv_from_datas_string = named_from_datas_string kv_separators"

definition cookie_from_datas_unsigned :: "string \<Rightarrow> flex_buffer \<Rightarrow> 'a::len word \<times> flex_buffer" where
  "cookie_from_datas_unsigned = named_from_datas_unsigned cookie_separators"

definition cookie_from_datas_signed :: "string \<Rightarrow> flex_buffer \<Rightarrow> 'a::len word \<times> flex_buffer" where
  "cookie_from_datas_signed = named_from_datas_signed cookie_separators"

definition cookie_from_datas_bool :: "string \<Rightarrow> flex_buffer \<Rightarrow> bool \<times> flex_buffer" where
  "cookie_from_datas_bool = named_from_datas_bool cookie_separators"

definition cookie_from_datas_string :: "string \<Rightarrow> flex_buffer \<Rightarrow> string \<times> flex_buffer" where
  "cookie_from_datas_string = named_from_datas_string cookie_separators"

section \<open>What a reader finds\<close>

text \<open>
  \<open>delimited seps rest\<close>: what follows a value is the end of the buffer or a separator.
\<close>

definition delimited :: "char list \<Rightarrow> flex_buffer \<Rightarrow> bool" where
  "delimited seps rest \<longleftrightarrow> (case rest of [] \<Rightarrow> True | c # _ \<Rightarrow> c \<in> set seps)"

lemma get_first_range_delimited:
  assumes "set s \<inter> set args = {}" and "delimited args rest"
  shows "get_first_range args (s @ rest) = (s, drop 1 rest)"
proof -
  have t: "takeWhile (\<lambda>c. c \<notin> set args) (s @ rest) = s"
  proof -
    have "takeWhile (\<lambda>c. c \<notin> set args) rest = []"
      using assms(2) by (cases rest) (auto simp: delimited_def)
    moreover have "\<forall>c \<in> set s. c \<notin> set args" using assms(1) by auto
    ultimately show ?thesis by (subst takeWhile_append2) auto
  qed
  show ?thesis unfolding get_first_range_def t by (cases rest) (simp_all add: consume_def)
qed

lemma named_value_pair:
  assumes "name \<noteq> []" and "CHR ''='' \<notin> set name"
    and "set s \<inter> set seps = {}" and "delimited seps rest"
  shows "named_value seps name (name @ ''='' @ s @ rest) = (Some s, drop 1 rest)"
proof -
  have "get_first_range ''='' (name @ ''='' @ s @ rest) = (name, drop 1 (''='' @ s @ rest))"
    using assms(2) by (intro get_first_range_delimited) (auto simp: delimited_def)
  then show ?thesis
    using assms get_first_range_delimited [OF assms(3,4)] by (simp add: named_value_def)
qed

lemma to_string_separators:
  "set (to_string i) \<inter> set kv_separators = {}" "set (to_string i) \<inter> set cookie_separators = {}"
  using to_string_chars [of i] by (auto simp: kv_separators_def cookie_separators_def is_digit_def)

section \<open>Properties\<close>

text \<open>
  A \<open>name=value\<close> pair written by \<open>kv_parse\<close> in front of the end or a separator is read
  back: integers of every width and sign exactly, a string when it has at least two characters
  and no separator. The reader leaves what follows the separator.
\<close>

theorem kv_roundtrip:
  assumes "name \<noteq> []" and "CHR ''='' \<notin> set name" and "delimited kv_separators rest"
    and "2 \<le> length s" and "set s \<inter> set kv_separators = {}"
  shows "kv_from_datas_unsigned name (named_to_datas_unsigned (u :: 'a::len word) name [] @ rest) = (u, drop 1 rest) \<and>
         kv_from_datas_signed name (named_to_datas_signed (i :: 'b::len word) name [] @ rest) = (i, drop 1 rest) \<and>
         kv_from_datas_string name (named_to_datas_string s name [] @ rest) = (s, drop 1 rest)"
  using named_value_pair [OF assms(1,2) to_string_separators(1) assms(3)]
    named_value_pair [OF assms(1,2,5,3)] assms(4)
  by (simp add: kv_from_datas_unsigned_def kv_from_datas_signed_def kv_from_datas_string_def
      named_from_datas_unsigned_def named_from_datas_signed_def named_from_datas_string_def
      named_to_datas_unsigned_def named_to_datas_signed_def named_to_datas_string_def sputn_def
      extract_unsigned_decimal extract_signed_decimal)

theorem kv_roundtrip_witness:
  "kv_from_datas_unsigned ''port'' (named_to_datas_unsigned (8080 :: 32 word) ''port'' [] @ ''&x=1'') = (8080 :: 32 word, ''x=1'') \<and>
   kv_from_datas_signed ''port'' (named_to_datas_signed (- 3 :: 64 word) ''port'' [] @ ''&x=1'') = (- 3 :: 64 word, ''x=1'') \<and>
   kv_from_datas_string ''port'' (named_to_datas_string ''http'' ''port'' [] @ ''&x=1'') = (''http'', ''x=1'')"
  using kv_roundtrip [of "''port''" "''&x=1''" "''http''" "8080 :: 32 word" "- 3 :: 64 word"]
  by (simp add: delimited_def kv_separators_def)

text \<open>
  What the readers lose. \<open>kv_parse\<close> and \<open>cookie_parse\<close> read every boolean whose key is
  present as true, whatever its value, and every string of a single character as the empty
  string.
\<close>

theorem named_readers_lose:
  assumes "name \<noteq> []" and "CHR ''='' \<notin> set name" and "c \<notin> set kv_separators \<union> set cookie_separators"
  shows "fst (kv_from_datas_bool name (named_to_datas_bool v name [])) \<and>
         fst (cookie_from_datas_bool name (named_to_datas_bool v name [])) \<and>
         fst (kv_from_datas_string name (named_to_datas_string [c] name [])) = [] \<and>
         fst (cookie_from_datas_string name (named_to_datas_string [c] name [])) = []"
proof -
  have tf: "set (if v then ''true'' else ''false'') \<inter> set seps = {}" if "seps \<in> {kv_separators, cookie_separators}" for seps
    using that by (auto simp: kv_separators_def cookie_separators_def)
  have d: "delimited seps []" for seps by (simp add: delimited_def)
  have b: "named_value seps name (named_to_datas_bool v name []) = (Some (if v then ''true'' else ''false''), [])"
    if "seps \<in> {kv_separators, cookie_separators}" for seps
    using named_value_pair [OF assms(1,2) tf [OF that] d] by (simp add: named_to_datas_bool_def sputn_def)
  have s: "named_value seps name (named_to_datas_string [c] name []) = (Some [c], [])"
    if "seps \<in> {kv_separators, cookie_separators}" for seps
    using named_value_pair [OF assms(1,2) _ d, of "[c]" seps] assms(3) that
    by (auto simp: named_to_datas_string_def sputn_def)
  show ?thesis
    using b s
    by (simp add: kv_from_datas_bool_def cookie_from_datas_bool_def kv_from_datas_string_def
        cookie_from_datas_string_def named_from_datas_bool_def named_from_datas_string_def)
qed

theorem named_readers_lose_witness:
  "fst (kv_from_datas_bool ''on'' (named_to_datas_bool False ''on'' [])) \<and>
   fst (cookie_from_datas_bool ''on'' (named_to_datas_bool False ''on'' [])) \<and>
   fst (kv_from_datas_string ''on'' (named_to_datas_string ''x'' ''on'' [])) = [] \<and>
   fst (cookie_from_datas_string ''on'' (named_to_datas_string ''x'' ''on'' [])) = []"
  using named_readers_lose [of "''on''" "CHR ''x''" False]
  by (simp add: kv_separators_def cookie_separators_def)

end
