(* ===== verification/Json.thy ===== *)
theory Json
  imports Prelude
begin

text \<open>
  The JSON side of serialisation: include/aquarius/serialize/json.hpp and the code the
  generated messages share. \<open>boost::json\<close> is a library: its values are the datatype below,
  with the kinds its documentation lists, and its parser and printer are parameters,
  \<open>json_parse_text\<close> and \<open>json_serialize\<close>, of every definition that calls them.
\<close>

section \<open>Values\<close>

datatype jvalue =
    J_null | J_bool bool | J_int64 "64 word" | J_uint64 "64 word" | J_double "64 word"
  | J_string string | J_array "jvalue list" | J_object "(string \<times> jvalue) list"

type_synonym jobject = "(string \<times> jvalue) list"

text \<open>
  The documented kind of a parsed integer is \<open>int64\<close> when it fits and \<open>uint64\<close> otherwise:
  printing a value and parsing the text gives the value with its small unsigned numbers signed.
\<close>

primrec json_norm :: "jvalue \<Rightarrow> jvalue" where
  "json_norm J_null = J_null"
| "json_norm (J_bool b) = J_bool b"
| "json_norm (J_int64 w) = J_int64 w"
| "json_norm (J_uint64 w) = (if unat w < 2 ^ 63 then J_int64 w else J_uint64 w)"
| "json_norm (J_double w) = J_double w"
| "json_norm (J_string s) = J_string s"
| "json_norm (J_array vs) = J_array (map json_norm vs)"
| "json_norm (J_object kvs) = J_object (map (map_prod id json_norm) kvs)"

section \<open>The helpers of json.hpp\<close>

definition json_value_from_array :: "string \<Rightarrow> jvalue" where
  "json_value_from_array vec = J_array (map (\<lambda>c. J_int64 (scast (word_of_nat (of_char c) :: 8 word))) vec)"

text \<open>Dereferencing the result of \<open>try_as_int64\<close> on another kind is undefined.\<close>

fun json_chars :: "jvalue list \<Rightarrow> fault + string" where
  "json_chars [] = Inr []"
| "json_chars (J_int64 w # vs) =
     (case json_chars vs of Inl e \<Rightarrow> Inl e | Inr s \<Rightarrow> Inr (char_of (unat (ucast w :: 8 word)) # s))"
| "json_chars (_ # vs) = Inl Undefined"

definition json_value_to_array :: "jvalue \<Rightarrow> fault + string" where
  "json_value_to_array v = (case v of J_array arr \<Rightarrow> json_chars arr | _ \<Rightarrow> Inr [])"

definition json_to_datas ::
  "('a \<Rightarrow> jvalue) \<Rightarrow> (jvalue \<Rightarrow> string) \<Rightarrow> 'a \<Rightarrow> writer" where
  "json_to_datas value_from json_serialize v buffer =
     (let str = json_serialize (value_from v)
      in if str = ''null'' then buffer else sputn str buffer)"

definition json_from_datas ::
  "'a \<Rightarrow> (string \<Rightarrow> fault + jvalue) \<Rightarrow> (jvalue \<Rightarrow> fault + 'a) \<Rightarrow> 'a reader" where
  "json_from_datas T json_parse_text value_to buffer =
     (let (json, buffer') = sgetn (length buffer) buffer
      in if json = [] then (Inr T, buffer')
         else case json_parse_text json of
                Inl e \<Rightarrow> (Inl e, buffer')
              | Inr value \<Rightarrow> (value_to value, buffer'))"

section \<open>Reading an object member by member\<close>

text \<open>
  \<open>jv_obj->at(key)\<close> throws when the key is absent, \<open>as_string()\<close> and its like when the kind is
  another. A filler is a sequence of such assignments.
\<close>

type_synonym 's filler = "jobject \<Rightarrow> 's \<Rightarrow> fault option \<times> 's"

definition as_string :: "jvalue \<Rightarrow> fault + string" where
  "as_string v = (case v of J_string s \<Rightarrow> Inr s | _ \<Rightarrow> Inl (Thrown runtime_error))"

definition as_bool :: "jvalue \<Rightarrow> fault + bool" where
  "as_bool v = (case v of J_bool b \<Rightarrow> Inr b | _ \<Rightarrow> Inl (Thrown runtime_error))"

text \<open>\<open>static_cast<int32>(value.as_int64())\<close>; \<open>int32\<close> is an alias of \<open>uint32_t\<close>.\<close>

definition as_int32 :: "jvalue \<Rightarrow> fault + 32 word" where
  "as_int32 v = (case v of J_int64 w \<Rightarrow> Inr (ucast w) | _ \<Rightarrow> Inl (Thrown runtime_error))"

text \<open>\<open>value_to<std::vector<string>>\<close> and \<open>json_value_from_object\<close> at that type.\<close>

fun all_strings :: "jvalue list \<Rightarrow> fault + string list" where
  "all_strings [] = Inr []"
| "all_strings (v # vs) =
     (case as_string v of
        Inl e \<Rightarrow> Inl e
      | Inr s \<Rightarrow> (case all_strings vs of Inl e \<Rightarrow> Inl e | Inr ss \<Rightarrow> Inr (s # ss)))"

definition value_to_strings :: "jvalue \<Rightarrow> fault + string list" where
  "value_to_strings v = (case v of J_array vs \<Rightarrow> all_strings vs | _ \<Rightarrow> Inl (Thrown runtime_error))"

definition value_from_strings :: "string list \<Rightarrow> jvalue" where
  "value_from_strings ss = J_array (map J_string ss)"

definition f_skip :: "'s filler" where
  "f_skip obj s = (None, s)"

definition f_assign :: "string \<Rightarrow> (jvalue \<Rightarrow> fault + 'a) \<Rightarrow> ('a \<Rightarrow> 's \<Rightarrow> 's) \<Rightarrow> 's filler" where
  "f_assign key as upd obj s =
     (case map_of obj key of
        None \<Rightarrow> (Some (Thrown out_of_range), s)
      | Some v \<Rightarrow> (case as v of Inl e \<Rightarrow> (Some e, s) | Inr x \<Rightarrow> (None, upd x s)))"

definition f_then :: "'s filler \<Rightarrow> 's filler \<Rightarrow> 's filler" where
  "f_then f g obj s = (case f obj s of (Some e, s') \<Rightarrow> (Some e, s') | (None, s') \<Rightarrow> g obj s')"

text \<open>
  The frame of every generated \<open>from_json\<close>: parse the whole buffer, which stays as it is, and
  return without an error when the value is not an object.
\<close>

definition from_json_object :: "(string \<Rightarrow> fault + jvalue) \<Rightarrow> 's filler \<Rightarrow> 's loader" where
  "from_json_object json_parse_text fill s buffer =
     (case json_parse_text buffer of
        Inl e \<Rightarrow> (Some e, s, buffer)
      | Inr (J_object obj) \<Rightarrow> (case fill obj s of (e, s') \<Rightarrow> (e, s', buffer))
      | Inr _ \<Rightarrow> (None, s, buffer))"

definition to_json_object :: "(jvalue \<Rightarrow> string) \<Rightarrow> ('s \<Rightarrow> jobject) \<Rightarrow> 's saver" where
  "to_json_object json_serialize obj = s_write (\<lambda>s. sputn (json_serialize (J_object (obj s))))"

section \<open>Lemmas\<close>

lemma as_norm [simp]:
  "as_string (json_norm (J_string s)) = Inr s"
  "as_bool (json_norm (J_bool b)) = Inr b"
  "as_int32 (json_norm (J_uint64 (ucast w))) = Inr w"
proof -
  have "unat (ucast w :: 64 word) = take_bit 64 (unat w)" by (rule unsigned_ucast_eq [THEN trans]) simp
  also have "\<dots> \<le> unat w" by (rule take_bit_nat_less_eq_self)
  also have "unat w < 2 ^ 63" using unsigned_less [of w] by (rule less_trans) simp
  finally have "unat (ucast w :: 64 word) < 2 ^ 63" .
  moreover have "ucast (ucast w :: 64 word) = w" by (rule bit_word_eqI) (auto simp: bit_simps)
  ultimately show "as_int32 (json_norm (J_uint64 (ucast w))) = Inr w" by (simp add: as_int32_def)
qed (simp_all add: as_string_def as_bool_def)

lemma value_to_strings_norm [simp]: "value_to_strings (json_norm (value_from_strings ss)) = Inr ss"
proof -
  have "all_strings (map (json_norm \<circ> J_string) ss) = Inr ss"
    by (induction ss) (simp_all add: as_string_def)
  then show ?thesis by (simp add: value_to_strings_def value_from_strings_def)
qed

lemma ucast_scast_byte: "ucast (scast w :: 64 word) = (w :: 8 word)"
  by (rule bit_word_eqI) (auto simp: bit_simps)

lemma json_array_roundtrip: "json_value_to_array (json_value_from_array vec) = Inr vec"
proof -
  have "json_chars (map (\<lambda>c. J_int64 (scast (word_of_nat (of_char c) :: 8 word))) vec) = Inr vec"
  proof (induction vec)
    case (Cons c vec)
    have "unat (word_of_nat (of_char c) :: 8 word) = of_char c"
      by (simp add: unsigned_of_nat take_bit_eq_mod)
    with Cons show ?case by (simp add: ucast_scast_byte)
  qed simp
  then show ?thesis by (simp add: json_value_to_array_def json_value_from_array_def)
qed

lemma to_json_object_apply [simp]:
  "to_json_object ser obj s b = (None, b @ ser (J_object (obj s)))"
  by (simp add: to_json_object_def s_write_def sputn_def)

lemma from_json_object_norm:
  assumes "par b = Inr (json_norm (J_object obj))"
  shows "from_json_object par fill s b =
           (case fill (map (map_prod id json_norm) obj) s of (e, s') \<Rightarrow> (e, s', b))"
  using assms by (simp add: from_json_object_def)

end
