(* ===== verification/Message_Contracts.thy ===== *)
theory Message_Contracts
  imports Tcp_Protocol Key_Value Json
begin

text \<open>
  What the generated message bodies share: the codecs of their field types over
  \<open>binary_parse\<close>, and the contracts \<open>json_codec\<close> and \<open>kv_codec\<close> of the two text ways with
  what a request inherits from them. \<open>body_codec\<close>, for the binary way, is in the theory of the
  TCP protocol.
\<close>

section \<open>Field codecs\<close>

definition to_datas_strings :: "string list \<Rightarrow> writer" where
  "to_datas_strings ss buff = write_all (map to_datas_string ss) (to_datas_size (length ss) buff)"

definition from_datas_strings :: "limits \<Rightarrow> string list reader" where
  "from_datas_strings lim = from_datas_vector lim (from_datas_string lim)"

definition string_bytes :: "string \<Rightarrow> string" where
  "string_bytes s = varint (length s) @ s"

definition strings_bytes :: "string list \<Rightarrow> string" where
  "strings_bytes ss = varint (length ss) @ concat (map string_bytes ss)"

definition bool_bytes :: "bool \<Rightarrow> string" where
  "bool_bytes v = [if v then CHR 0x01 else CHR 0x00]"

definition fits_string :: "limits \<Rightarrow> string \<Rightarrow> bool" where
  "fits_string lim s \<longleftrightarrow> length s \<le> string_max lim \<and> length s < 2 ^ 64"

definition fits_strings :: "limits \<Rightarrow> string list \<Rightarrow> bool" where
  "fits_strings lim ss \<longleftrightarrow> length ss \<le> vector_max lim \<and> length ss < 2 ^ 64 \<and> list_all (fits_string lim) ss"

lemma appends_field_string: "fits_string lim s \<Longrightarrow> appends (to_datas_string s) (string_bytes s)"
  unfolding string_bytes_def fits_string_def by (intro appends_string) simp

lemma appends_field_strings: "fits_strings lim ss \<Longrightarrow> appends (to_datas_strings ss) (strings_bytes ss)"
  unfolding to_datas_strings_def strings_bytes_def fits_strings_def
  by (intro appends_comp appends_size appends_write_all)
    (auto simp: list_all_iff list_all2_conv_all_nth intro: appends_field_string)

lemma appends_field_bool: "appends (to_datas_bool v) (bool_bytes v)"
  unfolding bool_bytes_def by (rule appends_bool)

lemma decodes_field_string: "fits_string lim s \<Longrightarrow> decodes (from_datas_string lim) (string_bytes s) s"
  unfolding string_bytes_def fits_string_def by (intro decodes_string) auto

lemma decodes_field_strings: "fits_strings lim ss \<Longrightarrow> decodes (from_datas_strings lim) (strings_bytes ss) ss"
  unfolding from_datas_strings_def strings_bytes_def fits_strings_def
  by (intro decodes_vector) (auto simp: list_all_iff intro: decodes_field_string)

lemma decodes_field_bool: "decodes from_datas_bool (bool_bytes v) v"
  unfolding bool_bytes_def by (rule decodes_bool)

lemma decodes_field_uint32: "decodes from_datas_integer (varint (unat w)) (w :: 32 word)"
  by (rule decodes_integer) simp

lemma reads_prefix_field_strings: "reads_prefix (from_datas_strings lim)"
  unfolding from_datas_strings_def by (intro reads_prefix_vector reads_prefix_string)

lemma reads_prefix_field_bool: "reads_prefix from_datas_bool"
  unfolding from_datas_bool_def
  by (intro reads_prefix_bind reads_prefix_pod) (auto intro: reads_prefix_return reads_prefix_fail)

lemmas field_appends =
  appends_integer appends_field_string appends_field_strings appends_field_bool

lemmas field_decodes =
  decodes_field_string decodes_field_strings decodes_field_bool decodes_field_uint32

lemmas field_prefix =
  reads_prefix_integer reads_prefix_string reads_prefix_field_strings reads_prefix_field_bool

section \<open>The contracts of the text ways\<close>

text \<open>
  JSON. \<open>to_json\<close> prints the object \<open>obj x\<close>; \<open>from_json\<close>, on a buffer that parses to what
  printing and parsing make of \<open>obj x\<close>, restores \<open>x\<close> and leaves the buffer as it is.
\<close>

locale json_codec =
  fixes ops :: "'b serialization"
    and par :: "string \<Rightarrow> fault + jvalue"
    and ser :: "jvalue \<Rightarrow> string"
    and obj :: "'b \<Rightarrow> jobject"
  assumes to_json_obj: "to_json ops x b = (None, b @ ser (J_object (obj x)))"
    and from_json_obj: "par b = Inr (json_norm (J_object (obj x))) \<Longrightarrow> from_json ops y b = (None, x, b)"
begin

lemma json_request_roundtrip:
  assumes "par (ser (J_object (obj (body m)))) = Inr (json_norm (J_object (obj (body m))))"
    and "way (header m) = 1" and "length router < 2 ^ 64"
  shows "\<exists>bs. commit_request router ops m b = (Inr no_error, b @ router_bytes router @ bs) \<and>
              consume_request ops m0 bs = (Inr no_error, m, ser (J_object (obj (body m))))"
proof (intro exI conjI)
  let ?bs = "header_bytes (header m) @ ser (J_object (obj (body m)))"
  show "commit_request router ops m b = (Inr no_error, b @ router_bytes router @ ?bs)"
    using assms
    by (simp add: commit_request_def s_then_def s_write_def appendsD [OF appends_router]
        commit_body_def s_focus_def savesD [OF saves_header] body_save_def to_json_obj)
  show "consume_request ops m0 ?bs = (Inr no_error, m, ser (J_object (obj (body m))))"
    using assms
    by (simp add: consume_request_def consume_body_def l_then_def l_focus_def
        loadsD [OF loads_header] body_load_def from_json_obj)
qed

end

text \<open>
  Key-value. The generated code calls \<open>kv_parse\<close> without names, so that \<open>to_kv\<close> writes the
  punctuation only and \<open>from_kv\<close> reads nothing and resets every field.
\<close>

definition kv_assign :: "'a \<Rightarrow> ('s \<Rightarrow> 'a) \<Rightarrow> ('a \<Rightarrow> 's \<Rightarrow> 's) \<Rightarrow> 's loader" where
  "kv_assign T get upd s b = (case kv_from_datas_any T (get s) b of (v, b') \<Rightarrow> (None, upd v s, b'))"

locale kv_codec =
  fixes ops :: "'b serialization"
    and blank :: 'b
    and separators :: nat
  assumes to_kv_punctuation: "to_kv ops x b = (None, b @ ''?'' @ replicate separators (CHR ''=''))"
    and from_kv_blank: "from_kv ops x b = (None, blank, b)"
begin

lemma kv_request_blank:
  assumes "way (header m) = 2" and "length router < 2 ^ 64"
  shows "\<exists>bs. commit_request router ops m b = (Inr no_error, b @ router_bytes router @ bs) \<and>
              consume_request ops m0 bs =
                (Inr no_error, m\<lparr>body := blank\<rparr>, ''?'' @ replicate separators (CHR ''=''))"
proof (intro exI conjI)
  let ?bs = "header_bytes (header m) @ ''?'' @ replicate separators (CHR ''='')"
  show "commit_request router ops m b = (Inr no_error, b @ router_bytes router @ ?bs)"
    using assms
    by (simp add: commit_request_def s_then_def s_write_def appendsD [OF appends_router]
        commit_body_def s_focus_def savesD [OF saves_header] body_save_def to_kv_punctuation)
  show "consume_request ops m0 ?bs =
          (Inr no_error, m\<lparr>body := blank\<rparr>, ''?'' @ replicate separators (CHR ''=''))"
    using assms
    by (simp add: consume_request_def consume_body_def l_then_def l_focus_def
        loadsD [OF loads_header] body_load_def from_kv_blank)
qed

end

lemmas kv_step_simps =
  s_then_def s_write_def sputc_def kv_to_datas_any_def l_then_def kv_assign_def kv_from_datas_any_def

end
