(* ===== verification/Messages.thy ===== *)
theory Messages
  imports Message_Contracts
begin

text \<open>
  The message bodies that lazytool generated from the \<open>.virgo\<close> schemas: src/login/proto,
  src/serviced/proto, src/database/proto and src/gateway/proto (whose shake files are those of
  src/serviced/proto). Each class is a record with its six serialisation functions; the
  classes without fields have the empty functions of \<open>empty_body_ops\<close>. The parser and printer of \<open>boost::json\<close> are
  the parameters \<open>par\<close> and \<open>ser\<close>, the host's size limits the parameter \<open>lim\<close>.

  Every class interprets the three contracts. The schema type \<open>int32\<close> is an alias of
  \<open>uint32_t\<close> (include/aquarius/serialize/scalar_type.hpp), so it is written as a plain varint.
\<close>

section \<open>Bodies without fields\<close>

text \<open>
  The login response, and with the same empty functions the regist and publish responses and the
  shake and subscription-list requests.
\<close>

definition empty_body_ops :: "unit serialization" where
  "empty_body_ops =
     \<lparr>to_binary = (\<lambda>_ b. (None, b)), from_binary = l_skip,
      to_json = (\<lambda>_ b. (None, b)), from_json = l_skip,
      to_kv = (\<lambda>_ b. (None, b)), from_kv = l_skip\<rparr>"

interpretation empty_body: body_codec empty_body_ops "\<lambda>_. True" "\<lambda>_. []"
  by unfold_locales
    (auto simp: empty_body_ops_def saves_def loads_def l_skip_def l_prefix_def)

definition regist_resp_body_ops :: "unit serialization" where
  "regist_resp_body_ops = empty_body_ops"

definition publish_resp_body_ops :: "unit serialization" where
  "publish_resp_body_ops = empty_body_ops"

definition shake_req_body_ops :: "unit serialization" where
  "shake_req_body_ops = empty_body_ops"

definition subs_list_req_body_ops :: "unit serialization" where
  "subs_list_req_body_ops = empty_body_ops"

interpretation regist_resp_body: body_codec regist_resp_body_ops "\<lambda>_. True" "\<lambda>_. []"
  unfolding regist_resp_body_ops_def by (rule empty_body.body_codec_axioms)

interpretation publish_resp_body: body_codec publish_resp_body_ops "\<lambda>_. True" "\<lambda>_. []"
  unfolding publish_resp_body_ops_def by (rule empty_body.body_codec_axioms)

interpretation shake_req_body: body_codec shake_req_body_ops "\<lambda>_. True" "\<lambda>_. []"
  unfolding shake_req_body_ops_def by (rule empty_body.body_codec_axioms)

interpretation subs_list_req_body: body_codec subs_list_req_body_ops "\<lambda>_. True" "\<lambda>_. []"
  unfolding subs_list_req_body_ops_def by (rule empty_body.body_codec_axioms)

section \<open>login_req_body\<close>

record login_req_body =
  login_username :: string
  login_password :: string

definition login_req_body_default :: login_req_body where
  "login_req_body_default = \<lparr>login_username = [], login_password = []\<rparr>"

definition login_req_body_to_binary :: "login_req_body saver" where
  "login_req_body_to_binary =
     s_then (s_write (\<lambda>x. to_datas_string (login_username x)))
       (s_write (\<lambda>x. to_datas_string (login_password x)))"

definition login_req_body_from_binary :: "limits \<Rightarrow> login_req_body loader" where
  "login_req_body_from_binary lim =
     l_then (l_assign (from_datas_string lim) (\<lambda>v x. x\<lparr>login_username := v\<rparr>))
       (l_assign (from_datas_string lim) (\<lambda>v x. x\<lparr>login_password := v\<rparr>))"

definition login_req_body_object :: "login_req_body \<Rightarrow> jobject" where
  "login_req_body_object x =
     [(''username'', J_string (login_username x)),
      (''password'', J_string (login_password x))]"

definition login_req_body_to_json :: "(jvalue \<Rightarrow> string) \<Rightarrow> login_req_body saver" where
  "login_req_body_to_json ser = to_json_object ser login_req_body_object"

definition login_req_body_from_json :: "(string \<Rightarrow> fault + jvalue) \<Rightarrow> login_req_body loader" where
  "login_req_body_from_json par = from_json_object par
     (f_then (f_assign ''username'' as_string (\<lambda>v x. x\<lparr>login_username := v\<rparr>))
       (f_assign ''password'' as_string (\<lambda>v x. x\<lparr>login_password := v\<rparr>)))"

definition login_req_body_to_kv :: "login_req_body saver" where
  "login_req_body_to_kv =
     s_then (s_write (\<lambda>x. sputc (CHR ''?'')))
       (s_then (s_write (\<lambda>x. kv_to_datas_any (login_username x)))
         (s_then (s_write (\<lambda>x. sputc (CHR ''='')))
           (s_write (\<lambda>x. kv_to_datas_any (login_password x)))))"

definition login_req_body_from_kv :: "login_req_body loader" where
  "login_req_body_from_kv =
     l_then (kv_assign [] login_username (\<lambda>v x. x\<lparr>login_username := v\<rparr>))
       (kv_assign [] login_password (\<lambda>v x. x\<lparr>login_password := v\<rparr>))"

definition login_req_body_ops ::
  "limits \<Rightarrow> (string \<Rightarrow> fault + jvalue) \<Rightarrow> (jvalue \<Rightarrow> string) \<Rightarrow> login_req_body serialization" where
  "login_req_body_ops lim par ser =
     \<lparr>to_binary = login_req_body_to_binary, from_binary = login_req_body_from_binary lim,
      to_json = login_req_body_to_json ser, from_json = login_req_body_from_json par,
      to_kv = login_req_body_to_kv, from_kv = login_req_body_from_kv\<rparr>"

definition login_req_body_valid :: "limits \<Rightarrow> login_req_body \<Rightarrow> bool" where
  "login_req_body_valid lim x \<longleftrightarrow> fits_string lim (login_username x) \<and> fits_string lim (login_password x)"

definition login_req_body_bytes :: "login_req_body \<Rightarrow> string" where
  "login_req_body_bytes x = string_bytes (login_username x) @ string_bytes (login_password x)"

interpretation login_req_body: body_codec "login_req_body_ops lim par ser" "login_req_body_valid lim" login_req_body_bytes
  for lim par ser
proof
  fix x y :: login_req_body
  assume v: "login_req_body_valid lim x"
  show "saves (to_binary (login_req_body_ops lim par ser)) x (login_req_body_bytes x)"
    using v unfolding login_req_body_ops_def login_req_body_to_binary_def login_req_body_bytes_def login_req_body_valid_def
    by (simp, intro saves_then saves_write) (auto intro: field_appends)
  show "loads (from_binary (login_req_body_ops lim par ser)) (login_req_body_bytes x) y x"
    using v unfolding login_req_body_ops_def login_req_body_from_binary_def login_req_body_bytes_def login_req_body_valid_def
    by simp ((rule loads_then loads_assignI field_decodes refl | simp)+)?
next
  show "l_prefix (from_binary (login_req_body_ops lim par ser))"
    unfolding login_req_body_ops_def login_req_body_from_binary_def by (simp, intro l_prefix_then l_prefix_assign field_prefix)
qed

interpretation login_req_body_json: json_codec "login_req_body_ops lim par ser" par ser login_req_body_object
  for lim par ser
  by unfold_locales
    (simp_all add: login_req_body_ops_def login_req_body_to_json_def login_req_body_from_json_def login_req_body_object_def
      from_json_object_norm f_then_def f_assign_def del: json_norm.simps)

interpretation login_req_body_kv: kv_codec "login_req_body_ops lim par ser" login_req_body_default "1"
  for lim par ser
  by unfold_locales
    (simp_all add: login_req_body_ops_def login_req_body_to_kv_def login_req_body_from_kv_def login_req_body_default_def kv_step_simps numeral_eq_Suc)

section \<open>regist_req_body\<close>

record regist_req_body =
  regist_name :: string
  regist_host :: string
  regist_port :: "32 word"
  regist_healthy :: bool
  regist_group :: string
  regist_weight :: "32 word"
  regist_version :: string

definition regist_req_body_default :: regist_req_body where
  "regist_req_body_default = \<lparr>regist_name = [], regist_host = [], regist_port = 0, regist_healthy = False, regist_group = [], regist_weight = 0, regist_version = []\<rparr>"

definition regist_req_body_to_binary :: "regist_req_body saver" where
  "regist_req_body_to_binary =
     s_then (s_write (\<lambda>x. to_datas_string (regist_name x)))
       (s_then (s_write (\<lambda>x. to_datas_string (regist_host x)))
         (s_then (s_write (\<lambda>x. to_datas_integer (regist_port x)))
           (s_then (s_write (\<lambda>x. to_datas_bool (regist_healthy x)))
             (s_then (s_write (\<lambda>x. to_datas_string (regist_group x)))
               (s_then (s_write (\<lambda>x. to_datas_integer (regist_weight x)))
                 (s_write (\<lambda>x. to_datas_string (regist_version x))))))))"

definition regist_req_body_from_binary :: "limits \<Rightarrow> regist_req_body loader" where
  "regist_req_body_from_binary lim =
     l_then (l_assign (from_datas_string lim) (\<lambda>v x. x\<lparr>regist_name := v\<rparr>))
       (l_then (l_assign (from_datas_string lim) (\<lambda>v x. x\<lparr>regist_host := v\<rparr>))
         (l_then (l_assign from_datas_integer (\<lambda>v x. x\<lparr>regist_port := v\<rparr>))
           (l_then (l_assign from_datas_bool (\<lambda>v x. x\<lparr>regist_healthy := v\<rparr>))
             (l_then (l_assign (from_datas_string lim) (\<lambda>v x. x\<lparr>regist_group := v\<rparr>))
               (l_then (l_assign from_datas_integer (\<lambda>v x. x\<lparr>regist_weight := v\<rparr>))
                 (l_assign (from_datas_string lim) (\<lambda>v x. x\<lparr>regist_version := v\<rparr>)))))))"

definition regist_req_body_object :: "regist_req_body \<Rightarrow> jobject" where
  "regist_req_body_object x =
     [(''name'', J_string (regist_name x)),
      (''host'', J_string (regist_host x)),
      (''port'', J_uint64 (ucast (regist_port x))),
      (''healthy'', J_bool (regist_healthy x)),
      (''group'', J_string (regist_group x)),
      (''weight'', J_uint64 (ucast (regist_weight x))),
      (''version'', J_string (regist_version x))]"

definition regist_req_body_to_json :: "(jvalue \<Rightarrow> string) \<Rightarrow> regist_req_body saver" where
  "regist_req_body_to_json ser = to_json_object ser regist_req_body_object"

definition regist_req_body_from_json :: "(string \<Rightarrow> fault + jvalue) \<Rightarrow> regist_req_body loader" where
  "regist_req_body_from_json par = from_json_object par
     (f_then (f_assign ''name'' as_string (\<lambda>v x. x\<lparr>regist_name := v\<rparr>))
       (f_then (f_assign ''host'' as_string (\<lambda>v x. x\<lparr>regist_host := v\<rparr>))
         (f_then (f_assign ''port'' as_int32 (\<lambda>v x. x\<lparr>regist_port := v\<rparr>))
           (f_then (f_assign ''healthy'' as_bool (\<lambda>v x. x\<lparr>regist_healthy := v\<rparr>))
             (f_then (f_assign ''group'' as_string (\<lambda>v x. x\<lparr>regist_group := v\<rparr>))
               (f_then (f_assign ''weight'' as_int32 (\<lambda>v x. x\<lparr>regist_weight := v\<rparr>))
                 (f_assign ''version'' as_string (\<lambda>v x. x\<lparr>regist_version := v\<rparr>))))))))"

definition regist_req_body_to_kv :: "regist_req_body saver" where
  "regist_req_body_to_kv =
     s_then (s_write (\<lambda>x. sputc (CHR ''?'')))
       (s_then (s_write (\<lambda>x. kv_to_datas_any (regist_name x)))
         (s_then (s_write (\<lambda>x. sputc (CHR ''='')))
           (s_then (s_write (\<lambda>x. kv_to_datas_any (regist_host x)))
             (s_then (s_write (\<lambda>x. sputc (CHR ''='')))
               (s_then (s_write (\<lambda>x. kv_to_datas_any (regist_port x)))
                 (s_then (s_write (\<lambda>x. sputc (CHR ''='')))
                   (s_then (s_write (\<lambda>x. kv_to_datas_any (regist_healthy x)))
                     (s_then (s_write (\<lambda>x. sputc (CHR ''='')))
                       (s_then (s_write (\<lambda>x. kv_to_datas_any (regist_group x)))
                         (s_then (s_write (\<lambda>x. sputc (CHR ''='')))
                           (s_then (s_write (\<lambda>x. kv_to_datas_any (regist_weight x)))
                             (s_then (s_write (\<lambda>x. sputc (CHR ''='')))
                               (s_write (\<lambda>x. kv_to_datas_any (regist_version x)))))))))))))))"

definition regist_req_body_from_kv :: "regist_req_body loader" where
  "regist_req_body_from_kv =
     l_then (kv_assign [] regist_name (\<lambda>v x. x\<lparr>regist_name := v\<rparr>))
       (l_then (kv_assign [] regist_host (\<lambda>v x. x\<lparr>regist_host := v\<rparr>))
         (l_then (kv_assign 0 regist_port (\<lambda>v x. x\<lparr>regist_port := v\<rparr>))
           (l_then (kv_assign False regist_healthy (\<lambda>v x. x\<lparr>regist_healthy := v\<rparr>))
             (l_then (kv_assign [] regist_group (\<lambda>v x. x\<lparr>regist_group := v\<rparr>))
               (l_then (kv_assign 0 regist_weight (\<lambda>v x. x\<lparr>regist_weight := v\<rparr>))
                 (kv_assign [] regist_version (\<lambda>v x. x\<lparr>regist_version := v\<rparr>)))))))"

definition regist_req_body_ops ::
  "limits \<Rightarrow> (string \<Rightarrow> fault + jvalue) \<Rightarrow> (jvalue \<Rightarrow> string) \<Rightarrow> regist_req_body serialization" where
  "regist_req_body_ops lim par ser =
     \<lparr>to_binary = regist_req_body_to_binary, from_binary = regist_req_body_from_binary lim,
      to_json = regist_req_body_to_json ser, from_json = regist_req_body_from_json par,
      to_kv = regist_req_body_to_kv, from_kv = regist_req_body_from_kv\<rparr>"

definition regist_req_body_valid :: "limits \<Rightarrow> regist_req_body \<Rightarrow> bool" where
  "regist_req_body_valid lim x \<longleftrightarrow> fits_string lim (regist_name x) \<and> fits_string lim (regist_host x) \<and> fits_string lim (regist_group x) \<and> fits_string lim (regist_version x)"

definition regist_req_body_bytes :: "regist_req_body \<Rightarrow> string" where
  "regist_req_body_bytes x = string_bytes (regist_name x) @ string_bytes (regist_host x) @ varint (unat (regist_port x)) @ bool_bytes (regist_healthy x) @ string_bytes (regist_group x) @ varint (unat (regist_weight x)) @ string_bytes (regist_version x)"

interpretation regist_req_body: body_codec "regist_req_body_ops lim par ser" "regist_req_body_valid lim" regist_req_body_bytes
  for lim par ser
proof
  fix x y :: regist_req_body
  assume v: "regist_req_body_valid lim x"
  show "saves (to_binary (regist_req_body_ops lim par ser)) x (regist_req_body_bytes x)"
    using v unfolding regist_req_body_ops_def regist_req_body_to_binary_def regist_req_body_bytes_def regist_req_body_valid_def
    by (simp, intro saves_then saves_write) (auto intro: field_appends)
  show "loads (from_binary (regist_req_body_ops lim par ser)) (regist_req_body_bytes x) y x"
    using v unfolding regist_req_body_ops_def regist_req_body_from_binary_def regist_req_body_bytes_def regist_req_body_valid_def
    by simp ((rule loads_then loads_assignI field_decodes refl | simp)+)?
next
  show "l_prefix (from_binary (regist_req_body_ops lim par ser))"
    unfolding regist_req_body_ops_def regist_req_body_from_binary_def by (simp, intro l_prefix_then l_prefix_assign field_prefix)
qed

interpretation regist_req_body_json: json_codec "regist_req_body_ops lim par ser" par ser regist_req_body_object
  for lim par ser
  by unfold_locales
    (simp_all add: regist_req_body_ops_def regist_req_body_to_json_def regist_req_body_from_json_def regist_req_body_object_def
      from_json_object_norm f_then_def f_assign_def del: json_norm.simps)

interpretation regist_req_body_kv: kv_codec "regist_req_body_ops lim par ser" regist_req_body_default "6"
  for lim par ser
  by unfold_locales
    (simp_all add: regist_req_body_ops_def regist_req_body_to_kv_def regist_req_body_from_kv_def regist_req_body_default_def kv_step_simps numeral_eq_Suc)

section \<open>publish_req_body\<close>

record publish_req_body =
  publish_topics :: "string list"

definition publish_req_body_default :: publish_req_body where
  "publish_req_body_default = \<lparr>publish_topics = []\<rparr>"

definition publish_req_body_to_binary :: "publish_req_body saver" where
  "publish_req_body_to_binary =
     s_write (\<lambda>x. to_datas_strings (publish_topics x))"

definition publish_req_body_from_binary :: "limits \<Rightarrow> publish_req_body loader" where
  "publish_req_body_from_binary lim =
     l_assign (from_datas_strings lim) (\<lambda>v x. x\<lparr>publish_topics := v\<rparr>)"

definition publish_req_body_object :: "publish_req_body \<Rightarrow> jobject" where
  "publish_req_body_object x =
     [(''topics'', value_from_strings (publish_topics x))]"

definition publish_req_body_to_json :: "(jvalue \<Rightarrow> string) \<Rightarrow> publish_req_body saver" where
  "publish_req_body_to_json ser = to_json_object ser publish_req_body_object"

definition publish_req_body_from_json :: "(string \<Rightarrow> fault + jvalue) \<Rightarrow> publish_req_body loader" where
  "publish_req_body_from_json par = from_json_object par
     (f_assign ''topics'' value_to_strings (\<lambda>v x. x\<lparr>publish_topics := v\<rparr>))"

definition publish_req_body_to_kv :: "publish_req_body saver" where
  "publish_req_body_to_kv =
     s_then (s_write (\<lambda>x. sputc (CHR ''?'')))
       (s_write (\<lambda>x. kv_to_datas_any (publish_topics x)))"

definition publish_req_body_from_kv :: "publish_req_body loader" where
  "publish_req_body_from_kv =
     kv_assign [] publish_topics (\<lambda>v x. x\<lparr>publish_topics := v\<rparr>)"

definition publish_req_body_ops ::
  "limits \<Rightarrow> (string \<Rightarrow> fault + jvalue) \<Rightarrow> (jvalue \<Rightarrow> string) \<Rightarrow> publish_req_body serialization" where
  "publish_req_body_ops lim par ser =
     \<lparr>to_binary = publish_req_body_to_binary, from_binary = publish_req_body_from_binary lim,
      to_json = publish_req_body_to_json ser, from_json = publish_req_body_from_json par,
      to_kv = publish_req_body_to_kv, from_kv = publish_req_body_from_kv\<rparr>"

definition publish_req_body_valid :: "limits \<Rightarrow> publish_req_body \<Rightarrow> bool" where
  "publish_req_body_valid lim x \<longleftrightarrow> fits_strings lim (publish_topics x)"

definition publish_req_body_bytes :: "publish_req_body \<Rightarrow> string" where
  "publish_req_body_bytes x = strings_bytes (publish_topics x)"

interpretation publish_req_body: body_codec "publish_req_body_ops lim par ser" "publish_req_body_valid lim" publish_req_body_bytes
  for lim par ser
proof
  fix x y :: publish_req_body
  assume v: "publish_req_body_valid lim x"
  show "saves (to_binary (publish_req_body_ops lim par ser)) x (publish_req_body_bytes x)"
    using v unfolding publish_req_body_ops_def publish_req_body_to_binary_def publish_req_body_bytes_def publish_req_body_valid_def
    by (simp, intro saves_then saves_write) (auto intro: field_appends)
  show "loads (from_binary (publish_req_body_ops lim par ser)) (publish_req_body_bytes x) y x"
    using v unfolding publish_req_body_ops_def publish_req_body_from_binary_def publish_req_body_bytes_def publish_req_body_valid_def
    by simp ((rule loads_then loads_assignI field_decodes refl | simp)+)?
next
  show "l_prefix (from_binary (publish_req_body_ops lim par ser))"
    unfolding publish_req_body_ops_def publish_req_body_from_binary_def by (simp, intro l_prefix_then l_prefix_assign field_prefix)
qed

interpretation publish_req_body_json: json_codec "publish_req_body_ops lim par ser" par ser publish_req_body_object
  for lim par ser
  by unfold_locales
    (simp_all add: publish_req_body_ops_def publish_req_body_to_json_def publish_req_body_from_json_def publish_req_body_object_def
      from_json_object_norm f_then_def f_assign_def del: json_norm.simps)

interpretation publish_req_body_kv: kv_codec "publish_req_body_ops lim par ser" publish_req_body_default "0"
  for lim par ser
  by unfold_locales
    (simp_all add: publish_req_body_ops_def publish_req_body_to_kv_def publish_req_body_from_kv_def publish_req_body_default_def kv_step_simps numeral_eq_Suc)

section \<open>shake_resp_body\<close>

record shake_resp_body =
  shake_topics :: "string list"

definition shake_resp_body_default :: shake_resp_body where
  "shake_resp_body_default = \<lparr>shake_topics = []\<rparr>"

definition shake_resp_body_to_binary :: "shake_resp_body saver" where
  "shake_resp_body_to_binary =
     s_write (\<lambda>x. to_datas_strings (shake_topics x))"

definition shake_resp_body_from_binary :: "limits \<Rightarrow> shake_resp_body loader" where
  "shake_resp_body_from_binary lim =
     l_assign (from_datas_strings lim) (\<lambda>v x. x\<lparr>shake_topics := v\<rparr>)"

definition shake_resp_body_object :: "shake_resp_body \<Rightarrow> jobject" where
  "shake_resp_body_object x =
     [(''topics'', value_from_strings (shake_topics x))]"

definition shake_resp_body_to_json :: "(jvalue \<Rightarrow> string) \<Rightarrow> shake_resp_body saver" where
  "shake_resp_body_to_json ser = to_json_object ser shake_resp_body_object"

definition shake_resp_body_from_json :: "(string \<Rightarrow> fault + jvalue) \<Rightarrow> shake_resp_body loader" where
  "shake_resp_body_from_json par = from_json_object par
     (f_assign ''topics'' value_to_strings (\<lambda>v x. x\<lparr>shake_topics := v\<rparr>))"

definition shake_resp_body_to_kv :: "shake_resp_body saver" where
  "shake_resp_body_to_kv =
     s_then (s_write (\<lambda>x. sputc (CHR ''?'')))
       (s_write (\<lambda>x. kv_to_datas_any (shake_topics x)))"

definition shake_resp_body_from_kv :: "shake_resp_body loader" where
  "shake_resp_body_from_kv =
     kv_assign [] shake_topics (\<lambda>v x. x\<lparr>shake_topics := v\<rparr>)"

definition shake_resp_body_ops ::
  "limits \<Rightarrow> (string \<Rightarrow> fault + jvalue) \<Rightarrow> (jvalue \<Rightarrow> string) \<Rightarrow> shake_resp_body serialization" where
  "shake_resp_body_ops lim par ser =
     \<lparr>to_binary = shake_resp_body_to_binary, from_binary = shake_resp_body_from_binary lim,
      to_json = shake_resp_body_to_json ser, from_json = shake_resp_body_from_json par,
      to_kv = shake_resp_body_to_kv, from_kv = shake_resp_body_from_kv\<rparr>"

definition shake_resp_body_valid :: "limits \<Rightarrow> shake_resp_body \<Rightarrow> bool" where
  "shake_resp_body_valid lim x \<longleftrightarrow> fits_strings lim (shake_topics x)"

definition shake_resp_body_bytes :: "shake_resp_body \<Rightarrow> string" where
  "shake_resp_body_bytes x = strings_bytes (shake_topics x)"

interpretation shake_resp_body: body_codec "shake_resp_body_ops lim par ser" "shake_resp_body_valid lim" shake_resp_body_bytes
  for lim par ser
proof
  fix x y :: shake_resp_body
  assume v: "shake_resp_body_valid lim x"
  show "saves (to_binary (shake_resp_body_ops lim par ser)) x (shake_resp_body_bytes x)"
    using v unfolding shake_resp_body_ops_def shake_resp_body_to_binary_def shake_resp_body_bytes_def shake_resp_body_valid_def
    by (simp, intro saves_then saves_write) (auto intro: field_appends)
  show "loads (from_binary (shake_resp_body_ops lim par ser)) (shake_resp_body_bytes x) y x"
    using v unfolding shake_resp_body_ops_def shake_resp_body_from_binary_def shake_resp_body_bytes_def shake_resp_body_valid_def
    by simp ((rule loads_then loads_assignI field_decodes refl | simp)+)?
next
  show "l_prefix (from_binary (shake_resp_body_ops lim par ser))"
    unfolding shake_resp_body_ops_def shake_resp_body_from_binary_def by (simp, intro l_prefix_then l_prefix_assign field_prefix)
qed

interpretation shake_resp_body_json: json_codec "shake_resp_body_ops lim par ser" par ser shake_resp_body_object
  for lim par ser
  by unfold_locales
    (simp_all add: shake_resp_body_ops_def shake_resp_body_to_json_def shake_resp_body_from_json_def shake_resp_body_object_def
      from_json_object_norm f_then_def f_assign_def del: json_norm.simps)

interpretation shake_resp_body_kv: kv_codec "shake_resp_body_ops lim par ser" shake_resp_body_default "0"
  for lim par ser
  by unfold_locales
    (simp_all add: shake_resp_body_ops_def shake_resp_body_to_kv_def shake_resp_body_from_kv_def shake_resp_body_default_def kv_step_simps numeral_eq_Suc)

section \<open>cmd_op_req_body\<close>

record cmd_op_req_body =
  cmd_op_command :: string
  cmd_op_paramers :: "string list"

definition cmd_op_req_body_default :: cmd_op_req_body where
  "cmd_op_req_body_default = \<lparr>cmd_op_command = [], cmd_op_paramers = []\<rparr>"

definition cmd_op_req_body_to_binary :: "cmd_op_req_body saver" where
  "cmd_op_req_body_to_binary =
     s_then (s_write (\<lambda>x. to_datas_string (cmd_op_command x)))
       (s_write (\<lambda>x. to_datas_strings (cmd_op_paramers x)))"

definition cmd_op_req_body_from_binary :: "limits \<Rightarrow> cmd_op_req_body loader" where
  "cmd_op_req_body_from_binary lim =
     l_then (l_assign (from_datas_string lim) (\<lambda>v x. x\<lparr>cmd_op_command := v\<rparr>))
       (l_assign (from_datas_strings lim) (\<lambda>v x. x\<lparr>cmd_op_paramers := v\<rparr>))"

definition cmd_op_req_body_object :: "cmd_op_req_body \<Rightarrow> jobject" where
  "cmd_op_req_body_object x =
     [(''command'', J_string (cmd_op_command x)),
      (''paramers'', value_from_strings (cmd_op_paramers x))]"

definition cmd_op_req_body_to_json :: "(jvalue \<Rightarrow> string) \<Rightarrow> cmd_op_req_body saver" where
  "cmd_op_req_body_to_json ser = to_json_object ser cmd_op_req_body_object"

definition cmd_op_req_body_from_json :: "(string \<Rightarrow> fault + jvalue) \<Rightarrow> cmd_op_req_body loader" where
  "cmd_op_req_body_from_json par = from_json_object par
     (f_then (f_assign ''command'' as_string (\<lambda>v x. x\<lparr>cmd_op_command := v\<rparr>))
       (f_assign ''paramers'' value_to_strings (\<lambda>v x. x\<lparr>cmd_op_paramers := v\<rparr>)))"

definition cmd_op_req_body_to_kv :: "cmd_op_req_body saver" where
  "cmd_op_req_body_to_kv =
     s_then (s_write (\<lambda>x. sputc (CHR ''?'')))
       (s_then (s_write (\<lambda>x. kv_to_datas_any (cmd_op_command x)))
         (s_then (s_write (\<lambda>x. sputc (CHR ''='')))
           (s_write (\<lambda>x. kv_to_datas_any (cmd_op_paramers x)))))"

definition cmd_op_req_body_from_kv :: "cmd_op_req_body loader" where
  "cmd_op_req_body_from_kv =
     l_then (kv_assign [] cmd_op_command (\<lambda>v x. x\<lparr>cmd_op_command := v\<rparr>))
       (kv_assign [] cmd_op_paramers (\<lambda>v x. x\<lparr>cmd_op_paramers := v\<rparr>))"

definition cmd_op_req_body_ops ::
  "limits \<Rightarrow> (string \<Rightarrow> fault + jvalue) \<Rightarrow> (jvalue \<Rightarrow> string) \<Rightarrow> cmd_op_req_body serialization" where
  "cmd_op_req_body_ops lim par ser =
     \<lparr>to_binary = cmd_op_req_body_to_binary, from_binary = cmd_op_req_body_from_binary lim,
      to_json = cmd_op_req_body_to_json ser, from_json = cmd_op_req_body_from_json par,
      to_kv = cmd_op_req_body_to_kv, from_kv = cmd_op_req_body_from_kv\<rparr>"

definition cmd_op_req_body_valid :: "limits \<Rightarrow> cmd_op_req_body \<Rightarrow> bool" where
  "cmd_op_req_body_valid lim x \<longleftrightarrow> fits_string lim (cmd_op_command x) \<and> fits_strings lim (cmd_op_paramers x)"

definition cmd_op_req_body_bytes :: "cmd_op_req_body \<Rightarrow> string" where
  "cmd_op_req_body_bytes x = string_bytes (cmd_op_command x) @ strings_bytes (cmd_op_paramers x)"

interpretation cmd_op_req_body: body_codec "cmd_op_req_body_ops lim par ser" "cmd_op_req_body_valid lim" cmd_op_req_body_bytes
  for lim par ser
proof
  fix x y :: cmd_op_req_body
  assume v: "cmd_op_req_body_valid lim x"
  show "saves (to_binary (cmd_op_req_body_ops lim par ser)) x (cmd_op_req_body_bytes x)"
    using v unfolding cmd_op_req_body_ops_def cmd_op_req_body_to_binary_def cmd_op_req_body_bytes_def cmd_op_req_body_valid_def
    by (simp, intro saves_then saves_write) (auto intro: field_appends)
  show "loads (from_binary (cmd_op_req_body_ops lim par ser)) (cmd_op_req_body_bytes x) y x"
    using v unfolding cmd_op_req_body_ops_def cmd_op_req_body_from_binary_def cmd_op_req_body_bytes_def cmd_op_req_body_valid_def
    by simp ((rule loads_then loads_assignI field_decodes refl | simp)+)?
next
  show "l_prefix (from_binary (cmd_op_req_body_ops lim par ser))"
    unfolding cmd_op_req_body_ops_def cmd_op_req_body_from_binary_def by (simp, intro l_prefix_then l_prefix_assign field_prefix)
qed

interpretation cmd_op_req_body_json: json_codec "cmd_op_req_body_ops lim par ser" par ser cmd_op_req_body_object
  for lim par ser
  by unfold_locales
    (simp_all add: cmd_op_req_body_ops_def cmd_op_req_body_to_json_def cmd_op_req_body_from_json_def cmd_op_req_body_object_def
      from_json_object_norm f_then_def f_assign_def del: json_norm.simps)

interpretation cmd_op_req_body_kv: kv_codec "cmd_op_req_body_ops lim par ser" cmd_op_req_body_default "1"
  for lim par ser
  by unfold_locales
    (simp_all add: cmd_op_req_body_ops_def cmd_op_req_body_to_kv_def cmd_op_req_body_from_kv_def cmd_op_req_body_default_def kv_step_simps numeral_eq_Suc)

section \<open>cmd_op_resp_body\<close>

record cmd_op_resp_body =
  cmd_op_output :: string

definition cmd_op_resp_body_default :: cmd_op_resp_body where
  "cmd_op_resp_body_default = \<lparr>cmd_op_output = []\<rparr>"

definition cmd_op_resp_body_to_binary :: "cmd_op_resp_body saver" where
  "cmd_op_resp_body_to_binary =
     s_write (\<lambda>x. to_datas_string (cmd_op_output x))"

definition cmd_op_resp_body_from_binary :: "limits \<Rightarrow> cmd_op_resp_body loader" where
  "cmd_op_resp_body_from_binary lim =
     l_assign (from_datas_string lim) (\<lambda>v x. x\<lparr>cmd_op_output := v\<rparr>)"

definition cmd_op_resp_body_object :: "cmd_op_resp_body \<Rightarrow> jobject" where
  "cmd_op_resp_body_object x =
     [(''output'', J_string (cmd_op_output x))]"

definition cmd_op_resp_body_to_json :: "(jvalue \<Rightarrow> string) \<Rightarrow> cmd_op_resp_body saver" where
  "cmd_op_resp_body_to_json ser = to_json_object ser cmd_op_resp_body_object"

definition cmd_op_resp_body_from_json :: "(string \<Rightarrow> fault + jvalue) \<Rightarrow> cmd_op_resp_body loader" where
  "cmd_op_resp_body_from_json par = from_json_object par
     (f_assign ''output'' as_string (\<lambda>v x. x\<lparr>cmd_op_output := v\<rparr>))"

definition cmd_op_resp_body_to_kv :: "cmd_op_resp_body saver" where
  "cmd_op_resp_body_to_kv =
     s_then (s_write (\<lambda>x. sputc (CHR ''?'')))
       (s_write (\<lambda>x. kv_to_datas_any (cmd_op_output x)))"

definition cmd_op_resp_body_from_kv :: "cmd_op_resp_body loader" where
  "cmd_op_resp_body_from_kv =
     kv_assign [] cmd_op_output (\<lambda>v x. x\<lparr>cmd_op_output := v\<rparr>)"

definition cmd_op_resp_body_ops ::
  "limits \<Rightarrow> (string \<Rightarrow> fault + jvalue) \<Rightarrow> (jvalue \<Rightarrow> string) \<Rightarrow> cmd_op_resp_body serialization" where
  "cmd_op_resp_body_ops lim par ser =
     \<lparr>to_binary = cmd_op_resp_body_to_binary, from_binary = cmd_op_resp_body_from_binary lim,
      to_json = cmd_op_resp_body_to_json ser, from_json = cmd_op_resp_body_from_json par,
      to_kv = cmd_op_resp_body_to_kv, from_kv = cmd_op_resp_body_from_kv\<rparr>"

definition cmd_op_resp_body_valid :: "limits \<Rightarrow> cmd_op_resp_body \<Rightarrow> bool" where
  "cmd_op_resp_body_valid lim x \<longleftrightarrow> fits_string lim (cmd_op_output x)"

definition cmd_op_resp_body_bytes :: "cmd_op_resp_body \<Rightarrow> string" where
  "cmd_op_resp_body_bytes x = string_bytes (cmd_op_output x)"

interpretation cmd_op_resp_body: body_codec "cmd_op_resp_body_ops lim par ser" "cmd_op_resp_body_valid lim" cmd_op_resp_body_bytes
  for lim par ser
proof
  fix x y :: cmd_op_resp_body
  assume v: "cmd_op_resp_body_valid lim x"
  show "saves (to_binary (cmd_op_resp_body_ops lim par ser)) x (cmd_op_resp_body_bytes x)"
    using v unfolding cmd_op_resp_body_ops_def cmd_op_resp_body_to_binary_def cmd_op_resp_body_bytes_def cmd_op_resp_body_valid_def
    by (simp, intro saves_then saves_write) (auto intro: field_appends)
  show "loads (from_binary (cmd_op_resp_body_ops lim par ser)) (cmd_op_resp_body_bytes x) y x"
    using v unfolding cmd_op_resp_body_ops_def cmd_op_resp_body_from_binary_def cmd_op_resp_body_bytes_def cmd_op_resp_body_valid_def
    by simp ((rule loads_then loads_assignI field_decodes refl | simp)+)?
next
  show "l_prefix (from_binary (cmd_op_resp_body_ops lim par ser))"
    unfolding cmd_op_resp_body_ops_def cmd_op_resp_body_from_binary_def by (simp, intro l_prefix_then l_prefix_assign field_prefix)
qed

interpretation cmd_op_resp_body_json: json_codec "cmd_op_resp_body_ops lim par ser" par ser cmd_op_resp_body_object
  for lim par ser
  by unfold_locales
    (simp_all add: cmd_op_resp_body_ops_def cmd_op_resp_body_to_json_def cmd_op_resp_body_from_json_def cmd_op_resp_body_object_def
      from_json_object_norm f_then_def f_assign_def del: json_norm.simps)

interpretation cmd_op_resp_body_kv: kv_codec "cmd_op_resp_body_ops lim par ser" cmd_op_resp_body_default "0"
  for lim par ser
  by unfold_locales
    (simp_all add: cmd_op_resp_body_ops_def cmd_op_resp_body_to_kv_def cmd_op_resp_body_from_kv_def cmd_op_resp_body_default_def kv_step_simps numeral_eq_Suc)

section \<open>subs_list_resp_body\<close>

record subs_list_resp_body =
  subs_list_keys :: "string list"

definition subs_list_resp_body_default :: subs_list_resp_body where
  "subs_list_resp_body_default = \<lparr>subs_list_keys = []\<rparr>"

definition subs_list_resp_body_to_binary :: "subs_list_resp_body saver" where
  "subs_list_resp_body_to_binary =
     s_write (\<lambda>x. to_datas_strings (subs_list_keys x))"

definition subs_list_resp_body_from_binary :: "limits \<Rightarrow> subs_list_resp_body loader" where
  "subs_list_resp_body_from_binary lim =
     l_assign (from_datas_strings lim) (\<lambda>v x. x\<lparr>subs_list_keys := v\<rparr>)"

definition subs_list_resp_body_object :: "subs_list_resp_body \<Rightarrow> jobject" where
  "subs_list_resp_body_object x =
     [(''keys'', value_from_strings (subs_list_keys x))]"

definition subs_list_resp_body_to_json :: "(jvalue \<Rightarrow> string) \<Rightarrow> subs_list_resp_body saver" where
  "subs_list_resp_body_to_json ser = to_json_object ser subs_list_resp_body_object"

definition subs_list_resp_body_from_json :: "(string \<Rightarrow> fault + jvalue) \<Rightarrow> subs_list_resp_body loader" where
  "subs_list_resp_body_from_json par = from_json_object par
     (f_assign ''keys'' value_to_strings (\<lambda>v x. x\<lparr>subs_list_keys := v\<rparr>))"

definition subs_list_resp_body_to_kv :: "subs_list_resp_body saver" where
  "subs_list_resp_body_to_kv =
     s_then (s_write (\<lambda>x. sputc (CHR ''?'')))
       (s_write (\<lambda>x. kv_to_datas_any (subs_list_keys x)))"

definition subs_list_resp_body_from_kv :: "subs_list_resp_body loader" where
  "subs_list_resp_body_from_kv =
     kv_assign [] subs_list_keys (\<lambda>v x. x\<lparr>subs_list_keys := v\<rparr>)"

definition subs_list_resp_body_ops ::
  "limits \<Rightarrow> (string \<Rightarrow> fault + jvalue) \<Rightarrow> (jvalue \<Rightarrow> string) \<Rightarrow> subs_list_resp_body serialization" where
  "subs_list_resp_body_ops lim par ser =
     \<lparr>to_binary = subs_list_resp_body_to_binary, from_binary = subs_list_resp_body_from_binary lim,
      to_json = subs_list_resp_body_to_json ser, from_json = subs_list_resp_body_from_json par,
      to_kv = subs_list_resp_body_to_kv, from_kv = subs_list_resp_body_from_kv\<rparr>"

definition subs_list_resp_body_valid :: "limits \<Rightarrow> subs_list_resp_body \<Rightarrow> bool" where
  "subs_list_resp_body_valid lim x \<longleftrightarrow> fits_strings lim (subs_list_keys x)"

definition subs_list_resp_body_bytes :: "subs_list_resp_body \<Rightarrow> string" where
  "subs_list_resp_body_bytes x = strings_bytes (subs_list_keys x)"

interpretation subs_list_resp_body: body_codec "subs_list_resp_body_ops lim par ser" "subs_list_resp_body_valid lim" subs_list_resp_body_bytes
  for lim par ser
proof
  fix x y :: subs_list_resp_body
  assume v: "subs_list_resp_body_valid lim x"
  show "saves (to_binary (subs_list_resp_body_ops lim par ser)) x (subs_list_resp_body_bytes x)"
    using v unfolding subs_list_resp_body_ops_def subs_list_resp_body_to_binary_def subs_list_resp_body_bytes_def subs_list_resp_body_valid_def
    by (simp, intro saves_then saves_write) (auto intro: field_appends)
  show "loads (from_binary (subs_list_resp_body_ops lim par ser)) (subs_list_resp_body_bytes x) y x"
    using v unfolding subs_list_resp_body_ops_def subs_list_resp_body_from_binary_def subs_list_resp_body_bytes_def subs_list_resp_body_valid_def
    by simp ((rule loads_then loads_assignI field_decodes refl | simp)+)?
next
  show "l_prefix (from_binary (subs_list_resp_body_ops lim par ser))"
    unfolding subs_list_resp_body_ops_def subs_list_resp_body_from_binary_def by (simp, intro l_prefix_then l_prefix_assign field_prefix)
qed

interpretation subs_list_resp_body_json: json_codec "subs_list_resp_body_ops lim par ser" par ser subs_list_resp_body_object
  for lim par ser
  by unfold_locales
    (simp_all add: subs_list_resp_body_ops_def subs_list_resp_body_to_json_def subs_list_resp_body_from_json_def subs_list_resp_body_object_def
      from_json_object_norm f_then_def f_assign_def del: json_norm.simps)

interpretation subs_list_resp_body_kv: kv_codec "subs_list_resp_body_ops lim par ser" subs_list_resp_body_default "0"
  for lim par ser
  by unfold_locales
    (simp_all add: subs_list_resp_body_ops_def subs_list_resp_body_to_kv_def subs_list_resp_body_from_kv_def subs_list_resp_body_default_def kv_step_simps numeral_eq_Suc)

section \<open>query_sql_req_body\<close>

record query_sql_req_body =
  query_sql :: string

definition query_sql_req_body_default :: query_sql_req_body where
  "query_sql_req_body_default = \<lparr>query_sql = []\<rparr>"

definition query_sql_req_body_to_binary :: "query_sql_req_body saver" where
  "query_sql_req_body_to_binary =
     s_write (\<lambda>x. to_datas_string (query_sql x))"

definition query_sql_req_body_from_binary :: "limits \<Rightarrow> query_sql_req_body loader" where
  "query_sql_req_body_from_binary lim =
     l_assign (from_datas_string lim) (\<lambda>v x. x\<lparr>query_sql := v\<rparr>)"

definition query_sql_req_body_object :: "query_sql_req_body \<Rightarrow> jobject" where
  "query_sql_req_body_object x =
     [(''sql'', J_string (query_sql x))]"

definition query_sql_req_body_to_json :: "(jvalue \<Rightarrow> string) \<Rightarrow> query_sql_req_body saver" where
  "query_sql_req_body_to_json ser = to_json_object ser query_sql_req_body_object"

definition query_sql_req_body_from_json :: "(string \<Rightarrow> fault + jvalue) \<Rightarrow> query_sql_req_body loader" where
  "query_sql_req_body_from_json par = from_json_object par
     (f_assign ''sql'' as_string (\<lambda>v x. x\<lparr>query_sql := v\<rparr>))"

definition query_sql_req_body_to_kv :: "query_sql_req_body saver" where
  "query_sql_req_body_to_kv =
     s_then (s_write (\<lambda>x. sputc (CHR ''?'')))
       (s_write (\<lambda>x. kv_to_datas_any (query_sql x)))"

definition query_sql_req_body_from_kv :: "query_sql_req_body loader" where
  "query_sql_req_body_from_kv =
     kv_assign [] query_sql (\<lambda>v x. x\<lparr>query_sql := v\<rparr>)"

definition query_sql_req_body_ops ::
  "limits \<Rightarrow> (string \<Rightarrow> fault + jvalue) \<Rightarrow> (jvalue \<Rightarrow> string) \<Rightarrow> query_sql_req_body serialization" where
  "query_sql_req_body_ops lim par ser =
     \<lparr>to_binary = query_sql_req_body_to_binary, from_binary = query_sql_req_body_from_binary lim,
      to_json = query_sql_req_body_to_json ser, from_json = query_sql_req_body_from_json par,
      to_kv = query_sql_req_body_to_kv, from_kv = query_sql_req_body_from_kv\<rparr>"

definition query_sql_req_body_valid :: "limits \<Rightarrow> query_sql_req_body \<Rightarrow> bool" where
  "query_sql_req_body_valid lim x \<longleftrightarrow> fits_string lim (query_sql x)"

definition query_sql_req_body_bytes :: "query_sql_req_body \<Rightarrow> string" where
  "query_sql_req_body_bytes x = string_bytes (query_sql x)"

interpretation query_sql_req_body: body_codec "query_sql_req_body_ops lim par ser" "query_sql_req_body_valid lim" query_sql_req_body_bytes
  for lim par ser
proof
  fix x y :: query_sql_req_body
  assume v: "query_sql_req_body_valid lim x"
  show "saves (to_binary (query_sql_req_body_ops lim par ser)) x (query_sql_req_body_bytes x)"
    using v unfolding query_sql_req_body_ops_def query_sql_req_body_to_binary_def query_sql_req_body_bytes_def query_sql_req_body_valid_def
    by (simp, intro saves_then saves_write) (auto intro: field_appends)
  show "loads (from_binary (query_sql_req_body_ops lim par ser)) (query_sql_req_body_bytes x) y x"
    using v unfolding query_sql_req_body_ops_def query_sql_req_body_from_binary_def query_sql_req_body_bytes_def query_sql_req_body_valid_def
    by simp ((rule loads_then loads_assignI field_decodes refl | simp)+)?
next
  show "l_prefix (from_binary (query_sql_req_body_ops lim par ser))"
    unfolding query_sql_req_body_ops_def query_sql_req_body_from_binary_def by (simp, intro l_prefix_then l_prefix_assign field_prefix)
qed

interpretation query_sql_req_body_json: json_codec "query_sql_req_body_ops lim par ser" par ser query_sql_req_body_object
  for lim par ser
  by unfold_locales
    (simp_all add: query_sql_req_body_ops_def query_sql_req_body_to_json_def query_sql_req_body_from_json_def query_sql_req_body_object_def
      from_json_object_norm f_then_def f_assign_def del: json_norm.simps)

interpretation query_sql_req_body_kv: kv_codec "query_sql_req_body_ops lim par ser" query_sql_req_body_default "0"
  for lim par ser
  by unfold_locales
    (simp_all add: query_sql_req_body_ops_def query_sql_req_body_to_kv_def query_sql_req_body_from_kv_def query_sql_req_body_default_def kv_step_simps numeral_eq_Suc)

section \<open>query_sql_resp_body\<close>

record query_sql_resp_body =
  query_results :: "string list"

definition query_sql_resp_body_default :: query_sql_resp_body where
  "query_sql_resp_body_default = \<lparr>query_results = []\<rparr>"

definition query_sql_resp_body_to_binary :: "query_sql_resp_body saver" where
  "query_sql_resp_body_to_binary =
     s_write (\<lambda>x. to_datas_strings (query_results x))"

definition query_sql_resp_body_from_binary :: "limits \<Rightarrow> query_sql_resp_body loader" where
  "query_sql_resp_body_from_binary lim =
     l_assign (from_datas_strings lim) (\<lambda>v x. x\<lparr>query_results := v\<rparr>)"

definition query_sql_resp_body_object :: "query_sql_resp_body \<Rightarrow> jobject" where
  "query_sql_resp_body_object x =
     [(''results'', value_from_strings (query_results x))]"

definition query_sql_resp_body_to_json :: "(jvalue \<Rightarrow> string) \<Rightarrow> query_sql_resp_body saver" where
  "query_sql_resp_body_to_json ser = to_json_object ser query_sql_resp_body_object"

definition query_sql_resp_body_from_json :: "(string \<Rightarrow> fault + jvalue) \<Rightarrow> query_sql_resp_body loader" where
  "query_sql_resp_body_from_json par = from_json_object par
     (f_assign ''results'' value_to_strings (\<lambda>v x. x\<lparr>query_results := v\<rparr>))"

definition query_sql_resp_body_to_kv :: "query_sql_resp_body saver" where
  "query_sql_resp_body_to_kv =
     s_then (s_write (\<lambda>x. sputc (CHR ''?'')))
       (s_write (\<lambda>x. kv_to_datas_any (query_results x)))"

definition query_sql_resp_body_from_kv :: "query_sql_resp_body loader" where
  "query_sql_resp_body_from_kv =
     kv_assign [] query_results (\<lambda>v x. x\<lparr>query_results := v\<rparr>)"

definition query_sql_resp_body_ops ::
  "limits \<Rightarrow> (string \<Rightarrow> fault + jvalue) \<Rightarrow> (jvalue \<Rightarrow> string) \<Rightarrow> query_sql_resp_body serialization" where
  "query_sql_resp_body_ops lim par ser =
     \<lparr>to_binary = query_sql_resp_body_to_binary, from_binary = query_sql_resp_body_from_binary lim,
      to_json = query_sql_resp_body_to_json ser, from_json = query_sql_resp_body_from_json par,
      to_kv = query_sql_resp_body_to_kv, from_kv = query_sql_resp_body_from_kv\<rparr>"

definition query_sql_resp_body_valid :: "limits \<Rightarrow> query_sql_resp_body \<Rightarrow> bool" where
  "query_sql_resp_body_valid lim x \<longleftrightarrow> fits_strings lim (query_results x)"

definition query_sql_resp_body_bytes :: "query_sql_resp_body \<Rightarrow> string" where
  "query_sql_resp_body_bytes x = strings_bytes (query_results x)"

interpretation query_sql_resp_body: body_codec "query_sql_resp_body_ops lim par ser" "query_sql_resp_body_valid lim" query_sql_resp_body_bytes
  for lim par ser
proof
  fix x y :: query_sql_resp_body
  assume v: "query_sql_resp_body_valid lim x"
  show "saves (to_binary (query_sql_resp_body_ops lim par ser)) x (query_sql_resp_body_bytes x)"
    using v unfolding query_sql_resp_body_ops_def query_sql_resp_body_to_binary_def query_sql_resp_body_bytes_def query_sql_resp_body_valid_def
    by (simp, intro saves_then saves_write) (auto intro: field_appends)
  show "loads (from_binary (query_sql_resp_body_ops lim par ser)) (query_sql_resp_body_bytes x) y x"
    using v unfolding query_sql_resp_body_ops_def query_sql_resp_body_from_binary_def query_sql_resp_body_bytes_def query_sql_resp_body_valid_def
    by simp ((rule loads_then loads_assignI field_decodes refl | simp)+)?
next
  show "l_prefix (from_binary (query_sql_resp_body_ops lim par ser))"
    unfolding query_sql_resp_body_ops_def query_sql_resp_body_from_binary_def by (simp, intro l_prefix_then l_prefix_assign field_prefix)
qed

interpretation query_sql_resp_body_json: json_codec "query_sql_resp_body_ops lim par ser" par ser query_sql_resp_body_object
  for lim par ser
  by unfold_locales
    (simp_all add: query_sql_resp_body_ops_def query_sql_resp_body_to_json_def query_sql_resp_body_from_json_def query_sql_resp_body_object_def
      from_json_object_norm f_then_def f_assign_def del: json_norm.simps)

interpretation query_sql_resp_body_kv: kv_codec "query_sql_resp_body_ops lim par ser" query_sql_resp_body_default "0"
  for lim par ser
  by unfold_locales
    (simp_all add: query_sql_resp_body_ops_def query_sql_resp_body_to_kv_def query_sql_resp_body_from_kv_def query_sql_resp_body_default_def kv_step_simps numeral_eq_Suc)

section \<open>execute_sql_req_body\<close>

record execute_sql_req_body =
  execute_sql :: string

definition execute_sql_req_body_default :: execute_sql_req_body where
  "execute_sql_req_body_default = \<lparr>execute_sql = []\<rparr>"

definition execute_sql_req_body_to_binary :: "execute_sql_req_body saver" where
  "execute_sql_req_body_to_binary =
     s_write (\<lambda>x. to_datas_string (execute_sql x))"

definition execute_sql_req_body_from_binary :: "limits \<Rightarrow> execute_sql_req_body loader" where
  "execute_sql_req_body_from_binary lim =
     l_assign (from_datas_string lim) (\<lambda>v x. x\<lparr>execute_sql := v\<rparr>)"

definition execute_sql_req_body_object :: "execute_sql_req_body \<Rightarrow> jobject" where
  "execute_sql_req_body_object x =
     [(''sql'', J_string (execute_sql x))]"

definition execute_sql_req_body_to_json :: "(jvalue \<Rightarrow> string) \<Rightarrow> execute_sql_req_body saver" where
  "execute_sql_req_body_to_json ser = to_json_object ser execute_sql_req_body_object"

definition execute_sql_req_body_from_json :: "(string \<Rightarrow> fault + jvalue) \<Rightarrow> execute_sql_req_body loader" where
  "execute_sql_req_body_from_json par = from_json_object par
     (f_assign ''sql'' as_string (\<lambda>v x. x\<lparr>execute_sql := v\<rparr>))"

definition execute_sql_req_body_to_kv :: "execute_sql_req_body saver" where
  "execute_sql_req_body_to_kv =
     s_then (s_write (\<lambda>x. sputc (CHR ''?'')))
       (s_write (\<lambda>x. kv_to_datas_any (execute_sql x)))"

definition execute_sql_req_body_from_kv :: "execute_sql_req_body loader" where
  "execute_sql_req_body_from_kv =
     kv_assign [] execute_sql (\<lambda>v x. x\<lparr>execute_sql := v\<rparr>)"

definition execute_sql_req_body_ops ::
  "limits \<Rightarrow> (string \<Rightarrow> fault + jvalue) \<Rightarrow> (jvalue \<Rightarrow> string) \<Rightarrow> execute_sql_req_body serialization" where
  "execute_sql_req_body_ops lim par ser =
     \<lparr>to_binary = execute_sql_req_body_to_binary, from_binary = execute_sql_req_body_from_binary lim,
      to_json = execute_sql_req_body_to_json ser, from_json = execute_sql_req_body_from_json par,
      to_kv = execute_sql_req_body_to_kv, from_kv = execute_sql_req_body_from_kv\<rparr>"

definition execute_sql_req_body_valid :: "limits \<Rightarrow> execute_sql_req_body \<Rightarrow> bool" where
  "execute_sql_req_body_valid lim x \<longleftrightarrow> fits_string lim (execute_sql x)"

definition execute_sql_req_body_bytes :: "execute_sql_req_body \<Rightarrow> string" where
  "execute_sql_req_body_bytes x = string_bytes (execute_sql x)"

interpretation execute_sql_req_body: body_codec "execute_sql_req_body_ops lim par ser" "execute_sql_req_body_valid lim" execute_sql_req_body_bytes
  for lim par ser
proof
  fix x y :: execute_sql_req_body
  assume v: "execute_sql_req_body_valid lim x"
  show "saves (to_binary (execute_sql_req_body_ops lim par ser)) x (execute_sql_req_body_bytes x)"
    using v unfolding execute_sql_req_body_ops_def execute_sql_req_body_to_binary_def execute_sql_req_body_bytes_def execute_sql_req_body_valid_def
    by (simp, intro saves_then saves_write) (auto intro: field_appends)
  show "loads (from_binary (execute_sql_req_body_ops lim par ser)) (execute_sql_req_body_bytes x) y x"
    using v unfolding execute_sql_req_body_ops_def execute_sql_req_body_from_binary_def execute_sql_req_body_bytes_def execute_sql_req_body_valid_def
    by simp ((rule loads_then loads_assignI field_decodes refl | simp)+)?
next
  show "l_prefix (from_binary (execute_sql_req_body_ops lim par ser))"
    unfolding execute_sql_req_body_ops_def execute_sql_req_body_from_binary_def by (simp, intro l_prefix_then l_prefix_assign field_prefix)
qed

interpretation execute_sql_req_body_json: json_codec "execute_sql_req_body_ops lim par ser" par ser execute_sql_req_body_object
  for lim par ser
  by unfold_locales
    (simp_all add: execute_sql_req_body_ops_def execute_sql_req_body_to_json_def execute_sql_req_body_from_json_def execute_sql_req_body_object_def
      from_json_object_norm f_then_def f_assign_def del: json_norm.simps)

interpretation execute_sql_req_body_kv: kv_codec "execute_sql_req_body_ops lim par ser" execute_sql_req_body_default "0"
  for lim par ser
  by unfold_locales
    (simp_all add: execute_sql_req_body_ops_def execute_sql_req_body_to_kv_def execute_sql_req_body_from_kv_def execute_sql_req_body_default_def kv_step_simps numeral_eq_Suc)

section \<open>execute_sql_resp_body\<close>

record execute_sql_resp_body =
  execute_affected :: "32 word"

definition execute_sql_resp_body_default :: execute_sql_resp_body where
  "execute_sql_resp_body_default = \<lparr>execute_affected = 0\<rparr>"

definition execute_sql_resp_body_to_binary :: "execute_sql_resp_body saver" where
  "execute_sql_resp_body_to_binary =
     s_write (\<lambda>x. to_datas_integer (execute_affected x))"

definition execute_sql_resp_body_from_binary :: "execute_sql_resp_body loader" where
  "execute_sql_resp_body_from_binary =
     l_assign from_datas_integer (\<lambda>v x. x\<lparr>execute_affected := v\<rparr>)"

definition execute_sql_resp_body_object :: "execute_sql_resp_body \<Rightarrow> jobject" where
  "execute_sql_resp_body_object x =
     [(''affected'', J_uint64 (ucast (execute_affected x)))]"

definition execute_sql_resp_body_to_json :: "(jvalue \<Rightarrow> string) \<Rightarrow> execute_sql_resp_body saver" where
  "execute_sql_resp_body_to_json ser = to_json_object ser execute_sql_resp_body_object"

definition execute_sql_resp_body_from_json :: "(string \<Rightarrow> fault + jvalue) \<Rightarrow> execute_sql_resp_body loader" where
  "execute_sql_resp_body_from_json par = from_json_object par
     (f_assign ''affected'' as_int32 (\<lambda>v x. x\<lparr>execute_affected := v\<rparr>))"

definition execute_sql_resp_body_to_kv :: "execute_sql_resp_body saver" where
  "execute_sql_resp_body_to_kv =
     s_then (s_write (\<lambda>x. sputc (CHR ''?'')))
       (s_write (\<lambda>x. kv_to_datas_any (execute_affected x)))"

definition execute_sql_resp_body_from_kv :: "execute_sql_resp_body loader" where
  "execute_sql_resp_body_from_kv =
     kv_assign 0 execute_affected (\<lambda>v x. x\<lparr>execute_affected := v\<rparr>)"

definition execute_sql_resp_body_ops ::
  "limits \<Rightarrow> (string \<Rightarrow> fault + jvalue) \<Rightarrow> (jvalue \<Rightarrow> string) \<Rightarrow> execute_sql_resp_body serialization" where
  "execute_sql_resp_body_ops lim par ser =
     \<lparr>to_binary = execute_sql_resp_body_to_binary, from_binary = execute_sql_resp_body_from_binary,
      to_json = execute_sql_resp_body_to_json ser, from_json = execute_sql_resp_body_from_json par,
      to_kv = execute_sql_resp_body_to_kv, from_kv = execute_sql_resp_body_from_kv\<rparr>"

definition execute_sql_resp_body_valid :: "limits \<Rightarrow> execute_sql_resp_body \<Rightarrow> bool" where
  "execute_sql_resp_body_valid lim x \<longleftrightarrow> True"

definition execute_sql_resp_body_bytes :: "execute_sql_resp_body \<Rightarrow> string" where
  "execute_sql_resp_body_bytes x = varint (unat (execute_affected x))"

interpretation execute_sql_resp_body: body_codec "execute_sql_resp_body_ops lim par ser" "execute_sql_resp_body_valid lim" execute_sql_resp_body_bytes
  for lim par ser
proof
  fix x y :: execute_sql_resp_body
  assume v: "execute_sql_resp_body_valid lim x"
  show "saves (to_binary (execute_sql_resp_body_ops lim par ser)) x (execute_sql_resp_body_bytes x)"
    using v unfolding execute_sql_resp_body_ops_def execute_sql_resp_body_to_binary_def execute_sql_resp_body_bytes_def execute_sql_resp_body_valid_def
    by (simp, intro saves_then saves_write) (auto intro: field_appends)
  show "loads (from_binary (execute_sql_resp_body_ops lim par ser)) (execute_sql_resp_body_bytes x) y x"
    using v unfolding execute_sql_resp_body_ops_def execute_sql_resp_body_from_binary_def execute_sql_resp_body_bytes_def execute_sql_resp_body_valid_def
    by simp ((rule loads_then loads_assignI field_decodes refl | simp)+)?
next
  show "l_prefix (from_binary (execute_sql_resp_body_ops lim par ser))"
    unfolding execute_sql_resp_body_ops_def execute_sql_resp_body_from_binary_def by (simp, intro l_prefix_then l_prefix_assign field_prefix)
qed

interpretation execute_sql_resp_body_json: json_codec "execute_sql_resp_body_ops lim par ser" par ser execute_sql_resp_body_object
  for lim par ser
  by unfold_locales
    (simp_all add: execute_sql_resp_body_ops_def execute_sql_resp_body_to_json_def execute_sql_resp_body_from_json_def execute_sql_resp_body_object_def
      from_json_object_norm f_then_def f_assign_def del: json_norm.simps)

interpretation execute_sql_resp_body_kv: kv_codec "execute_sql_resp_body_ops lim par ser" execute_sql_resp_body_default "0"
  for lim par ser
  by unfold_locales
    (simp_all add: execute_sql_resp_body_ops_def execute_sql_resp_body_to_kv_def execute_sql_resp_body_from_kv_def execute_sql_resp_body_default_def kv_step_simps numeral_eq_Suc)


section \<open>Routers\<close>

definition login_router :: string where "login_router = ''/login''"

definition regist_router :: string where "regist_router = ''9000''"

definition publish_router :: string where "publish_router = ''9001''"

definition shake_router :: string where "shake_router = ''8000''"

definition subs_list_router :: string where "subs_list_router = ''9100''"

definition cmd_op_router :: string where "cmd_op_router = ''9200''"

definition query_sql_router :: string where "query_sql_router = ''7000''"

definition execute_sql_router :: string where "execute_sql_router = ''7001''"

section \<open>Properties\<close>

text \<open>
  A registration request sent the binary way arrives: the receiver reads the router off
  the front, and \<open>consume\<close> on the rest restores header and body, all seven fields, into
  whatever message object it is given, and leaves exactly what follows the message.
\<close>

theorem regist_request_roundtrip:
  assumes "regist_req_body_valid lim (body m)" and "way (header m) = 0"
    and "4 \<le> string_max lim"
  shows "\<exists>bs. commit_request regist_router (regist_req_body_ops lim par ser) m b =
                (Inr no_error, b @ router_bytes regist_router @ bs) \<and>
              from_datas_string lim (router_bytes regist_router @ bs @ rest) = (Inr regist_router, bs @ rest) \<and>
              consume_request (regist_req_body_ops lim par ser) m0 (bs @ rest) = (Inr no_error, m, rest)"
proof -
  have "decodes (from_datas_string lim) (router_bytes regist_router) regist_router"
    using assms(3) unfolding router_bytes_def by (intro decodes_string) (simp_all add: regist_router_def)
  then show ?thesis
    using regist_req_body.request_roundtrip [OF assms(1,2), of regist_router par ser b m0 rest]
    by (auto simp: decodes_def regist_router_def)
qed

theorem regist_request_roundtrip_witness:
  "\<exists>bs. commit_request regist_router (regist_req_body_ops \<lparr>string_max = 100, vector_max = 100\<rparr> (\<lambda>_. Inr J_null) (\<lambda>_. []))
            \<lparr>header = \<lparr>uuid = 7, timestamp = -1, way = 0\<rparr>,
             body = \<lparr>regist_name = ''db'', regist_host = ''127.0.0.1'', regist_port = 3306, regist_healthy = True,
                     regist_group = ''g'', regist_weight = 2, regist_version = ''1.0''\<rparr>\<rparr> [] =
              (Inr no_error, [] @ router_bytes regist_router @ bs) \<and>
          from_datas_string \<lparr>string_max = 100, vector_max = 100\<rparr> (router_bytes regist_router @ bs @ ''x'') =
            (Inr regist_router, bs @ ''x'') \<and>
          consume_request (regist_req_body_ops \<lparr>string_max = 100, vector_max = 100\<rparr> (\<lambda>_. Inr J_null) (\<lambda>_. []))
              \<lparr>header = tcp_header_default, body = regist_req_body_default\<rparr> (bs @ ''x'') =
            (Inr no_error,
             \<lparr>header = \<lparr>uuid = 7, timestamp = -1, way = 0\<rparr>,
              body = \<lparr>regist_name = ''db'', regist_host = ''127.0.0.1'', regist_port = 3306, regist_healthy = True,
                      regist_group = ''g'', regist_weight = 2, regist_version = ''1.0''\<rparr>\<rparr>, ''x'')"
  by (rule regist_request_roundtrip) (simp_all add: regist_req_body_valid_def fits_string_def)

text \<open>
  A response carries its result as well: the reply to a query restores header, body and
  result, for every result in the range \<open>[-2^30, 2^30)\<close> that the 32-bit encoding preserves.
\<close>

theorem query_sql_response_roundtrip:
  assumes "query_sql_resp_body_valid lim (body m)" and "way (header m) = 0"
    and "- (2 ^ 30) \<le> sint (result m)" and "sint (result m) < 2 ^ 30"
  shows "\<exists>bs. commit_response query_sql_router (query_sql_resp_body_ops lim par ser) m b =
                (Inr no_error, b @ router_bytes query_sql_router @ bs) \<and>
              consume_response (query_sql_resp_body_ops lim par ser) m0 (bs @ rest) = (Inr no_error, m, rest)"
  using assms by (intro query_sql_resp_body.response_roundtrip) (simp_all add: query_sql_router_def)

theorem query_sql_response_roundtrip_witness:
  "\<exists>bs. commit_response query_sql_router (query_sql_resp_body_ops \<lparr>string_max = 100, vector_max = 100\<rparr> (\<lambda>_. Inr J_null) (\<lambda>_. []))
            \<lparr>header = \<lparr>uuid = 7, timestamp = 1, way = 0\<rparr>, body = \<lparr>query_results = [''a'', ''bc'']\<rparr>, result = 5\<rparr> [] =
              (Inr no_error, [] @ router_bytes query_sql_router @ bs) \<and>
          consume_response (query_sql_resp_body_ops \<lparr>string_max = 100, vector_max = 100\<rparr> (\<lambda>_. Inr J_null) (\<lambda>_. []))
              \<lparr>header = tcp_header_default, body = query_sql_resp_body_default, result = 0\<rparr> (bs @ ''x'') =
            (Inr no_error,
             \<lparr>header = \<lparr>uuid = 7, timestamp = 1, way = 0\<rparr>, body = \<lparr>query_results = [''a'', ''bc'']\<rparr>, result = 5\<rparr>, ''x'')"
  by (rule query_sql_response_roundtrip)
    (simp_all add: query_sql_resp_body_valid_def fits_strings_def fits_string_def)

text \<open>
  The JSON way: when the JSON library parses what it printed for the body, up to the kind
  of small unsigned numbers, a registration request is restored. The text of the body stays
  in the receiver's buffer, since \<open>from_json\<close> does not consume it.
\<close>

theorem regist_json_roundtrip:
  assumes "par (ser (J_object (regist_req_body_object (body m)))) =
             Inr (json_norm (J_object (regist_req_body_object (body m))))"
    and "way (header m) = 1"
  shows "\<exists>bs. commit_request regist_router (regist_req_body_ops lim par ser) m b =
                (Inr no_error, b @ router_bytes regist_router @ bs) \<and>
              consume_request (regist_req_body_ops lim par ser) m0 bs =
                (Inr no_error, m, ser (J_object (regist_req_body_object (body m))))"
  using assms by (intro regist_req_body_json.json_request_roundtrip) (simp_all add: regist_router_def)

theorem regist_json_roundtrip_witness:
  "\<exists>bs. commit_request regist_router
           (regist_req_body_ops \<lparr>string_max = 100, vector_max = 100\<rparr> (\<lambda>_. Inr (json_norm (J_object (regist_req_body_object regist_req_body_default))))
              (\<lambda>_. ''{}''))
           \<lparr>header = \<lparr>uuid = 7, timestamp = 1, way = 1\<rparr>, body = regist_req_body_default\<rparr> [] =
             (Inr no_error, [] @ router_bytes regist_router @ bs) \<and>
         consume_request
           (regist_req_body_ops \<lparr>string_max = 100, vector_max = 100\<rparr> (\<lambda>_. Inr (json_norm (J_object (regist_req_body_object regist_req_body_default))))
              (\<lambda>_. ''{}''))
           \<lparr>header = tcp_header_default, body = regist_req_body_default\<rparr> bs =
             (Inr no_error, \<lparr>header = \<lparr>uuid = 7, timestamp = 1, way = 1\<rparr>, body = regist_req_body_default\<rparr>, ''{}'')"
  by (rule regist_json_roundtrip [where m = "\<lparr>header = \<lparr>uuid = 7, timestamp = 1, way = 1\<rparr>,
    body = regist_req_body_default\<rparr>", simplified]) simp

text \<open>
  The key-value way loses the body: whatever a registration request holds, the receiver
  reports success and has a body with every field at its default.
\<close>

theorem regist_kv_loses_body:
  assumes "way (header m) = 2"
  shows "\<exists>bs. commit_request regist_router (regist_req_body_ops lim par ser) m b =
                (Inr no_error, b @ router_bytes regist_router @ bs) \<and>
              consume_request (regist_req_body_ops lim par ser) m0 bs =
                (Inr no_error, m\<lparr>body := regist_req_body_default\<rparr>, ''?======'')"
proof -
  have "''?'' @ replicate 6 (CHR ''='') = ''?======''" by (simp add: numeral_eq_Suc)
  moreover have "length regist_router < 2 ^ 64" by (simp add: regist_router_def)
  ultimately show ?thesis
    using regist_req_body_kv.kv_request_blank [OF assms, of regist_router lim par ser b m0]
    by (simp only:)
qed

theorem regist_kv_loses_body_witness:
  "\<exists>bs. commit_request regist_router (regist_req_body_ops \<lparr>string_max = 100, vector_max = 100\<rparr> (\<lambda>_. Inr J_null) (\<lambda>_. []))
           \<lparr>header = \<lparr>uuid = 7, timestamp = 1, way = 2\<rparr>, body = regist_req_body_default\<lparr>regist_port := 80\<rparr>\<rparr> [] =
             (Inr no_error, [] @ router_bytes regist_router @ bs) \<and>
         consume_request (regist_req_body_ops \<lparr>string_max = 100, vector_max = 100\<rparr> (\<lambda>_. Inr J_null) (\<lambda>_. [])) \<lparr>header = tcp_header_default, body = regist_req_body_default\<rparr> bs =
           (Inr no_error, \<lparr>header = \<lparr>uuid = 7, timestamp = 1, way = 2\<rparr>, body = regist_req_body_default\<rparr>, ''?======'')"
proof -
  let ?m = "\<lparr>header = \<lparr>uuid = 7, timestamp = 1, way = 2\<rparr>, body = regist_req_body_default\<lparr>regist_port := 80\<rparr>\<rparr>"
  have "way (header ?m) = 2" by simp
  from regist_kv_loses_body [OF this] show ?thesis by (simp only: basic_protocol.update_convs)
qed

theorem truncated_header_refused_witness:
  "strict_prefix ''z'' (header_bytes \<lparr>uuid = 122, timestamp = 0, way = 0\<rparr>) \<and>
   fst (consume_request empty_body_ops \<lparr>header = tcp_header_default, body = ()\<rparr> ''z'') =
     Inr (make_error_code_ip ip_consume) \<and>
   body (fst (snd (consume_request empty_body_ops \<lparr>header = tcp_header_default, body = ()\<rparr> ''z''))) = ()"
proof -
  have "strict_prefix ''z'' (header_bytes \<lparr>uuid = 122, timestamp = 0, way = 0\<rparr>)"
    by code_simp
  then show ?thesis using truncated_header_refused by auto
qed

theorem unknown_way_skips_body_witness:
  "commit_request ''9000'' empty_body_ops \<lparr>header = \<lparr>uuid = 1, timestamp = 0, way = 7\<rparr>, body = ()\<rparr> [] =
     (Inr no_error, [] @ router_bytes ''9000'' @ header_bytes \<lparr>uuid = 1, timestamp = 0, way = 7\<rparr>) \<and>
   consume_request empty_body_ops \<lparr>header = tcp_header_default, body = ()\<rparr>
       (header_bytes \<lparr>uuid = 1, timestamp = 0, way = 7\<rparr> @ ''x'') =
     (Inr no_error, \<lparr>header = \<lparr>uuid = 1, timestamp = 0, way = 7\<rparr>, body = ()\<rparr>, ''x'')"
  using unknown_way_skips_body [of "\<lparr>uuid = 1, timestamp = 0, way = 7\<rparr>" "''9000''" empty_body_ops "()" "[]"
      "\<lparr>header = tcp_header_default, body = ()\<rparr>" "''x''"]
  by (simp add: serialize_way_of_def)

end
