(* ===== verification/Session.thy ===== *)
theory Session
  imports Error_Code
begin

text \<open>
  \<open>basic_session\<close> (include/aquarius/basic_session.hpp) and \<open>basic_ssl_session\<close>
  (include/aquarius/basic_ssl_session.hpp) over a socket of the asio library. The socket is a
  parameter: a table of operations on a socket state \<open>'s\<close>, each of which reports an error code.
  A coroutine is the function that its completion computes.

  \<open>stream_socket\<close> is the documented behaviour of a stream that the higher layers rely on: a
  read of \<open>n\<close> bytes returns the next \<open>n\<close> bytes or an error, a read up to a delimiter returns
  everything through it, and a write appends. It is a predicate on a socket and a view of the
  bytes to come, the error that ends them and the bytes sent; \<open>script_ops\<close> satisfies it.
\<close>

record 's socket_ops =
  sock_connect :: "'s \<Rightarrow> string \<Rightarrow> string \<Rightarrow> error_code \<times> 's"
  sock_read :: "'s \<Rightarrow> nat \<Rightarrow> error_code \<times> string \<times> 's"
  sock_read_until :: "'s \<Rightarrow> string \<Rightarrow> string \<Rightarrow> error_code \<times> string \<times> nat \<times> 's"
  sock_write :: "'s \<Rightarrow> string \<Rightarrow> error_code \<times> 's"
  sock_shutdown :: "'s \<Rightarrow> error_code \<times> 's"
  sock_keep_alive :: "'s \<Rightarrow> bool \<Rightarrow> error_code \<times> 's"
  sock_no_delay :: "'s \<Rightarrow> bool \<Rightarrow> error_code \<times> 's"

record 's basic_session =
  socket :: 's
  session_uuid :: "64 word"
  timeout :: int

definition session_new :: "'s \<Rightarrow> int \<Rightarrow> 32 word \<Rightarrow> 's basic_session" where
  "session_new sock dura generated = \<lparr>socket = sock, session_uuid = ucast generated, timeout = dura\<rparr>"

definition session_connect ::
  "'s socket_ops \<Rightarrow> string \<Rightarrow> string \<Rightarrow> 's basic_session \<Rightarrow> error_code \<times> 's basic_session" where
  "session_connect ops host port s =
     (case sock_connect ops (socket s) host port of (ec, sock) \<Rightarrow> (ec, s\<lparr>socket := sock\<rparr>))"

text \<open>\<open>prepare(length)\<close>, read, and \<open>commit(length)\<close> on success.\<close>

definition async_read ::
  "'s socket_ops \<Rightarrow> flex_buffer \<Rightarrow> nat \<Rightarrow> 's basic_session \<Rightarrow> error_code \<times> flex_buffer \<times> 's basic_session" where
  "async_read ops buffer len s =
     (case sock_read ops (socket s) len of
        (ec, bytes, sock) \<Rightarrow>
          (ec, if failed ec then buffer else buffer @ bytes, s\<lparr>socket := sock\<rparr>))"

text \<open>
  \<open>asio::async_read_until\<close> on a \<open>streambuf\<close> searches what is in the buffer first and leaves in
  it everything that was read; it returns the size up to and including the delimiter.
\<close>

definition async_read_until ::
  "'s socket_ops \<Rightarrow> flex_buffer \<Rightarrow> string \<Rightarrow> 's basic_session
     \<Rightarrow> error_code \<times> flex_buffer \<times> nat \<times> 's basic_session" where
  "async_read_until ops buffer delm s =
     (case sock_read_until ops (socket s) buffer delm of
        (ec, buffer', end_pos, sock) \<Rightarrow> (ec, buffer', end_pos, s\<lparr>socket := sock\<rparr>))"

definition async_send :: "'s socket_ops \<Rightarrow> string list \<Rightarrow> 's basic_session \<Rightarrow> error_code \<times> 's basic_session" where
  "async_send ops buffers s =
     (case sock_write ops (socket s) (concat buffers) of (ec, sock) \<Rightarrow> (ec, s\<lparr>socket := sock\<rparr>))"

definition session_shutdown :: "'s socket_ops \<Rightarrow> 's basic_session \<Rightarrow> bool \<times> 's basic_session" where
  "session_shutdown ops s =
     (case sock_shutdown ops (socket s) of (ec, sock) \<Rightarrow> (\<not> failed ec, s\<lparr>socket := sock\<rparr>))"

definition session_keep_alive :: "'s socket_ops \<Rightarrow> bool \<Rightarrow> 's basic_session \<Rightarrow> error_code \<times> 's basic_session" where
  "session_keep_alive ops enable s =
     (case sock_keep_alive ops (socket s) enable of (ec, sock) \<Rightarrow> (ec, s\<lparr>socket := sock\<rparr>))"

definition session_set_nodelay :: "'s socket_ops \<Rightarrow> bool \<Rightarrow> 's basic_session \<Rightarrow> error_code \<times> 's basic_session" where
  "session_set_nodelay ops enable s =
     (case sock_no_delay ops (socket s) enable of (ec, sock) \<Rightarrow> (ec, s\<lparr>socket := sock\<rparr>))"

section \<open>The encrypted session\<close>

text \<open>
  \<open>basic_ssl_session::async_read\<close> prepares space and reads into it, but has no \<open>commit\<close>: the
  bytes do not become readable.
\<close>

definition ssl_async_read ::
  "'s socket_ops \<Rightarrow> flex_buffer \<Rightarrow> nat \<Rightarrow> 's basic_session \<Rightarrow> error_code \<times> flex_buffer \<times> 's basic_session" where
  "ssl_async_read ops buffer len s =
     (case sock_read ops (socket s) len of (ec, bytes, sock) \<Rightarrow> (ec, buffer, s\<lparr>socket := sock\<rparr>))"

definition ssl_async_send :: "'s socket_ops \<Rightarrow> string list \<Rightarrow> 's basic_session \<Rightarrow> error_code \<times> 's basic_session" where
  "ssl_async_send ops buffers s =
     (case sock_write ops (socket s) (concat buffers) of (ec, sock) \<Rightarrow> (ec, s\<lparr>socket := sock\<rparr>))"

section \<open>A stream socket\<close>

definition stream_socket ::
  "'s socket_ops \<Rightarrow> ('s \<Rightarrow> string) \<Rightarrow> ('s \<Rightarrow> error_code) \<Rightarrow> ('s \<Rightarrow> string) \<Rightarrow> bool" where
  "stream_socket ops incoming ending outgoing \<longleftrightarrow>
     (\<forall>s n. n \<le> length (incoming s) \<longrightarrow>
        (\<exists>s'. sock_read ops s n = (no_error, take n (incoming s), s') \<and>
              incoming s' = drop n (incoming s) \<and> ending s' = ending s \<and> outgoing s' = outgoing s)) \<and>
     (\<forall>s n. length (incoming s) < n \<longrightarrow>
        (\<exists>bs s'. sock_read ops s n = (ending s, bs, s') \<and>
                 incoming s' = [] \<and> ending s' = ending s \<and> outgoing s' = outgoing s)) \<and>
     (\<forall>s bs. \<exists>s'. sock_write ops s bs = (no_error, s') \<and>
              incoming s' = incoming s \<and> ending s' = ending s \<and> outgoing s' = outgoing s @ bs) \<and>
     (\<forall>s. failed (ending s))"

lemma async_read_ok:
  assumes "stream_socket ops incoming ending outgoing" and "incoming (socket s) = bs @ rest"
  shows "\<exists>s'. async_read ops b (length bs) s = (no_error, b @ bs, s') \<and>
              incoming (socket s') = rest \<and> ending (socket s') = ending (socket s) \<and>
              outgoing (socket s') = outgoing (socket s)"
proof -
  from assms obtain sock where
    "sock_read ops (socket s) (length bs) = (no_error, bs, sock)" "incoming sock = rest"
    "ending sock = ending (socket s)" "outgoing sock = outgoing (socket s)"
    unfolding stream_socket_def by (metis append_eq_conv_conj length_append le_add1)
  then show ?thesis
    by (intro exI [of _ "s\<lparr>socket := sock\<rparr>"]) (simp add: async_read_def failed_def no_error_def)
qed

lemma async_read_short:
  assumes "stream_socket ops incoming ending outgoing" and "length (incoming (socket s)) < n"
  shows "\<exists>s'. async_read ops b n s = (ending (socket s), b, s') \<and>
              incoming (socket s') = [] \<and> ending (socket s') = ending (socket s) \<and>
              outgoing (socket s') = outgoing (socket s)"
proof -
  from assms obtain bs sock where
    "sock_read ops (socket s) n = (ending (socket s), bs, sock)" "incoming sock = []"
    "ending sock = ending (socket s)" "outgoing sock = outgoing (socket s)"
    unfolding stream_socket_def by metis
  moreover have "failed (ending (socket s))" using assms(1) by (simp add: stream_socket_def)
  ultimately show ?thesis
    by (intro exI [of _ "s\<lparr>socket := sock\<rparr>"]) (simp add: async_read_def)
qed

lemma async_send_ok:
  assumes "stream_socket ops incoming ending outgoing"
  shows "\<exists>s'. async_send ops bss s = (no_error, s') \<and>
        incoming (socket s') = incoming (socket s) \<and> ending (socket s') = ending (socket s) \<and>
        outgoing (socket s') = outgoing (socket s) @ concat bss"
proof -
  from assms obtain sock where
    "sock_write ops (socket s) (concat bss) = (no_error, sock)" "incoming sock = incoming (socket s)"
    "ending sock = ending (socket s)" "outgoing sock = outgoing (socket s) @ concat bss"
    unfolding stream_socket_def by metis
  then show ?thesis
    by (intro exI [of _ "s\<lparr>socket := sock\<rparr>"]) (simp add: async_send_def)
qed

text \<open>
  A scripted socket: the bytes the peer will send, the bytes sent to it, and end of file after
  the last byte.
\<close>

record script =
  script_in :: string
  script_out :: string

fun find_delim :: "string \<Rightarrow> string \<Rightarrow> nat \<Rightarrow> nat option" where
  "find_delim delm [] n = (if delm = [] then Some n else None)"
| "find_delim delm (c # s) n = (if prefix delm (c # s) then Some (n + length delm) else find_delim delm s (Suc n))"

definition script_ops :: "script socket_ops" where
  "script_ops =
     \<lparr>sock_connect = (\<lambda>s _ _. (no_error, s)),
      sock_read = (\<lambda>s n. if n \<le> length (script_in s)
                          then (no_error, take n (script_in s), s\<lparr>script_in := drop n (script_in s)\<rparr>)
                          else (eof, script_in s, s\<lparr>script_in := []\<rparr>)),
      sock_read_until = (\<lambda>s buffer delm.
         case find_delim delm (buffer @ script_in s) 0 of
           Some n \<Rightarrow> (no_error, buffer @ script_in s, n, s\<lparr>script_in := []\<rparr>)
         | None \<Rightarrow> (eof, buffer @ script_in s, 0, s\<lparr>script_in := []\<rparr>)),
      sock_write = (\<lambda>s bs. (no_error, s\<lparr>script_out := script_out s @ bs\<rparr>)),
      sock_shutdown = (\<lambda>s. (no_error, s)),
      sock_keep_alive = (\<lambda>s _. (no_error, s)),
      sock_no_delay = (\<lambda>s _. (no_error, s))\<rparr>"

lemma stream_socket_script: "stream_socket script_ops script_in (\<lambda>_. eof) script_out"
  by (auto simp: stream_socket_def script_ops_def failed_def eof_def)

section \<open>Properties\<close>

text \<open>
  A successful read on a plain session appends exactly the bytes read to the buffer; the
  same read on an encrypted session leaves the buffer as it was, whatever the socket returned.
\<close>

theorem ssl_read_discards:
  assumes "sock_read ops (socket s) n = (no_error, bytes, sock)"
  shows "async_read ops b n s = (no_error, b @ bytes, s\<lparr>socket := sock\<rparr>) \<and>
         ssl_async_read ops b n s = (no_error, b, s\<lparr>socket := sock\<rparr>)"
  using assms by (simp add: async_read_def ssl_async_read_def failed_def no_error_def)

theorem ssl_read_discards_witness:
  "async_read script_ops [] 2 \<lparr>socket = \<lparr>script_in = ''abc'', script_out = []\<rparr>, session_uuid = 1, timeout = 30\<rparr> =
     (no_error, [] @ ''ab'', \<lparr>socket = \<lparr>script_in = ''c'', script_out = []\<rparr>, session_uuid = 1, timeout = 30\<rparr>) \<and>
   ssl_async_read script_ops [] 2 \<lparr>socket = \<lparr>script_in = ''abc'', script_out = []\<rparr>, session_uuid = 1, timeout = 30\<rparr> =
     (no_error, [], \<lparr>socket = \<lparr>script_in = ''c'', script_out = []\<rparr>, session_uuid = 1, timeout = 30\<rparr>)"
  using ssl_read_discards [of script_ops
      "\<lparr>socket = \<lparr>script_in = ''abc'', script_out = []\<rparr>, session_uuid = 1, timeout = 30\<rparr>" 2 "''ab''"
      "\<lparr>script_in = ''c'', script_out = []\<rparr>" "[]"]
  by (simp add: script_ops_def)

end
