(* ===== verification/Registry.thy ===== *)
theory Registry
  imports Prelude
begin

text \<open>
  The tables the server keeps: the contexts by router (include/aquarius/ip/context_reg.hpp),
  the pool of I/O services (include/aquarius/io_service_pool.hpp), the modules
  (include/aquarius/module/module_router.hpp) and the players
  (include/aquarius/module/player_module.hpp). A \<open>std::map\<close> or \<open>std::unordered_map\<close> is an
  association list with distinct keys; the order of an unordered map is not specified, and no
  property below depends on it. The mutexes make each operation atomic, which is what one
  function application is.

  The contract of these tables, that the first registration under a key wins, is the locale
  \<open>first_wins\<close>, interpreted on all of them.
\<close>

section \<open>Insertion that does not overwrite\<close>

definition insert_once :: "'k \<Rightarrow> 'v \<Rightarrow> ('k \<times> 'v) list \<Rightarrow> bool \<times> ('k \<times> 'v) list" where
  "insert_once k v m = (case map_of m k of None \<Rightarrow> (True, m @ [(k, v)]) | Some _ \<Rightarrow> (False, m))"

lemma insert_once_fresh:
  "map_of m k = None \<Longrightarrow> fst (insert_once k v m) \<and> map_of (snd (insert_once k v m)) = (map_of m)(k \<mapsto> v)"
  by (auto simp: insert_once_def map_add_def fun_eq_iff split: option.splits)

lemma insert_once_None: "map_of m k = None \<Longrightarrow> insert_once k v m = (True, m @ [(k, v)])"
  by (simp add: insert_once_def)

lemma map_of_snoc_fresh: "map_of m k = None \<Longrightarrow> map_of (m @ [(k, v)]) = (map_of m)(k \<mapsto> v)"
  by (auto simp: map_add_def fun_eq_iff split: option.splits)

lemma insert_once_taken: "map_of m k = Some w \<Longrightarrow> insert_once k v m = (False, m)"
  by (simp add: insert_once_def)

lemma insert_once_distinct: "distinct (map fst m) \<Longrightarrow> distinct (map fst (snd (insert_once k v m)))"
  by (auto simp: insert_once_def map_of_eq_None_iff split: option.splits)

locale first_wins =
  fixes lookup :: "'m \<Rightarrow> 'k \<Rightarrow> 'v option"
    and put :: "'k \<Rightarrow> 'v \<Rightarrow> 'm \<Rightarrow> bool \<times> 'm"
  assumes put_fresh: "lookup m k = None \<Longrightarrow> fst (put k v m) \<and> lookup (snd (put k v m)) = (lookup m)(k \<mapsto> v)"
    and put_taken: "lookup m k = Some w \<Longrightarrow> put k v m = (False, m)"
begin

lemma put_reports: "fst (put k v m) \<longleftrightarrow> lookup m k = None"
  using put_fresh [of m k v] put_taken [of m k _ v] by (cases "lookup m k") auto

lemma lookup_put: "lookup (snd (put k v m)) j =
    (case lookup m j of Some w \<Rightarrow> Some w | None \<Rightarrow> if j = k then Some v else None)"
proof (cases "lookup m k")
  case None
  then show ?thesis using put_fresh [of m k v] by (cases "lookup m j") auto
next
  case (Some w)
  then show ?thesis using put_taken [of m k w v] by (auto split: option.splits)
qed

lemma put_all: "lookup (fold (\<lambda>(k, v) m. snd (put k v m)) kvs m) j =
    (case lookup m j of Some w \<Rightarrow> Some w | None \<Rightarrow> map_of kvs j)"
  by (induction kvs arbitrary: m) (auto simp: lookup_put split: option.splits)

end

section \<open>Contexts\<close>

record 'c context_reg =
  contexts :: "(string \<times> 'c) list"
  sys_contexts :: "(string \<times> 'c) list"

definition context_reg_get :: "'c context_reg \<Rightarrow> string \<Rightarrow> 'c option" where
  "context_reg_get r topic =
     (case map_of (sys_contexts r) topic of
        None \<Rightarrow> (case map_of (contexts r) topic of None \<Rightarrow> None | Some c \<Rightarrow> Some c)
      | Some c \<Rightarrow> Some c)"

definition context_reg_put :: "string \<Rightarrow> 'c \<Rightarrow> 'c context_reg \<Rightarrow> bool \<times> 'c context_reg" where
  "context_reg_put topic n r =
     (case insert_once topic n (contexts r) of (res, m) \<Rightarrow> (res, r\<lparr>contexts := m\<rparr>))"

definition context_reg_put_sys :: "string \<Rightarrow> 'c \<Rightarrow> 'c context_reg \<Rightarrow> bool \<times> 'c context_reg" where
  "context_reg_put_sys topic n r =
     (case insert_once topic n (sys_contexts r) of (res, m) \<Rightarrow> (res, r\<lparr>sys_contexts := m\<rparr>))"

definition generate_topics :: "'c context_reg \<Rightarrow> string list \<Rightarrow> string list" where
  "generate_topics r topics = topics @ map fst (contexts r)"

definition mpc_put_context :: "string \<Rightarrow> 'c \<Rightarrow> bool \<Rightarrow> 'c context_reg \<Rightarrow> bool \<times> 'c context_reg" where
  "mpc_put_context topic n system r =
     (if system then context_reg_put_sys topic n r else context_reg_put topic n r)"

interpretation ctx: first_wins "\<lambda>r. map_of (contexts r)" context_reg_put
  by unfold_locales
    (simp_all add: context_reg_put_def insert_once_taken insert_once_None map_of_snoc_fresh del: map_of_append)

interpretation sys_ctx: first_wins "\<lambda>r. map_of (sys_contexts r)" context_reg_put_sys
  by unfold_locales
    (simp_all add: context_reg_put_sys_def insert_once_taken insert_once_None map_of_snoc_fresh del: map_of_append)

lemma put_contexts_frame [simp]:
  "sys_contexts (snd (context_reg_put t c r)) = sys_contexts r"
  "contexts (snd (context_reg_put_sys t c r)) = contexts r"
  by (simp_all add: context_reg_put_def context_reg_put_sys_def split: prod.splits)

text \<open>What a sequence of registrations (topic, context, system flag) leaves.\<close>

definition regist_all :: "(string \<times> 'c \<times> bool) list \<Rightarrow> 'c context_reg \<Rightarrow> 'c context_reg" where
  "regist_all ps r = fold (\<lambda>(t, c, sys) r. snd (mpc_put_context t c sys r)) ps r"

definition registered :: "bool \<Rightarrow> (string \<times> 'c \<times> bool) list \<Rightarrow> (string \<times> 'c) list" where
  "registered system ps = map (\<lambda>(t, c, _). (t, c)) (filter (\<lambda>(_, _, sys). sys = system) ps)"

lemma regist_all_Cons [simp]:
  "regist_all [] r = r" "regist_all ((t, c, sys) # ps) r = regist_all ps (snd (mpc_put_context t c sys r))"
  by (simp_all add: regist_all_def)

lemma registered_Cons [simp]:
  "registered system [] = []"
  "registered system ((t, c, sys) # ps) = (if sys = system then [(t, c)] else []) @ registered system ps"
  by (simp_all add: registered_def)

lemma regist_all_contexts:
  "map_of (contexts (regist_all ps r)) t =
     (case map_of (contexts r) t of Some c \<Rightarrow> Some c | None \<Rightarrow> map_of (registered False ps) t)"
proof (induction ps arbitrary: r)
  case (Cons p ps)
  obtain u c sys where p: "p = (u, c, sys)" by (cases p)
  show ?case
    unfolding p regist_all_Cons Cons.IH
    by (cases sys) (auto simp: mpc_put_context_def ctx.lookup_put split: option.splits)
qed (simp split: option.splits)

lemma regist_all_sys_contexts:
  "map_of (sys_contexts (regist_all ps r)) t =
     (case map_of (sys_contexts r) t of Some c \<Rightarrow> Some c | None \<Rightarrow> map_of (registered True ps) t)"
proof (induction ps arbitrary: r)
  case (Cons p ps)
  obtain u c sys where p: "p = (u, c, sys)" by (cases p)
  show ?case
    unfolding p regist_all_Cons Cons.IH
    by (cases sys) (auto simp: mpc_put_context_def sys_ctx.lookup_put split: option.splits)
qed (simp split: option.splits)

lemma put_context_distinct:
  assumes "distinct (map fst (contexts r))"
  shows "distinct (map fst (contexts (snd (mpc_put_context t c s r))))"
proof (cases s)
  case False
  have "contexts (snd (mpc_put_context t c s r)) = snd (insert_once t c (contexts r))"
    using False by (simp add: mpc_put_context_def context_reg_put_def split: prod.splits)
  then show ?thesis using insert_once_distinct [OF assms] by simp
qed (use assms in \<open>simp add: mpc_put_context_def\<close>)

lemma regist_all_distinct:
  "distinct (map fst (contexts r)) \<Longrightarrow> distinct (map fst (contexts (regist_all ps r)))"
  by (induction ps arbitrary: r) (auto simp: put_context_distinct)

section \<open>Players\<close>

type_synonym 'p players = "(64 word \<times> 'p) list"

definition players_insert :: "64 word \<Rightarrow> 'p \<Rightarrow> 'p players \<Rightarrow> 'p players" where
  "players_insert uid player_ptr ps = snd (insert_once uid player_ptr ps)"

text \<open>\<open>as_T\<close> is the dynamic cast to the requested class.\<close>

definition players_get :: "('p \<Rightarrow> 'q option) \<Rightarrow> 'p players \<Rightarrow> 64 word \<Rightarrow> 'q option" where
  "players_get as_T ps uid = (case map_of ps uid of None \<Rightarrow> None | Some p \<Rightarrow> as_T p)"

definition players_erase :: "64 word \<Rightarrow> 'p players \<Rightarrow> 'p players" where
  "players_erase uid ps = filter (\<lambda>(k, _). k \<noteq> uid) ps"

interpretation player: first_wins "map_of :: 'p players \<Rightarrow> 64 word \<Rightarrow> 'p option"
  "\<lambda>uid p ps. (map_of ps uid = None, players_insert uid p ps)"
  by unfold_locales
    (auto simp: players_insert_def insert_once_taken dest: insert_once_fresh)

lemma map_of_players_erase: "map_of (players_erase uid ps) = (map_of ps)(uid := None)"
  by (induction ps) (auto simp: players_erase_def)

section \<open>I/O services\<close>

record io_service_pool =
  pool_size :: nat
  next_to_service :: nat
  enabled :: bool

definition io_service_pool_new :: "nat \<Rightarrow> fault + io_service_pool" where
  "io_service_pool_new n =
     (if n = 0 then Inl (Thrown runtime_error)
      else Inr \<lparr>pool_size = n, next_to_service = 0, enabled = False\<rparr>)"

text \<open>The index into \<open>io_services_\<close> that the returned reference comes from.\<close>

definition get_io_service :: "io_service_pool \<Rightarrow> nat \<times> io_service_pool" where
  "get_io_service p =
     (let next' = Suc (next_to_service p)
      in (next_to_service p,
          p\<lparr>next_to_service := if next' = pool_size p then 0 else next'\<rparr>))"

definition pool_stop :: "io_service_pool \<Rightarrow> io_service_pool" where
  "pool_stop p = p\<lparr>enabled := False\<rparr>"

text \<open>
  \<open>run\<close> starts one thread for every service, raises the flag, and lowers it when all threads
  have ended: the two moments at which it changes the object.
\<close>

definition pool_run_start :: "io_service_pool \<Rightarrow> nat list \<times> io_service_pool" where
  "pool_run_start p = ([0..<pool_size p], p\<lparr>enabled := True\<rparr>)"

definition pool_run_end :: "io_service_pool \<Rightarrow> io_service_pool" where
  "pool_run_end p = p\<lparr>enabled := False\<rparr>"

definition pool_ok :: "io_service_pool \<Rightarrow> bool" where
  "pool_ok p \<longleftrightarrow> next_to_service p < pool_size p"

fun take_services :: "nat \<Rightarrow> io_service_pool \<Rightarrow> nat list \<times> io_service_pool" where
  "take_services 0 p = ([], p)"
| "take_services (Suc n) p =
     (case get_io_service p of (i, p') \<Rightarrow> case take_services n p' of (is, p'') \<Rightarrow> (i # is, p''))"

lemma pool_ok_get: "pool_ok p \<Longrightarrow> pool_ok (snd (get_io_service p))"
  by (auto simp: pool_ok_def get_io_service_def Let_def)

lemma get_io_service_index:
  assumes "pool_ok p"
  shows "next_to_service (snd (get_io_service p)) = (next_to_service p + 1) mod pool_size p"
    and "pool_size (snd (get_io_service p)) = pool_size p"
  using assms by (auto simp: pool_ok_def get_io_service_def Let_def)

lemma take_services_pool:
  assumes "pool_ok p"
  shows "pool_ok (snd (take_services n p)) \<and> pool_size (snd (take_services n p)) = pool_size p \<and>
    next_to_service (snd (take_services n p)) = (next_to_service p + n) mod pool_size p"
  using assms
proof (induction n arbitrary: p)
  case 0
  then show ?case by (simp add: pool_ok_def)
next
  case (Suc n)
  obtain i p' where g: "get_io_service p = (i, p')" by (cases "get_io_service p")
  with pool_ok_get [OF Suc.prems] get_io_service_index [OF Suc.prems] Suc.IH [of p'] show ?case
    by (auto simp: mod_simps split: prod.splits)
qed

lemma take_services_round_robin:
  assumes "pool_ok p"
  shows "fst (take_services n p) = map (\<lambda>i. (next_to_service p + i) mod pool_size p) [0..<n]"
  using assms
proof (induction n arbitrary: p)
  case (Suc n)
  obtain i p' where g: "get_io_service p = (i, p')" by (cases "get_io_service p")
  then have i: "i = next_to_service p mod pool_size p"
    using Suc.prems by (simp add: get_io_service_def pool_ok_def Let_def)
  have "next_to_service p' = (next_to_service p + 1) mod pool_size p" "pool_size p' = pool_size p" "pool_ok p'"
    using get_io_service_index [OF Suc.prems] pool_ok_get [OF Suc.prems] g by simp_all
  then have "fst (take_services n p') = map (\<lambda>i. (next_to_service p + Suc i) mod pool_size p) [0..<n]"
    using Suc.IH [of p'] by (simp add: mod_add_left_eq)
  moreover have "[0..<Suc n] = 0 # map Suc [0..<n]"
    by (simp only: upt_conv_Cons [OF zero_less_Suc] map_Suc_upt)
  ultimately show ?case
    by (cases "take_services n p'") (simp add: g i comp_def del: upt_Suc)
qed simp

section \<open>Properties\<close>

text \<open>
  C16. After any sequence of registrations into an empty registry, a lookup returns the first
  system context of the router if there is one and otherwise the first user context, and
  \<open>generate_topics\<close> lists every user router once and no other.
\<close>

theorem context_lookup:
  "context_reg_get (regist_all ps \<lparr>contexts = [], sys_contexts = []\<rparr>) t =
     (case map_of (registered True ps) t of Some c \<Rightarrow> Some c | None \<Rightarrow> map_of (registered False ps) t) \<and>
   distinct (generate_topics (regist_all ps \<lparr>contexts = [], sys_contexts = []\<rparr>) []) \<and>
   set (generate_topics (regist_all ps \<lparr>contexts = [], sys_contexts = []\<rparr>) []) = fst ` set (registered False ps)"
proof (intro conjI)
  let ?r = "\<lparr>contexts = [], sys_contexts = []\<rparr> :: 'a context_reg"
  show "context_reg_get (regist_all ps ?r) t =
      (case map_of (registered True ps) t of Some c \<Rightarrow> Some c | None \<Rightarrow> map_of (registered False ps) t)"
    by (simp add: context_reg_get_def regist_all_contexts regist_all_sys_contexts split: option.splits)
  show "distinct (generate_topics (regist_all ps ?r) [])"
    using regist_all_distinct [of ?r ps] by (simp add: generate_topics_def)
  have "dom (map_of (contexts (regist_all ps ?r))) = dom (map_of (registered False ps))"
    unfolding dom_def by (simp add: regist_all_contexts)
  then show "set (generate_topics (regist_all ps ?r) []) = fst ` set (registered False ps)"
    by (simp add: generate_topics_def dom_map_of_conv_image_fst)
qed

text \<open>
  A pool of \<open>n > 0\<close> services is created, an empty one is refused with an exception, and
  \<open>k\<close> requests for a service take the services in turn, starting at the first.
\<close>

theorem io_service_round_robin:
  "io_service_pool_new 0 = Inl (Thrown runtime_error) \<and>
   (\<exists>p. io_service_pool_new (Suc n) = Inr p \<and>
        fst (take_services k p) = map (\<lambda>i. i mod Suc n) [0..<k])"
proof -
  let ?p = "\<lparr>pool_size = Suc n, next_to_service = 0, enabled = False\<rparr>"
  have "pool_ok ?p" by (simp add: pool_ok_def)
  from take_services_round_robin [OF this, of k] show ?thesis
    by (simp add: io_service_pool_new_def)
qed

text \<open>
  The player table: the first player under an id is found until it is erased, a second
  insertion under the same id is ignored, and erasing leaves the other players.
\<close>

theorem players_table:
  "players_get Some (players_insert i q (players_insert i p [])) i = Some p \<and>
   players_get Some (players_erase i ps) i = None \<and>
   (j \<noteq> i \<longrightarrow> players_get Some (players_erase i ps) j = players_get Some ps j \<and>
              players_get Some (players_insert i p ps) j = players_get Some ps j)"
  using player.lookup_put [where k = i and v = p and m = ps and j = j]
  by (auto simp: players_get_def map_of_players_erase players_insert_def insert_once_def
      split: option.splits)

theorem players_table_witness:
  "players_get Some (players_insert 1 ''b'' (players_insert 1 ''a'' [])) 1 = Some ''a'' \<and>
   players_get Some (players_erase 1 [(1, ''a''), (2, ''c'')]) 2 = Some ''c''"
  using players_table [where i = 1 and q = "''b''" and p = "''a''" and ps = "[(1, ''a''), (2, ''c'')]" and j = 2]
  by (simp add: players_get_def)

end
