(* ===== verification/Ssl_Session.thy ===== *)
theory Ssl_Session
  imports Session
begin

text \<open>
  The life of an encrypted session (include/aquarius/basic_ssl_session.hpp): the context that all
  sessions of one kind share, its set-up behind a once-flag, the construction of a session, and
  the operations on it. \<open>ssl_config\<close> is include/aquarius/resource/ssl_config.hpp.

  OpenSSL and its wrapper in Asio are parameters. A context is a value of \<open>'c\<close> and its
  operations are \<open>ssl_context_ops\<close>; a call that throws has the result
  \<open>False\<close>, with the context as it left it (\<open>system_error\<close> is a \<open>runtime_error\<close>). An encrypted
  stream is a value of \<open>'s\<close> with the operations of a socket and those of \<open>ssl_stream_ops\<close>.
\<close>

section \<open>The configuration\<close>

record ssl_config =
  crt :: string
  key :: string
  pem :: string

definition ssl_config_default :: ssl_config where
  "ssl_config_default = \<lparr>crt = ''crt/server.crt'', key = ''crt/server.key'', pem = ''crt/dh2048.pem''\<rparr>"

section \<open>The shared context\<close>

datatype ssl_option = default_workarounds | no_sslv2 | single_dh_use

record 'c ssl_context_ops =
  ctx_new :: 'c
  ctx_set_options :: "ssl_option list \<Rightarrow> 'c \<Rightarrow> bool \<times> 'c"
  ctx_use_certificate_chain_file :: "string \<Rightarrow> 'c \<Rightarrow> bool \<times> 'c"
  ctx_use_private_key_file :: "string \<Rightarrow> 'c \<Rightarrow> bool \<times> 'c"
  ctx_use_tmp_dh_file :: "string \<Rightarrow> 'c \<Rightarrow> bool \<times> 'c"
  ctx_load_verify_file :: "string \<Rightarrow> 'c \<Rightarrow> bool \<times> 'c"

text \<open>Calls in sequence; the first that throws ends it.\<close>

fun in_order :: "('c \<Rightarrow> bool \<times> 'c) list \<Rightarrow> 'c \<Rightarrow> bool \<times> 'c" where
  "in_order [] c = (True, c)"
| "in_order (f # fs) c = (case f c of (True, c') \<Rightarrow> in_order fs c' | (False, c') \<Rightarrow> (False, c'))"

definition server_set_up :: "'c ssl_context_ops \<Rightarrow> ssl_config \<Rightarrow> 'c \<Rightarrow> bool \<times> 'c" where
  "server_set_up ops cfg =
     in_order [ctx_set_options ops [default_workarounds, no_sslv2, single_dh_use],
               ctx_use_certificate_chain_file ops (crt cfg),
               ctx_use_private_key_file ops (key cfg),
               ctx_use_tmp_dh_file ops (pem cfg)]"

definition client_set_up :: "'c ssl_context_ops \<Rightarrow> ssl_config \<Rightarrow> 'c \<Rightarrow> bool \<times> 'c" where
  "client_set_up ops cfg = ctx_load_verify_file ops (crt cfg)"

definition set_up :: "'c ssl_context_ops \<Rightarrow> bool \<Rightarrow> ssl_config \<Rightarrow> 'c \<Rightarrow> bool \<times> 'c" where
  "set_up ops server cfg c = (if server then server_set_up ops cfg c else client_set_up ops cfg c)"

text \<open>
  The two static variables of \<open>create_ssl_context\<close> for one instance of the template. The flag
  of \<open>call_once\<close> is raised when the function returns; when it throws, the flag stays down, the
  exception leaves \<open>create_ssl_context\<close>, and the next call tries again on the same context.
\<close>

record 'c ssl_statics =
  static_context :: "'c option"
  once :: bool

definition ssl_statics_start :: "'c ssl_statics" where
  "ssl_statics_start = \<lparr>static_context = None, once = False\<rparr>"

definition create_ssl_context :: "'c ssl_context_ops \<Rightarrow> bool \<Rightarrow> ssl_config \<Rightarrow> 'c ssl_statics \<Rightarrow> (fault + 'c) \<times> 'c ssl_statics" where
  "create_ssl_context ops server cfg st =
     (let c = (case static_context st of None \<Rightarrow> ctx_new ops | Some c \<Rightarrow> c)
      in if once st then (Inr c, st\<lparr>static_context := Some c\<rparr>)
         else case set_up ops server cfg c of
                (True, c') \<Rightarrow> (Inr c', \<lparr>static_context = Some c', once = True\<rparr>)
              | (False, c') \<Rightarrow> (Inl (Thrown runtime_error), \<lparr>static_context = Some c', once = False\<rparr>))"

section \<open>The session\<close>

text \<open>\<open>'r\<close> is the plain socket the stream is put on.\<close>

record ('r, 'c, 's) ssl_stream_ops =
  stream_new :: "'r \<Rightarrow> 'c \<Rightarrow> 's"
  stream_handshake :: "bool \<Rightarrow> 's \<Rightarrow> error_code \<times> 's"
  stream_verify_peer :: "(bool \<Rightarrow> bool) \<Rightarrow> 's \<Rightarrow> 's"

text \<open>The callback given to the stream logs the certificate and keeps the verdict.\<close>

definition verify_callback :: "bool \<Rightarrow> bool" where
  "verify_callback verify = verify"

definition ssl_init :: "('r, 'c, 's) ssl_stream_ops \<Rightarrow> bool \<Rightarrow> 's basic_session \<Rightarrow> 's basic_session" where
  "ssl_init sops server s =
     (if server then s else s\<lparr>socket := stream_verify_peer sops verify_callback (socket s)\<rparr>)"

definition ssl_session_new :: "'c ssl_context_ops \<Rightarrow> ('r, 'c, 's) ssl_stream_ops \<Rightarrow> bool \<Rightarrow> ssl_config
    \<Rightarrow> 'r \<Rightarrow> int \<Rightarrow> 32 word \<Rightarrow> 'c ssl_statics \<Rightarrow> (fault + 's basic_session) \<times> 'c ssl_statics" where
  "ssl_session_new ops sops server cfg sock dura generated st =
     (case create_ssl_context ops server cfg st of
        (Inl f, st') \<Rightarrow> (Inl f, st')
      | (Inr c, st') \<Rightarrow>
          (Inr (ssl_init sops server
                  \<lparr>socket = stream_new sops sock c, session_uuid = ucast generated, timeout = dura\<rparr>), st'))"

text \<open>\<open>sock_connect\<close> of an encrypted stream connects its lowest layer; there is no handshake in it.\<close>

definition ssl_async_connect ::
  "'s socket_ops \<Rightarrow> string \<Rightarrow> string \<Rightarrow> 's basic_session \<Rightarrow> error_code \<times> 's basic_session" where
  "ssl_async_connect ops host port s =
     (case sock_connect ops (socket s) host port of (ec, sock) \<Rightarrow> (ec, s\<lparr>socket := sock\<rparr>))"

definition ssl_async_handshake ::
  "('r, 'c, 's) ssl_stream_ops \<Rightarrow> bool \<Rightarrow> 's basic_session \<Rightarrow> error_code \<times> 's basic_session" where
  "ssl_async_handshake sops server s =
     (case stream_handshake sops server (socket s) of (ec, sock) \<Rightarrow> (ec, s\<lparr>socket := sock\<rparr>))"

definition ssl_async_read_until ::
  "'s socket_ops \<Rightarrow> flex_buffer \<Rightarrow> string \<Rightarrow> 's basic_session
     \<Rightarrow> error_code \<times> flex_buffer \<times> nat \<times> 's basic_session" where
  "ssl_async_read_until ops buffer delm s =
     (case sock_read_until ops (socket s) buffer delm of
        (ec, buffer', end_pos, sock) \<Rightarrow> (ec, buffer', end_pos, s\<lparr>socket := sock\<rparr>))"

definition ssl_shutdown :: "'s socket_ops \<Rightarrow> 's basic_session \<Rightarrow> bool \<times> 's basic_session" where
  "ssl_shutdown ops s =
     (case sock_shutdown ops (socket s) of (ec, sock) \<Rightarrow> (\<not> failed ec, s\<lparr>socket := sock\<rparr>))"

definition ssl_keep_alive :: "'s socket_ops \<Rightarrow> bool \<Rightarrow> 's basic_session \<Rightarrow> error_code \<times> 's basic_session" where
  "ssl_keep_alive ops enable s =
     (case sock_keep_alive ops (socket s) enable of (ec, sock) \<Rightarrow> (ec, s\<lparr>socket := sock\<rparr>))"

definition ssl_set_nodelay :: "'s socket_ops \<Rightarrow> bool \<Rightarrow> 's basic_session \<Rightarrow> error_code \<times> 's basic_session" where
  "ssl_set_nodelay ops enable s =
     (case sock_no_delay ops (socket s) enable of (ec, sock) \<Rightarrow> (ec, s\<lparr>socket := sock\<rparr>))"

section \<open>A program that opens sessions\<close>

text \<open>
  The contexts the sessions of a program are given, one session after another: \<open>None\<close> for a
  construction that threw.
\<close>

fun contexts_given :: "'c ssl_context_ops \<Rightarrow> bool \<Rightarrow> ssl_config \<Rightarrow> nat \<Rightarrow> 'c ssl_statics \<Rightarrow> 'c option list \<times> 'c ssl_statics" where
  "contexts_given ops server cfg 0 st = ([], st)"
| "contexts_given ops server cfg (Suc n) st =
     (case create_ssl_context ops server cfg st of (r, st1) \<Rightarrow>
        case contexts_given ops server cfg n st1 of (cs, st2) \<Rightarrow>
          ((case r of Inl _ \<Rightarrow> None | Inr c \<Rightarrow> Some c) # cs, st2))"

lemma create_ssl_context_done:
  assumes "once st" and "static_context st = Some c"
  shows "create_ssl_context ops server cfg st = (Inr c, st)"
  using assms by (simp add: create_ssl_context_def)

text \<open>The context after \<open>k\<close> attempts at the set-up.\<close>

definition attempts :: "'c ssl_context_ops \<Rightarrow> bool \<Rightarrow> ssl_config \<Rightarrow> nat \<Rightarrow> 'c \<Rightarrow> 'c" where
  "attempts ops server cfg k c = ((\<lambda>c. snd (set_up ops server cfg c)) ^^ k) c"

lemma attempts_Suc: "attempts ops server cfg (Suc k) c = attempts ops server cfg k (snd (set_up ops server cfg c))"
  unfolding attempts_def funpow_Suc_right by simp

lemma contexts_given_done:
  "once st \<Longrightarrow> static_context st = Some c \<Longrightarrow> contexts_given ops server cfg n st = (replicate n (Some c), st)"
  by (induction n) (simp_all add: create_ssl_context_done)

definition current :: "'c ssl_context_ops \<Rightarrow> 'c ssl_statics \<Rightarrow> 'c" where
  "current ops st = (case static_context st of None \<Rightarrow> ctx_new ops | Some c \<Rightarrow> c)"

definition first_success :: "'c ssl_context_ops \<Rightarrow> bool \<Rightarrow> ssl_config \<Rightarrow> nat \<Rightarrow> 'c \<Rightarrow> nat \<Rightarrow> 'c \<Rightarrow> bool" where
  "first_success ops server cfg n c0 k c \<longleftrightarrow>
     k \<le> n \<and> (\<forall>i<k. \<not> fst (set_up ops server cfg (attempts ops server cfg i c0))) \<and>
     (k < n \<longrightarrow> set_up ops server cfg (attempts ops server cfg k c0) = (True, c))"

lemma contexts_given_first_success:
  assumes "\<not> once st"
  shows "\<exists>k c. fst (contexts_given ops server cfg n st) = replicate k None @ replicate (n - k) (Some c) \<and>
           first_success ops server cfg n (current ops st) k c"
  using assms
proof (induction n arbitrary: st)
  case (Suc n)
  obtain ok c1 where u: "set_up ops server cfg (current ops st) = (ok, c1)" by fastforce
  show ?case
  proof (cases ok)
    case False
    let ?st = "\<lparr>static_context = Some c1, once = False\<rparr>"
    have r: "create_ssl_context ops server cfg st = (Inl (Thrown runtime_error), ?st)"
      using Suc.prems u False by (simp add: create_ssl_context_def current_def)
    from Suc.IH [of ?st] obtain k c where
      IH: "fst (contexts_given ops server cfg n ?st) = replicate k None @ replicate (n - k) (Some c)"
        "first_success ops server cfg n c1 k c" by (auto simp: current_def)
    have "first_success ops server cfg (Suc n) (current ops st) (Suc k) c"
      using IH(2) u False by (auto simp: first_success_def attempts_Suc All_less_Suc2 attempts_def [of _ _ _ 0])
    with IH(1) show ?thesis by (intro exI [of _ "Suc k"] exI [of _ c]) (simp add: r case_prod_beta)
  next
    case True
    then have "create_ssl_context ops server cfg st = (Inr c1, \<lparr>static_context = Some c1, once = True\<rparr>)"
      using Suc.prems u by (simp add: create_ssl_context_def current_def)
    moreover have "first_success ops server cfg (Suc n) (current ops st) 0 c1"
      using u True by (simp add: first_success_def attempts_def)
    ultimately show ?thesis
      by (intro exI [of _ 0] exI [of _ c1]) (simp add: contexts_given_done)
  qed
qed (simp add: first_success_def)

section \<open>Properties\<close>

text \<open>
  C28. A session is only ever created on a context that is completely set up, and all sessions share
  one. Of any number of constructions, from the start of the program on, those before the first
  successful run of the whole set-up throw, each leaving the context as its failed run left it,
  and all later ones get the same context, the one that first successful run ended with: it is
  not configured a second time.
\<close>

theorem ssl_context_set_up_once:
  "\<exists>k c. fst (contexts_given ops server cfg n ssl_statics_start) = replicate k None @ replicate (n - k) (Some c) \<and>
     k \<le> n \<and> (\<forall>i<k. \<not> fst (set_up ops server cfg (attempts ops server cfg i (ctx_new ops)))) \<and>
     (k < n \<longrightarrow> set_up ops server cfg (attempts ops server cfg k (ctx_new ops)) = (True, c))"
  using contexts_given_first_success [of ssl_statics_start ops server cfg n]
  by (simp add: ssl_statics_start_def current_def first_success_def)

text \<open>A certificate that cannot be read at the first attempt.\<close>

definition sample_ctx_ops :: "nat ssl_context_ops" where
  "sample_ctx_ops =
     \<lparr>ctx_new = 0, ctx_set_options = (\<lambda>_ c. (True, c)), ctx_use_certificate_chain_file = (\<lambda>_ c. (True, c)),
      ctx_use_private_key_file = (\<lambda>_ c. (True, c)), ctx_use_tmp_dh_file = (\<lambda>_ c. (True, c)),
      ctx_load_verify_file = (\<lambda>_ c. (c = 1, c + 1))\<rparr>"

theorem ssl_context_set_up_once_witness:
  "fst (contexts_given sample_ctx_ops False ssl_config_default 3 ssl_statics_start) = [None, Some 2, Some 2] \<and>
   (\<exists>k c. fst (contexts_given sample_ctx_ops False ssl_config_default 3 ssl_statics_start) =
        replicate k None @ replicate (3 - k) (Some c) \<and>
      k \<le> 3 \<and> (\<forall>i<k. \<not> fst (set_up sample_ctx_ops False ssl_config_default
                               (attempts sample_ctx_ops False ssl_config_default i (ctx_new sample_ctx_ops)))) \<and>
      (k < 3 \<longrightarrow> set_up sample_ctx_ops False ssl_config_default
                  (attempts sample_ctx_ops False ssl_config_default k (ctx_new sample_ctx_ops)) = (True, c)))"
proof (rule conjI)
  show "fst (contexts_given sample_ctx_ops False ssl_config_default 3 ssl_statics_start) = [None, Some 2, Some 2]"
    by code_simp
qed (rule ssl_context_set_up_once)

end
