(* ===== verification/Modules.thy ===== *)
theory Modules
  imports Registry "HOL-Library.Multiset"
begin

text \<open>
  \<open>module_router\<close> (include/aquarius/module/module_router.hpp) with the interface of a module
  (include/aquarius/basic_module.hpp) and \<open>mpc_async_call\<close>
  (include/aquarius/module/schedule.hpp). A module is identified by its name, the name of its
  class; the router owns it through \<open>routers_by_name_\<close> and refers to it by a weak pointer in
  \<open>routers_by_priority_\<close>, a map with the greater priority first. A weak pointer is a name, and
  it has expired when the name has no owner.
\<close>

section \<open>State\<close>

record 'm module_ops =
  mod_init :: "'m \<Rightarrow> bool \<times> 'm"
  mod_attach :: "nat \<Rightarrow> 'm \<Rightarrow> 'm"
  mod_run :: "'m \<Rightarrow> bool \<times> 'm"
  mod_timer :: "int \<Rightarrow> 'm \<Rightarrow> 'm"

record 'm module_router =
  routers_by_name :: "(string \<times> 'm) list"
  routers_by_priority :: "(int \<times> string list) list"

definition module_router_new :: "'m module_router" where
  "module_router_new = \<lparr>routers_by_name = [], routers_by_priority = []\<rparr>"

section \<open>Operations\<close>

text \<open>\<open>routers_by_priority_[priority].push_back(module_ptr)\<close>\<close>

fun priority_push :: "int \<Rightarrow> string \<Rightarrow> (int \<times> string list) list \<Rightarrow> (int \<times> string list) list" where
  "priority_push p n [] = [(p, [n])]"
| "priority_push p n ((q, ns) # rest) =
     (if p = q then (q, ns @ [n]) # rest
      else if q < p then (p, [n]) # (q, ns) # rest
      else (q, ns) # priority_push p n rest)"

definition module_put :: "int \<Rightarrow> string \<Rightarrow> 'm \<Rightarrow> 'm module_router \<Rightarrow> bool \<times> 'm module_router" where
  "module_put priority name module_ptr r =
     (case map_of (routers_by_name r) name of
        Some _ \<Rightarrow> (False, r)
      | None \<Rightarrow> (True, r\<lparr>routers_by_name := routers_by_name r @ [(name, module_ptr)],
                        routers_by_priority := priority_push priority name (routers_by_priority r)\<rparr>))"

definition module_update :: "string \<Rightarrow> 'm \<Rightarrow> 'm module_router \<Rightarrow> 'm module_router" where
  "module_update name m r =
     r\<lparr>routers_by_name := map (\<lambda>(n, x). (n, if n = name then m else x)) (routers_by_name r)\<rparr>"

text \<open>
  \<open>run_one\<close>: a module whose \<open>init\<close> fails is neither attached nor run. The result is what
  \<open>run\<close> returned.
\<close>

definition run_one :: "'m module_ops \<Rightarrow> nat \<Rightarrow> 'm \<Rightarrow> bool \<times> 'm" where
  "run_one ops io m =
     (case mod_init ops m of
        (False, m1) \<Rightarrow> (False, m1)
      | (True, m1) \<Rightarrow> mod_run ops (mod_attach ops io m1))"

text \<open>
  One entry of the loop of \<open>run\<close>. A service is taken for every module that is alive, also for one
  whose \<open>init\<close> fails. The log records the module, the service and whether it was attached and run.
\<close>

definition run_entry :: "'m module_ops \<Rightarrow> string \<Rightarrow> (string \<times> nat \<times> bool) list \<times> 'm module_router \<times> io_service_pool
    \<Rightarrow> (string \<times> nat \<times> bool) list \<times> 'm module_router \<times> io_service_pool" where
  "run_entry ops name st =
     (case st of (log, r, pool) \<Rightarrow>
        case map_of (routers_by_name r) name of
          None \<Rightarrow> (log, r, pool)
        | Some m \<Rightarrow>
            (case get_io_service pool of (io, pool') \<Rightarrow>
               (log @ [(name, io, fst (mod_init ops m))], module_update name (snd (run_one ops io m)) r, pool')))"

text \<open>
  \<open>run\<close> goes through the priorities and, within one, through the modules in the order of
  their registration.
\<close>

definition module_run :: "'m module_ops \<Rightarrow> 'm module_router \<Rightarrow> io_service_pool
    \<Rightarrow> (string \<times> nat \<times> bool) list \<times> 'm module_router \<times> io_service_pool" where
  "module_run ops r pool =
     fold (\<lambda>(_, ns) st. fold (run_entry ops) ns st) (routers_by_priority r) ([], r, pool)"

definition timer_entry :: "'m module_ops \<Rightarrow> int \<Rightarrow> string \<Rightarrow> 'm module_router \<Rightarrow> 'm module_router" where
  "timer_entry ops ms name r =
     (case map_of (routers_by_name r) name of
        None \<Rightarrow> r
      | Some m \<Rightarrow> module_update name (mod_timer ops ms m) r)"

definition module_timer :: "'m module_ops \<Rightarrow> int \<Rightarrow> 'm module_router \<Rightarrow> 'm module_router" where
  "module_timer ops ms r = fold (\<lambda>(_, ns) r. fold (timer_entry ops ms) ns r) (routers_by_priority r) r"

text \<open>
  \<open>get_module<T>\<close> finds the module by name and casts it; \<open>is_T\<close> is the dynamic type test.
  \<open>async_schedule\<close> returns \<open>R{}\<close> when there is none.
\<close>

definition get_module :: "('m \<Rightarrow> bool) \<Rightarrow> string \<Rightarrow> 'm module_router \<Rightarrow> 'm option" where
  "get_module is_T name r =
     (case map_of (routers_by_name r) name of
        None \<Rightarrow> None
      | Some m \<Rightarrow> if is_T m then Some m else None)"

definition async_schedule :: "('m \<Rightarrow> bool) \<Rightarrow> string \<Rightarrow> 'r \<Rightarrow> ('m \<Rightarrow> 'r \<times> 'm) \<Rightarrow> 'm module_router
    \<Rightarrow> 'r \<times> 'm module_router" where
  "async_schedule is_T name R f r =
     (case get_module is_T name r of
        None \<Rightarrow> (R, r)
      | Some m \<Rightarrow> (case f m of (x, m') \<Rightarrow> (x, module_update name m' r)))"

section \<open>Invariant\<close>

definition run_order :: "'m module_router \<Rightarrow> string list" where
  "run_order r = concat (map snd (routers_by_priority r))"

text \<open>The names with their priorities, in the order of \<open>run\<close>.\<close>

definition flat :: "(int \<times> string list) list \<Rightarrow> (int \<times> string) list" where
  "flat l = concat (map (\<lambda>(p, ns). map (\<lambda>n. (p, n)) ns) l)"

definition router_inv :: "'m module_router \<Rightarrow> bool" where
  "router_inv r \<longleftrightarrow>
     distinct (map fst (routers_by_name r)) \<and> distinct (run_order r) \<and>
     set (run_order r) = fst ` set (routers_by_name r) \<and>
     sorted_wrt (>) (map fst (routers_by_priority r))"

lemma set_priority_push:
  "set (concat (map snd (priority_push p n l))) = insert n (set (concat (map snd l)))"
  by (induction p n l rule: priority_push.induct) auto

lemma distinct_priority_push:
  "distinct (concat (map snd l)) \<Longrightarrow> n \<notin> set (concat (map snd l)) \<Longrightarrow>
     distinct (concat (map snd (priority_push p n l)))"
proof (induction p n l rule: priority_push.induct)
  case (2 p n q ns rest)
  then show ?case using set_priority_push [of p n rest] by (auto simp: image_iff)
qed simp

lemma fst_priority_push: "fst ` set (priority_push p n l) = insert p (fst ` set l)"
  by (induction p n l rule: priority_push.induct) auto

lemma sorted_priority_push:
  "sorted_wrt (>) (map fst l) \<Longrightarrow> sorted_wrt (>) (map fst (priority_push p n l))"
proof (induction p n l rule: priority_push.induct)
  case (2 p n q ns rest)
  have "y < q" if "y \<in> fst ` set (priority_push p n rest)" "\<not> q < p" "p \<noteq> q" for y
    using that 2(2) by (auto simp: fst_priority_push)
  with 2 show ?case by force
qed simp

lemma router_inv_new: "router_inv module_router_new"
  by (simp add: router_inv_def module_router_new_def run_order_def)

lemma router_inv_put:
  assumes "router_inv r"
  shows "router_inv (snd (module_put p n m r))"
proof (cases "map_of (routers_by_name r) n")
  case None
  then have "n \<notin> fst ` set (routers_by_name r)" by (simp add: map_of_eq_None_iff)
  moreover from this have "n \<notin> set (concat (map snd (routers_by_priority r)))"
    using assms by (simp add: router_inv_def run_order_def)
  ultimately show ?thesis
    using assms None distinct_priority_push [of "routers_by_priority r" n p]
      set_priority_push [of p n "routers_by_priority r"] sorted_priority_push
    by (simp add: module_put_def router_inv_def run_order_def del: set_concat)
qed (use assms in \<open>simp add: module_put_def\<close>)

lemma map_fst_update [simp]: "map fst (routers_by_name (module_update n m r)) = map fst (routers_by_name r)"
  by (simp add: module_update_def comp_def case_prod_beta)

lemma priorities_update [simp]: "routers_by_priority (module_update n m r) = routers_by_priority r"
  by (simp add: module_update_def)

lemma names_update [simp]: "fst ` set (routers_by_name (module_update n m r)) = fst ` set (routers_by_name r)"
  by (metis list.set_map map_fst_update)

lemma router_inv_update [simp]: "router_inv (module_update n m r) = router_inv r"
  by (simp add: router_inv_def run_order_def)

interpretation modules: first_wins "\<lambda>r. map_of (routers_by_name r)" "module_put priority" for priority
  by unfold_locales
    (simp_all add: module_put_def map_of_snoc_fresh del: map_of_append)

section \<open>The order of the modules\<close>

text \<open>Any sequence of registrations (priority, name, module), and the ones that count: the first of every name.\<close>

definition module_put_all :: "(int \<times> string \<times> 'm) list \<Rightarrow> 'm module_router \<Rightarrow> 'm module_router" where
  "module_put_all ps r = fold (\<lambda>(p, n, m) r. snd (module_put p n m r)) ps r"

definition first_by_name :: "(int \<times> string \<times> 'm) list \<Rightarrow> (int \<times> string \<times> 'm) list" where
  "first_by_name ps = fold (\<lambda>(p, n, m) qs. if n \<in> (fst \<circ> snd) ` set qs then qs else qs @ [(p, n, m)]) ps []"

text \<open>Greater priorities first; \<open>sort_key\<close> keeps the order of registration within a priority.\<close>

definition start_order :: "(int \<times> string \<times> 'm) list \<Rightarrow> (int \<times> string \<times> 'm) list" where
  "start_order ps = sort_key (\<lambda>(p, _, _). - p) (first_by_name ps)"

lemma flat_simps [simp]: "flat [] = []" "flat ((p, ns) # l) = map (\<lambda>n. (p, n)) ns @ flat l"
  by (simp_all add: flat_def)

lemma fst_flat: "x \<in> set (flat l) \<Longrightarrow> fst x \<in> fst ` set l"
  by (force simp: flat_def)

lemma mset_flat_push: "mset (flat (priority_push p n l)) = mset (flat l) + {#(p, n)#}"
  by (induction p n l rule: priority_push.induct) auto

lemma filter_flat_none: "q \<notin> fst ` set l \<Longrightarrow> filter (\<lambda>x. q = fst x) (flat l) = []"
  using fst_flat [of _ l] by (auto simp: filter_empty_conv)

lemma filter_flat_push:
  assumes "sorted_wrt (>) (map fst l)"
  shows "filter (\<lambda>x. q = fst x) (flat (priority_push p n l)) = filter (\<lambda>x. q = fst x) (flat l) @ (if q = p then [(p, n)] else [])"
  using assms
proof (induction p n l rule: priority_push.induct)
  case (2 p n q' ns rest)
  have "filter (\<lambda>x. p = fst x) (flat rest) = []" if "q' \<le> p"
    using that "2.prems" by (intro filter_flat_none) auto
  then show ?case using 2 by (auto simp: comp_def)
qed simp

lemma sorted_flat: "sorted_wrt (>) (map fst l) \<Longrightarrow> sorted (map (\<lambda>x. - fst x) (flat l))"
proof (induction l)
  case (Cons e l)
  obtain p ns where e: "e = (p, ns)" by (cases e)
  have "fst x < p" if "x \<in> set (flat l)" for x using that Cons.prems fst_flat [of x l] by (force simp: e)
  moreover have "sorted (map (\<lambda>_. - p) ns)" by (induction ns) auto
  ultimately show ?case using Cons by (auto simp: e sorted_append comp_def intro: less_imp_le)
qed simp

lemma first_by_name_snoc:
  "first_by_name (ps @ [(p, n, m)]) =
     (if n \<in> (fst \<circ> snd) ` set (first_by_name ps) then first_by_name ps else first_by_name ps @ [(p, n, m)])"
  by (simp add: first_by_name_def)

text \<open>What the router holds after any registrations.\<close>

lemma module_put_all_holds:
  "router_inv (module_put_all ps module_router_new) \<and>
   routers_by_name (module_put_all ps module_router_new) = map snd (first_by_name ps) \<and>
   mset (flat (routers_by_priority (module_put_all ps module_router_new))) = mset (map (\<lambda>(p, n, _). (p, n)) (first_by_name ps)) \<and>
   (\<forall>q. filter (\<lambda>x. q = fst x) (flat (routers_by_priority (module_put_all ps module_router_new))) =
        filter (\<lambda>x. q = fst x) (map (\<lambda>(p, n, _). (p, n)) (first_by_name ps)))"
proof (induction ps rule: rev_induct)
  case Nil
  show ?case using router_inv_new by (simp add: module_put_all_def first_by_name_def module_router_new_def)
next
  case (snoc x ps)
  obtain p n m where x: "x = (p, n, m)" by (cases x)
  let ?r = "module_put_all ps module_router_new"
  have put: "module_put_all (ps @ [(p, n, m)]) module_router_new = snd (module_put p n m ?r)" by (simp add: module_put_all_def)
  have mem: "map_of (routers_by_name ?r) n = None \<longleftrightarrow> n \<notin> (fst \<circ> snd) ` set (first_by_name ps)"
    using snoc.IH by (force simp: map_of_eq_None_iff)
  have sorted: "sorted_wrt (>) (map fst (routers_by_priority ?r))" using snoc.IH by (simp add: router_inv_def)
  show ?case
  proof (cases "map_of (routers_by_name ?r) n")
    case None
    then show ?thesis
      using snoc.IH mem router_inv_put [of ?r p n m] unfolding x put first_by_name_snoc
      by (simp add: module_put_def mset_flat_push filter_flat_push [OF sorted])
  next
    case (Some a)
    then show ?thesis
      using snoc.IH mem router_inv_put [of ?r p n m] unfolding x put first_by_name_snoc by (simp add: module_put_def)
  qed
qed

lemma run_order_flat: "run_order r = map snd (flat (routers_by_priority r))"
  by (simp add: run_order_def flat_def map_concat comp_def case_prod_beta)

lemma run_order_start: "run_order (module_put_all ps module_router_new) = map (fst \<circ> snd) (start_order ps)"
proof -
  let ?l = "routers_by_priority (module_put_all ps module_router_new)" and ?f = "\<lambda>(p, n, _). (p, n)"
  note h = module_put_all_holds [of ps]
  have "sort_key (\<lambda>x. - fst x) (map ?f (first_by_name ps)) = flat ?l"
    using h by (intro properties_for_sort_key sorted_flat) (auto simp: router_inv_def)
  moreover have "sort_key (\<lambda>x. - fst x) (map ?f qs) = map ?f (sort_key (\<lambda>(p, _, _). - p) qs)" for qs :: "(int \<times> string \<times> 'a) list"
  proof -
    have "map ?f (insort_key (\<lambda>(p, _, _). - p) x qs) = insort_key (\<lambda>x. - fst x) (?f x) (map ?f qs)" for x :: "int \<times> string \<times> 'a" and qs
      by (induction qs) (auto simp: case_prod_beta)
    then show ?thesis by (induction qs) (simp_all add: sort_key_def)
  qed
  ultimately have "flat ?l = map ?f (start_order ps)" by (simp add: start_order_def)
  then show ?thesis by (simp add: run_order_flat comp_def case_prod_beta)
qed

section \<open>Running\<close>

lemma fold_concat: "fold (\<lambda>(_, ns) st. fold f ns st) l st = fold f (concat (map snd l)) st"
  by (induction l arbitrary: st) auto

lemma lookup_update:
  "map_of (routers_by_name (module_update n m r)) n' =
     (if n' = n then map_option (\<lambda>_. m) (map_of (routers_by_name r) n') else map_of (routers_by_name r) n')"
proof -
  have "map_of (map (\<lambda>(a, x). (a, if a = n then m else x)) l) n' =
      (if n' = n then map_option (\<lambda>_. m) (map_of l n') else map_of l n')" for l
    by (induction l) auto
  then show ?thesis by (simp add: module_update_def)
qed

text \<open>Running modules with the names \<open>ns\<close>, which are \<open>M\<close>.\<close>

lemma run_entries:
  assumes "distinct ns" and "\<forall>n \<in> set ns. map_of (routers_by_name r) n = Some (M n)"
  shows "\<exists>r'. map fst (routers_by_name r') = map fst (routers_by_name r) \<and> routers_by_priority r' = routers_by_priority r \<and>
     fold (run_entry ops) ns (log, r, pool) =
       (log @ map (\<lambda>(n, io). (n, io, fst (mod_init ops (M n)))) (zip ns (fst (take_services (length ns) pool))), r',
        snd (take_services (length ns) pool)) \<and>
     (\<forall>n. n \<notin> set ns \<longrightarrow> map_of (routers_by_name r') n = map_of (routers_by_name r) n) \<and>
     (\<forall>(n, io) \<in> set (zip ns (fst (take_services (length ns) pool))).
        map_of (routers_by_name r') n = Some (snd (run_one ops io (M n))))"
  using assms
proof (induction ns arbitrary: log r pool)
  case (Cons n ns)
  obtain io pool' where g: "get_io_service pool = (io, pool')" by (cases "get_io_service pool")
  let ?r = "module_update n (snd (run_one ops io (M n))) r" and ?log = "log @ [(n, io, fst (mod_init ops (M n)))]"
  have step: "run_entry ops n (log, r, pool) = (?log, ?r, pool')" using Cons.prems(2) by (simp add: run_entry_def g)
  have "\<forall>a \<in> set ns. map_of (routers_by_name ?r) a = Some (M a)" using Cons.prems by (auto simp: lookup_update)
  from Cons.IH [OF _ this, of ?log pool'] Cons.prems(1) obtain r' where
    r': "map fst (routers_by_name r') = map fst (routers_by_name ?r)" "routers_by_priority r' = routers_by_priority ?r"
      "fold (run_entry ops) ns (?log, ?r, pool') =
         (?log @ map (\<lambda>(n, io). (n, io, fst (mod_init ops (M n)))) (zip ns (fst (take_services (length ns) pool'))), r',
          snd (take_services (length ns) pool'))"
      "\<And>a. a \<notin> set ns \<Longrightarrow> map_of (routers_by_name r') a = map_of (routers_by_name ?r) a"
      "\<forall>(a, io) \<in> set (zip ns (fst (take_services (length ns) pool'))).
         map_of (routers_by_name r') a = Some (snd (run_one ops io (M a)))"
    by auto
  have "map_of (routers_by_name r') n = Some (snd (run_one ops io (M n)))"
    using r'(4) [of n] Cons.prems by (simp add: lookup_update)
  then show ?case
    using r' step by (intro exI [of _ r']) (auto simp: g lookup_update split: prod.splits)
qed simp

section \<open>Properties\<close>

text \<open>
  C15. The modules start in the order of their priorities. However modules were registered, \<open>run\<close>
  on a pool of \<open>k + 1\<close> services goes through the first registration of every name, greater
  priorities first and in the order of registration within a priority. The \<open>i\<close>-th of them takes
  service \<open>i mod (k + 1)\<close> and is initialised; when that succeeds, it is attached to the service and
  run, and otherwise neither; the router then holds the module in the state these calls left.
\<close>

theorem module_run_order:
  "\<exists>r' pool'.
     module_run ops (module_put_all ps module_router_new) \<lparr>pool_size = Suc k, next_to_service = 0, enabled = e\<rparr> =
       (map2 (\<lambda>(p, n, m) i. (n, i mod Suc k, fst (mod_init ops m))) (start_order ps) [0..<length (start_order ps)], r', pool') \<and>
     (\<forall>i < length (start_order ps).
        map_of (routers_by_name r') (fst (snd (start_order ps ! i))) =
          Some (case mod_init ops (snd (snd (start_order ps ! i))) of
                  (False, m1) \<Rightarrow> m1
                | (True, m1) \<Rightarrow> snd (mod_run ops (mod_attach ops (i mod Suc k) m1)))) \<and>
     router_inv r'"
proof -
  let ?r = "module_put_all ps module_router_new" and ?pool = "\<lparr>pool_size = Suc k, next_to_service = 0, enabled = e\<rparr>"
  let ?L = "start_order ps" and ?ns = "map (fst \<circ> snd) (start_order ps)"
  note h = module_put_all_holds [of ps]
  define M where "M n = the (map_of (routers_by_name ?r) n)" for n
  have inv: "router_inv ?r" and d: "distinct ?ns" using h run_order_start [of ps] by (auto simp: router_inv_def)
  have reg: "map_of (routers_by_name ?r) (fst (snd x)) = Some (snd (snd x))" if "x \<in> set ?L" for x
  proof -
    have "x \<in> set (first_by_name ps)" using that by (simp add: start_order_def)
    moreover have "distinct (map fst (routers_by_name ?r))" using inv by (simp add: router_inv_def)
    ultimately show ?thesis using h by (intro map_of_is_SomeI) (auto intro: rev_image_eqI)
  qed
  then have M: "M (fst (snd x)) = snd (snd x)" if "x \<in> set ?L" for x using that by (simp add: M_def)
  have "\<forall>n \<in> set ?ns. map_of (routers_by_name ?r) n = Some (M n)" using reg M by auto
  from run_entries [OF d this, of ops "[]" ?pool] obtain r' where
    r': "map fst (routers_by_name r') = map fst (routers_by_name ?r)" "routers_by_priority r' = routers_by_priority ?r"
      "fold (run_entry ops) ?ns ([], ?r, ?pool) =
        (map (\<lambda>(n, io). (n, io, fst (mod_init ops (M n)))) (zip ?ns (fst (take_services (length ?ns) ?pool))), r',
         snd (take_services (length ?ns) ?pool))"
      "\<forall>(n, io) \<in> set (zip ?ns (fst (take_services (length ?ns) ?pool))).
         map_of (routers_by_name r') n = Some (snd (run_one ops io (M n)))"
    by auto
  have ios: "fst (take_services (length ?ns) ?pool) = map (\<lambda>i. i mod Suc k) [0..<length ?L]"
    using take_services_round_robin [of ?pool "length ?ns"] by (simp add: pool_ok_def)
  have run: "module_run ops ?r ?pool = fold (run_entry ops) ?ns ([], ?r, ?pool)"
    unfolding module_run_def fold_concat using run_order_start [of ps] by (simp add: run_order_def)
  have log: "map (\<lambda>(n, io). (n, io, fst (mod_init ops (M n)))) (zip ?ns (map (\<lambda>i. i mod Suc k) [0..<length ?L])) =
      map2 (\<lambda>(p, n, m) i. (n, i mod Suc k, fst (mod_init ops m))) ?L [0..<length ?L]"
    by (rule nth_equalityI) (simp_all add: M case_prod_beta)
  have mods: "map_of (routers_by_name r') (fst (snd (?L ! i))) =
          Some (case mod_init ops (snd (snd (?L ! i))) of
                  (False, m1) \<Rightarrow> m1 | (True, m1) \<Rightarrow> snd (mod_run ops (mod_attach ops (i mod Suc k) m1)))" if "i < length ?L" for i
  proof -
    have "(fst (snd (?L ! i)), i mod Suc k) \<in> set (zip ?ns (fst (take_services (length ?ns) ?pool)))"
      unfolding ios using that by (auto simp: set_zip intro!: exI [of _ i])
    with r'(4) have "map_of (routers_by_name r') (fst (snd (?L ! i))) = Some (snd (run_one ops (i mod Suc k) (M (fst (snd (?L ! i))))))"
      by blast
    then show ?thesis using M [of "?L ! i"] that by (auto simp: run_one_def split: prod.splits bool.splits)
  qed
  have "fst ` set (routers_by_name r') = fst ` set (routers_by_name ?r)" using arg_cong [OF r'(1), of set] by simp
  then have "router_inv r'" using inv r'(1,2) by (simp add: router_inv_def run_order_def)
  with mods show ?thesis unfolding run r'(3) ios log by blast
qed

text \<open>Two modules, the second with the greater priority and failing; the third registration is ignored.\<close>

definition letters :: "string module_ops" where
  "letters = \<lparr>mod_init = (\<lambda>m. (m \<noteq> ''bad'', m @ ''i'')), mod_attach = (\<lambda>io m. m @ ''a''),
     mod_run = (\<lambda>m. (True, m @ ''r'')), mod_timer = (\<lambda>_ m. m)\<rparr>"

theorem module_run_order_witness:
  "\<exists>r' pool'. module_run letters (module_put_all [(0, ''x'', ''m''), (5, ''y'', ''bad''), (9, ''x'', ''z'')] module_router_new)
       \<lparr>pool_size = Suc 1, next_to_service = 0, enabled = False\<rparr> = ([(''y'', 0, False), (''x'', 1, True)], r', pool') \<and>
     map_of (routers_by_name r') ''x'' = Some ''miar'' \<and> map_of (routers_by_name r') ''y'' = Some ''badi''"
proof -
  let ?ps = "[(0, ''x'', ''m''), (5, ''y'', ''bad''), (9, ''x'', ''z'')] :: (int \<times> string \<times> string) list"
  have o: "start_order ?ps = [(5, ''y'', ''bad''), (0, ''x'', ''m'')]" by code_simp
  from module_run_order [of letters ?ps 1 False] obtain r' pool' where
    1: "module_run letters (module_put_all ?ps module_router_new) \<lparr>pool_size = Suc 1, next_to_service = 0, enabled = False\<rparr> =
      (map2 (\<lambda>(p, n, m) i. (n, i mod Suc 1, fst (mod_init letters m))) (start_order ?ps) [0..<length (start_order ?ps)], r', pool')"
    and 2: "\<And>i. i < length (start_order ?ps) \<Longrightarrow> map_of (routers_by_name r') (fst (snd (start_order ?ps ! i))) =
          Some (case mod_init letters (snd (snd (start_order ?ps ! i))) of
                  (False, m1) \<Rightarrow> m1
                | (True, m1) \<Rightarrow> snd (mod_run letters (mod_attach letters (i mod Suc 1) m1)))"
    by blast
  show ?thesis using 1 2 [of 0] 2 [of 1] unfolding o by (simp add: letters_def upt_rec)
qed

end
