(* ===== verification/Tcp_Session.thy ===== *)
theory Tcp_Session
  imports Tcp_Protocol Session Registry
begin

text \<open>
  The class \<open>tcp\<close> (include/aquarius/ip/tcp.hpp), with the handlers and contexts it drives
  (include/aquarius/ip/handler.hpp, include/aquarius/basic_context.hpp).

  A frame is an 8-byte \<open>raw_header\<close>, the payload length and the call number \<open>src\<close>, followed by
  the payload. A server session reads frames, finds the context of the router that a payload
  starts with, lets its handler parse the rest and spawns the handling; the reply goes back
  under the same \<open>src\<close>. A client session reads frames and gives each to the callback
  registered under its \<open>src\<close>.

  Loops that end only with the connection are one step, a function, and its iteration with
  fuel. What user code and callbacks change is a state \<open>'w\<close> that the functions thread.
\<close>

section \<open>Framing\<close>

record raw_header =
  hdr_length :: "32 word"
  hdr_src :: "32 word"

text \<open>The object representation of the header.\<close>

definition raw_header_bytes :: "raw_header \<Rightarrow> string" where
  "raw_header_bytes h = le_bytes 4 (hdr_length h) @ le_bytes 4 (hdr_src h)"

text \<open>
  \<open>commit_raw_header\<close> pushes a reference to the header, so the bytes that are sent are those
  of the header at the time of sending.
\<close>

definition commit_raw_header :: "string list \<Rightarrow> raw_header \<Rightarrow> string list" where
  "commit_raw_header buffers h = buffers @ [raw_header_bytes h]"

text \<open>
  \<open>buffer.sgetn((char*)&header, buffer.size())\<close> overwrites the front of the header with the
  whole buffer; more than \<open>sizeof(raw_header)\<close> bytes would be written past it.
\<close>

definition consume_raw_header :: "flex_buffer \<Rightarrow> raw_header \<Rightarrow> fault + raw_header \<times> flex_buffer" where
  "consume_raw_header buffer h =
     (if 8 < length buffer then Inl Undefined
      else let (s, buffer') = sgetn (length buffer) buffer;
               bytes = s @ drop (length s) (raw_header_bytes h)
           in Inr (\<lparr>hdr_length = le_word (take 4 bytes), hdr_src = le_word (drop 4 bytes)\<rparr>, buffer'))"

section \<open>Session state\<close>

text \<open>
  A callback is what \<open>std::function\<close> holds, if anything, and the flag that it has run. The
  channel has no buffer: \<open>waiting\<close> is its queue of receivers, each a call of \<open>wait(src)\<close>, and
  \<open>finished\<close> lists the calls of \<open>wait\<close> that have returned.
\<close>

type_synonym 'w callback_func = "flex_buffer \<Rightarrow> string \<Rightarrow> 'w \<Rightarrow> 'w"

record 'w tcp_callback =
  cb_func :: "'w callback_func option"
  cb_complete :: bool

record ('s, 'w) tcp =
  session_ptr :: "'s basic_session option"
  buffers :: "(64 word \<times> 'w tcp_callback) list"
  waiting :: "64 word list"
  finished :: "64 word list"

definition tcp_new :: "'s basic_session \<Rightarrow> ('s, 'w) tcp" where
  "tcp_new s = \<lparr>session_ptr = Some s, buffers = [], waiting = [], finished = []\<rparr>"

text \<open>Sending through the session; a null session pointer would be dereferenced.\<close>

definition tcp_send :: "'s socket_ops \<Rightarrow> string list \<Rightarrow> ('s, 'w) tcp \<Rightarrow> (fault + error_code) \<times> ('s, 'w) tcp" where
  "tcp_send ops bss t =
     (case session_ptr t of
        None \<Rightarrow> (Inl Undefined, t)
      | Some s \<Rightarrow> (case async_send ops bss s of (ec, s') \<Rightarrow> (Inr ec, t\<lparr>session_ptr := Some s'\<rparr>)))"

definition recv :: "'s socket_ops \<Rightarrow> flex_buffer \<Rightarrow> ('s, 'w) tcp
    \<Rightarrow> (fault + error_code) \<times> flex_buffer \<times> 32 word \<times> ('s, 'w) tcp" where
  "recv ops buffer t =
     (case session_ptr t of
        None \<Rightarrow> (Inr eof, buffer, 0, t)
      | Some s \<Rightarrow>
          (case async_read ops buffer 8 s of (ec, buffer1, s1) \<Rightarrow>
             if failed ec then (Inr ec, buffer1, 0, t\<lparr>session_ptr := Some s1\<rparr>)
             else case consume_raw_header buffer1 \<lparr>hdr_length = 0, hdr_src = 0\<rparr> of
                    Inl f \<Rightarrow> (Inl f, buffer1, 0, t\<lparr>session_ptr := Some s1\<rparr>)
                  | Inr (h, buffer2) \<Rightarrow>
                      if hdr_length h = 0 then (Inr eof, buffer2, hdr_src h, t\<lparr>session_ptr := Some s1\<rparr>)
                      else case async_read ops buffer2 (unat (hdr_length h)) s1 of (ec2, buffer3, s2) \<Rightarrow>
                             (Inr ec2, buffer3, hdr_src h, t\<lparr>session_ptr := Some s2\<rparr>)))"

section \<open>Calls and their callbacks\<close>

definition buffers_put :: "64 word \<Rightarrow> 'w tcp_callback \<Rightarrow> (64 word \<times> 'w tcp_callback) list
    \<Rightarrow> (64 word \<times> 'w tcp_callback) list" where
  "buffers_put src cb m = (src, cb) # filter (\<lambda>(k, _). k \<noteq> src) m"

definition buffers_erase :: "64 word \<Rightarrow> (64 word \<times> 'w tcp_callback) list \<Rightarrow> (64 word \<times> 'w tcp_callback) list" where
  "buffers_erase src m = filter (\<lambda>(k, _). k \<noteq> src) m"

definition regist_resp_func :: "64 word \<Rightarrow> 'w callback_func option \<Rightarrow> ('s, 'w) tcp \<Rightarrow> ('s, 'w) tcp" where
  "regist_resp_func src f t =
     (let cb = (case map_of (buffers t) src of
                  None \<Rightarrow> \<lparr>cb_func = None, cb_complete = False\<rparr>
                | Some cb \<Rightarrow> cb)
      in t\<lparr>buffers := buffers_put src (cb\<lparr>cb_func := f\<rparr>) (buffers t)\<rparr>)"

text \<open>
  \<open>try_send\<close> on the unbuffered channel reaches the receiver that has waited longest, or
  nobody. That receiver, inside \<open>wait\<close>, returns when the number is its own and otherwise
  waits again, behind the others.
\<close>

definition try_send :: "64 word \<Rightarrow> ('s, 'w) tcp \<Rightarrow> ('s, 'w) tcp" where
  "try_send v t =
     (case waiting t of
        [] \<Rightarrow> t
      | w # ws \<Rightarrow> if w = v then t\<lparr>waiting := ws, finished := finished t @ [w]\<rparr>
                  else t\<lparr>waiting := ws @ [w]\<rparr>)"

definition tcp_wait :: "64 word \<Rightarrow> ('s, 'w) tcp \<Rightarrow> ('s, 'w) tcp" where
  "tcp_wait src t = t\<lparr>waiting := waiting t @ [src]\<rparr>"

definition filling_buffer :: "64 word \<Rightarrow> flex_buffer \<Rightarrow> string \<Rightarrow> ('s, 'w) tcp \<Rightarrow> 'w \<Rightarrow> bool \<times> ('s, 'w) tcp \<times> 'w" where
  "filling_buffer src buffer router t w =
     (case map_of (buffers t) src of
        None \<Rightarrow> (False, try_send 0 t, w)
      | Some cb \<Rightarrow>
          (True, try_send src (t\<lparr>buffers := buffers_erase src (buffers t)\<rparr>),
           (case cb_func cb of None \<Rightarrow> w | Some f \<Rightarrow> f buffer router w)))"

text \<open>
  \<open>send_request\<close>: the message is committed (its error code is not looked at), the callback is
  registered and the frame is sent. \<open>generated\<close> is the number drawn by \<open>uuid_generator\<close>.
\<close>

definition send_request :: "'s socket_ops \<Rightarrow> (flex_buffer \<Rightarrow> (fault + error_code) \<times> flex_buffer) \<Rightarrow> 32 word
    \<Rightarrow> 'w callback_func \<Rightarrow> ('s, 'w) tcp \<Rightarrow> (fault + error_code) \<times> 64 word \<times> ('s, 'w) tcp" where
  "send_request ops commit generated f t =
     (case commit [] of
        (Inl e, buffer) \<Rightarrow> (Inl e, 0, t)
      | (Inr ec, buffer) \<Rightarrow>
          let header = \<lparr>hdr_length = word_of_nat (length buffer), hdr_src = generated\<rparr>;
              src = ucast generated;
              t1 = regist_resp_func src (Some f) t
          in case tcp_send ops (commit_raw_header [] header @ [buffer]) t1 of
               (ec2, t2) \<Rightarrow> (ec2, src, t2))"

definition send_buffer :: "'s socket_ops \<Rightarrow> flex_buffer \<Rightarrow> string \<Rightarrow> 32 word
    \<Rightarrow> 'w callback_func \<Rightarrow> ('s, 'w) tcp \<Rightarrow> (fault + error_code) \<times> 64 word \<times> ('s, 'w) tcp" where
  "send_buffer ops req router generated f t =
     (let src = ucast generated;
          t1 = regist_resp_func src (Some f) t;
          router_buffer = (if router = [] then [] else to_datas_string router []);
          len = word_of_nat (length req) + (if router = [] then 0 else word_of_nat (length router_buffer));
          bufs = commit_raw_header [] \<lparr>hdr_length = len, hdr_src = generated\<rparr> @
                 (if router = [] then [] else [router_buffer]) @ [req]
      in case tcp_send ops bufs t1 of (ec, t2) \<Rightarrow> (ec, src, t2))"

section \<open>The server side\<close>

text \<open>The callback that \<open>accept\<close> gives a context: reply under \<open>src\<close>.\<close>

definition reply :: "'s socket_ops \<Rightarrow> 32 word \<Rightarrow> flex_buffer \<Rightarrow> string \<Rightarrow> ('s, 'w) tcp
    \<Rightarrow> (fault + error_code) \<times> ('s, 'w) tcp" where
  "reply ops src buffer r t =
     (let tmp = (if r = [] then [] else to_datas_string r []);
          len = word_of_nat (length buffer) + (if r = [] then 0 else word_of_nat (length tmp))
      in tcp_send ops (commit_raw_header [] \<lparr>hdr_length = len, hdr_src = src\<rparr> @
                       (if r = [] then [] else [tmp]) @ [buffer]) t)"

datatype loop = Continue | Stop "fault + error_code"

text \<open>
  One round of \<open>accept\<close>. \<open>get\<close> is \<open>mpc_get_context\<close>, \<open>is_tcp\<close> the dynamic cast, and
  \<open>complete\<close> what \<open>attach_router\<close> and \<open>complete\<close> of the context do with the buffer and the
  number to reply under. The exception of \<open>from_datas\<close> is not caught.
\<close>

definition accept_step :: "'s socket_ops \<Rightarrow> limits \<Rightarrow> (string \<Rightarrow> 'c option) \<Rightarrow> ('c \<Rightarrow> bool)
    \<Rightarrow> ('c \<Rightarrow> string \<Rightarrow> 32 word \<Rightarrow> flex_buffer \<Rightarrow> 'w \<Rightarrow> (fault + error_code) \<times> 'w)
    \<Rightarrow> ('s, 'w) tcp \<Rightarrow> 'w \<Rightarrow> loop \<times> ('s, 'w) tcp \<times> 'w" where
  "accept_step ops lim get is_tcp complete t w =
     (case recv ops [] t of
        (Inl f, _, _, t1) \<Rightarrow> (Stop (Inl f), t1, w)
      | (Inr ec, buffer, src, t1) \<Rightarrow>
          if failed ec then (Stop (Inr ec), t1, w)
          else case from_datas_string lim buffer of
                 (Inl f, _) \<Rightarrow> (Stop (Inl f), t1, w)
               | (Inr router, buffer') \<Rightarrow>
                   (case get router of
                      None \<Rightarrow> (Continue, t1, w)
                    | Some c \<Rightarrow>
                        if \<not> is_tcp c then (Continue, t1, w)
                        else case complete c router src buffer' w of
                               (Inl f, w') \<Rightarrow> (Stop (Inl f), t1, w')
                             | (Inr ec', w') \<Rightarrow> (Continue, t1, w')))"

text \<open>One round of \<open>query\<close>, the client's loop.\<close>

definition query_step :: "'s socket_ops \<Rightarrow> limits \<Rightarrow> (string \<Rightarrow> 'c option) \<Rightarrow> ('c \<Rightarrow> bool)
    \<Rightarrow> ('c \<Rightarrow> string \<Rightarrow> 32 word \<Rightarrow> flex_buffer \<Rightarrow> 'w \<Rightarrow> (fault + error_code) \<times> 'w)
    \<Rightarrow> ('s, 'w) tcp \<Rightarrow> 'w \<Rightarrow> loop \<times> ('s, 'w) tcp \<times> 'w" where
  "query_step ops lim get is_tcp complete t w =
     (case recv ops [] t of
        (Inl f, _, _, t1) \<Rightarrow> (Stop (Inl f), t1, w)
      | (Inr ec, buffer, src, t1) \<Rightarrow>
          if failed ec then (Stop (Inr ec), t1, w)
          else case from_datas_string lim buffer of
                 (Inl f, _) \<Rightarrow> (Stop (Inl f), t1, w)
               | (Inr router, buffer') \<Rightarrow>
                   (case filling_buffer (ucast src) buffer' router t1 w of
                      (True, t2, w2) \<Rightarrow> (Continue, t2, w2)
                    | (False, t2, w2) \<Rightarrow>
                        (case get router of
                           None \<Rightarrow> (Continue, t2, w2)
                         | Some c \<Rightarrow>
                             if \<not> is_tcp c then (Continue, t2, w2)
                             else case complete c router src buffer' w2 of
                                    (Inl f, w3) \<Rightarrow> (Stop (Inl f), t2, w3)
                                  | (Inr ec', w3) \<Rightarrow> (Continue, t2, w3))))"

fun run_loop :: "nat \<Rightarrow> ('t \<Rightarrow> 'w \<Rightarrow> loop \<times> 't \<times> 'w) \<Rightarrow> 't \<Rightarrow> 'w \<Rightarrow> ((fault + error_code) \<times> 't \<times> 'w) option" where
  "run_loop 0 step t w = None"
| "run_loop (Suc n) step t w =
     (case step t w of
        (Stop r, t', w') \<Rightarrow> Some (r, t', w')
      | (Continue, t', w') \<Rightarrow> run_loop n step t' w')"

section \<open>Handlers and contexts\<close>

record ('q, 'p) handler =
  handler_name :: string
  request :: "'q tcp_request"
  response :: "'p tcp_response"

definition handler_visit :: "'q serialization \<Rightarrow> ('q, 'p) handler \<Rightarrow> flex_buffer
    \<Rightarrow> (fault + error_code) \<times> ('q, 'p) handler \<times> flex_buffer" where
  "handler_visit ops h buffer =
     (case consume_request ops (request h) buffer of (ec, m, buffer') \<Rightarrow> (ec, h\<lparr>request := m\<rparr>, buffer'))"

text \<open>
  The contexts, each with one handler object for all its requests, and the spawned handlings
  (context and reply number) that have not run yet.
\<close>

record ('c, 'h) contexts_state =
  handlers :: "'c \<Rightarrow> 'h"
  routers :: "'c \<Rightarrow> string"
  spawned :: "('c \<times> 32 word) list"

text \<open>
  \<open>attach_router\<close>, then \<open>do_complete\<close>: the handler parses the buffer, the handling is spawned,
  and the result is success whatever \<open>visit\<close> returned.
\<close>

definition do_complete :: "('h \<Rightarrow> flex_buffer \<Rightarrow> (fault + error_code) \<times> 'h \<times> flex_buffer)
    \<Rightarrow> 'c \<Rightarrow> string \<Rightarrow> 32 word \<Rightarrow> flex_buffer \<Rightarrow> ('c, 'h) contexts_state
    \<Rightarrow> (fault + error_code) \<times> ('c, 'h) contexts_state" where
  "do_complete visit c router src buffer w =
     (let w1 = w\<lparr>routers := (routers w)(c := router)\<rparr>
      in case visit (handlers w c) buffer of
           (Inl f, h, _) \<Rightarrow> (Inl f, w1\<lparr>handlers := (handlers w)(c := h)\<rparr>)
         | (Inr _, h, _) \<Rightarrow>
             (Inr no_error, w1\<lparr>handlers := (handlers w)(c := h), spawned := spawned w @ [(c, src)]\<rparr>))"

text \<open>
  \<open>handle_request\<close>: \<open>handle\<close> is the user's coroutine. The response takes the error value as
  its result and the way of the request; the error code of \<open>commit\<close> is not looked at.
\<close>

definition handle_request :: "'s socket_ops \<Rightarrow> string \<Rightarrow> 'p serialization
    \<Rightarrow> (('q, 'p) handler \<Rightarrow> error_code \<times> ('q, 'p) handler) \<Rightarrow> 32 word \<Rightarrow> ('q, 'p) handler \<Rightarrow> ('s, 'w) tcp
    \<Rightarrow> (fault + error_code) \<times> ('q, 'p) handler \<times> ('s, 'w) tcp" where
  "handle_request ops router resp_ops handle src h t =
     (case handle h of (ec, h1) \<Rightarrow>
        let resp = response h1;
            resp' = resp\<lparr>result := word_of_int (ec_value ec),
                         header := (header resp)\<lparr>way := way (header (request h1))\<rparr>\<rparr>;
            h2 = h1\<lparr>response := resp'\<rparr>
        in case commit_response router resp_ops resp' [] of
             (Inl f, _) \<Rightarrow> (Inl f, h2, t)
           | (Inr _, resp_buffer) \<Rightarrow>
               (case reply ops src resp_buffer [] t of (r, t') \<Rightarrow> (r, h2, t')))"

section \<open>Frames\<close>

definition frame :: "32 word \<Rightarrow> string \<Rightarrow> string" where
  "frame src payload = raw_header_bytes \<lparr>hdr_length = word_of_nat (length payload), hdr_src = src\<rparr> @ payload"

definition sendable :: "string \<Rightarrow> bool" where
  "sendable payload \<longleftrightarrow> payload \<noteq> [] \<and> length payload < 2 ^ 32"

lemma length_raw_header_bytes [simp]: "length (raw_header_bytes h) = 8"
  by (simp add: raw_header_bytes_def)

lemma consume_raw_header_bytes [simp]: "consume_raw_header (raw_header_bytes h) h0 = Inr (h, [])"
  by (simp add: consume_raw_header_def sgetn_def) (simp add: raw_header_bytes_def)

lemma frame_append:
  "commit_raw_header [] \<lparr>hdr_length = word_of_nat (length b), hdr_src = src\<rparr> @ [b] =
     [raw_header_bytes \<lparr>hdr_length = word_of_nat (length b), hdr_src = src\<rparr>, b]"
  by (simp add: commit_raw_header_def)

lemma unat_length_word:
  assumes "sendable payload"
  shows "unat (word_of_nat (length payload) :: 32 word) = length payload"
    and "(word_of_nat (length payload) :: 32 word) \<noteq> 0"
proof -
  show u: "unat (word_of_nat (length payload) :: 32 word) = length payload"
    using assms by (simp add: sendable_def unsigned_of_nat take_bit_eq_mod)
  show "(word_of_nat (length payload) :: 32 word) \<noteq> 0"
    using u assms by (metis length_0_conv sendable_def unsigned_0)
qed

lemma recv_frame:
  assumes st: "stream_socket ops incoming ending outgoing"
    and s: "session_ptr t = Some s" and i: "incoming (socket s) = frame src payload @ rest"
    and p: "sendable payload"
  shows "\<exists>s'. recv ops [] t = (Inr no_error, payload, src, t\<lparr>session_ptr := Some s'\<rparr>) \<and>
              incoming (socket s') = rest \<and> ending (socket s') = ending (socket s) \<and>
              outgoing (socket s') = outgoing (socket s)"
proof -
  let ?h = "\<lparr>hdr_length = word_of_nat (length payload), hdr_src = src\<rparr>"
  from i have "incoming (socket s) = raw_header_bytes ?h @ payload @ rest" by (simp add: frame_def)
  from async_read_ok [OF st this, of "[]"] obtain s1 where
    1: "async_read ops [] 8 s = (no_error, raw_header_bytes ?h, s1)"
    and s1: "incoming (socket s1) = payload @ rest" "ending (socket s1) = ending (socket s)"
      "outgoing (socket s1) = outgoing (socket s)" by auto
  from async_read_ok [OF st s1(1), of "[]"] obtain s2 where
    2: "async_read ops [] (length payload) s1 = (no_error, payload, s2)"
    and s2: "incoming (socket s2) = rest" "ending (socket s2) = ending (socket s1)"
      "outgoing (socket s2) = outgoing (socket s1)" by auto
  show ?thesis
    using s1 s2 unat_length_word [OF p]
    by (intro exI [of _ s2]) (simp add: recv_def s 1 2 failed_def no_error_def)
qed

lemma recv_end:
  assumes st: "stream_socket ops incoming ending outgoing"
    and s: "session_ptr t = Some s" and i: "length (incoming (socket s)) < 8"
  shows "\<exists>s'. recv ops [] t = (Inr (ending (socket s)), [], 0, t\<lparr>session_ptr := Some s'\<rparr>) \<and>
              incoming (socket s') = [] \<and> ending (socket s') = ending (socket s) \<and>
              outgoing (socket s') = outgoing (socket s)"
proof -
  have "failed (ending (socket s))" using st by (simp add: stream_socket_def)
  moreover from async_read_short [OF st i, of "[]"] obtain s1 where
    "async_read ops [] 8 s = (ending (socket s), [], s1)" "incoming (socket s1) = []"
    "ending (socket s1) = ending (socket s)" "outgoing (socket s1) = outgoing (socket s)" by auto
  ultimately show ?thesis by (intro exI [of _ s1]) (simp add: recv_def s)
qed

lemma recv_empty_frame:
  assumes st: "stream_socket ops incoming ending outgoing"
    and s: "session_ptr t = Some s" and i: "incoming (socket s) = frame src [] @ rest"
  shows "\<exists>s'. recv ops [] t = (Inr eof, [], src, t\<lparr>session_ptr := Some s'\<rparr>)"
proof -
  from i have "incoming (socket s) = raw_header_bytes \<lparr>hdr_length = 0, hdr_src = src\<rparr> @ rest"
    by (simp add: frame_def)
  from async_read_ok [OF st this, of "[]"] show ?thesis
    by (auto simp: recv_def s failed_def no_error_def)
qed

lemma tcp_send_ok:
  assumes "stream_socket ops incoming ending outgoing" and "session_ptr t = Some s"
  shows "\<exists>s'. tcp_send ops bss t = (Inr no_error, t\<lparr>session_ptr := Some s'\<rparr>) \<and>
              incoming (socket s') = incoming (socket s) \<and> ending (socket s') = ending (socket s) \<and>
              outgoing (socket s') = outgoing (socket s) @ concat bss"
  using async_send_ok [OF assms(1), of bss s] assms(2) by (auto simp: tcp_send_def)

section \<open>Callbacks\<close>

lemma map_of_buffers_erase [simp]: "map_of (buffers_erase k m) = (map_of m)(k := None)"
  by (induction m) (auto simp: buffers_erase_def)

lemma map_of_buffers_put [simp]: "map_of (buffers_put k v m) = (map_of m)(k \<mapsto> v)"
  using map_of_buffers_erase [of k m] by (simp add: buffers_put_def buffers_erase_def)

lemma try_send_fields [simp]:
  "session_ptr (try_send v t) = session_ptr t" "buffers (try_send v t) = buffers t"
  by (simp_all add: try_send_def split: list.splits)

section \<open>A run of the server\<close>

text \<open>What the arrival of one frame does to the contexts.\<close>

definition deliver :: "limits \<Rightarrow> (string \<Rightarrow> 'c option) \<Rightarrow> ('c \<Rightarrow> bool)
    \<Rightarrow> ('c \<Rightarrow> string \<Rightarrow> 32 word \<Rightarrow> flex_buffer \<Rightarrow> 'w \<Rightarrow> (fault + error_code) \<times> 'w)
    \<Rightarrow> 32 word \<times> string \<Rightarrow> 'w \<Rightarrow> 'w" where
  "deliver lim get is_tcp complete f w =
     (case f of (src, payload) \<Rightarrow>
        case from_datas_string lim payload of
          (Inl _, _) \<Rightarrow> w
        | (Inr router, buffer) \<Rightarrow>
            (case get router of
               None \<Rightarrow> w
             | Some c \<Rightarrow> if is_tcp c then snd (complete c router src buffer w) else w))"

text \<open>A payload that starts with a router.\<close>

definition routed :: "limits \<Rightarrow> string \<Rightarrow> bool" where
  "routed lim payload \<longleftrightarrow> (case fst (from_datas_string lim payload) of Inl _ \<Rightarrow> False | Inr _ \<Rightarrow> True)"

lemma accept_step_frame:
  assumes st: "stream_socket ops incoming ending outgoing"
    and s: "session_ptr t = Some s" and i: "incoming (socket s) = frame src payload @ rest"
    and p: "sendable payload" "routed lim payload"
    and c: "\<And>c r n b w. \<exists>ec w'. complete c r n b w = (Inr ec, w')"
  shows "\<exists>s'. accept_step ops lim get is_tcp complete t w =
                (Continue, t\<lparr>session_ptr := Some s'\<rparr>, deliver lim get is_tcp complete (src, payload) w) \<and>
              incoming (socket s') = rest \<and> ending (socket s') = ending (socket s) \<and>
              outgoing (socket s') = outgoing (socket s)"
proof -
  from recv_frame [OF st s i p(1)] obtain s' where
    r: "recv ops [] t = (Inr no_error, payload, src, t\<lparr>session_ptr := Some s'\<rparr>)"
    and s': "incoming (socket s') = rest" "ending (socket s') = ending (socket s)"
      "outgoing (socket s') = outgoing (socket s)" by auto
  obtain router b where f: "from_datas_string lim payload = (Inr router, b)"
    using p(2) by (cases "from_datas_string lim payload") (auto simp: routed_def split: sum.splits)
  have "accept_step ops lim get is_tcp complete t w =
      (Continue, t\<lparr>session_ptr := Some s'\<rparr>, deliver lim get is_tcp complete (src, payload) w)"
  proof (cases "get router")
    case (Some c)
    obtain ec w' where "complete c router src b w = (Inr ec, w')" using assms(6) by blast
    with Some show ?thesis by (simp add: accept_step_def deliver_def r f failed_def no_error_def)
  qed (simp add: accept_step_def deliver_def r f failed_def no_error_def)
  with s' show ?thesis by blast
qed

lemma accept_step_end:
  assumes "stream_socket ops incoming ending outgoing"
    and "session_ptr t = Some s" and "length (incoming (socket s)) < 8"
  shows "\<exists>s'. accept_step ops lim get is_tcp complete t w =
      (Stop (Inr (ending (socket s))), t\<lparr>session_ptr := Some s'\<rparr>, w)"
proof -
  have "failed (ending (socket s))" using assms(1) by (simp add: stream_socket_def)
  with recv_end [OF assms] show ?thesis by (auto simp: accept_step_def)
qed

lemma accept_loop_frames:
  assumes st: "stream_socket ops incoming ending outgoing"
    and "session_ptr t = Some s"
    and "incoming (socket s) = concat (map (\<lambda>(src, p). frame src p) fs) @ tail" and tail: "length tail < 8"
    and "\<forall>(src, p) \<in> set fs. sendable p \<and> routed lim p"
    and c: "\<And>c r n b w. \<exists>ec w'. complete c r n b w = (Inr ec, w')"
  shows "\<exists>s'. run_loop (Suc (length fs)) (accept_step ops lim get is_tcp complete) t w =
                Some (Inr (ending (socket s)), t\<lparr>session_ptr := Some s'\<rparr>, fold (deliver lim get is_tcp complete) fs w)"
  using assms(2,3,5)
proof (induction fs arbitrary: t s w)
  case Nil
  then have "length (incoming (socket s)) < 8" using tail by simp
  from accept_step_end [OF st Nil(1) this, of lim get is_tcp complete w] show ?case by auto
next
  case (Cons f fs)
  obtain src p where f: "f = (src, p)" by (cases f)
  have "incoming (socket s) = frame src p @ concat (map (\<lambda>(src, p). frame src p) fs) @ tail"
    using Cons.prems(2) by (simp add: f)
  from accept_step_frame [OF st Cons.prems(1) this _ _ c] Cons.prems(3) f
  obtain s' where
    "accept_step ops lim get is_tcp complete t w =
       (Continue, t\<lparr>session_ptr := Some s'\<rparr>, deliver lim get is_tcp complete f w)"
    "incoming (socket s') = concat (map (\<lambda>(src, p). frame src p) fs) @ tail"
    "ending (socket s') = ending (socket s)"
    by fastforce
  then show ?case using Cons.IH [of "t\<lparr>session_ptr := Some s'\<rparr>" s'] Cons.prems(3) by simp
qed

section \<open>Properties\<close>

text \<open>
  C4. A server session that receives a sequence of frames, each non-empty, below 4 GiB and
  starting with a router, and then the end of the stream, delivers them to the contexts one
  after the other in the order of arrival, and its loop returns the error that ended the
  stream. As many rounds as there are frames, plus one, are enough.
\<close>

theorem accept_in_order:
  assumes "stream_socket ops incoming ending outgoing"
    and "session_ptr t = Some s"
    and "incoming (socket s) = concat (map (\<lambda>(src, p). frame src p) fs) @ tail" and "length tail < 8"
    and "\<forall>(src, p) \<in> set fs. sendable p \<and> routed lim p"
    and "\<And>c r n b w. \<exists>ec w'. complete c r n b w = (Inr ec, w')"
  shows "\<exists>t'. run_loop (Suc (length fs)) (accept_step ops lim get is_tcp complete) t w =
                Some (Inr (ending (socket s)), t', fold (deliver lim get is_tcp complete) fs w)"
  using accept_loop_frames [OF assms(1-5), where complete = complete and get = get and is_tcp = is_tcp and w = w] assms(6)
  by blast

theorem accept_in_order_witness:
  "\<exists>t'. run_loop 3
     (accept_step script_ops \<lparr>string_max = 100, vector_max = 100\<rparr> (\<lambda>r. if r = ''ab'' then Some () else None)
        (\<lambda>_. True) (\<lambda>c r n b w. (Inr no_error, w @ [(n, b)])))
     (tcp_new \<lparr>socket = \<lparr>script_in = frame 5 (CHR 0x02 # ''abX'') @ frame 6 (CHR 0x02 # ''abYZ''), script_out = []\<rparr>,
               session_uuid = 1, timeout = 30\<rparr>) [] =
     Some (Inr eof, t', [(5, ''X''), (6, ''YZ'')])"
proof -
  have p: "from_datas_string \<lparr>string_max = 100, vector_max = 100\<rparr> (CHR 0x02 # ''ab'' @ x) = (Inr ''ab'', x)" for x
  proof -
    have "varint (Suc (Suc 0)) = [CHR 0x02]" by code_simp
    then show ?thesis
      using decodesD [OF decodes_string [of "''ab''" "\<lparr>string_max = 100, vector_max = 100\<rparr>"], of x] by simp
  qed
  have 1: "from_datas_string \<lparr>string_max = 100, vector_max = 100\<rparr> (CHR 0x02 # ''abX'') = (Inr ''ab'', ''X'')"
    and 2: "from_datas_string \<lparr>string_max = 100, vector_max = 100\<rparr> (CHR 0x02 # ''abYZ'') = (Inr ''ab'', ''YZ'')"
    using p [of "''X''"] p [of "''YZ''"] by simp_all
  let ?fs = "[(5, CHR 0x02 # ''abX''), (6, CHR 0x02 # ''abYZ'')] :: (32 word \<times> string) list"
  let ?lim = "\<lparr>string_max = 100, vector_max = 100\<rparr>"
  let ?s = "\<lparr>socket = \<lparr>script_in = frame 5 (CHR 0x02 # ''abX'') @ frame 6 (CHR 0x02 # ''abYZ''), script_out = []\<rparr>,
               session_uuid = 1, timeout = 30\<rparr>"
  let ?get = "\<lambda>r. if r = ''ab'' then Some () else None"
  let ?complete = "\<lambda>c r n b w. (Inr no_error, w @ [(n, b)])"
  have fs: "fold (deliver ?lim ?get (\<lambda>_. True) ?complete) ?fs [] = [(5, ''X''), (6, ''YZ'')]"
    by (simp add: deliver_def 1 2)
  have n: "Suc (length ?fs) = 3" by simp
  have "\<exists>t'. run_loop (Suc (length ?fs)) (accept_step script_ops ?lim ?get (\<lambda>_. True) ?complete) (tcp_new ?s) [] =
      Some (Inr eof, t', fold (deliver ?lim ?get (\<lambda>_. True) ?complete) ?fs [])"
    by (rule accept_in_order [OF stream_socket_script, of _ ?s _ "[]"])
      (simp_all add: tcp_new_def sendable_def routed_def 1 2)
  then show ?thesis unfolding fs n .
qed

text \<open>
  A reply reaches the call it belongs to: a reply under a number runs exactly the callback
  that was registered last under it, on the reply, and removes it, leaves the callbacks under
  other numbers, and wakes the call when it is the one that has waited longest.
\<close>

theorem reply_reaches_call:
  assumes "waiting t = src # ws"
  shows "\<exists>t'. filling_buffer src b router (regist_resp_func src (Some f) t) w = (True, t', f b router w) \<and>
              map_of (buffers t') = (map_of (buffers t))(src := None) \<and>
              waiting t' = ws \<and> finished t' = finished t @ [src]"
  using assms by (simp add: filling_buffer_def regist_resp_func_def try_send_def Let_def)

theorem reply_reaches_call_witness:
  "\<exists>t'. filling_buffer 9 ''x'' ''r''
      (regist_resp_func 9 (Some (\<lambda>b r w. w @ b))
         \<lparr>session_ptr = (None :: unit basic_session option), buffers = [], waiting = [9, 4], finished = []\<rparr>) ''w'' =
      (True, t', ''w'' @ ''x'') \<and>
      map_of (buffers t') = (map_of [])(9 := None) \<and> waiting t' = [4] \<and> finished t' = [] @ [9]"
  using reply_reaches_call
    [of "\<lparr>session_ptr = (None :: unit basic_session option), buffers = [], waiting = [9, 4], finished = []\<rparr>"
      9 "[4]" "''x''" "''r''" "\<lambda>b r w. w @ b" "''w''"]
  by simp

text \<open>
  A wake-up can be lost. The notification of a reply goes to the call that has waited
  longest: when it belongs to another call, the call that waited longest goes back to waiting,
  nobody is told, and both remain in the queue although the callback of one has run; when
  nobody waits yet, the notification is dropped.
\<close>

theorem wakeup_lost:
  assumes "waiting t = first # others" and "src \<noteq> first" and "map_of (buffers t) src = Some cb"
  shows "waiting (fst (snd (filling_buffer src b router t w))) = others @ [first] \<and>
         finished (fst (snd (filling_buffer src b router t w))) = finished t \<and>
         map_of (buffers (fst (snd (filling_buffer src b router t w)))) src = None \<and>
         finished (fst (snd (filling_buffer src b router (t\<lparr>waiting := []\<rparr>) w))) = finished t"
  using assms by (simp add: filling_buffer_def try_send_def)

theorem wakeup_lost_witness:
  "waiting (fst (snd (filling_buffer 2 ''x'' ''r''
      \<lparr>session_ptr = (None :: unit basic_session option), buffers = [(1, \<lparr>cb_func = None, cb_complete = False\<rparr>), (2, \<lparr>cb_func = None, cb_complete = False\<rparr>)],
       waiting = [1, 2], finished = []\<rparr> ''w''))) = [2, 1] \<and>
   finished (fst (snd (filling_buffer 2 ''x'' ''r''
      \<lparr>session_ptr = (None :: unit basic_session option), buffers = [(1, \<lparr>cb_func = None, cb_complete = False\<rparr>), (2, \<lparr>cb_func = None, cb_complete = False\<rparr>)],
       waiting = [1, 2], finished = []\<rparr> ''w''))) = []"
  using wakeup_lost [of "\<lparr>session_ptr = (None :: unit basic_session option), buffers = [(1, \<lparr>cb_func = None, cb_complete = False\<rparr>),
      (2, \<lparr>cb_func = None, cb_complete = False\<rparr>)], waiting = [1, 2], finished = []\<rparr>" 1 "[2]" 2
      "\<lparr>cb_func = None, cb_complete = False\<rparr>" "''x''" "''r''" "''w''"]
  by simp

end
