(* ===== verification/Loop_Termination.thy ===== *)
theory Loop_Termination
  imports Tcp_Session
begin

text \<open>
  Termination of the two loops of a TCP session, \<open>accept\<close> of the server and \<open>query\<close> of the
  client (include/aquarius/ip/tcp.hpp), on any input. A round that does not end the loop has
  read a header of eight bytes and a non-empty body, so the number of rounds is bounded by the
  bytes that arrive; nothing is assumed of the bytes, of the contexts or of what they do.
\<close>

definition unread :: "('s \<Rightarrow> string) \<Rightarrow> ('s, 'w) tcp \<Rightarrow> nat" where
  "unread incoming t = (case session_ptr t of None \<Rightarrow> 0 | Some s \<Rightarrow> length (incoming (socket s)))"

lemma run_loop_consumes:
  assumes "\<And>t w t' w'. step t w = (Continue, t', w') \<Longrightarrow> m t' + k \<le> m t"
  shows "m t < n * k \<Longrightarrow> \<exists>res. run_loop n step t w = Some res"
proof (induction n arbitrary: t w)
  case (Suc n)
  obtain l t' w' where st: "step t w = (l, t', w')" by (cases "step t w")
  show ?case
  proof (cases l)
    case Continue
    with st assms [of t w t' w'] Suc.prems have "m t' < n * k" by simp
    from Suc.IH [OF this] show ?thesis using st Continue by simp
  qed (simp add: st)
qed simp

text \<open>A read of a stream that reports success has taken its bytes from the stream.\<close>

lemma async_read_consumes:
  assumes st: "stream_socket ops incoming ending outgoing"
    and r: "async_read ops b n s = (ec, b', s')" and ok: "\<not> failed ec"
  shows "length (incoming (socket s')) + n = length (incoming (socket s)) \<and> length b' = length b + n"
proof (cases "n \<le> length (incoming (socket s))")
  case True
  have "incoming (socket s) = take n (incoming (socket s)) @ drop n (incoming (socket s))" by simp
  from async_read_ok [OF st this, of b] True r show ?thesis by auto
next
  case False
  then have "length (incoming (socket s)) < n" by simp
  moreover have "failed (ending (socket s))" using st by (simp add: stream_socket_def)
  ultimately show ?thesis using async_read_short [OF st, of s n b] r ok by auto
qed

lemma recv_consumes:
  assumes st: "stream_socket ops incoming ending outgoing"
    and r: "recv ops [] t = (Inr ec, b, src, t1)" and ok: "\<not> failed ec"
  shows "unread incoming t1 + 9 \<le> unread incoming t"
proof (cases "session_ptr t")
  case None
  with r ok show ?thesis by (auto simp: recv_def failed_def eof_def)
next
  case (Some s)
  obtain ec1 b1 s1 where 1: "async_read ops [] 8 s = (ec1, b1, s1)" by (cases "async_read ops [] 8 s")
  from r ok Some 1 have f1: "\<not> failed ec1" by (auto simp: recv_def)
  with r Some 1 obtain h b2 where h: "consume_raw_header b1 \<lparr>hdr_length = 0, hdr_src = 0\<rparr> = Inr (h, b2)"
    by (auto simp: recv_def split: sum.splits)
  have nz: "hdr_length h \<noteq> 0" using r ok Some 1 f1 h by (auto simp: recv_def failed_def eof_def)
  obtain ec2 b3 s2 where 2: "async_read ops b2 (unat (hdr_length h)) s1 = (ec2, b3, s2)"
    by (cases "async_read ops b2 (unat (hdr_length h)) s1")
  have "ec2 = ec" "t1 = t\<lparr>session_ptr := Some s2\<rparr>"
    using r Some 1 f1 h nz 2 by (auto simp: recv_def)
  with async_read_consumes [OF st 1 f1] async_read_consumes [OF st 2] ok
  show ?thesis using Some nz unat_gt_0 [of "hdr_length h"] by (simp add: unread_def)
qed

lemma unread_filling_buffer:
  "filling_buffer src b router t w = (found, t', w') \<Longrightarrow> unread incoming t' = unread incoming t"
  by (auto simp: filling_buffer_def unread_def split: option.splits)

lemma accept_step_consumes:
  assumes "stream_socket ops incoming ending outgoing"
    and "accept_step ops lim get is_tcp complete t w = (Continue, t', w')"
  shows "unread incoming t' + 9 \<le> unread incoming t"
proof -
  from assms(2) obtain ec b src t1 where "recv ops [] t = (Inr ec, b, src, t1)" "\<not> failed ec" "t' = t1"
    by (auto simp: accept_step_def split: prod.splits sum.splits option.splits if_splits)
  with recv_consumes [OF assms(1)] show ?thesis by blast
qed

lemma query_step_consumes:
  assumes "stream_socket ops incoming ending outgoing"
    and "query_step ops lim get is_tcp complete t w = (Continue, t', w')"
  shows "unread incoming t' + 9 \<le> unread incoming t"
proof -
  from assms(2) obtain ec b src t1 where "recv ops [] t = (Inr ec, b, src, t1)" "\<not> failed ec"
    and "unread incoming t' = unread incoming t1"
    by (auto simp: query_step_def dest: unread_filling_buffer
        split: prod.splits sum.splits option.splits if_splits bool.splits)
  with recv_consumes [OF assms(1)] show ?thesis by fastforce
qed

lemma fewer_rounds: "(n :: nat) < Suc (n div 9) * 9"
  by presburger

section \<open>Properties\<close>

text \<open>
  C8. The loops of a session end. Whatever bytes the peer sends, well-formed or not, and whatever
  the contexts do with them, the server's loop and the client's loop return after at most one
  round for every nine bytes received and one more, in which they see the end of the stream.
\<close>

theorem session_loops_terminate:
  assumes "stream_socket ops incoming ending outgoing" and "session_ptr t = Some s"
  shows "(\<exists>res. run_loop (Suc (length (incoming (socket s)) div 9)) (accept_step ops lim get is_tcp complete) t w = Some res) \<and>
         (\<exists>res. run_loop (Suc (length (incoming (socket s)) div 9)) (query_step ops lim get is_tcp complete) t w = Some res)"
proof -
  have "unread incoming t < Suc (length (incoming (socket s)) div 9) * 9"
    using assms(2) by (simp only: unread_def option.case fewer_rounds)
  note bound = this
  show ?thesis
    by (intro conjI; rule run_loop_consumes [where m = "unread incoming" and k = 9, OF _ bound])
      (erule accept_step_consumes [OF assms(1)] query_step_consumes [OF assms(1)])+
qed

text \<open>Bytes that are not frames: the length the header claims is never received.\<close>

theorem session_loops_terminate_witness:
  "length ''junk that is not a frame'' div 9 = 2 \<and>
   (\<exists>res. run_loop 3 (accept_step script_ops \<lparr>string_max = 10, vector_max = 10\<rparr> (\<lambda>r. if r = ''a'' then Some () else None)
        (\<lambda>_. True) (\<lambda>_ _ _ _ w. (Inr no_error, w)))
        (tcp_new \<lparr>socket = \<lparr>script_in = ''junk that is not a frame'', script_out = []\<rparr>, session_uuid = 1, timeout = 30\<rparr>) (0::nat) = Some res)"
proof -
  let ?s = "\<lparr>socket = \<lparr>script_in = ''junk that is not a frame'', script_out = []\<rparr>, session_uuid = 1, timeout = 30\<rparr>"
  let ?step = "accept_step script_ops \<lparr>string_max = 10, vector_max = 10\<rparr> (\<lambda>r. if r = ''a'' then Some () else None)
        (\<lambda>_. True) (\<lambda>_ _ _ _ w. (Inr no_error, w)) :: (script, nat) tcp \<Rightarrow> nat \<Rightarrow> _"
  have "session_ptr (tcp_new ?s) = Some ?s" by (simp add: tcp_new_def)
  from session_loops_terminate [OF stream_socket_script this,
      of "\<lparr>string_max = 10, vector_max = 10\<rparr>" "\<lambda>r. if r = ''a'' then Some () else None"
        "\<lambda>_. True" "\<lambda>_ _ _ _ w. (Inr no_error, w)" "0::nat"]
  have "\<exists>res. run_loop (Suc (length (script_in (socket ?s)) div 9)) ?step (tcp_new ?s) 0 = Some res" by (rule conjunct1)
  moreover have "Suc (length (script_in (socket ?s)) div 9) = 3" by simp
  ultimately have "\<exists>res. run_loop 3 ?step (tcp_new ?s) 0 = Some res" by (simp only:)
  then show ?thesis by (intro conjI) (simp, assumption)
qed

end
