(* ===== verification/Rpc.thy ===== *)
theory Rpc
  imports Messages Tcp_Session
begin

text \<open>
  A remote call, from \<open>async_call\<close> of a client (include/aquarius/basic_client.hpp) over
  \<open>send_request\<close>, the frame, \<open>accept\<close>, the context and its handler, \<open>handle_request\<close> and the
  reply, back to the callback of the call. The locale \<open>rpc\<close> joins the contracts of a request
  body and a response body; it is interpreted on the message pairs of the services.
\<close>

text \<open>The callback of \<open>async_call\<close>: parse the reply into the response object.\<close>

definition call_back :: "'p serialization \<Rightarrow> 'p tcp_response callback_func" where
  "call_back ops buffer router resp = fst (snd (consume_response ops resp buffer))"

text \<open>What travels in the frames of a call and of its reply.\<close>

definition request_payload :: "string \<Rightarrow> ('q \<Rightarrow> string) \<Rightarrow> 'q tcp_request \<Rightarrow> string" where
  "request_payload router bytes m = router_bytes router @ header_bytes (header m) @ bytes (body m)"

definition response_payload :: "string \<Rightarrow> ('p \<Rightarrow> string) \<Rightarrow> 'p tcp_response \<Rightarrow> string" where
  "response_payload router bytes m =
     router_bytes router @ varint (unat (zig_zag32 (result m))) @ header_bytes (header m) @ bytes (body m)"

locale rpc =
  req: body_codec qops qvalid qbytes + resp: body_codec pops pvalid pbytes
  for qops :: "'q serialization" and qvalid qbytes
    and pops :: "'p serialization" and pvalid pbytes +
  fixes router :: string
  assumes router_short: "length router < 2 ^ 64"
begin

lemma decodes_router:
  "length router \<le> string_max lim \<Longrightarrow> decodes (from_datas_string lim) (router_bytes router) router"
  unfolding router_bytes_def using router_short by (intro decodes_string)

lemma request_sent:
  assumes st: "stream_socket ops incoming ending outgoing" and s: "session_ptr t = Some s"
    and m: "qvalid (body m)" "way (header m) = 0"
  shows "\<exists>s' t'. send_request ops (commit_request router qops m) n f t = (Inr no_error, ucast n, t') \<and>
           session_ptr t' = Some s' \<and> incoming (socket s') = incoming (socket s) \<and>
           outgoing (socket s') = outgoing (socket s) @ frame n (request_payload router qbytes m) \<and>
           map_of (buffers t') (ucast n) = Some ((case map_of (buffers t) (ucast n) of
              None \<Rightarrow> \<lparr>cb_func = None, cb_complete = False\<rparr> | Some cb \<Rightarrow> cb)\<lparr>cb_func := Some f\<rparr>)"
proof -
  have c: "commit_request router qops m [] = (Inr no_error, request_payload router qbytes m)"
    using req.commit_request_bytes [OF m router_short, of "[]"] by (simp add: request_payload_def)
  let ?t = "regist_resp_func (ucast n) (Some f) t"
  have "session_ptr ?t = Some s" using s by (simp add: regist_resp_func_def Let_def)
  from tcp_send_ok [OF st this, of
      "[raw_header_bytes \<lparr>hdr_length = word_of_nat (length (request_payload router qbytes m)), hdr_src = n\<rparr>, request_payload router qbytes m]"]
  obtain s' where "tcp_send ops
      [raw_header_bytes \<lparr>hdr_length = word_of_nat (length (request_payload router qbytes m)), hdr_src = n\<rparr>, request_payload router qbytes m] ?t =
        (Inr no_error, ?t\<lparr>session_ptr := Some s'\<rparr>)"
    and "incoming (socket s') = incoming (socket s)"
    and "outgoing (socket s') = outgoing (socket s) @ frame n (request_payload router qbytes m)"
    by (auto simp: frame_def)
  then show ?thesis
    by (intro exI [of _ s'] exI [of _ "?t\<lparr>session_ptr := Some s'\<rparr>"])
      (simp add: send_request_def c frame_append, simp add: regist_resp_func_def Let_def)
qed

lemma request_served:
  assumes st: "stream_socket ops incoming ending outgoing" and s: "session_ptr t = Some s"
    and i: "incoming (socket s) = frame n (request_payload router qbytes m) @ rest" and z: "sendable (request_payload router qbytes m)"
    and m: "qvalid (body m)" "way (header m) = 0" and g: "get router = Some c" "is_tcp c"
    and l: "length router \<le> string_max lim"
  shows "\<exists>s'. accept_step ops lim get is_tcp (do_complete (handler_visit qops)) t w =
             (Continue, t\<lparr>session_ptr := Some s'\<rparr>,
              w\<lparr>routers := (routers w)(c := router),
                handlers := (handlers w)(c := (handlers w c)\<lparr>request := m\<rparr>),
                spawned := spawned w @ [(c, n)]\<rparr>) \<and>
           incoming (socket s') = rest \<and> outgoing (socket s') = outgoing (socket s)"
proof -
  from recv_frame [OF st s i z] obtain s' where
    r: "recv ops [] t = (Inr no_error, request_payload router qbytes m, n, t\<lparr>session_ptr := Some s'\<rparr>)"
    and s': "incoming (socket s') = rest" "outgoing (socket s') = outgoing (socket s)" by auto
  have f: "from_datas_string lim (request_payload router qbytes m) = (Inr router, header_bytes (header m) @ qbytes (body m))"
    unfolding request_payload_def by (rule decodesD [OF decodes_router [OF l]])
  have "consume_request qops m0 (header_bytes (header m) @ qbytes (body m)) = (Inr no_error, m, [])" for m0
    using loadsD [OF req.loads_consume_body [OF m], of m0 "[]"] by (simp add: consume_request_def)
  then show ?thesis
    using s' g
    by (intro exI [of _ s'])
      (simp add: accept_step_def r f do_complete_def handler_visit_def Let_def failed_def no_error_def)
qed

lemma request_handled:
  assumes st: "stream_socket ops incoming ending outgoing" and s: "session_ptr t = Some s"
    and h: "handle h = (ec, h1)" "pvalid (body (response h1))" "way (header (request h1)) = 0"
    and r: "r = (response h1)\<lparr>result := word_of_int (ec_value ec), header := (header (response h1))\<lparr>way := 0\<rparr>\<rparr>"
  shows "\<exists>s' t'. handle_request ops router pops handle n h t = (Inr no_error, h1\<lparr>response := r\<rparr>, t') \<and>
           session_ptr t' = Some s' \<and> incoming (socket s') = incoming (socket s) \<and>
           outgoing (socket s') = outgoing (socket s) @ frame n (response_payload router pbytes r)"
proof -
  have c: "commit_response router pops r [] = (Inr no_error, response_payload router pbytes r)"
    using resp.commit_response_bytes [of r, OF _ _ router_short, of "[]"] h(2)
    by (simp add: r response_payload_def)
  from tcp_send_ok [OF st s, of
      "[raw_header_bytes \<lparr>hdr_length = word_of_nat (length (response_payload router pbytes r)), hdr_src = n\<rparr>, response_payload router pbytes r]"]
  show ?thesis
    using h(1,3) c by (auto simp: handle_request_def reply_def commit_raw_header_def frame_def Let_def r)
qed

text \<open>
  The reply reaches the callback that is registered under its number, whatever it is; reading the
  response with what the callback is given yields the response that was sent.
\<close>

lemma reply_reaches:
  assumes st: "stream_socket ops incoming ending outgoing" and s: "session_ptr t = Some s"
    and i: "incoming (socket s) = frame n (response_payload router pbytes r) @ rest" and z: "sendable (response_payload router pbytes r)"
    and r: "pvalid (body r)" "way (header r) = 0" "- (2 ^ 30) \<le> sint (result r)" "sint (result r) < 2 ^ 30"
    and l: "length router \<le> string_max lim"
    and cb: "map_of (buffers t) (ucast n) = Some cb" "cb_func cb = Some f"
  shows "\<exists>s' b. query_step ops lim get is_tcp complete t w =
      (Continue, try_send (ucast n) (t\<lparr>session_ptr := Some s', buffers := buffers_erase (ucast n) (buffers t)\<rparr>), f b router w) \<and>
      incoming (socket s') = rest \<and> outgoing (socket s') = outgoing (socket s) \<and> (\<forall>r0. call_back pops b router r0 = r)"
proof -
  from recv_frame [OF st s i z] obtain s' where
    v: "recv ops [] t = (Inr no_error, response_payload router pbytes r, n, t\<lparr>session_ptr := Some s'\<rparr>)"
    and s': "incoming (socket s') = rest" "outgoing (socket s') = outgoing (socket s)" by auto
  let ?b = "varint (unat (zig_zag32 (result r))) @ header_bytes (header r) @ pbytes (body r)"
  have fr: "from_datas_string lim (response_payload router pbytes r) = (Inr router, ?b)"
    unfolding response_payload_def by (rule decodesD [OF decodes_router [OF l]])
  have "call_back pops ?b router r0 = r" for r0
  proof -
    obtain bs where "commit_response router pops r [] = (Inr no_error, [] @ router_bytes router @ bs)"
        "consume_response pops r0 (bs @ []) = (Inr no_error, r, [])"
      using resp.response_roundtrip [of r router "[]" r0 "[]"] r router_short by blast
    moreover have "commit_response router pops r [] = (Inr no_error, router_bytes router @ ?b)"
      using resp.commit_response_bytes [OF r(1,2) router_short, of "[]"] by simp
    ultimately show ?thesis by (simp add: call_back_def)
  qed
  then show ?thesis
    using cb s' by (intro exI [of _ s'] exI [of _ ?b]) (simp add: query_step_def v fr filling_buffer_def failed_def no_error_def)
qed

lemma reply_step:
  assumes "stream_socket ops incoming ending outgoing" and "session_ptr t = Some s"
    and "incoming (socket s) = frame n (response_payload router pbytes r) @ rest" and "sendable (response_payload router pbytes r)"
    and "pvalid (body r)" "way (header r) = 0" "- (2 ^ 30) \<le> sint (result r)" "sint (result r) < 2 ^ 30"
    and "length router \<le> string_max lim"
    and "map_of (buffers t) (ucast n) = Some cb" "cb_func cb = Some (call_back pops)"
  shows "\<exists>s'. query_step ops lim get is_tcp complete t r0 =
      (Continue, try_send (ucast n) (t\<lparr>session_ptr := Some s', buffers := buffers_erase (ucast n) (buffers t)\<rparr>), r)"
  using reply_reaches [OF assms, of get is_tcp complete r0] by auto

lemma reply_received:
  assumes "stream_socket ops incoming ending outgoing" "session_ptr t = Some s"
    and "incoming (socket s) = frame n (response_payload router pbytes r) @ rest" "sendable (response_payload router pbytes r)"
    and "pvalid (body r)" "way (header r) = 0" "- (2 ^ 30) \<le> sint (result r)" "sint (result r) < 2 ^ 30"
    and "length router \<le> string_max lim"
    and "map_of (buffers t) (ucast n) = Some cb" "cb_func cb = Some (call_back pops)"
  shows "\<exists>t'. query_step ops lim get is_tcp complete t r0 = (Continue, t', r) \<and>
              map_of (buffers t') (ucast n) = None"
  using reply_step [OF assms, of get is_tcp complete r0] by fastforce

end

lemma sint_word_of_int_small:
  assumes "- (2 ^ 30) \<le> i" and "i < 2 ^ 30"
  shows "sint (word_of_int i :: 32 word) = i"
  using assms by (simp add: signed_of_int signed_take_bit_int_eq_self)

section \<open>The calls of the services\<close>

interpretation query_sql_call: rpc
  "query_sql_req_body_ops lim par ser" "query_sql_req_body_valid lim" query_sql_req_body_bytes
  "query_sql_resp_body_ops lim par ser" "query_sql_resp_body_valid lim" query_sql_resp_body_bytes
  query_sql_router for lim par ser
  by unfold_locales (simp add: query_sql_router_def)

interpretation execute_sql_call: rpc
  "execute_sql_req_body_ops lim par ser" "execute_sql_req_body_valid lim" execute_sql_req_body_bytes
  "execute_sql_resp_body_ops lim par ser" "execute_sql_resp_body_valid lim" execute_sql_resp_body_bytes
  execute_sql_router for lim par ser
  by unfold_locales (simp add: execute_sql_router_def)

interpretation login_call: rpc
  "login_req_body_ops lim par ser" "login_req_body_valid lim" login_req_body_bytes
  empty_body_ops "\<lambda>_. True" "\<lambda>_. []"
  login_router for lim par ser
  by unfold_locales (simp add: login_router_def)

interpretation regist_call: rpc
  "regist_req_body_ops lim par ser" "regist_req_body_valid lim" regist_req_body_bytes
  regist_resp_body_ops "\<lambda>_. True" "\<lambda>_. []"
  regist_router for lim par ser
  by unfold_locales (simp add: regist_router_def)

interpretation publish_call: rpc
  "publish_req_body_ops lim par ser" "publish_req_body_valid lim" publish_req_body_bytes
  publish_resp_body_ops "\<lambda>_. True" "\<lambda>_. []"
  publish_router for lim par ser
  by unfold_locales (simp add: publish_router_def)

interpretation shake_call: rpc
  shake_req_body_ops "\<lambda>_. True" "\<lambda>_. []"
  "shake_resp_body_ops lim par ser" "shake_resp_body_valid lim" shake_resp_body_bytes
  shake_router for lim par ser
  by unfold_locales (simp add: shake_router_def)

interpretation subs_list_call: rpc
  subs_list_req_body_ops "\<lambda>_. True" "\<lambda>_. []"
  "subs_list_resp_body_ops lim par ser" "subs_list_resp_body_valid lim" subs_list_resp_body_bytes
  subs_list_router for lim par ser
  by unfold_locales (simp add: subs_list_router_def)

interpretation cmd_op_call: rpc
  "cmd_op_req_body_ops lim par ser" "cmd_op_req_body_valid lim" cmd_op_req_body_bytes
  "cmd_op_resp_body_ops lim par ser" "cmd_op_resp_body_valid lim" cmd_op_resp_body_bytes
  cmd_op_router for lim par ser
  by unfold_locales (simp add: cmd_op_router_def)

text \<open>A concrete call, for the witnesses.\<close>

definition sample_limits :: limits where
  "sample_limits = \<lparr>string_max = 1000, vector_max = 1000\<rparr>"

definition sample_query :: "query_sql_req_body tcp_request" where
  "sample_query = \<lparr>header = \<lparr>uuid = 3, timestamp = 0, way = 0\<rparr>, body = \<lparr>query_sql = ''select 1''\<rparr>\<rparr>"

definition sample_answer :: "query_sql_resp_body tcp_response" where
  "sample_answer = \<lparr>header = \<lparr>uuid = 0, timestamp = 0, way = 0\<rparr>, body = \<lparr>query_results = [''1'']\<rparr>, result = 2\<rparr>"

definition sample_session :: "string \<Rightarrow> script basic_session" where
  "sample_session bytes = \<lparr>socket = \<lparr>script_in = bytes, script_out = []\<rparr>, session_uuid = 1, timeout = 30\<rparr>"

lemma sample_sendable:
  "sendable (request_payload query_sql_router query_sql_req_body_bytes sample_query)"
  "sendable (response_payload query_sql_router query_sql_resp_body_bytes sample_answer)"
  using length_header_bytes [of "header sample_query"] length_header_bytes [of "header sample_answer"]
    length_varint_word [of "zig_zag32 (result sample_answer)"]
  by (simp_all add: sendable_def request_payload_def response_payload_def router_bytes_def query_sql_router_def
      sample_query_def sample_answer_def query_sql_req_body_bytes_def query_sql_resp_body_bytes_def
      string_bytes_def strings_bytes_def varint_small)

lemma sample_valid:
  "query_sql_req_body_valid sample_limits (body sample_query)"
  "query_sql_resp_body_valid sample_limits (body sample_answer)"
  by (simp_all add: query_sql_req_body_valid_def query_sql_resp_body_valid_def fits_string_def
      fits_strings_def sample_limits_def sample_query_def sample_answer_def)

section \<open>Properties\<close>

text \<open>
  C2. The way there. \<open>send_request\<close> of a query appends one frame to what the client sends and
  registers the callback under the frame's number. A server session that receives this frame
  parses the request, header and body, into the handler of the query context, spawns its
  handling under the frame's number and goes on with what follows the frame.
\<close>

theorem query_sql_request_delivered:
  assumes "stream_socket cops cin cend cout" and "session_ptr tc = Some sc"
    and "stream_socket sops sin send sout" and "session_ptr ts = Some ss"
    and "sin (socket ss) = frame n (request_payload query_sql_router query_sql_req_body_bytes m) @ rest"
    and "sendable (request_payload query_sql_router query_sql_req_body_bytes m)"
    and "query_sql_req_body_valid lim (body m)" and "way (header m) = 0"
    and "get query_sql_router = Some c" and "is_tcp c" and "4 \<le> string_max lim"
  shows "(\<exists>sc' tc'. send_request cops (commit_request query_sql_router (query_sql_req_body_ops lim par ser) m) n f tc =
             (Inr no_error, ucast n, tc') \<and> session_ptr tc' = Some sc' \<and>
           cout (socket sc') = cout (socket sc) @ frame n (request_payload query_sql_router query_sql_req_body_bytes m) \<and>
           (\<exists>cb. map_of (buffers tc') (ucast n) = Some cb \<and> cb_func cb = Some f)) \<and>
         (\<exists>ss'. accept_step sops lim get is_tcp
               (do_complete (handler_visit (query_sql_req_body_ops lim par ser))) ts w =
             (Continue, ts\<lparr>session_ptr := Some ss'\<rparr>,
              w\<lparr>routers := (routers w)(c := query_sql_router),
                handlers := (handlers w)(c := (handlers w c)\<lparr>request := m\<rparr>),
                spawned := spawned w @ [(c, n)]\<rparr>) \<and>
           sin (socket ss') = rest \<and> sout (socket ss') = sout (socket ss))"
proof
  show "\<exists>sc' tc'. send_request cops (commit_request query_sql_router (query_sql_req_body_ops lim par ser) m) n f tc =
             (Inr no_error, ucast n, tc') \<and> session_ptr tc' = Some sc' \<and>
           cout (socket sc') = cout (socket sc) @ frame n (request_payload query_sql_router query_sql_req_body_bytes m) \<and>
           (\<exists>cb. map_of (buffers tc') (ucast n) = Some cb \<and> cb_func cb = Some f)"
    using query_sql_call.request_sent [OF assms(1,2,7,8), of par ser n f] by fastforce
  have "length query_sql_router \<le> string_max lim" using assms(11) by (simp add: query_sql_router_def)
  then show "\<exists>ss'. accept_step sops lim get is_tcp
               (do_complete (handler_visit (query_sql_req_body_ops lim par ser))) ts w =
             (Continue, ts\<lparr>session_ptr := Some ss'\<rparr>,
              w\<lparr>routers := (routers w)(c := query_sql_router),
                handlers := (handlers w)(c := (handlers w c)\<lparr>request := m\<rparr>),
                spawned := spawned w @ [(c, n)]\<rparr>) \<and>
           sin (socket ss') = rest \<and> sout (socket ss') = sout (socket ss)"
    by (rule query_sql_call.request_served [where get = get and is_tcp = is_tcp and c = c,
          OF assms(3-10)])
qed

theorem query_sql_request_delivered_witness:
  "(\<exists>sc' tc'. send_request script_ops
        (commit_request query_sql_router (query_sql_req_body_ops sample_limits (\<lambda>_. Inr J_null) (\<lambda>_. [])) sample_query)
        9 (\<lambda>_ _ w. w @ [CHR ''!'']) (tcp_new (sample_session [])) = (Inr no_error, ucast (9 :: 32 word), tc') \<and>
      session_ptr tc' = Some sc' \<and>
      script_out (socket sc') = [] @ frame 9 (request_payload query_sql_router query_sql_req_body_bytes sample_query)) \<and>
   (\<exists>ss'. accept_step script_ops sample_limits (\<lambda>r. if r = ''7000'' then Some () else None) (\<lambda>_. True)
        (do_complete (handler_visit (query_sql_req_body_ops sample_limits (\<lambda>_. Inr J_null) (\<lambda>_. []))))
        (tcp_new (sample_session (frame 9 (request_payload query_sql_router query_sql_req_body_bytes sample_query) @ ''x'')))
        \<lparr>handlers = (\<lambda>_. \<lparr>handler_name = ''q'',
           request = \<lparr>header = tcp_header_default, body = query_sql_req_body_default\<rparr>, response = sample_answer\<rparr>),
         routers = (\<lambda>_. []), spawned = []\<rparr> =
      (Continue, (tcp_new (sample_session []))\<lparr>session_ptr := Some ss'\<rparr>,
       \<lparr>handlers = (\<lambda>_. \<lparr>handler_name = ''q'',
           request = \<lparr>header = tcp_header_default, body = query_sql_req_body_default\<rparr>, response = sample_answer\<rparr>)
          (() := \<lparr>handler_name = ''q'', request = sample_query, response = sample_answer\<rparr>),
        routers = (\<lambda>_. [])(() := query_sql_router), spawned = [((), 9)]\<rparr>) \<and>
      script_in (socket ss') = ''x'')"
  using query_sql_request_delivered
    [OF stream_socket_script _ stream_socket_script _ _ sample_sendable(1) sample_valid(1),
      of "tcp_new (sample_session [])" "sample_session []"
        "tcp_new (sample_session (frame 9 (request_payload query_sql_router query_sql_req_body_bytes sample_query) @ ''x''))"
        "sample_session (frame 9 (request_payload query_sql_router query_sql_req_body_bytes sample_query) @ ''x'')"
        9 "''x''" "\<lambda>r. if r = ''7000'' then Some () else None" "()" "\<lambda>_. True"
        "\<lambda>_. Inr J_null" "\<lambda>_. []" "\<lambda>_ _ w. w @ [CHR ''!'']"
        "\<lparr>handlers = (\<lambda>_. \<lparr>handler_name = ''q'',
           request = \<lparr>header = tcp_header_default, body = query_sql_req_body_default\<rparr>, response = sample_answer\<rparr>),
         routers = (\<lambda>_. []), spawned = []\<rparr>"]
  by (fastforce simp: tcp_new_def sample_session_def sample_query_def query_sql_router_def sample_limits_def)

text \<open>
  C3. The way back. When the user's handler answers a binary query with a response body and
  an error code whose value lies in \<open>[-2^30, 2^30)\<close>, \<open>handle_request\<close> sends one frame under the
  number of the call. A client session that receives this frame while the callback of
  \<open>async_call\<close> is registered under that number leaves the caller with exactly this response,
  the error value as its result, and removes the callback.
\<close>

theorem query_sql_reply_delivered:
  assumes "stream_socket sops sin send sout" and "session_ptr ts = Some ss"
    and "handle h = (ec, h1)" and "query_sql_resp_body_valid lim (body (response h1))"
    and "way (header (request h1)) = 0"
    and "r = (response h1)\<lparr>result := word_of_int (ec_value ec), header := (header (response h1))\<lparr>way := 0\<rparr>\<rparr>"
    and "- (2 ^ 30) \<le> ec_value ec" and "ec_value ec < 2 ^ 30"
    and "stream_socket cops cin cend cout" and "session_ptr tc = Some sc"
    and "cin (socket sc) = frame n (response_payload query_sql_router query_sql_resp_body_bytes r) @ rest"
    and "sendable (response_payload query_sql_router query_sql_resp_body_bytes r)" and "4 \<le> string_max lim"
    and "map_of (buffers tc) (ucast n) = Some cb" and "cb_func cb = Some (call_back (query_sql_resp_body_ops lim par ser))"
  shows "(\<exists>ss' ts'. handle_request sops query_sql_router (query_sql_resp_body_ops lim par ser) handle n h ts =
             (Inr no_error, h1\<lparr>response := r\<rparr>, ts') \<and> session_ptr ts' = Some ss' \<and>
           sout (socket ss') = sout (socket ss) @
             frame n (response_payload query_sql_router query_sql_resp_body_bytes r)) \<and>
         (\<exists>tc'. query_step cops lim get is_tcp complete tc r0 = (Continue, tc', r) \<and>
               map_of (buffers tc') (ucast n) = None) \<and>
         body r = body (response h1) \<and> sint (result r) = ec_value ec"
proof (intro conjI)
  show "\<exists>ss' ts'. handle_request sops query_sql_router (query_sql_resp_body_ops lim par ser) handle n h ts =
             (Inr no_error, h1\<lparr>response := r\<rparr>, ts') \<and> session_ptr ts' = Some ss' \<and>
           sout (socket ss') = sout (socket ss) @
             frame n (response_payload query_sql_router query_sql_resp_body_bytes r)"
    using query_sql_call.request_handled [where handle = handle and h = h and par = par and ser = ser and n = n,
        OF assms(1-6)] by fastforce
  show res: "sint (result r) = ec_value ec"
    using assms(6-8) by (simp add: sint_word_of_int_small)
  have "length query_sql_router \<le> string_max lim" using assms(13) by (simp add: query_sql_router_def)
  then show "\<exists>tc'. query_step cops lim get is_tcp complete tc r0 = (Continue, tc', r) \<and>
               map_of (buffers tc') (ucast n) = None"
    using assms(4,6-8) res
    by (intro query_sql_call.reply_received [OF assms(9-12) _ _ _ _ _ assms(14,15)]) auto
qed (simp add: assms(6))

theorem query_sql_reply_delivered_witness:
  "(\<exists>ss' ts'. handle_request script_ops query_sql_router
        (query_sql_resp_body_ops sample_limits (\<lambda>_. Inr J_null) (\<lambda>_. []))
        (\<lambda>h. (\<lparr>ec_value = 2, ec_category = system_category\<rparr>, h)) 9
        \<lparr>handler_name = ''q'', request = sample_query, response = sample_answer\<rparr> (tcp_new (sample_session [])) =
        (Inr no_error, \<lparr>handler_name = ''q'', request = sample_query, response = sample_answer\<rparr>, ts') \<and>
      session_ptr ts' = Some ss' \<and>
      script_out (socket ss') = frame 9 (response_payload query_sql_router query_sql_resp_body_bytes sample_answer)) \<and>
   (\<exists>tc'. query_step script_ops sample_limits (\<lambda>_. None :: unit option) (\<lambda>_. True) (\<lambda>_ _ _ _ w. (Inr no_error, w))
        \<lparr>session_ptr = Some (sample_session
           (frame 9 (response_payload query_sql_router query_sql_resp_body_bytes sample_answer))),
         buffers = [(ucast (9 :: 32 word),
           \<lparr>cb_func = Some (call_back (query_sql_resp_body_ops sample_limits (\<lambda>_. Inr J_null) (\<lambda>_. []))),
            cb_complete = False\<rparr>)], waiting = [], finished = []\<rparr>
        (sample_answer\<lparr>result := 0\<rparr>) = (Continue, tc', sample_answer) \<and>
      map_of (buffers tc') (ucast (9 :: 32 word)) = None)"
  using query_sql_reply_delivered
    [OF stream_socket_script, of "tcp_new (sample_session [])" "sample_session []"
      "\<lambda>h. (\<lparr>ec_value = 2, ec_category = system_category\<rparr>, h)"
      "\<lparr>handler_name = ''q'', request = sample_query, response = sample_answer\<rparr>"
      "\<lparr>ec_value = 2, ec_category = system_category\<rparr>"
      "\<lparr>handler_name = ''q'', request = sample_query, response = sample_answer\<rparr>"
      sample_limits sample_answer script_ops script_in "\<lambda>_. eof" script_out
      "\<lparr>session_ptr = Some (sample_session
           (frame 9 (response_payload query_sql_router query_sql_resp_body_bytes sample_answer))),
         buffers = [(ucast (9 :: 32 word),
           \<lparr>cb_func = Some (call_back (query_sql_resp_body_ops sample_limits (\<lambda>_. Inr J_null) (\<lambda>_. []))),
            cb_complete = False\<rparr>)], waiting = [], finished = []\<rparr>"
      "sample_session (frame 9 (response_payload query_sql_router query_sql_resp_body_bytes sample_answer))"
      9 "[]" _ "\<lambda>_. Inr J_null" "\<lambda>_. []" "\<lambda>_. None :: unit option" "\<lambda>_. True"
      "\<lambda>_ _ _ _ w. (Inr no_error, w)" "sample_answer\<lparr>result := 0\<rparr>"]
    stream_socket_script sample_sendable(2) sample_valid(2)
  by (simp add: tcp_new_def sample_session_def sample_query_def sample_answer_def sample_limits_def)

end
