(* ===== verification/Text.thy ===== *)
theory Text
  imports Prelude
begin

text \<open>
  The string operations of the C++ standard library that the text protocols and the code
  generator use: \<open>std::string_view::find\<close>, \<open>find_first_of\<close>, \<open>substr\<close> and \<open>std::views::split\<close>.
\<close>

section \<open>Searching\<close>

text \<open>\<open>cut_at d s\<close> cuts \<open>s\<close> at the first occurrence of \<open>d\<close>: what precedes and what follows it.\<close>

fun cut_at :: "string \<Rightarrow> string \<Rightarrow> (string \<times> string) option" where
  "cut_at d [] = (if d = [] then Some ([], []) else None)"
| "cut_at d (c # s) =
     (if prefix d (c # s) then Some ([], drop (length d) (c # s))
      else case cut_at d s of None \<Rightarrow> None | Some (a, b) \<Rightarrow> Some (c # a, b))"

definition str_find :: "string \<Rightarrow> string \<Rightarrow> nat option" where
  "str_find d s = (case cut_at d s of None \<Rightarrow> None | Some (a, b) \<Rightarrow> Some (length a))"

definition str_contains :: "string \<Rightarrow> string \<Rightarrow> bool" where
  "str_contains d s \<longleftrightarrow> cut_at d s \<noteq> None"

text \<open>\<open>s.find_first_of(cs, pos)\<close>\<close>

definition find_first_of :: "char list \<Rightarrow> string \<Rightarrow> nat \<Rightarrow> nat option" where
  "find_first_of cs s pos =
     (let n = length (takeWhile (\<lambda>c. c \<notin> set cs) (drop pos s))
      in if pos + n < length s then Some (pos + n) else None)"

lemma cut_at_Some: "cut_at d s = Some (a, b) \<Longrightarrow> s = a @ d @ b"
proof (induction s arbitrary: a)
  case (Cons c s)
  then show ?case by (auto simp: prefix_def split: if_splits option.splits)
qed (simp split: if_splits)

lemma cut_at_append:
  assumes "d \<noteq> []" and "hd d \<notin> set a"
  shows "cut_at d (a @ d @ b) = Some (a, b)"
  using assms
proof (induction a)
  case Nil
  then show ?case by (cases d) auto
next
  case (Cons c a)
  then have "\<not> prefix d ((c # a) @ d @ b)" by (cases d) auto
  with Cons show ?case by simp
qed

lemma cut_at_skip:
  assumes "d \<noteq> []" and "hd d \<notin> set a"
  shows "cut_at d (a @ s) = (case cut_at d s of None \<Rightarrow> None | Some (x, y) \<Rightarrow> Some (a @ x, y))"
  using assms
proof (induction a)
  case Nil
  then show ?case by (simp split: option.splits)
next
  case (Cons c a)
  then have "\<not> prefix d ((c # a) @ s)" by (cases d) auto
  with Cons show ?case by (simp split: option.splits)
qed

lemma cut_at_None: "d \<noteq> [] \<Longrightarrow> hd d \<notin> set a \<Longrightarrow> cut_at d a = None"
proof (induction a)
  case (Cons c a)
  then have "\<not> prefix d (c # a)" by (cases d) auto
  with Cons show ?case by simp
qed simp

lemma str_contains_iff: "str_contains d s \<longleftrightarrow> sublist d s"
proof (induction s)
  case Nil
  then show ?case by (simp add: str_contains_def)
next
  case (Cons c s)
  then show ?case
    by (auto simp: str_contains_def sublist_Cons_right split: option.splits)
qed

section \<open>Splitting\<close>

text \<open>\<open>s | std::views::split(d)\<close> for a non-empty \<open>d\<close>\<close>

function split_on :: "string \<Rightarrow> string \<Rightarrow> string list" where
  "split_on d s =
     (if d = [] then [s]
      else case cut_at d s of None \<Rightarrow> [s] | Some (a, b) \<Rightarrow> a # split_on d b)"
  by pat_completeness auto
termination
proof (relation "measure (length \<circ> snd)")
  fix d s :: string and p a b
  assume "d \<noteq> []" "cut_at d s = Some p" "(a, b) = p"
  then have "s = a @ d @ b" by (auto dest: cut_at_Some)
  with \<open>d \<noteq> []\<close> show "((d, b), (d, s)) \<in> measure (length \<circ> snd)" by simp
qed simp

declare split_on.simps [simp del]

lemma split_on_none: "d \<noteq> [] \<Longrightarrow> hd d \<notin> set a \<Longrightarrow> split_on d a = [a]"
  by (subst split_on.simps) (simp add: cut_at_None)

lemma split_on_append: "d \<noteq> [] \<Longrightarrow> hd d \<notin> set a \<Longrightarrow> split_on d (a @ d @ b) = a # split_on d b"
  by (subst split_on.simps) (simp add: cut_at_append)

section \<open>Joining\<close>

fun join :: "string \<Rightarrow> string list \<Rightarrow> string" where
  "join d [] = []"
| "join d [x] = x"
| "join d (x # y # xs) = x @ d @ join d (y # xs)"

lemma join_Cons: "join d (x # xs) = x @ concat (map (\<lambda>y. d @ y) xs)"
  by (induction xs arbitrary: x) auto

lemma concat_join: "xs \<noteq> [] \<Longrightarrow> concat (map (\<lambda>x. x @ d) xs) = join d xs @ d"
  by (induction d xs rule: join.induct) auto

lemma set_join: "set (join d xs) \<subseteq> set d \<union> \<Union> (set ` set xs)"
  by (induction d xs rule: join.induct) auto

abbreviation nl :: char where "nl \<equiv> CHR 0x0A"
abbreviation tab :: char where "tab \<equiv> CHR 0x09"
abbreviation dq :: char where "dq \<equiv> CHR 0x22"

definition crlf :: string where
  "crlf = [CHR 0x0D, CHR 0x0A]"

lemma crlf_simps [simp]: "crlf \<noteq> []" "hd crlf = CHR 0x0D" "length crlf = 2"
  by (simp_all add: crlf_def)

end
