(* ===== verification/Http_Tables.thy ===== *)
theory Http_Tables
  imports Error_Code Decimal
begin

text \<open>
  The tables of the HTTP side: methods (include/aquarius/virgo/http_method.hpp), versions
  (include/aquarius/virgo/http_version.hpp) and statuses
  (include/aquarius/virgo/http_status.hpp). A \<open>std::map\<close> from an enumeration is the list of its
  entries in the order of the enumerators. An \<open>http_status\<close> is its number, since the code casts
  arbitrary integers to the enumeration.
\<close>

section \<open>Methods\<close>

datatype http_method = m_post | m_get | m_options | m_head | m_put | m_delete

definition http_methods :: "(http_method \<times> string) list" where
  "http_methods =
     [(m_post, ''POST''), (m_get, ''GET''), (m_options, ''OPTIONS''),
      (m_head, ''HEAD''), (m_put, ''PUT''), (m_delete, ''DELETE'')]"

definition method_to_string :: "http_method \<Rightarrow> string" where
  "method_to_string m = (case map_of http_methods m of Some s \<Rightarrow> s | None \<Rightarrow> ''UNKNOWN'')"

definition make_error_code_http :: "int \<Rightarrow> error_code" where
  "make_error_code_http status = \<lparr>ec_value = status, ec_category = http_status_category\<rparr>"

text \<open>\<open>static_cast<http_method>(dist)\<close>: the position in the map is cast to the enumeration.\<close>

definition method_enum :: "http_method list" where
  "method_enum = [m_post, m_get, m_options, m_head, m_put, m_delete]"

definition string_to_method :: "string \<Rightarrow> error_code + http_method" where
  "string_to_method s =
     (let dist = length (takeWhile (\<lambda>(_, t). t \<noteq> s) http_methods)
      in if dist = length http_methods then Inl (make_error_code_http 405)
         else Inr (method_enum ! dist))"

section \<open>Versions\<close>

datatype http_version = http1_0 | http1_1

definition http_versions :: "(http_version \<times> string) list" where
  "http_versions = [(http1_0, ''HTTP/1.0''), (http1_1, ''HTTP/1.1'')]"

definition version_to_string :: "http_version \<Rightarrow> string" where
  "version_to_string v = (case map_of http_versions v of Some s \<Rightarrow> s | None \<Rightarrow> ''Unknown'')"

definition string_to_version :: "string \<Rightarrow> error_code + http_version" where
  "string_to_version s =
     (case find (\<lambda>(_, t). t = s) http_versions of
        None \<Rightarrow> Inl (make_error_code_http 505)
      | Some (v, _) \<Rightarrow> Inr v)"

section \<open>Statuses\<close>

definition statuses :: "(int \<times> string) list" where
  "statuses =
     [(0, ''Unknown''), (100, ''Continue''), (101, ''Switching Protocols''),
      (102, ''Processing''), (103, ''Early Hints''), (200, ''OK''),
      (201, ''Created''), (202, ''Accepted''), (203, ''Non Authoritative Information''),
      (204, ''No Content''), (205, ''Reset Content''), (206, ''Partial Content''),
      (207, ''Multi Status''), (208, ''Already Reported''), (226, ''IM Used''),
      (300, ''Multiple Choices''), (301, ''Moved Permanently''), (302, ''Found''),
      (303, ''See Other''), (304, ''Not Modified''), (305, ''Use Proxy''),
      (307, ''Temporary Redirect''), (308, ''Permanent Redirect''), (400, ''Bad Request''),
      (401, ''Unauthorized''), (402, ''Payment Required''), (403, ''Forbidden''),
      (404, ''Not Found''), (405, ''Method Not Allowed''), (406, ''Not Acceptable''),
      (407, ''Proxy Authentication Required''), (408, ''Request Timeout''), (409, ''Conflict''),
      (410, ''Gone''), (411, ''Length Required''), (412, ''Precondition Failed''),
      (413, ''Payload Too Large''), (414, ''Uri Too Long''), (415, ''Unsupported Media Type''),
      (416, ''Range Not Satisfiable''), (417, ''Expectation Failed''), (418, ''I'' @ [CHR 0x27] @ ''m a teapot''),
      (421, ''Misdirected Request''), (422, ''Unprocessable Entity''), (423, ''Locked''),
      (424, ''Failed Dependency''), (425, ''Too Early''), (426, ''Upgrade Required''),
      (428, ''Precondition Required''), (429, ''Too Many Requests''), (431, ''Request Header Fields Too Large''),
      (451, ''Unavailable For Legal Reasons''), (500, ''Internal Server Error''), (501, ''Not Implemented''),
      (502, ''Bad Gateway''), (503, ''Service Unavailable''), (504, ''Gateway Timeout''),
      (505, ''Http Version Not Supported''), (506, ''Variant Also Negotiates''), (507, ''Insufficient Storage''),
      (508, ''Loop Detected''), (510, ''Not Extended''), (511, ''Network Authentication Required'')]"

definition status_to_string :: "int \<Rightarrow> string" where
  "status_to_string s = (case map_of statuses s of None \<Rightarrow> ''Unknown'' | Some t \<Rightarrow> t)"

definition string_to_status :: "string \<Rightarrow> int" where
  "string_to_status str =
     (case find (\<lambda>(s, _). to_string s = str) statuses of None \<Rightarrow> 500 | Some (s, _) \<Rightarrow> s)"

definition http_status_message :: "int \<Rightarrow> string" where
  "http_status_message err_code = status_to_string err_code"

section \<open>Lemmas\<close>

lemma method_roundtrip: "string_to_method (method_to_string m) = Inr m"
  by (cases m) (simp_all add: string_to_method_def method_to_string_def http_methods_def method_enum_def)

lemma version_roundtrip: "string_to_version (version_to_string v) = Inr v"
  by (cases v) (simp_all add: string_to_version_def version_to_string_def http_versions_def)

lemma to_string_inject: "to_string i = to_string j \<Longrightarrow> i = j"
proof -
  have v: "(case scan_number (to_string k) of (neg, ds) \<Rightarrow> if neg then - int (digits_value ds) else int (digits_value ds)) = k" for k
    by (simp add: to_string_def)
  assume "to_string i = to_string j"
  then show "i = j" by (metis v)
qed

lemma string_to_status_number:
  assumes "s \<in> fst ` set statuses"
  shows "string_to_status (to_string s) = s"
proof -
  obtain t where "(s, t) \<in> set statuses" using assms by auto
  then have "find (\<lambda>(r, _). to_string r = to_string s) statuses \<noteq> None"
    by (auto simp: find_None_iff)
  then obtain r u where "find (\<lambda>(r, _). to_string r = to_string s) statuses = Some (r, u)" by auto
  moreover from this have "to_string r = to_string s" by (auto simp: find_Some_iff)
  ultimately show ?thesis by (simp add: string_to_status_def to_string_inject)
qed

end
