(* ===== verification/Http_Header.thy ===== *)
theory Http_Header
  imports Registry Text Decimal
begin

text \<open>
  \<open>http_header\<close> (include/aquarius/virgo/http_header.hpp): the header fields, an unordered map
  modelled by its entries in some order, and the serialisation way, which is not transmitted.
\<close>

record http_header =
  hdr_fields :: "(string \<times> string) list"
  http_way :: "16 word"

definition http_header_default :: http_header where
  "http_header_default = \<lparr>hdr_fields = [], http_way = 0\<rparr>"

definition http_header_copy_assign :: "http_header \<Rightarrow> http_header \<Rightarrow> http_header" where
  "http_header_copy_assign this other = this\<lparr>hdr_fields := hdr_fields other, http_way := http_way other\<rparr>"

text \<open>A moved-from map is left empty; the way is copied.\<close>

definition http_header_move :: "http_header \<Rightarrow> http_header \<times> http_header" where
  "http_header_move other =
     (\<lparr>hdr_fields = hdr_fields other, http_way = http_way other\<rparr>, other\<lparr>hdr_fields := []\<rparr>)"

section \<open>Transmission\<close>

definition header_line :: "string \<times> string \<Rightarrow> string" where
  "header_line kv = (case kv of (k, v) \<Rightarrow> k @ '': '' @ v @ crlf)"

definition http_serialize :: "http_header \<Rightarrow> writer" where
  "http_serialize h = sputn (concat (map header_line (hdr_fields h)) @ crlf)"

text \<open>
  The loop over the lines: it stops at an empty line, throws on a line without a colon, and
  \<open>value.substr(1)\<close> throws on an empty value. \<open>emplace\<close> keeps a field that is already there.
\<close>

fun header_loop :: "string list \<Rightarrow> http_header \<Rightarrow> nat \<Rightarrow> fault option \<times> http_header \<times> nat" where
  "header_loop [] h len = (None, h, len)"
| "header_loop (str # headers) h len =
     (if str = [] then (None, h, len)
      else case str_find '':'' str of
             None \<Rightarrow> (Some (Thrown runtime_error), h, len + (length str + length crlf))
           | Some pos \<Rightarrow>
               let key = take pos str; value = drop (pos + 1) str
               in if value = [] then (Some (Thrown out_of_range), h, len + (length str + length crlf))
                  else header_loop headers
                         (h\<lparr>hdr_fields := snd (insert_once key (drop 1 value) (hdr_fields h))\<rparr>)
                         (len + (length str + length crlf)))"

definition http_deserialize :: "http_header loader" where
  "http_deserialize h buffer =
     (case header_loop (split_on crlf buffer) h 0 of
        (Some e, h', _) \<Rightarrow> (Some e, h', buffer)
      | (None, h', len) \<Rightarrow> (None, h', consume (len + length crlf) buffer))"

section \<open>Access\<close>

text \<open>\<open>fields_[key] = v\<close>\<close>

fun field_assign :: "string \<Rightarrow> string \<Rightarrow> (string \<times> string) list \<Rightarrow> (string \<times> string) list" where
  "field_assign k v [] = [(k, v)]"
| "field_assign k v ((j, w) # fs) = (if j = k then (j, v) # fs else (j, w) # field_assign k v fs)"

definition set_field :: "string \<Rightarrow> string \<Rightarrow> http_header \<Rightarrow> http_header" where
  "set_field key v h = h\<lparr>hdr_fields := field_assign key v (hdr_fields h)\<rparr>"

definition field_find :: "http_header \<Rightarrow> string \<Rightarrow> string" where
  "field_find h key = (case map_of (hdr_fields h) key of None \<Rightarrow> [] | Some v \<Rightarrow> v)"

definition is_keep_alive :: "http_header \<Rightarrow> bool" where
  "is_keep_alive h \<longleftrightarrow> field_find h ''Connection'' = ''keep-alive''"

definition set_keep_alive :: "bool \<Rightarrow> http_header \<Rightarrow> http_header" where
  "set_keep_alive k = set_field ''Connection'' (if k then ''keep-alive'' else ''close'')"

definition content_type :: "http_header \<Rightarrow> string" where
  "content_type h = field_find h ''Content-Type''"

definition set_content_type :: "string \<Rightarrow> http_header \<Rightarrow> http_header" where
  "set_content_type t = set_field ''Content-Type'' t"

text \<open>
  \<open>T result; ss >> result; return result;\<close> leaves the variable uninitialised when there is
  nothing but white space to read.
\<close>

definition to_integer :: "string \<Rightarrow> fault + 'a::len word" where
  "to_integer value =
     (if dropWhile is_space value = [] then Inl Undefined else Inr (extract_unsigned value))"

definition sequence_number :: "http_header \<Rightarrow> fault + 32 word" where
  "sequence_number h = to_integer (field_find h ''Source-Seq'')"

definition set_sequence_number :: "32 word \<Rightarrow> http_header \<Rightarrow> http_header" where
  "set_sequence_number v = set_field ''Source-Seq'' (to_string (uint v))"

definition set_content_length :: "64 word \<Rightarrow> http_header \<Rightarrow> http_header" where
  "set_content_length len = set_field ''Content-Length'' (to_string (uint len))"

definition content_length :: "http_header \<Rightarrow> fault + 64 word" where
  "content_length h =
     (let value = field_find h ''Content-Length''
      in if value = [] then Inr 0 else to_integer value)"

section \<open>Lemmas\<close>

lemma map_of_field_assign [simp]: "map_of (field_assign k v fs) = (map_of fs)(k \<mapsto> v)"
  by (induction k v fs rule: field_assign.induct) auto

lemma field_find_set: "field_find (set_field k v h) j = (if j = k then v else field_find h j)"
  by (simp add: field_find_def set_field_def)

lemma distinct_field_assign: "distinct (map fst fs) \<Longrightarrow> distinct (map fst (field_assign k v fs))"
proof (induction k v fs rule: field_assign.induct)
  case (2 k v j w fs)
  have "fst ` set (field_assign k v fs) = insert k (fst ` set fs)"
    by (induction k v fs rule: field_assign.induct) auto
  with 2 show ?case by auto
qed simp

lemma to_integer_decimal: "to_integer (to_string (uint w)) = Inr w"
proof -
  have "to_string (uint w) = decimal (nat (uint w))" by (simp add: to_string_def)
  moreover have "dropWhile is_space (decimal n) \<noteq> []" for n
    using decimal_digits [of n] is_digit_not_space [of "hd (decimal n)"] decimal_nonempty [of n]
    by (cases "decimal n") (simp_all del: decimal_nonempty)
  ultimately have "dropWhile is_space (to_string (uint w)) \<noteq> []" by simp
  then show ?thesis by (simp add: to_integer_def extract_unsigned_decimal)
qed

text \<open>Fields that can be transmitted: no carriage return, and no colon in the key.\<close>

definition transmissible :: "(string \<times> string) list \<Rightarrow> bool" where
  "transmissible fs \<longleftrightarrow> distinct (map fst fs) \<and>
     (\<forall>(k, v) \<in> set fs. CHR 0x0D \<notin> set k \<and> CHR '':'' \<notin> set k \<and> CHR 0x0D \<notin> set v)"

lemma header_line_pair: "header_line (k, v) = (k @ '': '' @ v) @ crlf"
  by (simp add: header_line_def)

lemma str_find_colon: "CHR '':'' \<notin> set k \<Longrightarrow> str_find '':'' (k @ '': '' @ v) = Some (length k)"
  using cut_at_append [of "'':''" k "CHR '' '' # v"] by (simp add: str_find_def)

lemma split_headers:
  assumes "\<forall>(k, v) \<in> set fs. CHR 0x0D \<notin> set k \<and> CHR 0x0D \<notin> set v"
  shows "split_on crlf (concat (map header_line fs) @ crlf @ rest) =
           map (\<lambda>(k, v). k @ '': '' @ v) fs @ [] # split_on crlf rest"
  using assms
proof (induction fs)
  case Nil
  then show ?case using split_on_append [of crlf "[]" rest] by simp
next
  case (Cons f fs)
  obtain k v where f: "f = (k, v)" by (cases f)
  have "hd crlf \<notin> set (k @ '': '' @ v)" using Cons.prems f by simp
  from split_on_append [OF _ this, of "concat (map header_line fs) @ crlf @ rest"] Cons f
  show ?case by (simp add: header_line_pair)
qed

lemma header_loop_fields:
  assumes "transmissible (done @ fs)"
  shows "header_loop (map (\<lambda>(k, v). k @ '': '' @ v) fs @ [] # ls) \<lparr>hdr_fields = done, http_way = w\<rparr> n =
           (None, \<lparr>hdr_fields = done @ fs, http_way = w\<rparr>, n + length (concat (map header_line fs)))"
  using assms
proof (induction fs arbitrary: "done" n)
  case (Cons f fs)
  obtain k v where f: "f = (k, v)" by (cases f)
  have "CHR '':'' \<notin> set k" "map_of done k = None"
    using Cons.prems f by (auto simp: transmissible_def map_of_eq_None_iff)
  moreover have "transmissible ((done @ [f]) @ fs)" using Cons.prems by simp
  ultimately show ?case
    using Cons.IH [of "done @ [f]"]
    by (simp add: f str_find_colon [simplified] insert_once_None header_line_pair)
qed simp

lemma http_header_fields:
  assumes "transmissible (hdr_fields h)"
  shows "http_deserialize \<lparr>hdr_fields = [], http_way = w\<rparr> (http_serialize h [] @ rest) =
           (None, \<lparr>hdr_fields = hdr_fields h, http_way = w\<rparr>, rest)"
proof -
  have "\<forall>(k, v) \<in> set (hdr_fields h). CHR 0x0D \<notin> set k \<and> CHR 0x0D \<notin> set v"
    using assms by (auto simp: transmissible_def)
  from split_headers [OF this, of rest] header_loop_fields [of "[]" "hdr_fields h" "split_on crlf rest" w 0] assms
  have "header_loop (split_on crlf (http_serialize h [] @ rest)) \<lparr>hdr_fields = [], http_way = w\<rparr> 0 =
      (None, \<lparr>hdr_fields = hdr_fields h, http_way = w\<rparr>, length (concat (map header_line (hdr_fields h))))"
    by (simp add: http_serialize_def sputn_def)
  then show ?thesis
    by (simp add: http_deserialize_def consume_def http_serialize_def sputn_def)
qed

section \<open>Properties\<close>

text \<open>
  Header fields survive transmission: a header whose keys are distinct and without colon,
  and whose keys and values have no carriage return, is read back field by field, and exactly
  the header and its empty line are taken off the buffer.
\<close>

theorem http_header_roundtrip:
  assumes "transmissible (hdr_fields h)"
  shows "http_deserialize \<lparr>hdr_fields = [], http_way = w\<rparr> (http_serialize h [] @ rest) =
           (None, \<lparr>hdr_fields = hdr_fields h, http_way = w\<rparr>, rest)"
  using assms by (rule http_header_fields)

theorem http_header_roundtrip_witness:
  "http_deserialize \<lparr>hdr_fields = [], http_way = 0\<rparr>
     (http_serialize \<lparr>hdr_fields = [(''Host'', ''localhost''), (''Content-Length'', ''2'')], http_way = 1\<rparr> [] @ ''hi'') =
     (None, \<lparr>hdr_fields = [(''Host'', ''localhost''), (''Content-Length'', ''2'')], http_way = 0\<rparr>, ''hi'')"
  using http_header_roundtrip [of "\<lparr>hdr_fields = [(''Host'', ''localhost''), (''Content-Length'', ''2'')], http_way = 1\<rparr>" 0 "''hi''"]
  by (simp add: transmissible_def)

text \<open>
  The typed fields: a content length, a sequence number and the connection option read back
  as they were set, whatever the header held; without a content length the length is 0, and
  without a sequence number reading it is undefined.
\<close>

theorem http_typed_fields:
  "content_length (set_content_length n h) = Inr n \<and>
   sequence_number (set_sequence_number q h) = Inr q \<and>
   is_keep_alive (set_keep_alive k h) = k \<and>
   content_length http_header_default = Inr 0 \<and>
   sequence_number http_header_default = Inl Undefined"
proof -
  have "to_string (uint n) \<noteq> []" by (simp add: to_string_def)
  then show ?thesis
    by (simp add: content_length_def set_content_length_def sequence_number_def set_sequence_number_def
        is_keep_alive_def set_keep_alive_def field_find_set to_integer_decimal)
      (simp add: field_find_def http_header_default_def to_integer_def)
qed

end
