(* ===== verification/Http_Session.thy ===== *)
theory Http_Session
  imports Http_Header Http_Tables Tcp_Session
begin

text \<open>
  HTTP: the messages (include/aquarius/virgo/basic_http_protocol.hpp), the cross-origin checks
  (include/aquarius/resource/http_config.hpp, include/aquarius/ip/http/http_options_handler.hpp)
  and the class \<open>http\<close> (include/aquarius/ip/http.hpp). The class has the members of \<open>tcp\<close>, so
  its state is the same record. The parser of URLs belongs to \<open>boost::urls\<close> and is the
  parameter \<open>parse_url\<close>; the configuration, a singleton, is the parameter \<open>cfg\<close>.
\<close>

section \<open>Messages\<close>

record 'b http_message = "(http_header, 'b) basic_protocol" +
  msg_method :: http_method

text \<open>The body is always written as JSON; a \<open>GET\<close> request and an empty body are left out.\<close>

definition http_commit :: "'b serialization \<Rightarrow> 'b http_message \<Rightarrow> flex_buffer
    \<Rightarrow> (fault + error_code) \<times> 'b http_message \<times> flex_buffer" where
  "http_commit ops m buffer =
     (case to_json ops (body m) [] of
        (Some f, _) \<Rightarrow> (catch_all (make_error_code_ip ip_commit) (Some f), m, buffer)
      | (None, body_buffer) \<Rightarrow>
          let with_body = (msg_method m \<noteq> m_get \<and> length body_buffer \<noteq> 0);
              m' = (if with_body
                    then m\<lparr>header := set_content_length (word_of_nat (length body_buffer)) (header m)\<rparr>
                    else m);
              buffer' = http_serialize (header m') buffer
          in (Inr no_error, m', if with_body then sputn body_buffer buffer' else buffer'))"

definition http_consume :: "'b serialization \<Rightarrow> 'b http_message \<Rightarrow> flex_buffer
    \<Rightarrow> (fault + error_code) \<times> 'b http_message \<times> flex_buffer" where
  "http_consume ops m buffer =
     (case l_then (l_focus header (\<lambda>h. header_update (\<lambda>_. h)) http_deserialize)
             (\<lambda>m. l_focus body (\<lambda>x. body_update (\<lambda>_. x)) (body_load ops (http_way (header m))) m) m buffer of
        (f, m', buffer') \<Rightarrow> (catch_all (make_error_code_ip ip_consume) f, m', buffer'))"

section \<open>Cross-origin configuration\<close>

record http_config =
  control_allow_origin :: string
  control_allow_methods :: string
  control_allow_headers :: string
  control_max_age :: string
  control_allow_credentials :: bool

definition check_origin :: "http_config \<Rightarrow> string \<Rightarrow> bool" where
  "check_origin cfg origin \<longleftrightarrow> list_ex (\<lambda>v. v = origin) (split_on '','' (control_allow_origin cfg))"

definition check_method :: "http_config \<Rightarrow> string \<Rightarrow> bool" where
  "check_method cfg methods \<longleftrightarrow>
     (if methods = [] then True
      else list_all (\<lambda>v. str_contains v (control_allow_methods cfg)) (split_on '','' methods))"

definition check_headers :: "http_config \<Rightarrow> string \<Rightarrow> bool" where
  "check_headers cfg headers \<longleftrightarrow>
     (if headers = [] then False
      else list_all (\<lambda>v. str_contains v (control_allow_headers cfg)) (split_on '','' headers))"

definition set_options_header :: "http_header \<Rightarrow> bool \<Rightarrow> http_config \<Rightarrow> http_header" where
  "set_options_header hdr with_credential cfg =
     (let hdr1 = set_field ''Access-Control-Max-Age'' (control_max_age cfg)
                 (set_field ''Access-Control-Allow-Headers'' (control_allow_headers cfg)
                   (set_field ''Access-Control-Request-Methods'' (control_allow_methods cfg)
                     (set_field ''Access-Control-Allow-Origin'' (control_allow_origin cfg) hdr)))
      in if with_credential
         then set_field ''Access-Control-Allow-Credentials''
                (if control_allow_credentials cfg then ''true'' else ''false'') hdr1
         else hdr1)"

text \<open>
  In the branch without an origin the response header is built but not serialised. The
  exceptions of \<open>deserialize\<close> leave the function.
\<close>

definition mpc_http_options :: "http_config \<Rightarrow> flex_buffer \<Rightarrow> (fault + error_code) \<times> flex_buffer" where
  "mpc_http_options cfg buffer =
     (case http_deserialize http_header_default buffer of
        (Some f, _, buffer1) \<Rightarrow> (Inl f, buffer1)
      | (None, hdr, buffer1) \<Rightarrow>
          let origin = field_find hdr ''Origin''
          in if origin = [] then (Inr (make_error_code_http 204), buffer1)
             else if \<not> check_origin cfg origin \<or>
                     \<not> check_method cfg (field_find hdr ''Access-Control-Request-Method'') \<or>
                     \<not> check_headers cfg (field_find hdr ''Access-Control-Request-Headers'')
                  then (Inr (make_error_code_http 403), buffer1)
                  else (Inr (make_error_code_http 204),
                        http_serialize
                          (set_options_header http_header_default (field_find hdr ''withCredentials'' \<noteq> []) cfg)
                          buffer1))"

section \<open>Command lines\<close>

record url =
  url_path :: string
  url_query :: string

text \<open>
  \<open>ec\<close> is set to end of file first; an unknown method leaves it so.
\<close>

definition parse_request_line :: "(string \<Rightarrow> error_code + url) \<Rightarrow> string
    \<Rightarrow> error_code + (http_method \<times> url \<times> http_version)" where
  "parse_request_line parse_url header_span =
     (case split_on '' '' header_span of
        [m, u, v] \<Rightarrow>
          (case string_to_method m of
             Inl _ \<Rightarrow> Inl eof
           | Inr meth \<Rightarrow>
               (case parse_url u of
                  Inl ec \<Rightarrow> Inl ec
                | Inr loc \<Rightarrow>
                    (case string_to_version v of Inl ec \<Rightarrow> Inl ec | Inr ver \<Rightarrow> Inr (meth, loc, ver))))
      | _ \<Rightarrow> Inl eof)"

definition parse_status_line :: "string \<Rightarrow> error_code + (http_version \<times> int)" where
  "parse_status_line header_span =
     (case split_on '' '' header_span of
        [v, s, _] \<Rightarrow>
          (case string_to_version v of Inl ec \<Rightarrow> Inl ec | Inr ver \<Rightarrow> Inr (ver, string_to_status s))
      | _ \<Rightarrow> Inl eof)"

definition request_line :: "http_method \<Rightarrow> string \<Rightarrow> string" where
  "request_line m path = method_to_string m @ '' '' @ path @ '' '' @ version_to_string http1_1 @ crlf"

definition status_line :: "error_code \<Rightarrow> string" where
  "status_line res =
     version_to_string http1_1 @ '' '' @ to_string (ec_value res) @ '' '' @ status_to_string (ec_value res) @ crlf"

section \<open>Content length\<close>

text \<open>
  The unsigned subtraction in \<open>substr(start + 2, end_pos - start - 2)\<close> wraps when the line ends
  right after the colon, and then the rest of the text is taken.
\<close>

definition filter_key :: "string \<Rightarrow> string \<Rightarrow> string" where
  "filter_key header_str key =
     (case str_find key header_str of
        None \<Rightarrow> []
      | Some pos \<Rightarrow>
          (case find_first_of crlf header_str pos of
             None \<Rightarrow> []
           | Some end_pos \<Rightarrow>
               (case find_first_of '':'' header_str pos of
                  None \<Rightarrow> []
                | Some start \<Rightarrow>
                    if take (start - pos) (drop pos header_str) \<noteq> key then []
                    else if end_pos < start + 2 then drop (start + 2) header_str
                    else take (end_pos - start - 2) (drop (start + 2) header_str))))"

text \<open>\<open>std::atoll\<close>: undefined when the value does not fit.\<close>

definition atoll :: "string \<Rightarrow> fault + 64 word" where
  "atoll s =
     (case scan_number s of (neg, ds) \<Rightarrow>
        let v = (if neg then - int (digits_value ds) else int (digits_value ds))
        in if v < - (2 ^ 63) \<or> 2 ^ 63 \<le> v then Inl Undefined else Inr (word_of_int v))"

definition http_recv :: "'s socket_ops \<Rightarrow> flex_buffer \<Rightarrow> 's basic_session
    \<Rightarrow> (fault + error_code) \<times> flex_buffer \<times> 's basic_session" where
  "http_recv ops buffer s =
     (let str = filter_key buffer ''Content-Length''
      in case (if str = [] then Inr 0 else atoll str) of
           Inl f \<Rightarrow> (Inl f, buffer, s)
         | Inr n \<Rightarrow>
             if n = 0 then (Inr eof, buffer, s)
             else let remain_size = sint (n - word_of_nat (length buffer))
                  in if 0 < remain_size
                     then case async_read ops buffer (nat remain_size) s of
                            (ec, buffer', s') \<Rightarrow> (Inr ec, buffer', s')
                     else (Inr no_error, buffer, s))"

section \<open>Responses and requests\<close>

definition make_response :: "'s socket_ops \<Rightarrow> error_code \<Rightarrow> string \<Rightarrow> 's basic_session
    \<Rightarrow> error_code \<times> 's basic_session" where
  "make_response ops res buffer s =
     async_send ops [status_line res, if length buffer \<noteq> 0 then buffer else crlf] s"

text \<open>
  \<open>handle_request\<close>: an error of the handler is returned and nothing is sent. \<open>set_method\<close> is
  the function of the body class that the call requires.
\<close>

record ('q, 'p) http_handler =
  http_request :: "'q http_message"
  http_response :: "'p http_message"

definition http_handle_request :: "'s socket_ops \<Rightarrow> 'p serialization \<Rightarrow> (http_method \<Rightarrow> 'q \<Rightarrow> 'q)
    \<Rightarrow> (('q, 'p) http_handler \<Rightarrow> error_code \<times> ('q, 'p) http_handler) \<Rightarrow> http_method
    \<Rightarrow> ('q, 'p) http_handler \<Rightarrow> 's basic_session
    \<Rightarrow> (fault + error_code) \<times> ('q, 'p) http_handler \<times> 's basic_session" where
  "http_handle_request ops resp_ops set_method handle meth h s =
     (let req = http_request h;
          h0 = h\<lparr>http_request := req\<lparr>msg_method := meth, body := set_method meth (body req)\<rparr>\<rparr>
      in case handle h0 of (ec, h1) \<Rightarrow>
           if failed ec then (Inr ec, h1, s)
           else case http_commit resp_ops (http_response h1) [] of
                  (Inl f, resp, _) \<Rightarrow> (Inl f, h1\<lparr>http_response := resp\<rparr>, s)
                | (Inr _, resp, resp_buffer) \<Rightarrow>
                    (case make_response ops ec resp_buffer s of
                       (res, s') \<Rightarrow> (Inr res, h1\<lparr>http_response := resp\<rparr>, s')))"

definition http_send_request :: "'s socket_ops \<Rightarrow> 'b serialization \<Rightarrow> string \<Rightarrow> 'b http_message
    \<Rightarrow> 'w callback_func \<Rightarrow> http_method \<Rightarrow> ('s, 'w) tcp \<Rightarrow> (fault + error_code) \<times> 'b http_message \<times> ('s, 'w) tcp" where
  "http_send_request ops body_ops router m f meth t =
     (let t1 = regist_resp_func 0 (Some f) t
      in case http_commit body_ops m (request_line meth router) of
           (Inl e, m', _) \<Rightarrow> (Inl e, m', t1)
         | (Inr _, m', buffer) \<Rightarrow> (case tcp_send ops [buffer] t1 of (ec, t2) \<Rightarrow> (ec, m', t2)))"

definition http_send_buffer :: "'s socket_ops \<Rightarrow> flex_buffer \<Rightarrow> string \<Rightarrow> 'w callback_func \<Rightarrow> http_method
    \<Rightarrow> ('s, 'w) tcp \<Rightarrow> (fault + error_code) \<times> ('s, 'w) tcp" where
  "http_send_buffer ops req router f meth t =
     tcp_send ops [request_line meth router, req] (regist_resp_func 0 (Some f) t)"

definition http_filling_buffer :: "flex_buffer \<Rightarrow> ('s, 'w) tcp \<Rightarrow> 'w \<Rightarrow> error_code \<times> ('s, 'w) tcp \<times> 'w" where
  "http_filling_buffer buffer t w =
     (case map_of (buffers t) 0 of
        None \<Rightarrow> (no_error, try_send 0 t, w)
      | Some cb \<Rightarrow>
          (no_error, try_send 0 (t\<lparr>buffers := buffers_erase 0 (buffers t)\<rparr>),
           (case cb_func cb of None \<Rightarrow> w | Some f \<Rightarrow> f buffer [] w)))"

text \<open>The rest of the class: the waiting of a call, and the operations of the session it passes on.\<close>

definition http_wait :: "64 word \<Rightarrow> ('s, 'w) tcp \<Rightarrow> ('s, 'w) tcp" where
  "http_wait src t = t\<lparr>waiting := waiting t @ [src]\<rparr>"

definition on_session :: "('s basic_session \<Rightarrow> 'r \<times> 's basic_session) \<Rightarrow> ('s, 'w) tcp \<Rightarrow> (fault + 'r) \<times> ('s, 'w) tcp" where
  "on_session f t =
     (case session_ptr t of
        None \<Rightarrow> (Inl Undefined, t)
      | Some s \<Rightarrow> (case f s of (r, s') \<Rightarrow> (Inr r, t\<lparr>session_ptr := Some s'\<rparr>)))"

definition http_connect :: "'s socket_ops \<Rightarrow> string \<Rightarrow> string \<Rightarrow> ('s, 'w) tcp \<Rightarrow> (fault + error_code) \<times> ('s, 'w) tcp" where
  "http_connect ops host port = on_session (session_connect ops host port)"

definition http_keepalive :: "'s socket_ops \<Rightarrow> bool \<Rightarrow> ('s, 'w) tcp \<Rightarrow> (fault + error_code) \<times> ('s, 'w) tcp" where
  "http_keepalive ops enable = on_session (session_keep_alive ops enable)"

definition http_nodelay :: "'s socket_ops \<Rightarrow> bool \<Rightarrow> ('s, 'w) tcp \<Rightarrow> (fault + error_code) \<times> ('s, 'w) tcp" where
  "http_nodelay ops enable = on_session (session_set_nodelay ops enable)"

definition http_shutdown :: "'s socket_ops \<Rightarrow> ('s, 'w) tcp \<Rightarrow> (fault + bool) \<times> ('s, 'w) tcp" where
  "http_shutdown ops = on_session (session_shutdown ops)"

text \<open>\<open>query\<close> returns after one response.\<close>

definition http_query :: "'s socket_ops \<Rightarrow> ('s, 'w) tcp \<Rightarrow> 'w \<Rightarrow> (fault + error_code) \<times> ('s, 'w) tcp \<times> 'w" where
  "http_query ops t w =
     (case session_ptr t of
        None \<Rightarrow> (Inl Undefined, t, w)
      | Some s \<Rightarrow>
          (case async_read_until ops [] (crlf @ crlf) s of (ec, buffer, _, s1) \<Rightarrow>
             if failed ec then (Inr ec, t\<lparr>session_ptr := Some s1\<rparr>, w)
             else case http_recv ops buffer s1 of
                    (Inl f, _, s2) \<Rightarrow> (Inl f, t\<lparr>session_ptr := Some s2\<rparr>, w)
                  | (Inr ec2, buffer2, s2) \<Rightarrow>
                      let t2 = t\<lparr>session_ptr := Some s2\<rparr>;
                          pos = (case find_first_of crlf buffer2 0 of None \<Rightarrow> length buffer2 | Some p \<Rightarrow> p)
                      in if failed ec2 then (Inr ec2, t2, w)
                         else case parse_status_line (take pos buffer2) of
                                Inl ec3 \<Rightarrow> (Inr ec3, t2, w)
                              | Inr (_, status) \<Rightarrow>
                                  if status \<noteq> 200 then (Inr (make_error_code_http status), t2, w)
                                  else case http_filling_buffer (consume pos buffer2) t2 w of
                                         (ec4, t3, w3) \<Rightarrow> (Inr ec4, t3, w3)))"

section \<open>The server side\<close>

text \<open>
  One round of \<open>accept\<close> on the session. The results of \<open>make_response\<close> are not looked at.
  As on the TCP side \<open>complete\<close> only parses the request into the handler and spawns
  \<open>handle_request\<close>, which sends the reply later (\<open>http_handle_request\<close>), so the session is not
  its argument.
\<close>

definition http_accept_step :: "'s socket_ops \<Rightarrow> http_config \<Rightarrow> (string \<Rightarrow> error_code + url)
    \<Rightarrow> (string \<Rightarrow> 'c option) \<Rightarrow> ('c \<Rightarrow> bool)
    \<Rightarrow> ('c \<Rightarrow> string \<Rightarrow> http_method \<Rightarrow> flex_buffer \<Rightarrow> 'w \<Rightarrow> (fault + error_code) \<times> 'w)
    \<Rightarrow> 's basic_session \<Rightarrow> 'w \<Rightarrow> loop \<times> 's basic_session \<times> 'w" where
  "http_accept_step ops cfg parse_url get is_http complete s w =
     (case async_read_until ops [] (crlf @ crlf) s of (ec, buffer, end_pos, s1) \<Rightarrow>
        if failed ec then (Stop (Inr ec), s1, w)
        else
          let head = take end_pos buffer;
              line = take (case find_first_of crlf head 0 of None \<Rightarrow> length head | Some p \<Rightarrow> p) head;
              buffer1 = consume (length line + length crlf) buffer
          in case parse_request_line parse_url line of
               Inl ec1 \<Rightarrow> (Continue, snd (make_response ops ec1 [] s1), w)
             | Inr (meth, loc, _) \<Rightarrow>
                 if meth = m_options
                 then case mpc_http_options cfg buffer1 of
                        (Inl f, _) \<Rightarrow> (Stop (Inl f), s1, w)
                      | (Inr ec2, buffer2) \<Rightarrow> (Continue, snd (make_response ops ec2 buffer2 s1), w)
                 else case http_recv ops buffer1 s1 of
                        (Inl f, _, s2) \<Rightarrow> (Stop (Inl f), s2, w)
                      | (Inr ec2, buffer2, s2) \<Rightarrow>
                          if failed ec2 then (Stop (Inr ec2), s2, w)
                          else
                            let buffer3 = (if meth = m_get then sputn (url_query loc) buffer2 else buffer2)
                            in case get (url_path loc) of
                                 None \<Rightarrow> (Continue, snd (make_response ops (make_error_code_http 400) [] s2), w)
                               | Some c \<Rightarrow>
                                   if \<not> is_http c then (Continue, s2, w)
                                   else case complete c (url_path loc) meth buffer3 w of
                                          (Inl f, w') \<Rightarrow> (Stop (Inl f), s2, w')
                                        | (Inr _, w') \<Rightarrow> (Continue, s2, w'))"

end
