(* ===== verification/Http_Properties.thy ===== *)
theory Http_Properties
  imports Http_Session Messages
begin

text \<open>What holds of the HTTP messages and sessions.\<close>

section \<open>Messages\<close>

lemma http_consume_header:
  assumes "transmissible (hdr_fields h)" and "hdr_fields (header m0) = []"
  shows "http_consume ops m0 (http_serialize h [] @ txt) =
           (case body_load ops (http_way (header m0)) (body m0) txt of
              (f, x, b) \<Rightarrow> (catch_all (make_error_code_ip ip_consume) f,
                m0\<lparr>header := \<lparr>hdr_fields = hdr_fields h, http_way = http_way (header m0)\<rparr>, body := x\<rparr>, b))"
proof -
  have "header m0 = \<lparr>hdr_fields = [], http_way = http_way (header m0)\<rparr>" using assms(2) by simp
  moreover have "http_deserialize \<lparr>hdr_fields = [], http_way = http_way (header m0)\<rparr> (http_serialize h [] @ txt) =
      (None, \<lparr>hdr_fields = hdr_fields h, http_way = http_way (header m0)\<rparr>, txt)"
    using http_header_fields [OF assms(1)] by simp
  ultimately show ?thesis
    by (simp add: http_consume_def l_then_def l_focus_def split: prod.splits)
qed

lemma http_commit_json:
  assumes "json_codec ops par ser obj" and "msg_method m \<noteq> m_get" and "ser (J_object (obj (body m))) \<noteq> []"
  shows "http_commit ops m b =
           (Inr no_error,
            m\<lparr>header := set_content_length (word_of_nat (length (ser (J_object (obj (body m)))))) (header m)\<rparr>,
            http_serialize (set_content_length (word_of_nat (length (ser (J_object (obj (body m)))))) (header m)) b @
              ser (J_object (obj (body m))))"
  using assms json_codec.to_json_obj [OF assms(1)]
  by (simp add: http_commit_def sputn_def Let_def)

section \<open>Lines\<close>

lemma split_three:
  assumes "CHR '' '' \<notin> set a" and "CHR '' '' \<notin> set b"
  shows "split_on '' '' (a @ '' '' @ b @ '' '' @ c) = a # b # split_on '' '' c"
  using assms split_on_append [of "'' ''" a "b @ '' '' @ c"] split_on_append [of "'' ''" b c] by simp

lemma to_string_no_space: "CHR '' '' \<notin> set (to_string i)"
  using to_string_chars [of i] by (auto simp: is_digit_def)

lemma parse_status_of_line:
  "parse_status_line (version_to_string http1_1 @ '' '' @ to_string i @ '' '' @ r) =
     (if CHR '' '' \<in> set r then Inl eof else Inr (http1_1, string_to_status (to_string i)))"
proof -
  have v: "CHR '' '' \<notin> set (version_to_string http1_1)" by (simp add: version_to_string_def http_versions_def)
  note s = split_three [OF v to_string_no_space, of i r]
  show ?thesis
  proof (cases "CHR '' '' \<in> set r")
    case True
    then obtain a b where "r = a @ '' '' @ b" "CHR '' '' \<notin> set a" using split_list_first by fastforce
    then have "split_on '' '' r = a # split_on '' '' b" using split_on_append [of "'' ''" a b] by simp
    moreover have "split_on '' '' b \<noteq> []" by (subst split_on.simps) (simp split: option.splits)
    ultimately show ?thesis using True s
      by (cases "split_on '' '' b") (simp_all add: parse_status_line_def)
  next
    case False
    then have "split_on '' '' r = [r]" by (simp add: split_on_none)
    then show ?thesis using False s
      by (simp add: parse_status_line_def version_roundtrip)
  qed
qed

section \<open>Content length\<close>

lemma scan_number_nonneg: "scan_number (to_string (int n)) = (False, decimal n)"
  by (simp add: to_string_def)

lemma atoll_to_string: "n < 2 ^ 63 \<Longrightarrow> atoll (to_string (int n)) = Inr (word_of_nat n)"
  by (simp add: atoll_def scan_number_nonneg)

lemma sint_difference:
  assumes "n < 2 ^ 62" and "k < 2 ^ 62"
  shows "sint (word_of_nat n - word_of_nat k :: 64 word) = int n - int k"
proof -
  have w: "(word_of_nat n - word_of_nat k :: 64 word) = word_of_int (int n - int k)"
    by simp
  have "- (2 ^ 63) \<le> int n - int k" "int n - int k < 2 ^ 63" using assms by simp_all
  then show ?thesis unfolding w signed_of_int by (simp add: signed_take_bit_int_eq_self)
qed

section \<open>Properties\<close>

text \<open>
  A login request committed for HTTP, with a method other than \<open>GET\<close>, is restored by a
  receiver whose header says JSON, when the JSON library parses what it printed: fields,
  content length included, and body. A receiver with a default header, whose way is binary,
  gives the JSON text to \<open>from_binary\<close> instead.
\<close>

theorem http_login_roundtrip:
  assumes "msg_method m \<noteq> m_get" and "ser (J_object (login_req_body_object (body m))) \<noteq> []"
    and "par (ser (J_object (login_req_body_object (body m)))) =
           Inr (json_norm (J_object (login_req_body_object (body m))))"
    and "transmissible (hdr_fields
           (set_content_length (word_of_nat (length (ser (J_object (login_req_body_object (body m)))))) (header m)))"
    and "hdr_fields (header m0) = []"
  shows "\<exists>m' bs. http_commit (login_req_body_ops lim par ser) m [] = (Inr no_error, m', bs) \<and>
           content_length (header m') = Inr (word_of_nat (length (ser (J_object (login_req_body_object (body m)))))) \<and>
           (http_way (header m0) = 1 \<longrightarrow>
              http_consume (login_req_body_ops lim par ser) m0 bs =
                (Inr no_error, m0\<lparr>header := \<lparr>hdr_fields = hdr_fields (header m'), http_way = 1\<rparr>, body := body m\<rparr>,
                 ser (J_object (login_req_body_object (body m))))) \<and>
           (http_way (header m0) = 0 \<longrightarrow>
              http_consume (login_req_body_ops lim par ser) m0 bs =
                (case login_req_body_from_binary lim (body m0) (ser (J_object (login_req_body_object (body m)))) of
                   (f, x, b) \<Rightarrow> (catch_all (make_error_code_ip ip_consume) f,
                     m0\<lparr>header := \<lparr>hdr_fields = hdr_fields (header m'), http_way = 0\<rparr>, body := x\<rparr>, b)))"
proof -
  let ?ops = "login_req_body_ops lim par ser" and ?txt = "ser (J_object (login_req_body_object (body m)))"
  let ?h = "set_content_length (word_of_nat (length ?txt)) (header m)"
  note commit = http_commit_json [OF login_req_body_json.json_codec_axioms [of lim par ser] assms(1,2), of "[]"]
  note consume = http_consume_header [OF assms(4,5), of ?ops ?txt]
  have "content_length ?h = Inr (word_of_nat (length ?txt))"
    using to_integer_decimal by (simp add: content_length_def set_content_length_def field_find_set to_string_def)
  moreover have "from_json ?ops (body m0) ?txt = (None, body m, ?txt)"
    by (rule login_req_body_json.from_json_obj) (rule assms(3))
  moreover have "from_binary ?ops = login_req_body_from_binary lim" by (simp add: login_req_body_ops_def)
  ultimately show ?thesis
    using commit consume by (simp add: body_load_def)
qed

theorem http_login_roundtrip_witness:
  "\<exists>m' bs. http_commit (login_req_body_ops \<lparr>string_max = 9, vector_max = 9\<rparr>
       (\<lambda>_. Inr (json_norm (J_object (login_req_body_object login_req_body_default)))) (\<lambda>_. ''{..}''))
       \<lparr>header = http_header_default, body = login_req_body_default, msg_method = m_post\<rparr> [] = (Inr no_error, m', bs) \<and>
     http_consume (login_req_body_ops \<lparr>string_max = 9, vector_max = 9\<rparr>
       (\<lambda>_. Inr (json_norm (J_object (login_req_body_object login_req_body_default)))) (\<lambda>_. ''{..}''))
       \<lparr>header = \<lparr>hdr_fields = [], http_way = 1\<rparr>, body = login_req_body_default\<lparr>login_username := ''x''\<rparr>, msg_method = m_post\<rparr> bs =
       (Inr no_error, \<lparr>header = \<lparr>hdr_fields = hdr_fields (header m'), http_way = 1\<rparr>,
          body = login_req_body_default, msg_method = m_post\<rparr>, ''{..}'')"
proof -
  have t: "transmissible (hdr_fields (set_content_length 4 http_header_default))"
    by (simp add: transmissible_def set_content_length_def set_field_def http_header_default_def to_string_def
        decimal.simps digit_char_def) code_simp?
  show ?thesis
    using http_login_roundtrip [of "\<lparr>header = http_header_default, body = login_req_body_default, msg_method = m_post\<rparr>"
        "\<lambda>_. ''{..}''" "\<lambda>_. Inr (json_norm (J_object (login_req_body_object login_req_body_default)))"
        "\<lparr>header = \<lparr>hdr_fields = [], http_way = 1\<rparr>, body = login_req_body_default\<lparr>login_username := ''x''\<rparr>, msg_method = m_post\<rparr>"
        "\<lparr>string_max = 9, vector_max = 9\<rparr>"] t
    by auto
qed

text \<open>
  C33. What an HTTP reply says. \<open>handle_request\<close> sends nothing when the handler reports a code
  with a non-zero value, \<open>http_status::ok\<close> (200) among them; otherwise the status line is
  \<open>HTTP/1.1 0 Unknown\<close>, which the client reads as status 0 and does not accept as \<open>ok\<close>.
\<close>

theorem http_reply_status:
  assumes "stream_socket ops incoming ending outgoing"
    and "handle (h\<lparr>http_request := (http_request h)\<lparr>msg_method := meth,
           body := set_method meth (body (http_request h))\<rparr>\<rparr>) = (ec, h1)"
    and "http_commit pops (http_response h1) [] = (Inr ec', resp, buffer)" and "buffer \<noteq> []"
  shows "(failed ec \<longrightarrow> http_handle_request ops pops set_method handle meth h s = (Inr ec, h1, s)) \<and>
         failed (make_error_code_http 200) \<and>
         (\<not> failed ec \<longrightarrow> (\<exists>s'. http_handle_request ops pops set_method handle meth h s =
              (Inr no_error, h1\<lparr>http_response := resp\<rparr>, s') \<and>
            outgoing (socket s') = outgoing (socket s) @ ''HTTP/1.1 0 Unknown'' @ crlf @ buffer)) \<and>
         parse_status_line ''HTTP/1.1 0 Unknown'' = Inr (http1_1, 0)"
proof (intro conjI impI)
  show "failed (make_error_code_http 200)" by (simp add: failed_def make_error_code_http_def)
  show "http_handle_request ops pops set_method handle meth h s = (Inr ec, h1, s)" if "failed ec"
    using that assms(2) by (simp add: http_handle_request_def Let_def)
  have z: "to_string 0 = ''0''" by code_simp
  have u: "status_to_string 0 = ''Unknown''" by (simp add: status_to_string_def statuses_def)
  have v: "version_to_string http1_1 = ''HTTP/1.1''" by (simp add: version_to_string_def http_versions_def)
  have n: "string_to_status ''0'' = 0"
    using string_to_status_number [of 0] z by (simp add: statuses_def)
  show "parse_status_line ''HTTP/1.1 0 Unknown'' = Inr (http1_1, 0)"
    using parse_status_of_line [of 0 "''Unknown''"] by (simp add: z v n)
  assume "\<not> failed ec"
  moreover from this have "status_line ec = ''HTTP/1.1 0 Unknown'' @ crlf"
    by (simp add: status_line_def failed_def z u v)
  moreover obtain s' where "async_send ops [''HTTP/1.1 0 Unknown'' @ crlf, buffer] s = (no_error, s')"
      "outgoing (socket s') = outgoing (socket s) @ ''HTTP/1.1 0 Unknown'' @ crlf @ buffer"
    using async_send_ok [OF assms(1), of "[''HTTP/1.1 0 Unknown'' @ crlf, buffer]" s] by auto
  ultimately show "\<exists>s'. http_handle_request ops pops set_method handle meth h s =
              (Inr no_error, h1\<lparr>http_response := resp\<rparr>, s') \<and>
            outgoing (socket s') = outgoing (socket s) @ ''HTTP/1.1 0 Unknown'' @ crlf @ buffer"
    using assms(2-4) by (simp add: http_handle_request_def make_response_def Let_def)
qed

theorem http_reply_status_witness:
  "\<exists>s'. http_handle_request script_ops empty_body_ops (\<lambda>_ x. x) (\<lambda>h. (no_error, h)) m_post
       \<lparr>http_request = \<lparr>header = http_header_default, body = (), msg_method = m_get\<rparr>,
        http_response = \<lparr>header = http_header_default, body = (), msg_method = m_post\<rparr>\<rparr>
       \<lparr>socket = \<lparr>script_in = [], script_out = []\<rparr>, session_uuid = 1, timeout = 30\<rparr> =
     (Inr no_error,
      \<lparr>http_request = \<lparr>header = http_header_default, body = (), msg_method = m_post\<rparr>,
       http_response = \<lparr>header = http_header_default, body = (), msg_method = m_post\<rparr>\<rparr>, s') \<and>
     script_out (socket s') = ''HTTP/1.1 0 Unknown'' @ crlf @ crlf"
proof -
  let ?h = "\<lparr>http_request = \<lparr>header = http_header_default, body = (), msg_method = m_post\<rparr>,
    http_response = \<lparr>header = http_header_default, body = (), msg_method = m_post\<rparr>\<rparr>"
  have "http_commit empty_body_ops (http_response ?h) [] = (Inr no_error, http_response ?h, crlf)"
    by (simp add: http_commit_def empty_body_ops_def http_serialize_def http_header_default_def sputn_def)
  then show ?thesis
    using http_reply_status [OF stream_socket_script, of "\<lambda>h. (no_error, h)" "\<lambda>_ x. x" m_post
        "\<lparr>http_request = \<lparr>header = http_header_default, body = (), msg_method = m_get\<rparr>,
          http_response = \<lparr>header = http_header_default, body = (), msg_method = m_post\<rparr>\<rparr>"
        no_error ?h empty_body_ops no_error "http_response ?h" crlf
        "\<lparr>socket = \<lparr>script_in = [], script_out = []\<rparr>, session_uuid = 1, timeout = 30\<rparr>"]
    by (simp add: failed_def no_error_def)
qed

text \<open>
  The client's reading of a status line: a line whose reason phrase is one word gives the
  status of its number, for every status of the table; a reason phrase of several words, like
  \<open>Not Found\<close>, makes the line unreadable, reported as end of file.
\<close>

theorem status_line_read:
  assumes "status \<in> fst ` set statuses"
  shows "parse_status_line (take (length (status_line (make_error_code_http status)) - 2)
             (status_line (make_error_code_http status))) =
           (if CHR '' '' \<in> set (status_to_string status) then Inl eof else Inr (http1_1, status))"
  using parse_status_of_line [of status "status_to_string status"] string_to_status_number [OF assms]
  by (simp add: status_line_def make_error_code_http_def)

theorem status_line_read_witness:
  "parse_status_line (take (length (status_line (make_error_code_http 404)) - 2)
       (status_line (make_error_code_http 404))) = Inl eof"
  using status_line_read [of 404] by (simp add: statuses_def status_to_string_def)

text \<open>
  How much \<open>recv\<close> reads. Without the text \<open>Content-Length\<close> in the buffer it reports end of
  file. With a content length \<open>n\<close> it fills the buffer to \<open>n\<close> bytes in all, header lines
  included: when the buffer already holds as many, nothing is read, and otherwise the body that
  arrives is shorter than \<open>n\<close> by what the buffer held.
\<close>

theorem http_recv_amount:
  assumes "stream_socket ops incoming ending outgoing" and "length buffer < 2 ^ 62"
    and "0 < n" and "n < 2 ^ 62" and "n - length buffer \<le> length (incoming (socket s))"
  shows "(\<not> str_contains ''Content-Length'' buffer \<longrightarrow> http_recv ops buffer s = (Inr eof, buffer, s)) \<and>
         (filter_key buffer ''Content-Length'' = to_string (int n) \<longrightarrow>
            (\<exists>s'. http_recv ops buffer s =
               (Inr no_error, buffer @ take (n - length buffer) (incoming (socket s)), s')))"
proof (intro conjI impI)
  assume "\<not> str_contains ''Content-Length'' buffer"
  then have "filter_key buffer ''Content-Length'' = []"
    by (cases "cut_at ''Content-Length'' buffer") (simp_all add: str_contains_def filter_key_def str_find_def)
  then show "http_recv ops buffer s = (Inr eof, buffer, s)" by (simp add: http_recv_def)
next
  assume k: "filter_key buffer ''Content-Length'' = to_string (int n)"
  have n: "atoll (to_string (int n)) = Inr (word_of_nat n)" using assms(4) by (simp add: atoll_to_string)
  have "unat (word_of_nat n :: 64 word) = n" using assms(4) by (simp add: unsigned_of_nat take_bit_eq_mod)
  then have nz: "(word_of_nat n :: 64 word) \<noteq> 0" using assms(3) by (metis less_nat_zero_code unsigned_0)
  have ne: "to_string (int n) \<noteq> []" by (simp add: to_string_def)
  note d = sint_difference [OF assms(4,2)]
  show "\<exists>s'. http_recv ops buffer s =
      (Inr no_error, buffer @ take (n - length buffer) (incoming (socket s)), s')"
  proof (cases "n \<le> length buffer")
    case True
    then show ?thesis by (simp add: http_recv_def k n nz ne d)
  next
    case False
    have "incoming (socket s) = take (n - length buffer) (incoming (socket s)) @ drop (n - length buffer) (incoming (socket s))"
      by simp
    from async_read_ok [OF assms(1) this, of buffer] assms(5)
    obtain s' where "async_read ops buffer (n - length buffer) s =
        (no_error, buffer @ take (n - length buffer) (incoming (socket s)), s')" by auto
    moreover have "nat (int n - int (length buffer)) = n - length buffer" using False by simp
    ultimately show ?thesis using False by (simp add: http_recv_def k n nz ne d)
  qed
qed

theorem http_recv_amount_witness:
  "\<exists>s'. http_recv script_ops (''Content-Length: 30'' @ crlf @ crlf)
       \<lparr>socket = \<lparr>script_in = ''0123456789012345678901234567890'', script_out = []\<rparr>, session_uuid = 1, timeout = 30\<rparr> =
     (Inr no_error, ''Content-Length: 30'' @ crlf @ crlf @ ''01234567'', s')"
proof -
  have "filter_key (''Content-Length: 30'' @ crlf @ crlf) ''Content-Length'' = to_string (int 30)"
    by code_simp
  then show ?thesis
    using http_recv_amount [OF stream_socket_script, of "''Content-Length: 30'' @ crlf @ crlf" 30
        "\<lparr>socket = \<lparr>script_in = ''0123456789012345678901234567890'', script_out = []\<rparr>, session_uuid = 1, timeout = 30\<rparr>"]
    by (simp add: crlf_def)
qed

lemma check_origin_iff: "check_origin cfg origin \<longleftrightarrow> origin \<in> set (split_on '','' (control_allow_origin cfg))"
  by (auto simp: check_origin_def list_ex_iff)

lemma check_method_iff:
  "check_method cfg ms \<longleftrightarrow> ms = [] \<or> (\<forall>m \<in> set (split_on '','' ms). sublist m (control_allow_methods cfg))"
  by (auto simp: check_method_def list_all_iff str_contains_iff)

lemma check_headers_iff:
  "check_headers cfg hs \<longleftrightarrow> hs \<noteq> [] \<and> (\<forall>h \<in> set (split_on '','' hs). sublist h (control_allow_headers cfg))"
  by (auto simp: check_headers_def list_all_iff str_contains_iff)

text \<open>
  C34. The answer to a preflight request whose header can be read. Without an origin it is 204 and
  nothing is written. An origin that is not one of the comma-separated allowed ones, a requested
  method that does not occur in the text of the allowed methods, no requested header at all, or
  one that does not occur in the text of the allowed headers: the answer is 403 and nothing is
  written. Otherwise it is 204 with the header of the answer behind what is left of the request:
  the allowed origins, methods and headers and the maximal age as they are configured, under
  these names, and the credentials exactly when the request asks for them.
\<close>

theorem cors_preflight:
  assumes "http_deserialize http_header_default buffer = (None, hdr, rest)"
    and "origin = field_find hdr ''Origin''" and "ms = field_find hdr ''Access-Control-Request-Method''"
    and "hs = field_find hdr ''Access-Control-Request-Headers''"
  shows "(origin = [] \<longrightarrow> mpc_http_options cfg buffer = (Inr (make_error_code_http 204), rest)) \<and>
    (origin \<noteq> [] \<longrightarrow>
      (if origin \<in> set (split_on '','' (control_allow_origin cfg)) \<and>
          (ms = [] \<or> (\<forall>m \<in> set (split_on '','' ms). sublist m (control_allow_methods cfg))) \<and>
          hs \<noteq> [] \<and> (\<forall>h \<in> set (split_on '','' hs). sublist h (control_allow_headers cfg))
       then \<exists>fs. mpc_http_options cfg buffer =
              (Inr (make_error_code_http 204), rest @ concat (map (\<lambda>(k, v). k @ '': '' @ v @ crlf) fs) @ crlf) \<and>
            distinct (map fst fs) \<and>
            set fs = {(''Access-Control-Allow-Origin'', control_allow_origin cfg),
                      (''Access-Control-Request-Methods'', control_allow_methods cfg),
                      (''Access-Control-Allow-Headers'', control_allow_headers cfg),
                      (''Access-Control-Max-Age'', control_max_age cfg)} \<union>
                     (if field_find hdr ''withCredentials'' = [] then {}
                      else {(''Access-Control-Allow-Credentials'', if control_allow_credentials cfg then ''true'' else ''false'')})
       else mpc_http_options cfg buffer = (Inr (make_error_code_http 403), rest)))"
proof (intro conjI impI)
  assume "origin = []"
  then show "mpc_http_options cfg buffer = (Inr (make_error_code_http 204), rest)"
    using assms by (simp add: mpc_http_options_def)
next
  assume o: "origin \<noteq> []"
  let ?ok = "origin \<in> set (split_on '','' (control_allow_origin cfg)) \<and>
          (ms = [] \<or> (\<forall>m \<in> set (split_on '','' ms). sublist m (control_allow_methods cfg))) \<and>
          hs \<noteq> [] \<and> (\<forall>h \<in> set (split_on '','' hs). sublist h (control_allow_headers cfg))"
  let ?fs = "hdr_fields (set_options_header http_header_default (field_find hdr ''withCredentials'' \<noteq> []) cfg)"
  have l: "header_line = (\<lambda>(k, v). k @ '': '' @ v @ crlf)" by (simp add: fun_eq_iff header_line_def)
  have ok: "mpc_http_options cfg buffer =
      (if ?ok then (Inr (make_error_code_http 204), rest @ concat (map (\<lambda>(k, v). k @ '': '' @ v @ crlf) ?fs) @ crlf)
       else (Inr (make_error_code_http 403), rest))"
    using assms o
    by (simp add: mpc_http_options_def check_origin_iff check_method_iff check_headers_iff http_serialize_def sputn_def l Let_def)
  have fs: "distinct (map fst ?fs)" "set ?fs = {(''Access-Control-Allow-Origin'', control_allow_origin cfg),
                      (''Access-Control-Request-Methods'', control_allow_methods cfg),
                      (''Access-Control-Allow-Headers'', control_allow_headers cfg),
                      (''Access-Control-Max-Age'', control_max_age cfg)} \<union>
                     (if field_find hdr ''withCredentials'' = [] then {}
                      else {(''Access-Control-Allow-Credentials'', if control_allow_credentials cfg then ''true'' else ''false'')})"
    by (auto simp: set_options_header_def set_field_def http_header_default_def Let_def)
  show "if ?ok then \<exists>fs. mpc_http_options cfg buffer =
              (Inr (make_error_code_http 204), rest @ concat (map (\<lambda>(k, v). k @ '': '' @ v @ crlf) fs) @ crlf) \<and>
            distinct (map fst fs) \<and>
            set fs = {(''Access-Control-Allow-Origin'', control_allow_origin cfg),
                      (''Access-Control-Request-Methods'', control_allow_methods cfg),
                      (''Access-Control-Allow-Headers'', control_allow_headers cfg),
                      (''Access-Control-Max-Age'', control_max_age cfg)} \<union>
                     (if field_find hdr ''withCredentials'' = [] then {}
                      else {(''Access-Control-Allow-Credentials'', if control_allow_credentials cfg then ''true'' else ''false'')})
       else mpc_http_options cfg buffer = (Inr (make_error_code_http 403), rest)" (is "if _ then ?answered else ?refused")
  proof (cases ?ok)
    case True
    have ?answered using ok [unfolded if_P [OF True]] fs by (intro exI conjI)
    then show ?thesis by (simp only: if_P [OF True])
  next
    case False
    have ?refused using ok [unfolded if_not_P [OF False]] .
    then show ?thesis by (simp only: if_not_P [OF False])
  qed
qed

definition sample_cors :: http_config where
  "sample_cors = \<lparr>control_allow_origin = ''a,b'', control_allow_methods = ''GET,POST'', control_allow_headers = ''X'',
      control_max_age = ''1'', control_allow_credentials = False\<rparr>"

text \<open>A request from the allowed origin \<open>a\<close> for the header \<open>X\<close>, and one for the header \<open>Y\<close>.\<close>

theorem cors_preflight_witness:
  "(\<exists>fs. mpc_http_options sample_cors (''Origin: a'' @ crlf @ ''Access-Control-Request-Headers: X'' @ crlf @ crlf) =
      (Inr (make_error_code_http 204), concat (map (\<lambda>(k, v). k @ '': '' @ v @ crlf) fs) @ crlf) \<and>
      (''Access-Control-Max-Age'', ''1'') \<in> set fs) \<and>
   mpc_http_options sample_cors (''Origin: a'' @ crlf @ ''Access-Control-Request-Headers: Y'' @ crlf @ crlf) =
      (Inr (make_error_code_http 403), [])"
proof -
  have d: "http_deserialize http_header_default (''Origin: a'' @ crlf @ ''Access-Control-Request-Headers: '' @ [c] @ crlf @ crlf) =
      (None, \<lparr>hdr_fields = [(''Origin'', ''a''), (''Access-Control-Request-Headers'', [c])], http_way = 0\<rparr>, [])" if "c \<noteq> CHR 0x0D" for c
    using http_header_fields [of "\<lparr>hdr_fields = [(''Origin'', ''a''), (''Access-Control-Request-Headers'', [c])], http_way = 0\<rparr>" 0 "[]"] that
    by (simp add: transmissible_def http_header_default_def http_serialize_def sputn_def header_line_def)
  have s: "split_on '','' ''a,b'' = [''a'', ''b'']" "split_on '','' ''X'' = [''X'']" "split_on '','' ''Y'' = [''Y'']" by code_simp+
  have "\<not> str_contains ''Y'' ''X''" by code_simp
  then have y: "\<not> sublist ''Y'' ''X''" by (simp add: str_contains_iff)
  have "mpc_http_options sample_cors (''Origin: a'' @ crlf @ ''Access-Control-Request-Headers: Y'' @ crlf @ crlf) =
      (Inr (make_error_code_http 403), [])"
    using cors_preflight [OF d [of "CHR ''Y''"] refl refl refl, of sample_cors] by (simp add: field_find_def sample_cors_def s y)
  moreover have "\<exists>fs. mpc_http_options sample_cors (''Origin: a'' @ crlf @ ''Access-Control-Request-Headers: X'' @ crlf @ crlf) =
      (Inr (make_error_code_http 204), concat (map (\<lambda>(k, v). k @ '': '' @ v @ crlf) fs) @ crlf) \<and>
      (''Access-Control-Max-Age'', ''1'') \<in> set fs"
    using cors_preflight [OF d [of "CHR ''X''"] refl refl refl, of sample_cors] by (auto simp: field_find_def sample_cors_def s)
  ultimately show ?thesis by blast
qed

end
