(* ===== verification/Http_Delivery.thy ===== *)
theory Http_Delivery
  imports Http_Properties
begin

text \<open>
  A request over HTTP from the client's \<open>send_request\<close> to the server's \<open>accept\<close>
  (include/aquarius/ip/http.hpp), through the text on the connection.
\<close>

section \<open>Scanning the text of a request\<close>

lemma find_first_of_here:
  assumes "\<forall>c \<in> set a. c \<notin> set cs" and "d \<in> set cs"
  shows "find_first_of cs (a @ d # b) 0 = Some (length a)"
proof -
  have "takeWhile (\<lambda>c. c \<notin> set cs) (a @ d # b) = a"
    using assms by (simp add: takeWhile_append2)
  then show ?thesis by (simp add: find_first_of_def)
qed

lemma crlf_Cons: "crlf = CHR 0x0D # [CHR 0x0A]"
  by (simp add: crlf_def)

lemma find_crlf_here:
  assumes "set a \<inter> {CHR 0x0D, CHR 0x0A} = {}"
  shows "find_first_of crlf (a @ crlf @ b) 0 = Some (length a)"
  using find_first_of_here [of a crlf "CHR 0x0D" "CHR 0x0A # b"] assms by (auto simp: crlf_Cons)

lemma to_string_no_crlf: "set (to_string i) \<inter> {CHR 0x0D, CHR 0x0A} = {}"
  using to_string_chars [of i] by (auto simp: is_digit_def)

lemma cut_at_here: "d \<noteq> [] \<Longrightarrow> cut_at d (d @ b) = Some ([], b)"
  using cut_at_skip [of d "[]" "d @ b"] by (cases d) auto

lemma filter_key_first:
  assumes "key \<noteq> []" and "CHR '':'' \<notin> set key" and "set key \<inter> {CHR 0x0D, CHR 0x0A} = {}"
    and "set v \<inter> {CHR 0x0D, CHR 0x0A} = {}"
  shows "filter_key (key @ '': '' @ v @ crlf @ rest) key = v"
proof -
  let ?s = "key @ '': '' @ v @ crlf @ rest"
  have 1: "str_find key ?s = Some 0" using cut_at_here [OF assms(1)] by (simp add: str_find_def)
  have "find_first_of crlf ((key @ '': '' @ v) @ crlf @ rest) 0 = Some (length (key @ '': '' @ v))"
    using assms(3,4) by (intro find_crlf_here) auto
  then have 2: "find_first_of crlf ?s 0 = Some (length key + 2 + length v)" by simp
  have 3: "find_first_of '':'' ?s 0 = Some (length key)"
    using find_first_of_here [of key "'':''" "CHR '':''" "CHR '' '' # v @ crlf @ rest"] assms(2) by auto
  have "take (length key) ?s = key" "take (length v) (drop (length key + 2) ?s) = v" by simp_all
  with 1 2 3 show ?thesis
    unfolding filter_key_def by (simp del: append_Cons append.simps)
qed

lemma http_recv_whole:
  assumes "filter_key buffer ''Content-Length'' = to_string (int n)"
    and "0 < n" and "n \<le> length buffer" and "length buffer < 2 ^ 62"
  shows "http_recv ops buffer s = (Inr no_error, buffer, s)"
proof -
  have n: "n < 2 ^ 62" using assms(3,4) by linarith
  then have a: "atoll (to_string (int n)) = Inr (word_of_nat n)" by (simp add: atoll_to_string)
  have "unat (word_of_nat n :: 64 word) = n" using n by (simp add: unsigned_of_nat take_bit_eq_mod)
  then have nz: "(word_of_nat n :: 64 word) \<noteq> 0" using assms(2) by (metis less_nat_zero_code unsigned_0)
  have "to_string (int n) \<noteq> []" by (simp add: to_string_def)
  then show ?thesis using assms(3) by (simp add: http_recv_def assms(1) a nz sint_difference [OF n assms(4)])
qed

section \<open>The request line\<close>

lemma method_chars: "set (method_to_string m) \<inter> {CHR '' '', CHR 0x0D, CHR 0x0A} = {}"
  by (cases m) (simp_all add: method_to_string_def http_methods_def)

lemma version_chars: "set (version_to_string http1_1) \<inter> {CHR '' '', CHR 0x0D, CHR 0x0A} = {}"
  by (simp add: version_to_string_def http_versions_def)

definition request_words :: "http_method \<Rightarrow> string \<Rightarrow> string" where
  "request_words m path = method_to_string m @ '' '' @ path @ '' '' @ version_to_string http1_1"

lemma request_line_words: "request_line m path = request_words m path @ crlf"
  by (simp add: request_line_def request_words_def)

lemma parse_request_words:
  assumes "CHR '' '' \<notin> set path" and "parse_url path = Inr loc"
  shows "parse_request_line parse_url (request_words m path) = Inr (m, loc, http1_1)"
proof -
  have "split_on '' '' (version_to_string http1_1) = [version_to_string http1_1]"
    using version_chars by (intro split_on_none) auto
  moreover have "CHR '' '' \<notin> set (method_to_string m)" using method_chars [of m] by blast
  ultimately have "split_on '' '' (request_words m path) = [method_to_string m, path, version_to_string http1_1]"
    using assms(1) split_three unfolding request_words_def by simp
  then show ?thesis using assms(2) by (simp add: parse_request_line_def method_roundtrip version_roundtrip)
qed

text \<open>What \<open>accept\<close> does with a text that was read as a whole.\<close>

lemma http_accept_whole:
  assumes r: "sock_read_until ops (socket s) [] (crlf @ crlf) = (no_error, request_line m path @ rest, pos, sock)"
    and pos: "length (request_line m path) \<le> pos"
    and path: "set path \<inter> {CHR '' '', CHR 0x0D, CHR 0x0A} = {}" and u: "parse_url path = Inr loc"
    and m: "m \<noteq> m_options" "m \<noteq> m_get"
    and b: "http_recv ops rest (s\<lparr>socket := sock\<rparr>) = (Inr no_error, rest, s\<lparr>socket := sock\<rparr>)"
    and g: "get (url_path loc) = Some c" "is_http c"
  shows "http_accept_step ops cfg parse_url get is_http complete s w =
     (case complete c (url_path loc) m rest w of
        (Inl f, w') \<Rightarrow> (Stop (Inl f), s\<lparr>socket := sock\<rparr>, w')
      | (Inr _, w') \<Rightarrow> (Continue, s\<lparr>socket := sock\<rparr>, w'))"
proof -
  have "set (request_words m path) \<inter> {CHR 0x0D, CHR 0x0A} = {}"
    using path method_chars [of m] version_chars unfolding request_words_def by auto
  then have "find_first_of crlf (request_words m path @ crlf @ take (pos - length (request_line m path)) rest) 0 =
      Some (length (request_words m path))" by (rule find_crlf_here)
  moreover have "take pos (request_line m path @ rest) =
      request_words m path @ crlf @ take (pos - length (request_line m path)) rest"
    using pos by (simp add: request_line_words)
  ultimately have 1: "find_first_of crlf (take pos (request_line m path @ rest)) 0 = Some (length (request_words m path))"
    and 2: "take (length (request_words m path)) (take pos (request_line m path @ rest)) = request_words m path"
    by simp_all
  have 3: "consume (length (request_words m path) + length crlf) (request_line m path @ rest) = rest"
    by (simp add: consume_def request_line_words)
  have 4: "parse_request_line parse_url (request_words m path) = Inr (m, loc, http1_1)"
    using path u by (intro parse_request_words) auto
  obtain buf where buf: "buf = request_line m path @ rest" by blast
  show ?thesis
    using m g 4 r 1 2 3 b unfolding buf [symmetric]
    by (simp add: http_accept_step_def async_read_until_def failed_def no_error_def Let_def)
qed

section \<open>The text of a request\<close>

abbreviation login_text :: "(jvalue \<Rightarrow> string) \<Rightarrow> login_req_body \<Rightarrow> string" where
  "login_text ser x \<equiv> ser (J_object (login_req_body_object x))"

definition length_header :: "string \<Rightarrow> http_header" where
  "length_header text' = set_content_length (word_of_nat (length text')) http_header_default"

definition header_and_body :: "string \<Rightarrow> string" where
  "header_and_body text' = http_serialize (length_header text') [] @ text'"

lemma http_serialize_length_header:
  assumes "length text' < 2 ^ 60"
  shows "http_serialize (length_header text') b =
    b @ ''Content-Length'' @ '': '' @ to_string (int (length text')) @ crlf @ crlf"
proof -
  have "uint (word_of_nat (length text') :: 64 word) = int (length text')"
    using assms by (simp add: unsigned_of_nat take_bit_eq_mod flip: of_nat_mod)
  then show ?thesis
    by (simp add: length_header_def http_serialize_def sputn_def set_content_length_def set_field_def
        http_header_default_def header_line_def)
qed

lemma length_header_transmissible: "transmissible (hdr_fields (length_header text'))"
  using to_string_chars [of "uint (word_of_nat (length text') :: 64 word)"]
  by (auto simp: length_header_def transmissible_def set_content_length_def set_field_def http_header_default_def is_digit_def)

lemma decimal_length: "length (decimal n) \<le> n + 1"
proof (induction n rule: decimal.induct)
  case (1 n)
  then show ?case by (subst decimal.simps) auto
qed

lemma http_recv_request:
  assumes "text' \<noteq> []" and "length text' < 2 ^ 60"
  shows "http_recv ops (http_serialize (length_header text') [] @ text') s =
    (Inr no_error, http_serialize (length_header text') [] @ text', s)"
proof (rule http_recv_whole)
  have "filter_key (''Content-Length'' @ '': '' @ to_string (int (length text')) @ crlf @ crlf @ text') ''Content-Length'' =
      to_string (int (length text'))"
    using to_string_no_crlf by (intro filter_key_first) simp_all
  then show "filter_key (http_serialize (length_header text') [] @ text') ''Content-Length'' = to_string (int (length text'))"
    by (simp only: http_serialize_length_header [OF assms(2)] append.assoc append_Nil)
  have "length (to_string (int (length text'))) \<le> length text' + 1" using decimal_length [of "length text'"] by (simp add: to_string_def)
  then show "length (http_serialize (length_header text') [] @ text') < 2 ^ 62"
    using assms(2) by (simp add: http_serialize_length_header [OF assms(2)])
qed (use assms(1) in simp_all)

section \<open>Properties\<close>

text \<open>
  C13. A login request over HTTP reaches the context of its path. \<open>send_request\<close> writes the request
  line, a header with the content length and the JSON text of the body. A server whose first read
  gets all of it calls the context of the path, once, with the method and exactly the header and
  the body, whatever that context does with them; and when the JSON library parses what it printed,
  a handler whose header says JSON reads the sent body from it.
\<close>

theorem http_request_delivered:
  assumes st: "stream_socket ops incoming ending outgoing" and s: "session_ptr t = Some s"
    and m: "header m = http_header_default" "msg_method m \<noteq> m_get"
    and x: "login_text ser (body m) \<noteq> []" "length (login_text ser (body m)) < 2 ^ 60"
    and par: "par (login_text ser (body m)) = Inr (json_norm (J_object (login_req_body_object (body m))))"
    and path: "set path \<inter> {CHR '' '', CHR 0x0D, CHR 0x0A} = {}" "parse_url path = Inr \<lparr>url_path = path, url_query = q\<rparr>"
    and meth: "meth \<noteq> m_options" "meth \<noteq> m_get" and c: "get path = Some c" "is_http c"
    and m0: "hdr_fields (header m0) = []" "http_way (header m0) = 1"
  shows "\<exists>t' s'.
     http_send_request ops (login_req_body_ops lim par ser) path m f meth t =
       (Inr no_error, m\<lparr>header := length_header (login_text ser (body m))\<rparr>, t') \<and>
     session_ptr t' = Some s' \<and> outgoing (socket s') = outgoing (socket s) @ request_line meth path @ header_and_body (login_text ser (body m)) \<and>
     (\<forall>sv pos sock. sock_read_until ops2 (socket sv) [] (crlf @ crlf) = (no_error, request_line meth path @ header_and_body (login_text ser (body m)), pos, sock) \<longrightarrow>
        length (request_line meth path) \<le> pos \<longrightarrow>
        http_accept_step ops2 cfg parse_url get is_http complete sv w =
          (case complete c path meth (header_and_body (login_text ser (body m))) w of
             (Inl fl, w') \<Rightarrow> (Stop (Inl fl), sv\<lparr>socket := sock\<rparr>, w')
           | (Inr _, w') \<Rightarrow> (Continue, sv\<lparr>socket := sock\<rparr>, w'))) \<and>
     http_consume (login_req_body_ops lim par ser) m0 (header_and_body (login_text ser (body m))) =
       (Inr no_error,
        m0\<lparr>header := \<lparr>hdr_fields = hdr_fields (length_header (login_text ser (body m))), http_way = 1\<rparr>, body := body m\<rparr>,
        login_text ser (body m))"
proof -
  let ?ops = "login_req_body_ops lim par ser" and ?txt = "login_text ser (body m)"
  let ?h = "length_header ?txt" and ?t = "regist_resp_func 0 (Some f) t"
  let ?rest = "http_serialize ?h [] @ ?txt"
  have rest: "header_and_body ?txt = ?rest" by (simp add: header_and_body_def)
  have "http_commit ?ops m (request_line meth path) =
      (Inr no_error, m\<lparr>header := ?h\<rparr>, http_serialize ?h (request_line meth path) @ ?txt)"
    using http_commit_json [OF login_req_body_json.json_codec_axioms [of lim par ser] m(2) x(1)] m(1)
    by (simp add: length_header_def)
  then have commit: "http_commit ?ops m (request_line meth path) =
      (Inr no_error, m\<lparr>header := ?h\<rparr>, request_line meth path @ ?rest)"
    by (simp add: http_serialize_def sputn_def)
  have "session_ptr ?t = Some s" using s by (simp add: regist_resp_func_def Let_def)
  from tcp_send_ok [OF st this, of "[request_line meth path @ ?rest]"] obtain s' where
    "tcp_send ops [request_line meth path @ ?rest] ?t = (Inr no_error, ?t\<lparr>session_ptr := Some s'\<rparr>)"
    and out: "outgoing (socket s') = outgoing (socket s) @ request_line meth path @ ?rest" by auto
  then have "http_send_request ops ?ops path m f meth t = (Inr no_error, m\<lparr>header := ?h\<rparr>, ?t\<lparr>session_ptr := Some s'\<rparr>)"
    by (simp add: http_send_request_def Let_def commit)
  moreover have "http_accept_step ops2 cfg parse_url get is_http complete sv w =
      (case complete c path meth ?rest w of
         (Inl fl, w') \<Rightarrow> (Stop (Inl fl), sv\<lparr>socket := sock\<rparr>, w')
       | (Inr _, w') \<Rightarrow> (Continue, sv\<lparr>socket := sock\<rparr>, w'))"
    if "sock_read_until ops2 (socket sv) [] (crlf @ crlf) = (no_error, request_line meth path @ ?rest, pos, sock)"
      "length (request_line meth path) \<le> pos" for sv pos sock
    using http_accept_whole [where rest = ?rest and parse_url = parse_url and path = path and m = meth and s = sv, OF that path meth http_recv_request [OF x, of ops2 "sv\<lparr>socket := sock\<rparr>"], of get c is_http cfg complete w] c
    by simp
  moreover have "from_json ?ops (body m0) ?txt = (None, body m, ?txt)"
    by (rule login_req_body_json.from_json_obj) (rule par)
  then have "http_consume ?ops m0 ?rest =
      (Inr no_error, m0\<lparr>header := \<lparr>hdr_fields = hdr_fields ?h, http_way = 1\<rparr>, body := body m\<rparr>, ?txt)"
    using http_consume_header [OF length_header_transmissible m0(1), of ?ops ?txt] m0(2) by (simp add: body_load_def)
  ultimately show ?thesis using out unfolding rest
    by (intro exI [of _ "?t\<lparr>session_ptr := Some s'\<rparr>"] exI [of _ s']) simp
qed

text \<open>A client and a server on scripted sockets.\<close>

definition sample_login :: "login_req_body http_message" where
  "sample_login = \<lparr>header = http_header_default, body = login_req_body_default, msg_method = m_post\<rparr>"

definition sample_server :: "script basic_session" where
  "sample_server =
     \<lparr>socket = \<lparr>script_in = request_line m_post ''/login'' @ header_and_body ''{}'', script_out = []\<rparr>, session_uuid = 2, timeout = 30\<rparr>"

theorem http_request_delivered_witness:
  "(\<exists>t' s'. http_send_request script_ops
       (login_req_body_ops \<lparr>string_max = 9, vector_max = 9\<rparr>
          (\<lambda>_. Inr (json_norm (J_object (login_req_body_object login_req_body_default)))) (\<lambda>_. ''{}''))
       ''/login'' sample_login (\<lambda>_ _ w. w) m_post
       (tcp_new \<lparr>socket = \<lparr>script_in = [], script_out = []\<rparr>, session_uuid = 1, timeout = 30\<rparr> :: (script, nat) tcp) =
         (Inr no_error, sample_login\<lparr>header := length_header ''{}''\<rparr>, t') \<and>
       session_ptr t' = Some s' \<and> script_out (socket s') = script_in (socket sample_server)) \<and>
   http_accept_step script_ops \<lparr>control_allow_origin = [], control_allow_methods = [], control_allow_headers = [],
       control_max_age = [], control_allow_credentials = False\<rparr>
     (\<lambda>u. Inr \<lparr>url_path = u, url_query = []\<rparr>) (\<lambda>r. if r = ''/login'' then Some () else None) (\<lambda>_. True)
     (\<lambda>_ router meth buf w. (Inr no_error, w @ [(router, meth, buf)])) sample_server [] =
     (Continue, sample_server\<lparr>socket := \<lparr>script_in = [], script_out = []\<rparr>\<rparr>, [(''/login'', m_post, header_and_body ''{}'')])"
proof -
  let ?cfg = "\<lparr>control_allow_origin = [], control_allow_methods = [], control_allow_headers = [],
       control_max_age = [], control_allow_credentials = False\<rparr>"
  let ?s = "\<lparr>socket = \<lparr>script_in = [], script_out = []\<rparr>, session_uuid = 1, timeout = 30\<rparr>"
  let ?m0 = "\<lparr>header = \<lparr>hdr_fields = [], http_way = 1\<rparr>, body = login_req_body_default, msg_method = m_post\<rparr>"
  have s: "session_ptr (tcp_new ?s :: (script, nat) tcp) = Some ?s" by (simp add: tcp_new_def)
  have m: "header sample_login = http_header_default" "msg_method sample_login \<noteq> m_get" "body sample_login = login_req_body_default"
    by (simp_all add: sample_login_def)
  have read: "sock_read_until script_ops (socket sample_server) [] (crlf @ crlf) =
      (no_error, request_line m_post ''/login'' @ header_and_body ''{}'', 43, \<lparr>script_in = [], script_out = []\<rparr>)"
    by code_simp
  have pos: "length (request_line m_post ''/login'') \<le> 43" by code_simp
  note d = http_request_delivered [OF stream_socket_script s m(1,2), where ser = "\<lambda>_. ''{}''"
      and par = "\<lambda>_. Inr (json_norm (J_object (login_req_body_object login_req_body_default)))" and path = "''/login''"
      and parse_url = "\<lambda>u. Inr \<lparr>url_path = u, url_query = []\<rparr>" and q = "[]" and meth = m_post
      and get = "\<lambda>r. if r = ''/login'' then Some () else None" and c = "()" and is_http = "\<lambda>_. True" and ?m0.0 = ?m0
      and lim = "\<lparr>string_max = 9, vector_max = 9\<rparr>" and f = "\<lambda>_ _ w. w" and ?ops2.0 = script_ops
      and cfg = ?cfg and complete = "\<lambda>_ router meth buf w. (Inr no_error, w @ [(router, meth, buf)])" and w = "[]"]
  show ?thesis using d read pos by (auto simp: m sample_server_def)
qed

end
