(* ===== verification/Http_Loop.thy ===== *)
theory Http_Loop
  imports Loop_Termination Http_Session
begin

text \<open>
  Termination of the loops of an HTTP connection: \<open>accept\<close> of the server
  (include/aquarius/ip/http.hpp), and the loop that \<open>async_connect\<close> of a client spawns over \<open>query\<close>
  (include/aquarius/basic_client.hpp).
\<close>

section \<open>The loop of the client\<close>

text \<open>\<open>query\<close> of an HTTP session handles one response; the client repeats it until an error.\<close>

definition http_client_step :: "'s socket_ops \<Rightarrow> ('s, 'w) tcp \<Rightarrow> 'w \<Rightarrow> loop \<times> ('s, 'w) tcp \<times> 'w" where
  "http_client_step ops t w =
     (case http_query ops t w of
        (Inl f, t', w') \<Rightarrow> (Stop (Inl f), t', w')
      | (Inr ec, t', w') \<Rightarrow> (if failed ec then (Stop (Inr ec), t', w') else (Continue, t', w')))"

section \<open>Reading up to a delimiter\<close>

text \<open>
  What is documented of \<open>async_read_until\<close>: when it succeeds, it has added bytes of the stream to the
  buffer, and the delimiter is in the buffer.
\<close>

definition delimited_reads :: "'s socket_ops \<Rightarrow> ('s \<Rightarrow> string) \<Rightarrow> bool" where
  "delimited_reads ops incoming \<longleftrightarrow>
     (\<forall>s buffer delm ec buffer' end_pos s'. sock_read_until ops s buffer delm = (ec, buffer', end_pos, s') \<longrightarrow>
        \<not> failed ec \<longrightarrow> sublist delm buffer' \<and> (\<exists>bs. buffer' = buffer @ bs \<and> incoming s = bs @ incoming s'))"

lemma async_read_until_consumes:
  assumes "delimited_reads ops incoming" and "async_read_until ops [] delm s = (ec, buffer, pos, s')" and "\<not> failed ec"
  shows "length (incoming (socket s')) + length delm \<le> length (incoming (socket s))"
proof -
  obtain sock where r: "sock_read_until ops (socket s) [] delm = (ec, buffer, pos, sock)" and s': "s' = s\<lparr>socket := sock\<rparr>"
    using assms(2) by (auto simp: async_read_until_def split: prod.splits)
  from assms(1,3) r have "sublist delm buffer" "incoming (socket s) = buffer @ incoming sock"
    unfolding delimited_reads_def by fastforce+
  then show ?thesis using sublist_length_le [of delm buffer] by (simp add: s')
qed

lemma http_recv_keeps:
  assumes "stream_socket ops incoming ending outgoing" and "http_recv ops buffer s = (Inr ec, buffer', s')" and "\<not> failed ec"
  shows "length (incoming (socket s')) \<le> length (incoming (socket s))"
proof -
  obtain n where n: "(if filter_key buffer ''Content-Length'' = [] then Inr 0 else atoll (filter_key buffer ''Content-Length'')) = Inr n"
    using assms(2) unfolding http_recv_def Let_def by (auto split: sum.splits)
  show ?thesis
  proof (cases "n \<noteq> 0 \<and> 0 < sint (n - word_of_nat (length buffer))")
    case True
    then obtain k where "async_read ops buffer k s = (ec, buffer', s')"
      using assms(2) n unfolding http_recv_def Let_def by (auto split: prod.splits)
    from async_read_consumes [OF assms(1) this assms(3)] show ?thesis by simp
  next
    case False
    then have "s' = s" using assms(2) n unfolding http_recv_def Let_def by (auto split: if_splits)
    then show ?thesis by simp
  qed
qed

lemma make_response_keeps:
  assumes "stream_socket ops incoming ending outgoing"
  shows "incoming (socket (snd (make_response ops res buffer s))) = incoming (socket s)"
  using async_send_ok [OF assms] unfolding make_response_def by (metis snd_conv)

section \<open>Rounds\<close>

lemma http_accept_step_consumes:
  assumes st: "stream_socket ops incoming ending outgoing" and d: "delimited_reads ops incoming"
    and c: "http_accept_step ops cfg parse_url get is_http complete s w = (Continue, s', w')"
  shows "length (incoming (socket s')) + 4 \<le> length (incoming (socket s))"
proof -
  obtain ec buffer pos s1 where r: "async_read_until ops [] (crlf @ crlf) s = (ec, buffer, pos, s1)"
    by (cases "async_read_until ops [] (crlf @ crlf) s")
  have ok: "\<not> failed ec" using c by (auto simp: http_accept_step_def r)
  from async_read_until_consumes [OF d r ok]
  have 1: "length (incoming (socket s1)) + 4 \<le> length (incoming (socket s))" by simp
  define line where "line = take (case find_first_of crlf (take pos buffer) 0 of None \<Rightarrow> length (take pos buffer) | Some p \<Rightarrow> p) (take pos buffer)"
  define rest where "rest = consume (length line + length crlf) buffer"
  note step = c [unfolded http_accept_step_def r prod.case if_not_P [OF ok] Let_def, folded line_def, folded rest_def]
  have "length (incoming (socket s')) \<le> length (incoming (socket s1))"
  proof (cases "parse_request_line parse_url line")
    case (Inl e)
    then show ?thesis using step make_response_keeps [OF st] by auto
  next
    case (Inr x)
    obtain meth loc v where x: "x = (meth, loc, v)" by (cases x)
    obtain r2 b2 s2 where v: "http_recv ops rest s1 = (r2, b2, s2)" by (cases "http_recv ops rest s1")
    show ?thesis
    proof (cases "meth = m_options")
      case True
      then show ?thesis
        using step make_response_keeps [OF st] by (auto simp: Inr x split: prod.splits sum.splits)
    next
      case False
      then obtain ec2 where ec2: "r2 = Inr ec2" "\<not> failed ec2"
        using step by (auto simp: Inr x v split: sum.splits if_splits)
      have "incoming (socket s') = incoming (socket s2)"
        using step False make_response_keeps [OF st]
        by (auto simp: Inr x v ec2 split: option.splits if_splits prod.splits sum.splits)
      then show ?thesis using http_recv_keeps [OF st, of rest s1 ec2 b2 s2] v ec2 by simp
    qed
  qed
  with 1 show ?thesis by linarith
qed

lemma http_client_step_consumes:
  assumes st: "stream_socket ops incoming ending outgoing" and d: "delimited_reads ops incoming"
    and c: "http_client_step ops t w = (Continue, t', w')"
  shows "unread incoming t' + 4 \<le> unread incoming t"
proof -
  obtain ec where q: "http_query ops t w = (Inr ec, t', w')" "\<not> failed ec"
    using c by (auto simp: http_client_step_def split: prod.splits sum.splits if_splits)
  then obtain s where s: "session_ptr t = Some s" by (auto simp: http_query_def split: option.splits)
  obtain ec1 buffer pos s1 where r: "async_read_until ops [] (crlf @ crlf) s = (ec1, buffer, pos, s1)"
    by (cases "async_read_until ops [] (crlf @ crlf) s")
  have ok: "\<not> failed ec1" using q by (auto simp: http_query_def s r)
  obtain r2 buffer2 s2 where v: "http_recv ops buffer s1 = (r2, buffer2, s2)" by (cases "http_recv ops buffer s1")
  with q ok obtain ec2 where ok2: "r2 = Inr ec2" "\<not> failed ec2"
    by (auto simp: http_query_def s r Let_def split: sum.splits if_splits)
  have "session_ptr t' = Some s2"
    using q ok v ok2
    by (auto simp: http_query_def s r Let_def http_filling_buffer_def failed_def make_error_code_http_def
        split: sum.splits prod.splits if_splits option.splits)
  then show ?thesis
    using async_read_until_consumes [OF d r ok] http_recv_keeps [OF st, of buffer s1 ec2 buffer2 s2] v ok2 s
    by (simp add: unread_def)
qed

lemma find_delim_sublist: "find_delim delm s n = Some k \<Longrightarrow> sublist delm s"
proof (induction delm s n rule: find_delim.induct)
  case (2 delm c s n)
  then show ?case by (auto simp: sublist_Cons_right split: if_splits)
qed (simp split: if_splits)

lemma delimited_reads_script: "delimited_reads script_ops script_in"
proof -
  have "sublist delm buffer' \<and> (\<exists>bs. buffer' = buffer @ bs \<and> script_in s = bs @ script_in s')"
    if "sock_read_until script_ops s buffer delm = (ec, buffer', n, s')" and "\<not> failed ec" for s buffer delm ec buffer' n s'
    using that find_delim_sublist [of delm "buffer @ script_in s" 0]
    by (auto simp: script_ops_def failed_def eof_def split: option.splits)
  then show ?thesis unfolding delimited_reads_def by blast
qed

lemma enough_rounds: "(n :: nat) < Suc (n div 4) * 4"
  by presburger

section \<open>Properties\<close>

text \<open>
  C9. The loops of an HTTP connection end. Whatever the peer sends, and whatever the contexts, the
  parser of URLs and the callbacks make of it, the server's loop and the client's return after at
  most one round for every four bytes received, the length of an empty line and the line end
  before it, and one more.
\<close>

theorem http_loops_terminate:
  assumes st: "stream_socket ops incoming ending outgoing" and d: "delimited_reads ops incoming" and t: "session_ptr t = Some s"
  shows "(\<exists>res. run_loop (Suc (length (incoming (socket s)) div 4)) (http_accept_step ops cfg parse_url get is_http complete) s w = Some res) \<and>
         (\<exists>res. run_loop (Suc (length (incoming (socket s)) div 4)) (http_client_step ops) t v = Some res)"
proof
  show "\<exists>res. run_loop (Suc (length (incoming (socket s)) div 4)) (http_accept_step ops cfg parse_url get is_http complete) s w = Some res"
    by (rule run_loop_consumes [where m = "\<lambda>s. length (incoming (socket s))" and k = 4, OF _ enough_rounds])
      (erule http_accept_step_consumes [OF st d])
  have "unread incoming t < Suc (length (incoming (socket s)) div 4) * 4"
    using t by (simp only: unread_def option.case enough_rounds)
  then show "\<exists>res. run_loop (Suc (length (incoming (socket s)) div 4)) (http_client_step ops) t v = Some res"
    by (rule run_loop_consumes [where m = "unread incoming" and k = 4, rotated])
      (erule http_client_step_consumes [OF st d])
qed

theorem http_loops_terminate_witness:
  "\<exists>res. run_loop 3 (http_client_step script_ops)
     (tcp_new \<lparr>socket = \<lparr>script_in = ''HTTP/1.1'', script_out = []\<rparr>, session_uuid = 1, timeout = 30\<rparr>) (0::nat) = Some res"
proof -
  let ?s = "\<lparr>socket = \<lparr>script_in = ''HTTP/1.1'', script_out = []\<rparr>, session_uuid = 1, timeout = 30\<rparr>"
  have "session_ptr (tcp_new ?s :: (script, nat) tcp) = Some ?s" by (simp add: tcp_new_def)
  from http_loops_terminate [OF stream_socket_script delimited_reads_script this]
  have "\<exists>res. run_loop (Suc (length (script_in (socket ?s)) div 4)) (http_client_step script_ops) (tcp_new ?s) (0::nat) = Some res"
    by (rule conjunct2)
  moreover have "Suc (length (script_in (socket ?s)) div 4) = 3" by simp
  ultimately show ?thesis by (simp only:)
qed

end
