(* ===== verification/Message_Moves.thy ===== *)
theory Message_Moves
  imports Http_Session
begin

text \<open>
  Moving messages. A generated body (src/*/proto, written by \<open>generate_construction_define\<close> of
  src/lazytool/cpp_generator.cpp) keeps its members behind a pointer, \<open>impl_ptr_\<close>, and its moves are the
  defaulted ones: the source is left with a null pointer, and every member function dereferences
  it. Messages (include/aquarius/basic_protocol.hpp, basic_http_protocol.hpp) are moved with
  \<open>std::exchange\<close>, which puts a new body into the source. A body with its pointer is an option;
  the other theories have bodies without the pointer, which is justified here.
\<close>

section \<open>Bodies\<close>

type_synonym 'i body_ptr = "'i option"

definition body_new :: "'i \<Rightarrow> 'i body_ptr" where
  "body_new default_impl = Some default_impl"

text \<open>The new object and what is left in the source; for the assignment likewise.\<close>

definition body_move :: "'i body_ptr \<Rightarrow> 'i body_ptr \<times> 'i body_ptr" where
  "body_move other = (other, None)"

definition body_move_assign :: "'i body_ptr \<Rightarrow> 'i body_ptr \<Rightarrow> 'i body_ptr \<times> 'i body_ptr" where
  "body_move_assign this other = (other, None)"

text \<open>A member function on the object behind the pointer.\<close>

definition with_impl :: "('i \<Rightarrow> fault + 'r) \<Rightarrow> 'i body_ptr \<Rightarrow> fault + 'r" where
  "with_impl f b = (case b of None \<Rightarrow> Inl Undefined | Some x \<Rightarrow> f x)"

text \<open>\<open>std::exchange(obj, new_value)\<close>: the old value, and the new content of \<open>obj\<close>.\<close>

definition body_exchange :: "'i body_ptr \<Rightarrow> 'i body_ptr \<Rightarrow> 'i body_ptr \<times> 'i body_ptr" where
  "body_exchange obj new_value =
     (case body_move obj of (old, obj1) \<Rightarrow> case body_move_assign obj1 new_value of (obj2, _) \<Rightarrow> (old, obj2))"

section \<open>Messages\<close>

text \<open>The move constructor and the move assignment; \<open>same\<close> is \<open>this == std::addressof(other)\<close>.\<close>

definition message_move :: "'h \<Rightarrow> 'i \<Rightarrow> ('h, 'i body_ptr) basic_protocol
    \<Rightarrow> ('h, 'i body_ptr) basic_protocol \<times> ('h, 'i body_ptr) basic_protocol" where
  "message_move header_type body_type other =
     (case body_exchange (body other) (body_new body_type) of (old, left_behind) \<Rightarrow>
        case body_move_assign (body_new body_type) old of (this_body, _) \<Rightarrow>
          (\<lparr>header = header other, body = this_body\<rparr>, \<lparr>header = header_type, body = left_behind\<rparr>))"

definition message_move_assign :: "bool \<Rightarrow> 'h \<Rightarrow> 'i \<Rightarrow> ('h, 'i body_ptr) basic_protocol \<Rightarrow> ('h, 'i body_ptr) basic_protocol
    \<Rightarrow> ('h, 'i body_ptr) basic_protocol \<times> ('h, 'i body_ptr) basic_protocol" where
  "message_move_assign same header_type body_type this other =
     (if same then (this, other)
      else case body_exchange (body other) (body_new body_type) of (old, left_behind) \<Rightarrow>
             case body_move_assign (body this) old of (this_body, _) \<Rightarrow>
               (\<lparr>header = header other, body = this_body\<rparr>, \<lparr>header = header_type, body = left_behind\<rparr>))"

text \<open>The same of an HTTP message, whose method becomes \<open>http_method{}\<close> in the source.\<close>

definition http_message_move :: "'i \<Rightarrow> 'i body_ptr http_message \<Rightarrow> 'i body_ptr http_message \<times> 'i body_ptr http_message" where
  "http_message_move body_type other =
     (case message_move http_header_default body_type \<lparr>header = header other, body = body other\<rparr> of
        (t, s) \<Rightarrow> (\<lparr>header = header t, body = body t, msg_method = msg_method other\<rparr>,
                   \<lparr>header = header s, body = body s, msg_method = m_post\<rparr>))"

definition http_message_move_assign :: "bool \<Rightarrow> 'i \<Rightarrow> 'i body_ptr http_message \<Rightarrow> 'i body_ptr http_message
    \<Rightarrow> 'i body_ptr http_message \<times> 'i body_ptr http_message" where
  "http_message_move_assign same body_type this other =
     (if same then (this, other)
      else case message_move_assign same http_header_default body_type
                  \<lparr>header = header this, body = body this\<rparr> \<lparr>header = header other, body = body other\<rparr> of
             (t, s) \<Rightarrow> (\<lparr>header = header t, body = body t, msg_method = msg_method other\<rparr>,
                        \<lparr>header = header s, body = body s, msg_method = m_post\<rparr>))"

section \<open>Sequences of moves\<close>

text \<open>
  Messages in the places of a list, and assignments \<open>m_i = std::move(m_j)\<close> one after the other. The
  abstraction forgets the pointer.
\<close>

type_synonym ('h, 'i) place = "('h, 'i body_ptr) basic_protocol"

definition move_between :: "'h \<Rightarrow> 'i \<Rightarrow> nat \<times> nat \<Rightarrow> ('h, 'i) place list \<Rightarrow> ('h, 'i) place list" where
  "move_between h d ij ms =
     (case ij of (i, j) \<Rightarrow>
        if i < length ms \<and> j < length ms
        then case message_move_assign (i = j) h d (ms ! i) (ms ! j) of (t, s) \<Rightarrow> (ms[j := s])[i := t]
        else ms)"

definition abstract_move :: "'m \<Rightarrow> nat \<times> nat \<Rightarrow> 'm list \<Rightarrow> 'm list" where
  "abstract_move e ij ms =
     (case ij of (i, j) \<Rightarrow> if i < length ms \<and> j < length ms \<and> i \<noteq> j then (ms[j := e])[i := ms ! j] else ms)"

definition abstract_place :: "('h, 'i) place \<Rightarrow> 'h \<times> 'i option" where
  "abstract_place m = (header m, body m)"

definition usable :: "('h, 'i) place \<Rightarrow> bool" where
  "usable m \<longleftrightarrow> body m \<noteq> None"

lemma message_move_assign_result:
  "message_move_assign same h d this other =
     (if same then (this, other) else (\<lparr>header = header other, body = body other\<rparr>, \<lparr>header = h, body = Some d\<rparr>))"
  by (simp add: message_move_assign_def body_exchange_def body_move_def body_move_assign_def body_new_def)

lemma move_between_abstract:
  "map abstract_place (move_between h d ij ms) = abstract_move (h, Some d) ij (map abstract_place ms)"
  by (cases ij) (auto simp: move_between_def abstract_move_def message_move_assign_result abstract_place_def map_update)

lemma usable_move_between: "list_all usable ms \<Longrightarrow> list_all usable (move_between h d ij ms)"
  by (cases ij)
    (auto simp: move_between_def message_move_assign_result usable_def list_all_length nth_list_update)

section \<open>Properties\<close>

text \<open>
  C18. A message that was moved from can be used. After any sequence of moves between messages all of
  which have a body object, all of them still have one, the source of a move a new one, so that no
  member function of a body dereferences a null pointer; and the moves do to the messages what
  assigning values and resetting the source does. A move of the body alone leaves a null pointer.
\<close>

theorem moved_messages_usable:
  assumes "list_all usable ms"
  shows "list_all usable (fold (move_between h d) ijs ms) \<and>
         map abstract_place (fold (move_between h d) ijs ms) = fold (abstract_move (h, Some d)) ijs (map abstract_place ms) \<and>
         with_impl f (snd (body_move b)) = Inl Undefined"
proof (intro conjI)
  show "list_all usable (fold (move_between h d) ijs ms)"
    using assms by (induction ijs arbitrary: ms) (simp_all add: usable_move_between)
  show "map abstract_place (fold (move_between h d) ijs ms) = fold (abstract_move (h, Some d)) ijs (map abstract_place ms)"
    by (induction ijs arbitrary: ms) (simp_all add: move_between_abstract)
qed (simp add: with_impl_def body_move_def)

theorem moved_messages_usable_witness:
  "list_all usable (fold (move_between (0::nat) ''new'') [(0, 1), (1, 1)]
     [\<lparr>header = 1, body = Some ''a''\<rparr>, \<lparr>header = 2, body = Some ''b''\<rparr>]) \<and>
   map abstract_place (fold (move_between (0::nat) ''new'') [(0, 1), (1, 1)]
     [\<lparr>header = 1, body = Some ''a''\<rparr>, \<lparr>header = 2, body = Some ''b''\<rparr>]) = [(2, Some ''b''), (0, Some ''new'')]"
proof -
  have "list_all usable [\<lparr>header = 1::nat, body = Some ''a''\<rparr>, \<lparr>header = 2, body = Some ''b''\<rparr>]" by (simp add: usable_def)
  from moved_messages_usable [OF this, of 0 "''new''" "[(0, 1), (1, 1)]" "\<lambda>x. Inr (x :: nat)" "Some 1"]
  show ?thesis by (simp add: abstract_move_def abstract_place_def)
qed

end
