(* ===== verification/Schema.thy ===== *)
theory Schema
  imports Decimal Text
begin

text \<open>
  The schema language of the code generator: the fields (src/lazytool/field.h,
  src/lazytool/field.cpp) and the parser (src/lazytool/schema.h, src/lazytool/schema.cpp).

  A \<open>std::fstream\<close> opened for reading is what is left of the file and its end-of-file bit,
  which is set when a read runs past the end and not when the last character is taken. The row
  and column counters only appear in messages on the standard output and are left out, like
  those messages.
\<close>

section \<open>Input streams\<close>

record istream =
  in_rest :: string
  in_eof :: bool

definition istream_of :: "string \<Rightarrow> istream" where
  "istream_of s = \<lparr>in_rest = s, in_eof = False\<rparr>"

definition skip_space :: "istream \<Rightarrow> istream" where
  "skip_space s =
     (if in_eof s then s
      else let r = dropWhile is_space (in_rest s) in \<lparr>in_rest = r, in_eof = (r = [])\<rparr>)"

section \<open>Tokens\<close>

datatype token = strict | standard | loose

text \<open>\<open>std::expected<T, bool>\<close>, with a branch for a fault.\<close>

datatype 'a expected = Value 'a | Unexpected bool | Failed fault

definition is_alpha :: "char \<Rightarrow> bool" where
  "is_alpha c \<longleftrightarrow> 65 \<le> (of_char c :: nat) \<and> (of_char c :: nat) \<le> 90 \<or>
                 97 \<le> (of_char c :: nat) \<and> (of_char c :: nat) \<le> 122"

definition is_alnum :: "char \<Rightarrow> bool" where
  "is_alnum c \<longleftrightarrow> is_alpha c \<or> is_digit c"

text \<open>
  The classification functions take the value of an \<open>unsigned char\<close> or \<open>EOF\<close>. A \<open>char\<close> is
  signed here, so the bytes from 0x80 on are negative; the last of them is the value of \<open>EOF\<close>.
\<close>

definition classifiable :: "char \<Rightarrow> bool" where
  "classifiable c \<longleftrightarrow> (of_char c :: nat) < 128 \<or> (of_char c :: nat) = 255"

definition accepts :: "token \<Rightarrow> char \<Rightarrow> bool" where
  "accepts t c =
     (case t of strict \<Rightarrow> is_alpha c | standard \<Rightarrow> c = CHR ''_'' \<or> is_alnum c | loose \<Rightarrow> True)"

text \<open>At the end of the file \<open>get\<close> returns \<open>EOF\<close>, which no token accepts and which ends the loop.\<close>

fun read_chars :: "token \<Rightarrow> char \<Rightarrow> string \<Rightarrow> string \<Rightarrow> string expected \<times> istream" where
  "read_chars t stop value [] = (Unexpected False, \<lparr>in_rest = [], in_eof = True\<rparr>)"
| "read_chars t stop value (ends # r) =
     (if ends = stop then (Value value, istream_of r)
      else if \<not> classifiable ends then (Failed Undefined, istream_of r)
      else if is_space ends then read_chars t stop value r
      else if \<not> accepts t ends then (Unexpected (ends = CHR ''}''), istream_of r)
      else read_chars t stop (value @ [ends]) r)"

definition read_value :: "token \<Rightarrow> char \<Rightarrow> istream \<Rightarrow> string expected \<times> istream" where
  "read_value t stop s =
     (let s' = skip_space s
      in if in_eof s' then (Unexpected False, s') else read_chars t stop [] (in_rest s'))"

section \<open>Fields\<close>

datatype struct_type = st_structure | st_message | st_request | st_response | st_enumture

record field_base =
  f_type :: struct_type
  f_name :: string
  f_fields :: "(string \<times> string) list"

definition make_field :: "struct_type \<Rightarrow> string \<Rightarrow> field_base" where
  "make_field t nm = \<lparr>f_type = t, f_name = nm, f_fields = []\<rparr>"

definition add_field :: "string \<Rightarrow> string \<Rightarrow> field_base \<Rightarrow> bool \<times> field_base" where
  "add_field ty value f =
     (if list_ex (\<lambda>p. snd p = value) (f_fields f) then (False, f)
      else (False, f\<lparr>f_fields := f_fields f @ [(ty, value)]\<rparr>))"

text \<open>\<open>messages_\<close> holds two pointers, which are null until \<open>set_protocol_name\<close>.\<close>

record message_field = field_base +
  m_request :: "field_base option"
  m_response :: "field_base option"
  m_router :: string

definition make_message_field :: message_field where
  "make_message_field =
     \<lparr>f_type = st_message, f_name = [], f_fields = [], m_request = None, m_response = None, m_router = []\<rparr>"

definition set_protocol_name :: "string \<Rightarrow> message_field \<Rightarrow> message_field" where
  "set_protocol_name nm m =
     m\<lparr>m_request := Some (make_field st_request (nm @ ''_req_body'')),
       m_response := Some (make_field st_response (nm @ ''_resp_body''))\<rparr>"

datatype field = Data_field field_base | Message_field message_field

section \<open>The parser\<close>

record schema =
  s_fields :: "field list"
  s_custom_types :: "string list"

definition schema_new :: schema where
  "schema_new = \<lparr>s_fields = [], s_custom_types = []\<rparr>"

definition put_custom_type :: "string \<Rightarrow> schema \<Rightarrow> schema" where
  "put_custom_type ty sch = sch\<lparr>s_custom_types := List.insert ty (s_custom_types sch)\<rparr>"

definition check_custom_type :: "string \<Rightarrow> schema \<Rightarrow> bool" where
  "check_custom_type ty sch \<longleftrightarrow> List.member (s_custom_types sch) ty"

definition type_keywords :: "string list" where
  "type_keywords =
     [''int32'', ''uint32'', ''sint32'', ''int64'', ''uint64'', ''sint64'', ''fixed32'', ''fixed64'',
      ''bool'', ''float'', ''double'', ''string'', ''bytes'', ''date'', ''times'', ''datetime'']"

definition check_keyword :: "string \<Rightarrow> bool" where
  "check_keyword v \<longleftrightarrow> List.member type_keywords v"

text \<open>The type of a field: the part of the loop of \<open>parse_data_field\<close> under \<open>has_key\<close>.\<close>

definition read_type :: "istream \<Rightarrow> string expected \<times> istream" where
  "read_type s =
     (case read_value standard (CHR '' '') s of
        (Value r, s1) \<Rightarrow>
          if r = ''repeated''
          then case read_value standard (CHR '' '') s1 of
                 (Value t, s2) \<Rightarrow> (Value (''std::vector<'' @ t @ ''>''), s2)
               | (Unexpected _, s2) \<Rightarrow> (Unexpected False, s2)
               | (Failed f, s2) \<Rightarrow> (Failed f, s2)
          else if r = ''map''
          then case read_value standard (CHR '','') s1 of
                 (Value key, s2) \<Rightarrow>
                   (case read_value strict (CHR '' '') s2 of
                      (Value v, s3) \<Rightarrow> (Value (''std::map<'' @ key @ '', '' @ v @ ''>''), s3)
                    | (Unexpected _, s3) \<Rightarrow> (Unexpected False, s3)
                    | (Failed f, s3) \<Rightarrow> (Failed f, s3))
               | (Unexpected _, s2) \<Rightarrow> (Unexpected False, s2)
               | (Failed f, s2) \<Rightarrow> (Failed f, s2)
          else (Value r, s1)
      | (Unexpected e, s1) \<Rightarrow> (Unexpected e, s1)
      | (Failed f, s1) \<Rightarrow> (Failed f, s1))"

subsection \<open>Consumption\<close>

text \<open>How much a stream can still be read from; a stream at its end counts nothing.\<close>

definition left :: "istream \<Rightarrow> nat" where
  "left s = (if in_eof s then 0 else Suc (length (in_rest s)))"

lemma left_read_chars: "left (snd (read_chars t stop v r)) < Suc (length r)"
proof (induction t stop v r rule: read_chars.induct)
  case (2 t stop v c r)
  then show ?case by (auto simp: left_def istream_of_def less_Suc_eq)
qed (simp add: left_def)

lemma left_skip_space: "left (skip_space s) \<le> left s"
  by (simp add: skip_space_def left_def Let_def length_dropWhile_le)

lemma left_read_value_le: "left (snd (read_value t stop s)) \<le> left s"
  using left_read_chars [of t stop "[]" "in_rest (skip_space s)"] left_skip_space [of s]
  by (auto simp: read_value_def Let_def left_def split: if_splits)

lemma left_read_value:
  assumes "\<not> in_eof s"
  shows "left (snd (read_value t stop s)) < left s"
proof (cases "in_eof (skip_space s)")
  case True
  then show ?thesis using assms by (simp add: read_value_def left_def)
next
  case False
  then have "left (snd (read_value t stop s)) < left (skip_space s)"
    using left_read_chars [of t stop "[]" "in_rest (skip_space s)"] by (simp add: read_value_def left_def)
  also have "\<dots> \<le> left s" by (rule left_skip_space)
  finally show ?thesis .
qed

lemma left_read_value_eq: "read_value t stop s = (r, s') \<Longrightarrow> left s' \<le> left s"
  using left_read_value_le [of t stop s] by simp

lemma left_read_value_less: "read_value t stop s = (r, s') \<Longrightarrow> \<not> in_eof s \<Longrightarrow> left s' < left s"
  using left_read_value [of s t stop] by simp

lemma left_read_type_le:
  assumes "read_type s = (r, s')"
  shows "left s' \<le> left s"
  using assms
  by (auto simp: read_type_def split: prod.splits expected.splits if_splits
      dest!: left_read_value_eq intro: le_trans)

lemma left_read_type:
  assumes "read_type s = (r, s')" and "\<not> in_eof s"
  shows "left s' < left s"
proof -
  obtain r1 s1 where 1: "read_value standard (CHR '' '') s = (r1, s1)" by fastforce
  then have "left s1 < left s" using assms(2) by (rule left_read_value_less)
  moreover have "left s' \<le> left s1"
    using assms(1) 1
    by (auto simp: read_type_def split: prod.splits expected.splits if_splits
        dest!: left_read_value_eq intro: le_trans)
  ultimately show ?thesis by simp
qed

subsection \<open>Field lists\<close>

text \<open>
  The loop of \<open>parse_data_field\<close>. The value of the function is the error of the token that
  ended it: true at a closing brace.
\<close>

function parse_data_loop :: "bool \<Rightarrow> istream \<Rightarrow> field_base \<Rightarrow> (fault + bool) \<times> istream \<times> field_base" where
  "parse_data_loop has_key s f =
     (if in_eof s then (Inr True, s, f)
      else case (if has_key then read_type s else (Value [], s)) of
             (Unexpected e, s1) \<Rightarrow> (Inr e, s1, f)
           | (Failed x, s1) \<Rightarrow> (Inl x, s1, f)
           | (Value ty, s1) \<Rightarrow>
               (case read_value standard (CHR '';'') s1 of
                  (Unexpected e, s2) \<Rightarrow> (Inr e, s2, f)
                | (Failed x, s2) \<Rightarrow> (Inl x, s2, f)
                | (Value v, s2) \<Rightarrow> parse_data_loop has_key s2 (snd (add_field ty v f))))"
  by pat_completeness auto
termination
proof (relation "measure (\<lambda>(h, s, f). left s)")
  fix h s f r s1 ty r2 s2 v
  assume "\<not> in_eof s" and p: "(r, s1) = (if h then read_type s else (Value [], s))" "r = Value ty"
    and q: "(r2, s2) = read_value standard (CHR '';'') s1" "r2 = Value v"
  show "((h, s2, snd (add_field ty v f)), h, s, f) \<in> measure (\<lambda>(h, s, f). left s)"
  proof (cases h)
    case True
    then have "left s1 < left s" using p \<open>\<not> in_eof s\<close> by (metis left_read_type)
    moreover have "left s2 \<le> left s1" using q by (metis left_read_value_eq)
    ultimately show ?thesis by simp
  next
    case False
    then have "s1 = s" using p by simp
    then show ?thesis using q \<open>\<not> in_eof s\<close> by (simp add: left_read_value_less [OF sym])
  qed
qed simp

declare parse_data_loop.simps [simp del]

definition parse_data_field :: "bool \<Rightarrow> bool \<Rightarrow> istream \<Rightarrow> field_base \<Rightarrow> (fault + bool) \<times> istream \<times> field_base" where
  "parse_data_field anonymous has_key s f =
     (if anonymous then parse_data_loop has_key s f
      else case read_value standard (CHR ''{'') s of
             (Value r, s1) \<Rightarrow> parse_data_loop has_key s1 (f\<lparr>f_name := r\<rparr>)
           | (Unexpected _, s1) \<Rightarrow> (Inr False, s1, f)
           | (Failed x, s1) \<Rightarrow> (Inl x, s1, f))"

subsection \<open>Messages\<close>

definition parse_router :: "istream \<Rightarrow> message_field \<Rightarrow> (fault + bool) \<times> istream \<times> message_field" where
  "parse_router s m =
     (case read_value standard (CHR ''>'') s of
        (Value _, s1) \<Rightarrow>
          (case read_value loose (CHR ''{'') s1 of
             (Value r, s2) \<Rightarrow> (Inr True, s2, m\<lparr>m_router := r\<rparr>)
           | (Unexpected _, s2) \<Rightarrow> (Inr False, s2, m)
           | (Failed x, s2) \<Rightarrow> (Inl x, s2, m))
      | (Unexpected _, s1) \<Rightarrow> (Inr False, s1, m)
      | (Failed x, s1) \<Rightarrow> (Inl x, s1, m))"

definition get_message :: "nat \<Rightarrow> message_field \<Rightarrow> field_base option" where
  "get_message i m = (if i = 0 then m_request m else m_response m)"

definition put_message :: "nat \<Rightarrow> field_base \<Rightarrow> message_field \<Rightarrow> message_field" where
  "put_message i f m = (if i = 0 then m\<lparr>m_request := Some f\<rparr> else m\<lparr>m_response := Some f\<rparr>)"

definition read_protocol :: "nat \<Rightarrow> istream \<Rightarrow> message_field \<Rightarrow> (fault + bool) \<times> istream \<times> message_field" where
  "read_protocol i s m =
     (case read_value strict (CHR ''{'') s of
        (Value v, s1) \<Rightarrow>
          if v \<noteq> ''request'' \<and> v \<noteq> ''response'' then (Inr False, s1, m)
          else (case get_message i m of
                  None \<Rightarrow> (Inl Undefined, s1, m)
                | Some f \<Rightarrow>
                    (case parse_data_field True True s1 f of
                       (r, s2, f') \<Rightarrow> (r, s2, put_message i f' m)))
      | (Unexpected _, s1) \<Rightarrow> (Inr False, s1, m)
      | (Failed x, s1) \<Rightarrow> (Inl x, s1, m))"

text \<open>The fold over \<open>&&\<close> stops at the first part that is refused.\<close>

definition parse_message_field :: "istream \<Rightarrow> message_field \<Rightarrow> (fault + bool) \<times> istream \<times> message_field" where
  "parse_message_field s m =
     (case read_value standard (CHR ''-'') s of
        (Value r, s1) \<Rightarrow>
          (case parse_router s1 (set_protocol_name r (m\<lparr>f_name := r\<rparr>)) of
             (Inr True, s2, m2) \<Rightarrow>
               (case read_protocol 0 s2 m2 of
                  (Inr True, s3, m3) \<Rightarrow> read_protocol 1 s3 m3
                | res \<Rightarrow> res)
           | res \<Rightarrow> res)
      | (Unexpected _, s1) \<Rightarrow> (Inr False, s1, m)
      | (Failed x, s1) \<Rightarrow> (Inl x, s1, m))"

subsection \<open>Whole files\<close>

text \<open>The functions registered by the constructor: a refused declaration is an exception.\<close>

definition invoke_message :: "istream \<Rightarrow> schema \<Rightarrow> fault option \<times> istream \<times> schema" where
  "invoke_message s sch =
     (case parse_message_field s make_message_field of
        (Inl x, s', _) \<Rightarrow> (Some x, s', sch)
      | (Inr False, s', _) \<Rightarrow> (Some (Thrown runtime_error), s', sch)
      | (Inr True, s', m) \<Rightarrow> (None, s', sch\<lparr>s_fields := s_fields sch @ [Message_field m]\<rparr>))"

definition invoke_struct :: "istream \<Rightarrow> schema \<Rightarrow> fault option \<times> istream \<times> schema" where
  "invoke_struct s sch =
     (case parse_data_field False True s (make_field st_structure []) of
        (Inl x, s', _) \<Rightarrow> (Some x, s', sch)
      | (Inr False, s', _) \<Rightarrow> (Some (Thrown runtime_error), s', sch)
      | (Inr True, s', f) \<Rightarrow>
          (None, s', put_custom_type (f_name f) (sch\<lparr>s_fields := s_fields sch @ [Data_field f]\<rparr>)))"

definition invoke_enum :: "istream \<Rightarrow> schema \<Rightarrow> fault option \<times> istream \<times> schema" where
  "invoke_enum s sch =
     (case parse_data_field False False s (make_field st_enumture []) of
        (Inl x, s', _) \<Rightarrow> (Some x, s', sch)
      | (Inr False, s', _) \<Rightarrow> (Some (Thrown runtime_error), s', sch)
      | (Inr True, s', f) \<Rightarrow> (None, s', sch\<lparr>s_fields := s_fields sch @ [Data_field f]\<rparr>))"

definition schema_invoke :: "string \<Rightarrow> istream \<Rightarrow> schema \<Rightarrow> fault option \<times> istream \<times> schema" where
  "schema_invoke nm s sch =
     (if nm = ''message'' then invoke_message s sch
      else if nm = ''struct'' then invoke_struct s sch
      else if nm = ''enum'' then invoke_enum s sch
      else (Some (Thrown runtime_error), s, sch))"

lemma left_parse_data_loop: "left (fst (snd (parse_data_loop h s f))) \<le> left s"
proof (induction h s f rule: parse_data_loop.induct)
  case (1 h s f)
  obtain r1 s1 where 1: "(if h then read_type s else (Value [], s)) = (r1, s1)" by fastforce
  then have l1: "left s1 \<le> left s" by (auto split: if_splits dest: left_read_type_le)
  obtain r2 s2 where 2: "read_value standard (CHR '';'') s1 = (r2, s2)" by fastforce
  then have l2: "left s2 \<le> left s" using l1 left_read_value_eq le_trans by blast
  show ?case
  proof (cases "in_eof s")
    case True
    then show ?thesis by (simp add: parse_data_loop.simps)
  next
    case False
    note IH = "1.IH" [OF this 1 [symmetric] _ 2 [symmetric]]
    show ?thesis
    proof (cases r1)
      case (Value ty)
      then show ?thesis
        using False 1 2 l2 IH by (cases r2) (auto simp: parse_data_loop.simps [of h s] intro: le_trans)
    qed (use False 1 l1 in \<open>auto simp: parse_data_loop.simps [of h s]\<close>)
  qed
qed

lemma left_parse_data_loop_eq: "parse_data_loop h s f = (r, s', f') \<Longrightarrow> left s' \<le> left s"
  using left_parse_data_loop [of h s f] by simp

lemma left_parse_data_field:
  "parse_data_field a h s f = (r, s', f') \<Longrightarrow> left s' \<le> left s"
  by (auto simp: parse_data_field_def split: if_splits prod.splits expected.splits
      dest!: left_parse_data_loop_eq left_read_value_eq intro: le_trans)

lemma left_parse_router: "parse_router s m = (r, s', m') \<Longrightarrow> left s' \<le> left s"
  by (auto simp: parse_router_def split: prod.splits expected.splits
      dest!: left_read_value_eq intro: le_trans)

lemma left_read_protocol: "read_protocol i s m = (r, s', m') \<Longrightarrow> left s' \<le> left s"
  by (auto simp: read_protocol_def split: prod.splits expected.splits if_splits option.splits
      dest!: left_read_value_eq left_parse_data_field intro: le_trans)

lemma left_parse_message_field: "parse_message_field s m = (r, s', m') \<Longrightarrow> left s' \<le> left s"
  by (auto simp: parse_message_field_def split: prod.splits expected.splits sum.splits bool.splits
      dest!: left_read_value_eq left_parse_router left_read_protocol intro: le_trans)

lemma left_schema_invoke: "schema_invoke nm s sch = (x, s', sch') \<Longrightarrow> left s' \<le> left s"
  by (auto simp: schema_invoke_def invoke_message_def invoke_struct_def invoke_enum_def
      split: prod.splits sum.splits bool.splits if_splits
      dest!: left_parse_message_field left_parse_data_field)

text \<open>
  The loop of \<open>run\<close>: what cannot be read as a keyword is skipped. It ends on every file,
  because each token either takes a character or reaches the end.
\<close>

function schema_loop :: "istream \<Rightarrow> schema \<Rightarrow> fault option \<times> schema" where
  "schema_loop s sch =
     (if in_eof s then (None, sch)
      else case read_value strict (CHR '' '') s of
             (Unexpected _, s1) \<Rightarrow> schema_loop s1 sch
           | (Failed x, s1) \<Rightarrow> (Some x, sch)
           | (Value r, s1) \<Rightarrow>
               (case schema_invoke r s1 sch of
                  (Some x, s2, sch2) \<Rightarrow> (Some x, sch2)
                | (None, s2, sch2) \<Rightarrow> schema_loop s2 sch2))"
  by pat_completeness auto
termination
  by (relation "measure (\<lambda>(s, sch). left s)")
    (auto simp: eq_commute [of _ "read_value _ _ _"] eq_commute [of _ "schema_invoke _ _ _"]
      dest!: left_read_value_less left_schema_invoke intro: le_less_trans)

declare schema_loop.simps [simp del]

text \<open>
  \<open>run\<close> on a file that may fail to open. After an exception no field is returned, but those
  parsed before it stay in the schema, as do those of earlier files.
\<close>

definition schema_run :: "string option \<Rightarrow> schema \<Rightarrow> (fault + field list) \<times> schema" where
  "schema_run file sch =
     (case file of
        None \<Rightarrow> (Inr [], sch)
      | Some text \<Rightarrow>
          (case schema_loop (istream_of text) sch of
             (None, sch') \<Rightarrow> (Inr (s_fields sch'), sch')
           | (Some (Thrown _), sch') \<Rightarrow> (Inr [], sch')
           | (Some Undefined, sch') \<Rightarrow> (Inl Undefined, sch')))"

end
