(* ===== verification/Schema_Properties.thy ===== *)
theory Schema_Properties
  imports Schema
begin

text \<open>
  What the schema parser accepts and refuses: a printer for declarations in the layout of the
  schema files of the repository, which the parser inverts; the invariant of what it returns;
  the documented forms it does not accept.
\<close>

section \<open>Reading one token\<close>

definition ident_char :: "char \<Rightarrow> bool" where
  "ident_char c \<longleftrightarrow> c = CHR ''_'' \<or> is_alnum c"

definition ident :: "string \<Rightarrow> bool" where
  "ident w \<longleftrightarrow> w \<noteq> [] \<and> list_all ident_char w"

definition token_char :: "token \<Rightarrow> char \<Rightarrow> char \<Rightarrow> bool" where
  "token_char t stop c \<longleftrightarrow> accepts t c \<and> classifiable c \<and> \<not> is_space c \<and> c \<noteq> stop"

lemma space_classifiable: "is_space c \<Longrightarrow> classifiable c"
  by (auto simp: is_space_def classifiable_def)

lemma ident_char_range: "ident_char c \<Longrightarrow> (of_char c :: nat) < 128 \<and> 48 \<le> (of_char c :: nat)"
  by (auto simp: ident_char_def is_alnum_def is_alpha_def is_digit_def)

lemma ident_token_char:
  assumes "ident_char c" and "\<not> ident_char stop"
  shows "token_char standard stop c"
  using ident_char_range [OF assms(1)] assms
  by (auto simp: token_char_def accepts_def ident_char_def classifiable_def is_space_def)

lemma ident_token: "ident w \<Longrightarrow> \<not> ident_char stop \<Longrightarrow> list_all (token_char standard stop) w"
  by (auto simp: ident_def list_all_iff ident_token_char)

lemma separators [simp]:
  "\<not> ident_char (CHR '' '')" "\<not> ident_char (CHR '';'')" "\<not> ident_char (CHR '','')" "\<not> ident_char (CHR ''{'')"
  "\<not> ident_char (CHR ''-'')" "\<not> ident_char (CHR ''>'')" "\<not> ident_char (CHR ''}'')"
  by (simp_all add: ident_char_def is_alnum_def is_alpha_def is_digit_def)

lemma read_chars_token:
  "list_all (token_char t stop) w \<Longrightarrow> read_chars t stop v (w @ r) = read_chars t stop (v @ w) r"
  by (induction w arbitrary: v) (auto simp: token_char_def)

lemma read_chars_spaces:
  "list_all is_space ws \<Longrightarrow> stop \<notin> set ws \<Longrightarrow> read_chars t stop v (ws @ r) = read_chars t stop v r"
  by (induction ws) (auto simp: space_classifiable)

lemma skip_space_of:
  assumes "list_all is_space ws" and "r \<noteq> []" and "\<not> is_space (hd r)"
  shows "skip_space (istream_of (ws @ r)) = istream_of r"
  using assms by (cases r) (auto simp: skip_space_def istream_of_def dropWhile_append list_all_iff Let_def)

lemma read_value_start:
  assumes "list_all is_space ws" and "r \<noteq> []" and "\<not> is_space (hd r)"
  shows "read_value t stop (istream_of (ws @ r)) = read_chars t stop [] r"
  using skip_space_of [OF assms] by (simp add: read_value_def istream_of_def Let_def)

text \<open>A token is read between spaces; a token ended by a space has no space before its end.\<close>

lemma read_value_token:
  assumes "list_all is_space ws" and "list_all (token_char t stop) w" and "w \<noteq> []"
    and "list_all is_space ws'" and "stop \<notin> set ws'"
  shows "read_value t stop (istream_of (ws @ w @ ws' @ stop # r)) = (Value w, istream_of r)"
proof -
  have "\<not> is_space (hd (w @ ws' @ stop # r))"
    using assms(2,3) by (cases w) (auto simp: token_char_def)
  then have "read_value t stop (istream_of (ws @ w @ ws' @ stop # r)) = read_chars t stop [] (w @ ws' @ stop # r)"
    using assms(1) by (intro read_value_start) auto
  also have "\<dots> = (Value w, istream_of r)"
    by (simp add: read_chars_token [OF assms(2)] read_chars_spaces [OF assms(4,5)])
  finally show ?thesis .
qed

lemma read_value_empty:
  assumes "list_all is_space ws" and "\<not> is_space stop"
  shows "read_value t stop (istream_of (ws @ stop # r)) = (Value [], istream_of r)"
  using read_value_start [OF assms(1), of "stop # r"] assms(2) by simp

text \<open>A character that the token does not accept ends it; a brace says so.\<close>

lemma read_value_refused:
  assumes "list_all is_space ws" and "list_all (token_char t stop) w" and "list_all is_space ws'"
    and "stop \<notin> set ws'" and "w = [] \<Longrightarrow> ws' = []"
    and "classifiable c" "\<not> is_space c" "c \<noteq> stop" "\<not> accepts t c"
  shows "read_value t stop (istream_of (ws @ w @ ws' @ c # r)) = (Unexpected (c = CHR ''}''), istream_of r)"
proof -
  have "\<not> is_space (hd (w @ ws' @ c # r))"
    using assms(2,5,7) by (cases w) (auto simp: token_char_def)
  then have "read_value t stop (istream_of (ws @ w @ ws' @ c # r)) = read_chars t stop [] (w @ ws' @ c # r)"
    using assms(1) by (intro read_value_start) auto
  also have "\<dots> = (Unexpected (c = CHR ''}''), istream_of r)"
    using assms(6-9) by (simp add: read_chars_token [OF assms(2)] read_chars_spaces [OF assms(3,4)])
  finally show ?thesis .
qed

lemma brace [simp]:
  "classifiable (CHR ''}'')" "\<not> is_space (CHR ''}'')" "\<not> accepts standard (CHR ''}'')" "\<not> accepts strict (CHR ''}'')"
  by (simp_all add: classifiable_def is_space_def accepts_def is_alnum_def is_alpha_def is_digit_def)

lemma read_value_brace:
  "list_all is_space ws \<Longrightarrow> stop \<noteq> CHR ''}'' \<Longrightarrow> t \<noteq> loose \<Longrightarrow>
     read_value t stop (istream_of (ws @ CHR ''}'' # r)) = (Unexpected True, istream_of r)"
  using read_value_refused [of ws t stop "[]" "[]" "CHR ''}''" r] by (cases t) auto

section \<open>Declarations\<close>

datatype type_expr = Plain string | Repeated string | Map string string

datatype decl =
    Message string string "(type_expr \<times> string) list" "(type_expr \<times> string) list"
  | Struct string "(type_expr \<times> string) list"
  | Enum string "string list"

fun cpp_type :: "type_expr \<Rightarrow> string" where
  "cpp_type (Plain t) = t"
| "cpp_type (Repeated t) = ''std::vector<'' @ t @ ''>''"
| "cpp_type (Map k v) = ''std::map<'' @ k @ '', '' @ v @ ''>''"

fun type_ok :: "type_expr \<Rightarrow> bool" where
  "type_ok (Plain t) \<longleftrightarrow> ident t \<and> t \<noteq> ''repeated'' \<and> t \<noteq> ''map''"
| "type_ok (Repeated t) \<longleftrightarrow> ident t"
| "type_ok (Map k v) \<longleftrightarrow> ident k \<and> v \<noteq> [] \<and> list_all is_alpha v"

definition members_ok :: "(type_expr \<times> string) list \<Rightarrow> bool" where
  "members_ok ms \<longleftrightarrow> list_all (\<lambda>(t, n). type_ok t \<and> ident n) ms \<and> distinct (map snd ms)"

definition router_ok :: "string \<Rightarrow> bool" where
  "router_ok r \<longleftrightarrow> r \<noteq> [] \<and> list_all (token_char loose (CHR ''{'')) r"

fun decl_ok :: "decl \<Rightarrow> bool" where
  "decl_ok (Message n r qs ps) \<longleftrightarrow> ident n \<and> router_ok r \<and> members_ok qs \<and> members_ok ps"
| "decl_ok (Struct n ms) \<longleftrightarrow> ident n \<and> members_ok ms"
| "decl_ok (Enum n xs) \<longleftrightarrow> ident n \<and> list_all ident xs \<and> distinct xs"

fun print_type :: "type_expr \<Rightarrow> string" where
  "print_type (Plain t) = t @ '' ''"
| "print_type (Repeated t) = ''repeated '' @ t @ '' ''"
| "print_type (Map k v) = ''map '' @ k @ '','' @ v @ '' ''"

definition print_member :: "type_expr \<times> string \<Rightarrow> string" where
  "print_member m = [tab, tab] @ print_type (fst m) @ snd m @ [CHR '';'', nl]"

definition print_part :: "string \<Rightarrow> (type_expr \<times> string) list \<Rightarrow> string" where
  "print_part kind ms = [tab] @ kind @ [nl, tab, CHR ''{'', nl] @ concat (map print_member ms) @ [tab, CHR ''}'', nl]"

fun print_decl :: "decl \<Rightarrow> string" where
  "print_decl (Message n r qs ps) =
     ''message '' @ n @ '' -> '' @ r @ [nl, CHR ''{'', nl] @ print_part ''request'' qs @ print_part ''response'' ps @
     [CHR ''}'', nl]"
| "print_decl (Struct n ms) = ''struct '' @ n @ [nl, CHR ''{'', nl] @ concat (map print_member ms) @ [CHR ''}'', nl]"
| "print_decl (Enum n xs) =
     ''enum '' @ n @ [nl, CHR ''{'', nl] @ concat (map (\<lambda>x. [tab] @ x @ [CHR '';'', nl]) xs) @ [CHR ''}'', nl]"

definition member_fields :: "(type_expr \<times> string) list \<Rightarrow> (string \<times> string) list" where
  "member_fields ms = map (map_prod cpp_type id) ms"

fun field_of :: "decl \<Rightarrow> field" where
  "field_of (Message n r qs ps) =
     Message_field
       \<lparr>f_type = st_message, f_name = n, f_fields = [],
        m_request = Some \<lparr>f_type = st_request, f_name = n @ ''_req_body'', f_fields = member_fields qs\<rparr>,
        m_response = Some \<lparr>f_type = st_response, f_name = n @ ''_resp_body'', f_fields = member_fields ps\<rparr>,
        m_router = r\<rparr>"
| "field_of (Struct n ms) = Data_field \<lparr>f_type = st_structure, f_name = n, f_fields = member_fields ms\<rparr>"
| "field_of (Enum n xs) = Data_field \<lparr>f_type = st_enumture, f_name = n, f_fields = map (\<lambda>x. ([], x)) xs\<rparr>"

section \<open>Parsing what was printed\<close>

lemma spaces [simp]: "is_space nl" "is_space tab" "is_space (CHR '' '')"
  by (simp_all add: is_space_def)

lemma no_spaces [simp]:
  "\<not> is_space (CHR '';'')" "\<not> is_space (CHR '','')" "\<not> is_space (CHR ''{'')" "\<not> is_space (CHR ''-'')" "\<not> is_space (CHR ''>'')"
  by (simp_all add: is_space_def)

lemma read_ident:
  "list_all is_space ws \<Longrightarrow> ident w \<Longrightarrow> \<not> ident_char stop \<Longrightarrow>
     read_value standard stop (istream_of (ws @ w @ stop # r)) = (Value w, istream_of r)"
  using read_value_token [of ws standard stop w "[]" r] by (simp add: ident_token) (simp add: ident_def)

lemma alpha_token:
  assumes "list_all is_alpha w" and "\<not> is_alpha stop"
  shows "list_all (token_char strict stop) w"
  unfolding list_all_iff
proof
  fix c assume "c \<in> set w"
  with assms have c: "is_alpha c" "c \<noteq> stop" by (auto simp: list_all_iff)
  then show "token_char strict stop c"
    by (auto simp: token_char_def accepts_def classifiable_def is_alpha_def is_space_def)
qed

lemma not_alpha [simp]: "\<not> is_alpha (CHR '' '')" "\<not> is_alpha (CHR ''{'')"
  by (simp_all add: is_alpha_def)

lemma read_alpha:
  "list_all is_space ws \<Longrightarrow> w \<noteq> [] \<Longrightarrow> list_all is_alpha w \<Longrightarrow> list_all is_space ws' \<Longrightarrow> stop \<notin> set ws' \<Longrightarrow>
     \<not> is_alpha stop \<Longrightarrow> read_value strict stop (istream_of (ws @ w @ ws' @ stop # r)) = (Value w, istream_of r)"
  by (rule read_value_token) (simp_all add: alpha_token)

lemma repeated_ident: "ident ''repeated''" and map_ident: "ident ''map''"
  by (simp_all add: ident_def ident_char_def is_alnum_def is_alpha_def)

lemma read_type_print:
  assumes "type_ok t" and "list_all is_space ws"
  shows "read_type (istream_of (ws @ print_type t @ r)) = (Value (cpp_type t), istream_of r)"
proof (cases t)
  case (Plain x)
  then show ?thesis
    using assms read_ident [of ws x "CHR '' ''" r] by (simp add: read_type_def)
next
  case (Repeated x)
  then show ?thesis
    using assms read_ident [of ws "''repeated''" "CHR '' ''" "x @ '' '' @ r"] repeated_ident
      read_ident [of "[]" x "CHR '' ''" r]
    by (simp add: read_type_def)
next
  case (Map k v)
  then show ?thesis
    using assms read_ident [of ws "''map''" "CHR '' ''" "k @ '','' @ v @ '' '' @ r"] map_ident
      read_ident [of "[]" k "CHR '',''" "v @ '' '' @ r"] read_alpha [of "[]" v "[]" "CHR '' ''" r]
    by (simp add: read_type_def)
qed

lemma read_type_brace:
  "list_all is_space ws \<Longrightarrow> read_type (istream_of (ws @ CHR ''}'' # r)) = (Unexpected True, istream_of r)"
  using read_value_brace [of ws "CHR '' ''" standard r] by (simp add: read_type_def)

lemma not_eof_istream_of [simp]: "\<not> in_eof (istream_of r)"
  by (simp add: istream_of_def)

lemma parse_members:
  assumes "list_all is_space ws"
  shows "members_ok ms \<Longrightarrow> snd ` set (f_fields f) \<inter> snd ` set ms = {} \<Longrightarrow> list_all is_space ws0 \<Longrightarrow>
     parse_data_loop True (istream_of (ws0 @ concat (map print_member ms) @ ws @ CHR ''}'' # r)) f =
       (Inr True, istream_of r, f\<lparr>f_fields := f_fields f @ member_fields ms\<rparr>)"
proof (induction ms arbitrary: f ws0)
  case Nil
  then show ?case
    using read_type_brace [of "ws0 @ ws" r] assms
    by (subst parse_data_loop.simps) (simp add: member_fields_def)
next
  case (Cons m ms)
  obtain t n where m: "m = (t, n)" by (cases m)
  let ?rest = "concat (map print_member ms) @ ws @ CHR ''}'' # r"
  have ok: "type_ok t" "ident n" "members_ok ms" "n \<notin> snd ` set ms" "n \<notin> snd ` set (f_fields f)"
    using Cons.prems(1,2) m by (auto simp: members_ok_def)
  have "read_type (istream_of (ws0 @ concat (map print_member (m # ms)) @ ws @ CHR ''}'' # r)) =
      (Value (cpp_type t), istream_of (n @ CHR '';'' # nl # ?rest))"
    using read_type_print [OF ok(1), of "ws0 @ [tab, tab]" "n @ CHR '';'' # nl # ?rest"] Cons.prems(3)
    by (simp add: m print_member_def)
  moreover have "read_value standard (CHR '';'') (istream_of (n @ CHR '';'' # nl # ?rest)) = (Value n, istream_of (nl # ?rest))"
    using read_ident [of "[]" n "CHR '';''"] ok(2) by simp
  moreover have "parse_data_loop True (istream_of (nl # ?rest)) (f\<lparr>f_fields := f_fields f @ [(cpp_type t, n)]\<rparr>) =
      (Inr True, istream_of r, f\<lparr>f_fields := f_fields f @ member_fields (m # ms)\<rparr>)"
    using Cons.IH [OF ok(3), of "f\<lparr>f_fields := f_fields f @ [(cpp_type t, n)]\<rparr>" "[nl]"] Cons.prems(2) ok(4) m
    by (auto simp: member_fields_def)
  ultimately show ?case
    using ok(5) by (subst parse_data_loop.simps) (auto simp: add_field_def list_ex_iff image_iff)
qed

lemma parse_enumerators:
  "list_all ident xs \<Longrightarrow> distinct xs \<Longrightarrow> snd ` set (f_fields f) \<inter> set xs = {} \<Longrightarrow> list_all is_space ws0 \<Longrightarrow>
     parse_data_loop False (istream_of (ws0 @ concat (map (\<lambda>x. [tab] @ x @ [CHR '';'', nl]) xs) @ CHR ''}'' # r)) f =
       (Inr True, istream_of r, f\<lparr>f_fields := f_fields f @ map (\<lambda>x. ([], x)) xs\<rparr>)"
proof (induction xs arbitrary: f ws0)
  case Nil
  then show ?case
    using read_value_brace [of ws0 "CHR '';''" standard r] by (subst parse_data_loop.simps) simp
next
  case (Cons n xs)
  let ?rest = "concat (map (\<lambda>x. [tab] @ x @ [CHR '';'', nl]) xs) @ CHR ''}'' # r"
  have "read_value standard (CHR '';'') (istream_of (ws0 @ concat (map (\<lambda>x. [tab] @ x @ [CHR '';'', nl]) (n # xs)) @ CHR ''}'' # r)) =
      (Value n, istream_of (nl # ?rest))"
    using read_ident [of "ws0 @ [tab]" n "CHR '';''"] Cons.prems by simp
  moreover have "parse_data_loop False (istream_of (nl # ?rest)) (f\<lparr>f_fields := f_fields f @ [([], n)]\<rparr>) =
      (Inr True, istream_of r, f\<lparr>f_fields := f_fields f @ map (\<lambda>x. ([], x)) (n # xs)\<rparr>)"
    using Cons.IH [of "f\<lparr>f_fields := f_fields f @ [([], n)]\<rparr>" "[nl]"] Cons.prems by auto
  ultimately show ?case
    using Cons.prems(3) by (subst parse_data_loop.simps) (auto simp: add_field_def list_ex_iff image_iff)
qed

lemma read_block_name:
  "ident n \<Longrightarrow> read_value standard (CHR ''{'') (istream_of (n @ nl # CHR ''{'' # r)) = (Value n, istream_of r)"
  using read_value_token [of "[]" standard "CHR ''{''" n "[nl]" r] by (simp add: ident_token) (simp add: ident_def)

lemma parse_struct:
  assumes "ident n" and "members_ok ms" and "f_fields f = []"
  shows "parse_data_field False True (istream_of (n @ nl # CHR ''{'' # nl # concat (map print_member ms) @ CHR ''}'' # r)) f =
           (Inr True, istream_of r, f\<lparr>f_name := n, f_fields := member_fields ms\<rparr>)"
  using parse_members [of "[]" ms "f\<lparr>f_name := n\<rparr>" "[nl]" r] assms
  by (simp add: parse_data_field_def read_block_name)

lemma parse_enum:
  assumes "ident n" and "list_all ident xs" and "distinct xs" and "f_fields f = []"
  shows "parse_data_field False False
           (istream_of (n @ nl # CHR ''{'' # nl # concat (map (\<lambda>x. [tab] @ x @ [CHR '';'', nl]) xs) @ CHR ''}'' # r)) f =
           (Inr True, istream_of r, f\<lparr>f_name := n, f_fields := map (\<lambda>x. ([], x)) xs\<rparr>)"
  using parse_enumerators [of xs "f\<lparr>f_name := n\<rparr>" "[nl]" r] assms
  by (simp add: parse_data_field_def read_block_name)

lemma parse_part:
  assumes "kind = ''request'' \<or> kind = ''response''" and "members_ok ms" and "list_all is_space ws"
    and "get_message i m = Some f" and "f_fields f = []"
  shows "read_protocol i (istream_of (ws @ print_part kind ms @ r)) m =
           (Inr True, istream_of (nl # r), put_message i (f\<lparr>f_fields := member_fields ms\<rparr>) m)"
proof -
  have k: "list_all is_alpha kind" "kind \<noteq> []" using assms(1) by (auto simp: is_alpha_def)
  then have "read_value strict (CHR ''{'') (istream_of (ws @ print_part kind ms @ r)) =
      (Value kind, istream_of (nl # concat (map print_member ms) @ [tab] @ CHR ''}'' # nl # r))"
    using read_alpha [of "ws @ [tab]" kind "[nl, tab]" "CHR ''{''"] assms(3) by (simp add: print_part_def)
  then show ?thesis
    using parse_members [of "[tab]" ms f "[nl]" "nl # r"] assms
    by (auto simp: read_protocol_def parse_data_field_def)
qed

lemma parse_message:
  assumes "ident n" and "router_ok rt" and "members_ok qs" and "members_ok ps"
  shows "\<exists>m. parse_message_field
             (istream_of (n @ '' -> '' @ rt @ [nl, CHR ''{'', nl] @ print_part ''request'' qs @ print_part ''response'' ps @ r))
             make_message_field = (Inr True, istream_of (nl # r), m) \<and> Message_field m = field_of (Message n rt qs ps)"
proof -
  let ?parts = "nl # print_part ''request'' qs @ print_part ''response'' ps @ r"
  let ?m = "(set_protocol_name n (make_message_field\<lparr>f_name := n\<rparr>))\<lparr>m_router := rt\<rparr>"
  have "read_value standard (CHR ''-'') (istream_of (n @ '' -> '' @ rt @ nl # CHR ''{'' # ?parts)) =
      (Value n, istream_of (''> '' @ rt @ nl # CHR ''{'' # ?parts))"
    using read_value_token [of "[]" standard "CHR ''-''" n "'' ''"] assms(1)
    by (simp add: ident_token) (simp add: ident_def)
  moreover have "read_value standard (CHR ''>'') (istream_of (''> '' @ rt @ nl # CHR ''{'' # ?parts)) =
      (Value [], istream_of ('' '' @ rt @ nl # CHR ''{'' # ?parts))"
    using read_value_empty [of "[]" "CHR ''>''" standard] by simp
  moreover have "read_value loose (CHR ''{'') (istream_of ('' '' @ rt @ nl # CHR ''{'' # ?parts)) = (Value rt, istream_of ?parts)"
    using read_value_token [of "'' ''" loose "CHR ''{''" rt "[nl]" ?parts] assms(2) by (simp add: router_ok_def)
  moreover have "read_protocol 0 (istream_of ?parts) ?m =
      (Inr True, istream_of (nl # print_part ''response'' ps @ r),
       put_message 0 \<lparr>f_type = st_request, f_name = n @ ''_req_body'', f_fields = member_fields qs\<rparr> ?m)" (is "_ = (_, _, ?m1)")
    using parse_part [of "''request''" qs "[nl]" 0 ?m "make_field st_request (n @ ''_req_body'')"
        "print_part ''response'' ps @ r"] assms(3)
    by (simp add: get_message_def set_protocol_name_def make_field_def)
  moreover have "read_protocol 1 (istream_of (nl # print_part ''response'' ps @ r)) ?m1 =
      (Inr True, istream_of (nl # r),
       put_message 1 \<lparr>f_type = st_response, f_name = n @ ''_resp_body'', f_fields = member_fields ps\<rparr> ?m1)" (is "_ = (_, _, ?m2)")
    using parse_part [of "''response''" ps "[nl]" 1 ?m1 "make_field st_response (n @ ''_resp_body'')" r] assms(4)
    by (simp add: get_message_def set_protocol_name_def put_message_def make_field_def)
  ultimately have "parse_message_field (istream_of (n @ '' -> '' @ rt @ nl # CHR ''{'' # ?parts)) make_message_field =
      (Inr True, istream_of (nl # r), ?m2)"
    by (simp add: parse_message_field_def parse_router_def)
  moreover have "Message_field ?m2 = field_of (Message n rt qs ps)"
    by (simp add: put_message_def set_protocol_name_def make_message_field_def)
  ultimately show ?thesis by auto
qed

definition add_decl :: "decl \<Rightarrow> schema \<Rightarrow> schema" where
  "add_decl d sch =
     (let sch' = sch\<lparr>s_fields := s_fields sch @ [field_of d]\<rparr>
      in case d of Struct n _ \<Rightarrow> put_custom_type n sch' | _ \<Rightarrow> sch')"

lemma read_keyword:
  "list_all is_space ws \<Longrightarrow> list_all is_alpha k \<Longrightarrow> k \<noteq> [] \<Longrightarrow>
     read_value strict (CHR '' '') (istream_of (ws @ k @ CHR '' '' # r)) = (Value k, istream_of r)"
  using read_alpha [of ws k "[]" "CHR '' ''" r] by simp

lemma alpha_keywords: "list_all is_alpha ''message''" "list_all is_alpha ''struct''" "list_all is_alpha ''enum''"
  by (simp_all add: is_alpha_def)

lemma schema_loop_brace:
  "list_all is_space ws \<Longrightarrow> schema_loop (istream_of (ws @ CHR ''}'' # r)) sch = schema_loop (istream_of r) sch"
  using read_value_brace [of ws "CHR '' ''" strict r] by (subst schema_loop.simps) simp

lemma schema_loop_decl:
  assumes "decl_ok d" and "list_all is_space ws"
  shows "schema_loop (istream_of (ws @ print_decl d @ r)) sch = schema_loop (istream_of (nl # r)) (add_decl d sch)"
proof (cases d)
  case (Message n rt qs ps)
  let ?body = "n @ '' -> '' @ rt @ [nl, CHR ''{'', nl] @ print_part ''request'' qs @ print_part ''response'' ps @ CHR ''}'' # nl # r"
  have "read_value strict (CHR '' '') (istream_of (ws @ print_decl d @ r)) = (Value ''message'', istream_of ?body)"
    using read_keyword [of ws "''message''" ?body] alpha_keywords assms(2) Message by simp
  moreover obtain m where "parse_message_field (istream_of ?body) make_message_field =
      (Inr True, istream_of (nl # CHR ''}'' # nl # r), m)" "Message_field m = field_of d"
    using parse_message [of n rt qs ps "CHR ''}'' # nl # r"] assms(1) Message by auto
  ultimately have "schema_loop (istream_of (ws @ print_decl d @ r)) sch =
      schema_loop (istream_of (nl # CHR ''}'' # nl # r)) (add_decl d sch)"
    using Message by (subst schema_loop.simps) (simp add: schema_invoke_def invoke_message_def add_decl_def)
  then show ?thesis using schema_loop_brace [of "[nl]" "nl # r"] by simp
next
  case (Struct n ms)
  let ?body = "n @ nl # CHR ''{'' # nl # concat (map print_member ms) @ CHR ''}'' # nl # r"
  have "read_value strict (CHR '' '') (istream_of (ws @ print_decl d @ r)) = (Value ''struct'', istream_of ?body)"
    using read_keyword [of ws "''struct''" ?body] alpha_keywords assms(2) Struct by simp
  then show ?thesis
    using parse_struct [of n ms "make_field st_structure []" "nl # r"] assms(1) Struct
    by (subst schema_loop.simps) (simp add: schema_invoke_def invoke_struct_def add_decl_def make_field_def)
next
  case (Enum n xs)
  let ?body = "n @ nl # CHR ''{'' # nl # concat (map (\<lambda>x. [tab] @ x @ [CHR '';'', nl]) xs) @ CHR ''}'' # nl # r"
  have "read_value strict (CHR '' '') (istream_of (ws @ print_decl d @ r)) = (Value ''enum'', istream_of ?body)"
    using read_keyword [of ws "''enum''" ?body] alpha_keywords assms(2) Enum by simp
  then show ?thesis
    using parse_enum [of n xs "make_field st_enumture []" "nl # r"] assms(1) Enum
    by (subst schema_loop.simps) (simp add: schema_invoke_def invoke_enum_def add_decl_def make_field_def)
qed

lemma schema_loop_end:
  assumes "list_all is_space ws"
  shows "schema_loop (istream_of ws) sch = (None, sch)"
proof -
  have "dropWhile is_space ws = []" using assms by (simp add: list_all_iff)
  then have "read_value strict (CHR '' '') (istream_of ws) = (Unexpected False, \<lparr>in_rest = [], in_eof = True\<rparr>)"
    by (simp add: read_value_def skip_space_def istream_of_def)
  then show ?thesis by (subst schema_loop.simps) (simp add: schema_loop.simps)
qed

lemma s_fields_add_decl [simp]: "s_fields (add_decl d sch) = s_fields sch @ [field_of d]"
  by (cases d) (simp_all add: add_decl_def put_custom_type_def)

lemma schema_loop_decls:
  "list_all decl_ok ds \<Longrightarrow> list_all is_space ws \<Longrightarrow>
     \<exists>sch'. schema_loop (istream_of (ws @ concat (map print_decl ds))) sch = (None, sch') \<and>
       s_fields sch' = s_fields sch @ map field_of ds"
proof (induction ds arbitrary: ws sch)
  case Nil
  then show ?case by (simp add: schema_loop_end)
next
  case (Cons d ds)
  then have "schema_loop (istream_of (ws @ concat (map print_decl (d # ds)))) sch =
      schema_loop (istream_of ([nl] @ concat (map print_decl ds))) (add_decl d sch)"
    using schema_loop_decl [of d ws "concat (map print_decl ds)" sch] by simp
  moreover have "\<exists>sch'. schema_loop (istream_of ([nl] @ concat (map print_decl ds))) (add_decl d sch) = (None, sch') \<and>
       s_fields sch' = s_fields (add_decl d sch) @ map field_of ds"
    using Cons.prems(1) by (intro Cons.IH) simp_all
  ultimately show ?case by auto
qed

section \<open>The invariant\<close>

definition type_text :: "string \<Rightarrow> bool" where
  "type_text t \<longleftrightarrow>
     list_all ident_char t \<or> (\<exists>x. t = cpp_type (Repeated x) \<and> list_all ident_char x) \<or>
     (\<exists>k v. t = cpp_type (Map k v) \<and> list_all ident_char k \<and> list_all is_alpha v)"

definition wf_base :: "field_base \<Rightarrow> bool" where
  "wf_base f \<longleftrightarrow> distinct (map snd (f_fields f)) \<and> list_all (\<lambda>(t, n). type_text t \<and> list_all ident_char n) (f_fields f)"

definition wf_part :: "struct_type \<Rightarrow> string \<Rightarrow> field_base option \<Rightarrow> bool" where
  "wf_part t n p \<longleftrightarrow> (\<exists>f. p = Some f \<and> f_type f = t \<and> f_name f = n \<and> wf_base f)"

fun wf_field :: "field \<Rightarrow> bool" where
  "wf_field (Data_field f) \<longleftrightarrow> f_type f \<in> {st_structure, st_enumture} \<and> list_all ident_char (f_name f) \<and> wf_base f"
| "wf_field (Message_field m) \<longleftrightarrow>
     f_type m = st_message \<and> list_all ident_char (f_name m) \<and>
     wf_part st_request (f_name m @ ''_req_body'') (m_request m) \<and>
     wf_part st_response (f_name m @ ''_resp_body'') (m_response m)"

lemma read_chars_accepted:
  "read_chars t stop v r = (Value w, s) \<Longrightarrow> list_all (accepts t) v \<Longrightarrow> list_all (accepts t) w"
proof (induction t stop v r rule: read_chars.induct)
  case (2 t stop v c r)
  then show ?case by (auto split: if_splits)
qed simp

lemma read_value_accepted: "read_value t stop s = (Value w, s') \<Longrightarrow> list_all (accepts t) w"
  by (auto simp: read_value_def Let_def split: if_splits dest: read_chars_accepted)

lemma read_value_standard: "read_value standard stop s = (Value w, s') \<Longrightarrow> list_all ident_char w"
  using read_value_accepted [of standard stop s w s'] by (auto simp: accepts_def ident_char_def list_all_iff)

lemma read_value_strict: "read_value strict stop s = (Value w, s') \<Longrightarrow> list_all is_alpha w"
  using read_value_accepted [of strict stop s w s'] by (auto simp: accepts_def list_all_iff)

lemma type_text_intros:
  "list_all ident_char t \<Longrightarrow> type_text t"
  "list_all ident_char x \<Longrightarrow> type_text (cpp_type (Repeated x))"
  "list_all ident_char k \<Longrightarrow> list_all is_alpha v \<Longrightarrow> type_text (cpp_type (Map k v))"
  by (auto simp: type_text_def)

lemma read_type_text: "read_type s = (Value t, s') \<Longrightarrow> type_text t"
  using type_text_intros
  by (auto simp: read_type_def split: prod.splits expected.splits if_splits
      dest!: read_value_standard read_value_strict)

lemma wf_add_field:
  assumes "wf_base f" and "type_text t" and "list_all ident_char n"
  shows "wf_base (snd (add_field t n f))"
  using assms by (auto simp: wf_base_def add_field_def list_ex_iff)

lemma parse_data_loop_wf:
  "wf_base f \<Longrightarrow> parse_data_loop h s f = (r, s', f') \<Longrightarrow>
     wf_base f' \<and> f_type f' = f_type f \<and> f_name f' = f_name f"
proof (induction h s f rule: parse_data_loop.induct)
  case (1 h s f)
  obtain r1 s1 where 1: "(if h then read_type s else (Value [], s)) = (r1, s1)" by fastforce
  obtain r2 s2 where 2: "read_value standard (CHR '';'') s1 = (r2, s2)" by fastforce
  show ?case
  proof (cases "\<not> in_eof s \<and> (\<exists>t v. r1 = Value t \<and> r2 = Value v)")
    case True
    then obtain t v where tv: "\<not> in_eof s" "r1 = Value t" "r2 = Value v" by blast
    have "type_text t"
      using 1 tv(2) by (auto split: if_splits dest: read_type_text) (simp add: type_text_def)
    moreover have "list_all ident_char v" using 2 tv(3) by (auto dest: read_value_standard)
    ultimately have wf: "wf_base (snd (add_field t v f))" using "1.prems"(1) by (simp add: wf_add_field)
    have "parse_data_loop h s2 (snd (add_field t v f)) = (r, s', f')"
      using "1.prems"(2) 1 2 tv by (simp add: parse_data_loop.simps [of h s])
    from "1.IH" [OF tv(1) 1 [symmetric] tv(2) 2 [symmetric] tv(3) wf this]
    show ?thesis by (simp add: add_field_def split: if_splits)
  next
    case False
    then have "f' = f"
      using "1.prems"(2) 1 2
      by (auto simp: parse_data_loop.simps [of h s] split: if_splits expected.splits)
    then show ?thesis using "1.prems"(1) by simp
  qed
qed

lemma wf_make_field [simp]: "wf_base (make_field t n)" "f_type (make_field t n) = t" "f_name (make_field t n) = n"
  by (simp_all add: wf_base_def make_field_def)

lemma read_protocol_wf:
  assumes "wf_field (Message_field m)" and "read_protocol i s m = (r, s', m')"
  shows "wf_field (Message_field m') \<and> f_name m' = f_name m"
  using assms
  by (auto simp: read_protocol_def parse_data_field_def get_message_def put_message_def wf_part_def
      split: prod.splits expected.splits if_splits dest!: parse_data_loop_wf [rotated])

lemma parse_message_field_wf:
  assumes "parse_message_field s make_message_field = (Inr True, s', m)"
  shows "wf_field (Message_field m)"
proof -
  obtain n s1 where n: "read_value standard (CHR ''-'') s = (Value n, s1)"
    using assms by (auto simp: parse_message_field_def split: prod.splits expected.splits)
  let ?m = "set_protocol_name n (make_message_field\<lparr>f_name := n\<rparr>)"
  obtain s2 m2 s3 m3 where
    r: "parse_router s1 ?m = (Inr True, s2, m2)"
    and p: "read_protocol 0 s2 m2 = (Inr True, s3, m3)" "read_protocol 1 s3 m3 = (Inr True, s', m)"
    using assms n by (auto simp: parse_message_field_def split: prod.splits sum.splits bool.splits)
  have "\<exists>rt. m2 = ?m\<lparr>m_router := rt\<rparr>"
    using r by (auto simp: parse_router_def split: prod.splits expected.splits)
  then have "wf_field (Message_field m2)"
    using read_value_standard [OF n] by (auto simp: set_protocol_name_def make_message_field_def wf_part_def)
  with p show ?thesis by (metis read_protocol_wf)
qed

lemma parse_data_field_wf:
  assumes "parse_data_field False h s (make_field t []) = (Inr True, s', f)" and "t \<in> {st_structure, st_enumture}"
  shows "wf_field (Data_field f)"
proof -
  obtain n s1 where n: "read_value standard (CHR ''{'') s = (Value n, s1)"
    using assms(1) by (auto simp: parse_data_field_def split: prod.splits expected.splits)
  then have "parse_data_loop h s1 (make_field t n) = (Inr True, s', f)"
    using assms(1) by (simp add: parse_data_field_def make_field_def)
  from parse_data_loop_wf [OF _ this] show ?thesis
    using read_value_standard [OF n] assms(2) by simp
qed

lemma schema_invoke_wf:
  assumes "schema_invoke nm s sch = (x, s', sch')" and "list_all wf_field (s_fields sch)"
  shows "list_all wf_field (s_fields sch')"
  using assms
  by (auto simp: schema_invoke_def invoke_message_def invoke_struct_def invoke_enum_def put_custom_type_def
      split: prod.splits sum.splits bool.splits if_splits
      dest!: parse_message_field_wf parse_data_field_wf simp del: wf_field.simps)

lemma schema_loop_wf:
  "schema_loop s sch = (x, sch') \<Longrightarrow> list_all wf_field (s_fields sch) \<Longrightarrow> list_all wf_field (s_fields sch')"
proof (induction s sch rule: schema_loop.induct)
  case (1 s sch)
  show ?case
  proof (cases "in_eof s")
    case True
    then show ?thesis using "1.prems" by (simp add: schema_loop.simps)
  next
    case False
    obtain r s1 where r: "read_value strict (CHR '' '') s = (r, s1)" by fastforce
    show ?thesis
    proof (cases r)
      case (Value k)
      obtain y s2 sch2 where i: "schema_invoke k s1 sch = (y, s2, sch2)" by (cases "schema_invoke k s1 sch")
      then have "list_all wf_field (s_fields sch2)" using "1.prems"(2) by (rule schema_invoke_wf)
      then show ?thesis
        using "1.IH"(1) [OF False r [symmetric] Value i [symmetric] _ refl] "1.prems"(1) False r Value i
        by (cases y) (simp_all add: schema_loop.simps [of s])
    next
      case (Unexpected e)
      then show ?thesis
        using "1.IH"(2) [OF False r [symmetric]] "1.prems" False r by (simp add: schema_loop.simps [of s])
    next
      case (Failed f)
      then show ?thesis using "1.prems" False r by (simp add: schema_loop.simps [of s])
    qed
  qed
qed

section \<open>Documented forms that are refused\<close>

lemma schema_loop_message_without_router:
  assumes "ident n"
  shows "schema_loop (istream_of (''message '' @ n @ nl # CHR ''{'' # r)) sch = (Some (Thrown runtime_error), sch)"
proof -
  have "read_value strict (CHR '' '') (istream_of (''message '' @ n @ nl # CHR ''{'' # r)) =
      (Value ''message'', istream_of (n @ nl # CHR ''{'' # r))"
    using read_keyword [of "[]" "''message''" "n @ nl # CHR ''{'' # r"] alpha_keywords by simp
  moreover have "read_value standard (CHR ''-'') (istream_of (n @ nl # CHR ''{'' # r)) = (Unexpected False, istream_of r)"
    using read_value_refused [of "[]" standard "CHR ''-''" n "[nl]" "CHR ''{''" r] assms
    by (simp add: ident_token accepts_def)
      (simp add: ident_def classifiable_def is_alnum_def is_alpha_def is_digit_def)
  ultimately show ?thesis
    by (subst schema_loop.simps) (simp add: schema_invoke_def invoke_message_def parse_message_field_def)
qed

lemma schema_loop_unknown_keyword:
  assumes "list_all is_alpha k" and "k \<noteq> []" and "k \<notin> {''message'', ''struct'', ''enum''}"
  shows "schema_loop (istream_of (k @ CHR '' '' # r)) sch = (Some (Thrown runtime_error), sch)"
  using read_keyword [of "[]" k r] assms by (subst schema_loop.simps) (auto simp: schema_invoke_def)

lemma read_type_map_refused:
  assumes "ident k" and "list_all is_alpha v" and "is_digit d"
  shows "read_type (istream_of (nl # tab # tab # ''map '' @ k @ '','' @ v @ d # r)) = (Unexpected False, istream_of r)"
proof -
  have d: "classifiable d" "\<not> is_space d" "d \<noteq> CHR '' ''" "\<not> accepts strict d" "d \<noteq> CHR ''}''"
    using assms(3) by (auto simp: classifiable_def is_space_def accepts_def is_alpha_def is_digit_def)
  have "read_value strict (CHR '' '') (istream_of (v @ d # r)) = (Unexpected False, istream_of r)"
    using read_value_refused [of "[]" strict "CHR '' ''" v "[]" d r] d assms(2) by (simp add: alpha_token)
  then show ?thesis
    using read_ident [of "[nl, tab, tab]" "''map''" "CHR '' ''" "k @ '','' @ v @ d # r"] map_ident
      read_ident [of "[]" k "CHR '',''" "v @ d # r"] assms(1)
    by (simp add: read_type_def)
qed

lemma schema_loop_map_refused:
  assumes "ident n" and "ident k" and "list_all is_alpha v" and "is_digit d"
  shows "schema_loop (istream_of (''struct '' @ n @ [nl, CHR ''{'', nl, tab, tab] @ ''map '' @ k @ '','' @ v @ d # r)) sch =
           (Some (Thrown runtime_error), sch)"
proof -
  let ?body = "n @ nl # CHR ''{'' # nl # tab # tab # ''map '' @ k @ '','' @ v @ d # r"
  have "read_value strict (CHR '' '') (istream_of (''struct '' @ ?body)) = (Value ''struct'', istream_of ?body)"
    using read_keyword [of "[]" "''struct''" ?body] alpha_keywords by simp
  moreover have "parse_data_field False True (istream_of ?body) (make_field st_structure []) =
      (Inr False, istream_of r, make_field st_structure n)"
    using read_type_map_refused [OF assms(2-4)] read_block_name [OF assms(1)]
    by (simp add: parse_data_field_def parse_data_loop.simps make_field_def)
  ultimately show ?thesis
    by (subst schema_loop.simps) (simp add: schema_invoke_def invoke_struct_def)
qed

section \<open>Properties\<close>

text \<open>
  C10. Parsing inverts printing: a file of messages, structures and enumerations with proper
  names, printed in the layout of the repository's schema files, is read back as exactly these
  declarations, appended to the ones the schema already held. A request and a response body is
  named after its message.
\<close>

theorem schema_roundtrip:
  assumes "list_all decl_ok ds"
  shows "fst (schema_run (Some (concat (map print_decl ds))) sch) = Inr (s_fields sch @ map field_of ds)"
  using schema_loop_decls [OF assms, of "[]" sch] by (auto simp: schema_run_def)

theorem schema_roundtrip_witness:
  "fst (schema_run (Some
     (''message login -> /login'' @ [nl] @ ''{'' @ [nl, tab] @ ''request'' @ [nl, tab] @ ''{'' @ [nl, tab, tab] @
      ''string username;'' @ [nl, tab, tab] @ ''string password;'' @ [nl, tab] @ ''}'' @ [nl, tab] @ ''response'' @
      [nl, tab] @ ''{'' @ [nl, tab] @ ''}'' @ [nl] @ ''}'' @ [nl])) schema_new) =
   Inr [Message_field
     \<lparr>f_type = st_message, f_name = ''login'', f_fields = [],
      m_request = Some \<lparr>f_type = st_request, f_name = ''login_req_body'',
        f_fields = [(''string'', ''username''), (''string'', ''password'')]\<rparr>,
      m_response = Some \<lparr>f_type = st_response, f_name = ''login_resp_body'', f_fields = []\<rparr>,
      m_router = ''/login''\<rparr>]"
proof -
  have "list_all decl_ok [Message ''login'' ''/login'' [(Plain ''string'', ''username''), (Plain ''string'', ''password'')] []]"
    by (simp add: ident_def ident_char_def is_alnum_def is_alpha_def router_ok_def token_char_def accepts_def
        classifiable_def is_space_def members_ok_def)
  from schema_roundtrip [OF this, of schema_new] show ?thesis
    by (simp add: schema_new_def member_fields_def print_part_def print_member_def)
qed

text \<open>
  C24. Whatever the file contains, every declaration the parser returns is well formed: no two
  fields of a body have the same name, names are made of letters, digits and underscores, types
  are names, \<open>std::vector\<close> or \<open>std::map\<close> of names, and a message has both of its bodies, named
  after it.
\<close>

theorem schema_run_wf:
  assumes "list_all wf_field (s_fields sch)" and "schema_run src sch = (r, sch')"
  shows "list_all wf_field (s_fields sch') \<and> (\<forall>fs. r = Inr fs \<longrightarrow> list_all wf_field fs)"
proof (cases src)
  case None
  then show ?thesis using assms by (auto simp: schema_run_def)
next
  case (Some tx)
  obtain x sch1 where l: "schema_loop (istream_of tx) sch = (x, sch1)" by fastforce
  then have "list_all wf_field (s_fields sch1)" using assms(1) by (rule schema_loop_wf)
  with l Some assms(2) show ?thesis
    by (auto simp: schema_run_def split: option.splits fault.splits)
qed

theorem schema_run_wf_witness:
  "list_all wf_field (s_fields (snd (schema_run (Some ''struct p{int32 a;int32 a;}enum e{x;x;}'') schema_new)))"
  using schema_run_wf [of schema_new "Some ''struct p{int32 a;int32 a;}enum e{x;x;}''" _ "snd (schema_run _ _)"]
  by (simp add: schema_new_def prod_eq_iff)

text \<open>
  C36. Forms of docs/virgo.md that the parser refuses, returning no declaration at all and
  leaving the schema as it was: a message without a router, a \<open>model\<close>, and a \<open>map\<close> whose
  value type contains a digit, as in \<open>map int32,int32\<close>.
\<close>

theorem documented_forms_refused:
  assumes "ident n" and "ident k" and "list_all is_alpha v" and "is_digit d"
  shows "schema_run (Some (''message '' @ n @ [nl, CHR ''{''] @ rest)) sch = (Inr [], sch) \<and>
         schema_run (Some (''model '' @ rest)) sch = (Inr [], sch) \<and>
         schema_run (Some (''struct '' @ n @ [nl, CHR ''{'', nl, tab, tab] @ ''map '' @ k @ '','' @ v @ d # rest)) sch =
           (Inr [], sch)"
proof (intro conjI)
  have "list_all is_alpha ''model''" by (simp add: is_alpha_def)
  then show "schema_run (Some (''model '' @ rest)) sch = (Inr [], sch)"
    using schema_loop_unknown_keyword [of "''model''" rest sch] by (simp add: schema_run_def)
qed (use schema_loop_message_without_router [OF assms(1)] schema_loop_map_refused [OF assms] in
    \<open>simp_all add: schema_run_def\<close>)

theorem documented_forms_refused_witness:
  "schema_run (Some (''struct table'' @ [nl, CHR ''{'', nl, tab, tab] @ ''map int32,int32 keys;'' @ [nl, CHR ''}'', nl])) schema_new =
     (Inr [], schema_new) \<and>
   schema_run (Some (''message table'' @ [nl, CHR ''{''] @ ''2 keys;'' @ [nl, CHR ''}'', nl])) schema_new = (Inr [], schema_new)"
  using documented_forms_refused [of "''table''" "''int32''" "''int''" "CHR ''3''" "''2 keys;'' @ [nl, CHR ''}'', nl]" schema_new]
  by (simp add: ident_def ident_char_def is_alnum_def is_alpha_def is_digit_def)

end
