(* ===== verification/Generator.thy ===== *)
theory Generator
  imports Schema
begin

text \<open>
  The C++ generator (src/lazytool/cpp_generator.h, src/lazytool/cpp_generator.cpp). A
  \<open>std::fstream\<close> opened for writing is the text of the file and the position of the next
  character; writing overwrites what is there. \<open>std::endl\<close> is a line feed. The functions of the
  generator are functions on streams, with the \<open>bool\<close> they return where a caller looks at it.
\<close>

section \<open>Output streams\<close>

record ostream =
  out_text :: string
  out_pos :: nat

definition ostream_new :: ostream where
  "ostream_new = \<lparr>out_text = [], out_pos = 0\<rparr>"

definition emit :: "string \<Rightarrow> ostream \<Rightarrow> ostream" where
  "emit s out =
     \<lparr>out_text = take (out_pos out) (out_text out) @ s @ drop (out_pos out + length s) (out_text out),
      out_pos = out_pos out + length s\<rparr>"

text \<open>\<open>seekp(-n, std::ios::cur)\<close>, used right after at least \<open>n\<close> characters were written.\<close>

definition seek_back :: "nat \<Rightarrow> ostream \<Rightarrow> ostream" where
  "seek_back n out = out\<lparr>out_pos := out_pos out - n\<rparr>"

definition steps :: "(ostream \<Rightarrow> ostream) list \<Rightarrow> ostream \<Rightarrow> ostream" where
  "steps = fold (\<lambda>f. f)"

section \<open>Structures and enumerations\<close>

definition generate_header :: "field_base \<Rightarrow> string \<Rightarrow> ostream \<Rightarrow> ostream" where
  "generate_header f sfx =
     (if sfx \<noteq> [] then emit (''struct '' @ f_name f @ sfx)
      else steps
        [emit (case f_type f of
                 st_enumture \<Rightarrow> ''enum class ''
               | st_structure \<Rightarrow> ''struct ''
               | st_request \<Rightarrow> ''class ''
               | st_response \<Rightarrow> ''class ''
               | st_message \<Rightarrow> ''class ''),
         emit (f_name f @ sfx)])"

definition generate_member_variable_define :: "field_base \<Rightarrow> char \<Rightarrow> ostream \<Rightarrow> ostream" where
  "generate_member_variable_define f stop =
     steps (map (\<lambda>(ty, nm). emit ([tab] @ ty @ '' '' @ nm @ [stop, nl])) (f_fields f))"

text \<open>The lambda of \<open>generate_normal_data\<close>: the last comma is overwritten.\<close>

definition serialize_macro :: "field_base \<Rightarrow> string \<Rightarrow> ostream \<Rightarrow> ostream" where
  "serialize_macro f sfx =
     steps
       [emit ''AQUARIUS_SERIALIZE_'',
        emit (if f_type f = st_enumture then ''ENUM'' else ''STRUCT''),
        emit (''('' @ f_name f),
        (if sfx \<noteq> [] then emit sfx else id),
        emit '', ('',
        steps (map (\<lambda>(ty, nm). emit (nm @ '', '')) (f_fields f)),
        (if f_fields f \<noteq> [] then seek_back 2 else id),
        emit (''))'' @ [nl])]"

definition generate_normal_data :: "field_base \<Rightarrow> string \<Rightarrow> ostream \<Rightarrow> ostream" where
  "generate_normal_data f sfx =
     steps
       [generate_header f sfx,
        emit ([nl] @ ''{'' @ [nl]),
        generate_member_variable_define f (if f_type f = st_enumture then CHR '','' else CHR '';''),
        (if sfx \<noteq> [] then steps [serialize_macro f sfx, emit (''};'' @ [nl])]
         else steps [emit (''};'' @ [nl]), serialize_macro f sfx])]"

section \<open>Class definitions\<close>

definition generate_inheritance_serialize_define :: "ostream \<Rightarrow> ostream" where
  "generate_inheritance_serialize_define = emit ('': public aquarius::serialization'' @ [nl])"

definition generate_construction_define :: "field_base \<Rightarrow> ostream \<Rightarrow> ostream" where
  "generate_construction_define f =
     steps
       [emit ([tab] @ f_name f @ ''();'' @ [nl]),
        emit ([tab] @ ''virtual ~'' @ f_name f @ ''();'' @ [nl]),
        emit [nl],
        emit ([tab] @ f_name f @ ''('' @ f_name f @ ''&&) = default;'' @ [nl]),
        emit ([tab] @ f_name f @ ''& operator=('' @ f_name f @ ''&&) = default;'' @ [nl])]"

definition serialize_method_pair :: "string \<Rightarrow> ostream \<Rightarrow> ostream" where
  "serialize_method_pair func_name =
     steps
       [emit ([tab] @ ''virtual void to_'' @ func_name @ ''(aquarius::flex_buffer& buffer) override;'' @ [nl]),
        emit [nl],
        emit ([tab] @ ''virtual void from_'' @ func_name @ ''(aquarius::flex_buffer& buffer) override;'' @ [nl]),
        emit [nl]]"

definition generate_serialize_method_define :: "ostream \<Rightarrow> ostream" where
  "generate_serialize_method_define =
     steps [serialize_method_pair ''binary'', serialize_method_pair ''json'', serialize_method_pair ''kv'']"

definition generate_member_func_define :: "field_base \<Rightarrow> ostream \<Rightarrow> ostream" where
  "generate_member_func_define f =
     (if f_fields f = [] then id
      else steps (map (\<lambda>(ty, nm). steps
             [emit ([tab] @ ty @ '' '' @ nm @ ''() const;'' @ [nl]),
              emit ([tab] @ ty @ ''& '' @ nm @ ''();'' @ [nl]),
              emit [nl]]) (f_fields f)))"

definition generate_impl_member_variable_define :: "ostream \<Rightarrow> ostream" where
  "generate_impl_member_variable_define =
     steps [emit ([tab] @ ''struct impl;'' @ [nl]), emit ([tab] @ ''std::shared_ptr<impl> impl_ptr_;'' @ [nl])]"

definition scope_public :: "ostream \<Rightarrow> ostream" where
  "scope_public = emit (''public:'' @ [nl])"

definition scope_private :: "ostream \<Rightarrow> ostream" where
  "scope_private = emit (''private:'' @ [nl])"

definition generate_data_field_define :: "field_base \<Rightarrow> ostream \<Rightarrow> ostream" where
  "generate_data_field_define f =
     steps
       [generate_header f [],
        generate_inheritance_serialize_define,
        emit (''{'' @ [nl]),
        scope_public,
        generate_construction_define f,
        scope_public,
        generate_serialize_method_define,
        emit [nl],
        generate_member_func_define f,
        scope_private,
        generate_impl_member_variable_define,
        emit (''};'' @ [nl])]"

section \<open>Aliases\<close>

definition generate_request_alias_define :: "field_base \<Rightarrow> string \<Rightarrow> string \<Rightarrow> string \<Rightarrow> ostream \<Rightarrow> ostream" where
  "generate_request_alias_define f message_name protocol router =
     steps
       [emit (''using '' @ message_name @ ''_request = aquarius::'' @ protocol @ ''_request<'' @ [dq] @ router @ [dq] @ '', ''),
        emit (f_name f @ ''>;'' @ [nl])]"

definition generate_response_alias_define :: "field_base \<Rightarrow> string \<Rightarrow> string \<Rightarrow> string \<Rightarrow> ostream \<Rightarrow> ostream" where
  "generate_response_alias_define f message_name protocol router =
     steps
       [emit (''using '' @ message_name @ ''_response = aquarius::'' @ protocol @ ''_response<''),
        (if protocol = ''tcp'' then emit ([dq] @ router @ [dq] @ '', '') else id),
        emit (f_name f @ ''>;'' @ [nl])]"

text \<open>The two bodies of a message are pointers; a null one is dereferenced.\<close>

definition generate_protocol_alias_define :: "message_field \<Rightarrow> string \<Rightarrow> ostream \<Rightarrow> fault + ostream" where
  "generate_protocol_alias_define m protocol out =
     (case (m_request m, m_response m) of
        (Some q, Some p) \<Rightarrow>
          Inr (generate_response_alias_define p (f_name m) protocol (m_router m)
                (generate_request_alias_define q (f_name m) protocol (m_router m) out))
      | _ \<Rightarrow> Inl Undefined)"

section \<open>Member functions of the bodies\<close>

definition generate_construction_src :: "field_base \<Rightarrow> ostream \<Rightarrow> ostream" where
  "generate_construction_src f =
     steps
       [emit (f_name f @ ''::'' @ f_name f @ ''()'' @ [nl]),
        emit ([tab] @ '': impl_ptr_(std::make_shared<impl>())'' @ [nl]),
        emit (''{}'' @ [nl]),
        emit [nl],
        emit (f_name f @ ''::~'' @ f_name f @ ''(){}'' @ [nl])]"

definition function_head :: "field_base \<Rightarrow> string \<Rightarrow> ostream \<Rightarrow> ostream" where
  "function_head f func_name =
     steps [emit (''void '' @ f_name f @ ''::'' @ func_name @ ''(flex_buffer& buffer)'' @ [nl]), emit (''{'' @ [nl])]"

definition generate_seialize_method_binary :: "field_base \<Rightarrow> ostream \<Rightarrow> ostream" where
  "generate_seialize_method_binary f =
     steps
       [function_head f ''to_binary'',
        steps (map (\<lambda>(ty, nm). emit ([tab] @ ''binary_parse::to_datas(impl_ptr_->'' @ nm @ '', buffer);'' @ [nl])) (f_fields f)),
        emit (''}'' @ [nl]),
        function_head f ''from_binary'',
        steps (map (\<lambda>(ty, nm). emit ([tab] @ ''impl_ptr_->'' @ nm @ '' = binary_parse::from_datas<'' @ ty @
                      ''>(buffer);'' @ [nl])) (f_fields f)),
        emit (''}'' @ [nl])]"

datatype json_type = json_integer | json_string | json_array | json_object

definition check_type :: "string \<Rightarrow> json_type" where
  "check_type ty =
     (if ty \<in> {''int32'', ''uint32'', ''int64'', ''uint64'', ''bool'', ''float'', ''double''} then json_integer
      else if ty = ''string'' then json_string
      else if ty = ''bytes'' then json_array
      else json_object)"

definition impl_prefix :: "bool \<Rightarrow> ostream \<Rightarrow> ostream" where
  "impl_prefix has_impl = (if has_impl then emit ''impl_ptr_->'' else id)"

text \<open>A function that returns false writes nothing: it is \<open>None\<close>.\<close>

definition generate_to_int :: "string \<Rightarrow> string \<Rightarrow> bool \<Rightarrow> (ostream \<Rightarrow> ostream) option" where
  "generate_to_int ty value has_impl =
     (if check_type ty \<noteq> json_integer then None
      else if ty \<in> {''int32'', ''uint32'', ''float'', ''uint64''}
      then Some (steps
             [emit [tab], impl_prefix has_impl,
              emit (value @ '' = static_cast<'' @ ty @ ''>(jv_obj->at('' @ [dq] @ value @ [dq] @ '').as_''),
              (if ty \<in> {''int32'', ''uint32'', ''uint64''} then emit ''int64''
               else if ty = ''float'' then emit ''double'' else id),
              emit (''());'' @ [nl])])
      else if ty \<in> {''int64'', ''double'', ''bool''}
      then Some (steps
             [emit [tab], impl_prefix has_impl,
              emit (value @ '' = jv_obj->at('' @ [dq] @ value @ [dq] @ '').as_'' @ ty @ ''();'' @ [nl])])
      else Some id)"

definition generate_to_string :: "string \<Rightarrow> string \<Rightarrow> bool \<Rightarrow> (ostream \<Rightarrow> ostream) option" where
  "generate_to_string ty value has_impl =
     (if check_type ty \<noteq> json_string then None
      else Some (steps
        [emit [tab], impl_prefix has_impl,
         emit (value @ '' = static_cast<'' @ ty @ ''>(jv_obj->at('' @ [dq] @ value @ [dq] @ '').as_string());'' @ [nl])]))"

definition generate_to_array :: "string \<Rightarrow> string \<Rightarrow> bool \<Rightarrow> (ostream \<Rightarrow> ostream) option" where
  "generate_to_array ty value has_impl =
     (if check_type ty \<noteq> json_array then None
      else Some (steps
        [emit [tab], impl_prefix has_impl,
         emit (value @ '' = aquarius::json_value_to_array(jv_obj->at('' @ [dq] @ value @ [dq] @ ''));'' @ [nl])]))"

definition generate_to_object :: "string \<Rightarrow> string \<Rightarrow> bool \<Rightarrow> (ostream \<Rightarrow> ostream) option" where
  "generate_to_object ty value has_impl =
     (if check_type ty \<noteq> json_object then None
      else Some (steps
        [emit [tab], impl_prefix has_impl,
         emit (value @ '' = aquarius::json::value_to<'' @ ty @ ''>(jv_obj->at('' @ [dq] @ value @ [dq] @ ''));'' @ [nl])]))"

definition generate_from_int :: "string \<Rightarrow> string \<Rightarrow> bool \<Rightarrow> (ostream \<Rightarrow> ostream) option" where
  "generate_from_int ty value has_impl =
     (if check_type ty \<noteq> json_integer then None
      else Some (steps
        [emit ([tab] @ ''jv_obj.emplace('' @ [dq] @ value @ [dq] @ '', ''), impl_prefix has_impl, emit (value @ '');'' @ [nl])]))"

definition generate_from_string :: "string \<Rightarrow> string \<Rightarrow> bool \<Rightarrow> (ostream \<Rightarrow> ostream) option" where
  "generate_from_string ty value has_impl =
     (if check_type ty \<noteq> json_string then None
      else Some (steps
        [emit ([tab] @ ''jv_obj.emplace('' @ [dq] @ value @ [dq] @ '', ''), impl_prefix has_impl, emit (value @ '');'' @ [nl])]))"

definition generate_from_array :: "string \<Rightarrow> string \<Rightarrow> bool \<Rightarrow> (ostream \<Rightarrow> ostream) option" where
  "generate_from_array ty value has_impl =
     (if check_type ty \<noteq> json_array then None
      else Some (steps
        [emit ([tab] @ ''jv_obj.emplace('' @ [dq] @ value @ [dq] @ '', aquarius::json_value_from_array(''),
         impl_prefix has_impl, emit (value @ ''));'' @ [nl])]))"

definition generate_from_object :: "string \<Rightarrow> string \<Rightarrow> bool \<Rightarrow> (ostream \<Rightarrow> ostream) option" where
  "generate_from_object ty value has_impl =
     (if check_type ty \<noteq> json_object then None
      else Some (steps
        [emit ([tab] @ ''jv_obj.emplace('' @ [dq] @ value @ [dq] @ '', aquarius::json_value_from_object<'' @ ty @ ''>(''),
         impl_prefix has_impl, emit (value @ ''));'' @ [nl])]))"

text \<open>The bodies of the loops of \<open>generate_seialize_method_json\<close>: the first kind that fits.\<close>

fun first_of :: "(ostream \<Rightarrow> ostream) option list \<Rightarrow> ostream \<Rightarrow> ostream" where
  "first_of [] = id"
| "first_of (Some g # gs) = g"
| "first_of (None # gs) = first_of gs"

definition json_member_to :: "string \<times> string \<Rightarrow> ostream \<Rightarrow> ostream" where
  "json_member_to p = (case p of (key, value) \<Rightarrow>
     first_of [generate_from_int key value True, generate_from_string key value True,
               generate_from_array key value True, generate_from_object key value True])"

definition json_member_from :: "string \<times> string \<Rightarrow> ostream \<Rightarrow> ostream" where
  "json_member_from p = (case p of (key, value) \<Rightarrow>
     first_of [generate_to_int key value True, generate_to_string key value True,
               generate_to_array key value True, generate_to_object key value True])"

definition generate_seialize_method_json :: "field_base \<Rightarrow> ostream \<Rightarrow> ostream" where
  "generate_seialize_method_json f =
     steps
       [function_head f ''to_json'',
        (if f_fields f = [] then id
         else steps
           [emit ([tab] @ ''json::value jv{};'' @ [nl]),
            emit ([tab] @ ''auto& jv_obj = jv.emplace_object();'' @ [nl]),
            steps (map json_member_to (f_fields f)),
            emit ([tab] @ ''auto json_str = json::serialize(jv);'' @ [nl]),
            emit ([tab] @ ''buffer.sputn(json_str.data(), json_str.size());'' @ [nl])]),
        emit (''}'' @ [nl]),
        function_head f ''from_json'',
        (if f_fields f = [] then id
         else steps
           [emit ([tab] @ ''json::value jv = json::parse(std::string((char*)buffer.data().data(), buffer.size()));'' @ [nl]),
            emit ([tab] @ ''auto jv_obj = jv.try_as_object();'' @ [nl]),
            emit ([tab] @ ''if(jv_obj.has_error())'' @ [nl]),
            emit ([tab] @ ''{'' @ [nl]),
            emit ([tab, tab] @ ''return;'' @ [nl]),
            emit ([tab] @ ''}'' @ [nl]),
            steps (map json_member_from (f_fields f))]),
        emit (''}'' @ [nl])]"

text \<open>\<open>loop++\<close>: the first field is preceded by a question mark, the others by an equals sign.\<close>

fun kv_to_members :: "nat \<Rightarrow> (string \<times> string) list \<Rightarrow> ostream \<Rightarrow> ostream" where
  "kv_to_members loop [] = id"
| "kv_to_members loop ((ty, nm) # fs) =
     steps
       [(if loop = 0 then emit ([tab] @ ''buffer.sputc('' @ [CHR 0x27] @ ''?'' @ [CHR 0x27] @ '');'' @ [nl])
         else emit (''buffer.sputc('' @ [CHR 0x27] @ ''='' @ [CHR 0x27] @ '');'' @ [nl])),
        emit ([tab] @ ''kv_parse::to_datas(impl_ptr_->'' @ nm @ '', buffer);'' @ [nl]),
        kv_to_members (Suc loop) fs]"

definition generate_seialize_method_kv :: "field_base \<Rightarrow> ostream \<Rightarrow> ostream" where
  "generate_seialize_method_kv f =
     steps
       [function_head f ''to_kv'',
        kv_to_members 0 (f_fields f),
        emit (''}'' @ [nl]),
        function_head f ''from_kv'',
        steps (map (\<lambda>(ty, nm). emit ([tab] @ ''impl_ptr_->'' @ nm @ '' = kv_parse::from_datas<'' @ ty @
                      ''>(buffer, impl_ptr_->'' @ nm @ '');'' @ [nl])) (f_fields f)),
        emit (''}'' @ [nl])]"

definition generate_serialize_method_src :: "field_base \<Rightarrow> ostream \<Rightarrow> ostream" where
  "generate_serialize_method_src f =
     steps
       [emit [nl], generate_seialize_method_binary f, generate_seialize_method_json f, generate_seialize_method_kv f]"

definition generate_member_func_src :: "field_base \<Rightarrow> ostream \<Rightarrow> ostream" where
  "generate_member_func_src f =
     (if f_fields f = [] then id
      else steps (map (\<lambda>(ty, nm). steps
             [emit (ty @ '' '' @ f_name f @ ''::'' @ nm @ ''() const'' @ [nl]),
              emit (''{'' @ [nl]),
              emit ([tab] @ ''return impl_ptr_->'' @ nm @ '';'' @ [nl]),
              emit (''}'' @ [nl]),
              emit (ty @ ''& '' @ f_name f @ ''::'' @ nm @ ''()'' @ [nl]),
              emit (''{'' @ [nl]),
              emit ([tab] @ ''return impl_ptr_->'' @ nm @ '';'' @ [nl]),
              emit (''}'' @ [nl])]) (f_fields f)))"

definition genetate_source :: "field_base \<Rightarrow> ostream \<Rightarrow> ostream" where
  "genetate_source f =
     steps
       [generate_normal_data f ''::impl'',
        generate_construction_src f,
        generate_serialize_method_src f,
        generate_member_func_src f]"

section \<open>Models\<close>

definition generate_model_field :: "field_base \<Rightarrow> ostream \<Rightarrow> ostream" where
  "generate_model_field f =
     steps (map (\<lambda>(ty, nm). if ty = [] then id
                  else steps [emit ([tab] @ ''aquarius::tbl::fields<'' @ ty @ ''> ''), emit (nm @ '';'' @ [nl])]) (f_fields f))"

definition generate_model_member_func :: "field_base \<Rightarrow> ostream \<Rightarrow> ostream" where
  "generate_model_member_func f =
     steps
       [emit ([tab] @ ''constexpr static auto member()'' @ [nl]),
        emit ([tab] @ ''{'' @ [nl]),
        emit ([tab, tab] @ ''return std::make_tuple(''),
        steps (map (\<lambda>(ty, nm). if ty = [] then id
                     else emit ([nl, tab, tab, tab] @ ''&'' @ f_name f @ ''::'' @ nm @ '','')) (f_fields f)),
        (if f_fields f \<noteq> [] then seek_back 1 else id),
        emit ([nl, tab, tab] @ '');'' @ [nl]),
        emit ([tab] @ ''}'' @ [nl])]"

definition generate_model_member_name_func :: "field_base \<Rightarrow> ostream \<Rightarrow> ostream" where
  "generate_model_member_name_func f =
     steps
       [emit ([tab] @ ''constexpr static auto member_name()'' @ [nl]),
        emit ([tab] @ ''{'' @ [nl]),
        emit ([tab, tab] @ ''return std::array{''),
        steps (map (\<lambda>(ty, nm). if ty = [] then id
                     else emit ([nl, tab, tab, tab, dq] @ nm @ [dq] @ ''sv,'')) (f_fields f)),
        (if f_fields f \<noteq> [] then seek_back 1 else id),
        emit ([nl, tab, tab] @ ''};'' @ [nl]),
        emit ([tab] @ ''}'' @ [nl])]"

definition generate_model :: "field_base \<Rightarrow> ostream \<Rightarrow> ostream" where
  "generate_model f =
     steps
       [emit (''struct '' @ f_name f @ [nl]),
        emit (''{'' @ [nl]),
        generate_model_field f,
        generate_model_member_func f,
        generate_model_member_name_func f,
        emit ''};'']"

section \<open>Whole files\<close>

definition generate_message :: "message_field \<Rightarrow> ostream \<Rightarrow> ostream \<Rightarrow> fault + ostream \<times> ostream" where
  "generate_message m header source =
     (case (m_request m, m_response m) of
        (Some q, Some p) \<Rightarrow>
          Inr (steps [generate_data_field_define q, generate_data_field_define p] header,
               steps [genetate_source q, genetate_source p] source)
      | _ \<Rightarrow> Inl Undefined)"

text \<open>
  One round of the first loop of \<open>run\<close>, which dispatches on the type of the field, and of the
  second, which writes the aliases of the messages. A field of type \<open>message\<close> that is not a
  \<open>message_field\<close> is passed on as a null pointer by the first.
\<close>

definition field_type :: "field \<Rightarrow> struct_type" where
  "field_type f = (case f of Data_field b \<Rightarrow> f_type b | Message_field m \<Rightarrow> f_type m)"

definition as_base :: "field \<Rightarrow> field_base" where
  "as_base f = (case f of Data_field b \<Rightarrow> b
     | Message_field m \<Rightarrow> \<lparr>f_type = f_type m, f_name = f_name m, f_fields = f_fields m\<rparr>)"

definition generate_field :: "field \<Rightarrow> ostream \<Rightarrow> ostream \<Rightarrow> fault + ostream \<times> ostream" where
  "generate_field f header source =
     (let header1 = emit [nl] header; source1 = emit [nl] source
      in case field_type f of
           st_message \<Rightarrow> (case f of Message_field m \<Rightarrow> generate_message m header1 source1 | Data_field _ \<Rightarrow> Inl Undefined)
         | st_structure \<Rightarrow> Inr (generate_normal_data (as_base f) [] header1, source1)
         | st_enumture \<Rightarrow> Inr (generate_normal_data (as_base f) [] header1, source1)
         | st_request \<Rightarrow> Inr (header1, source1)
         | st_response \<Rightarrow> Inr (header1, source1))"

fun generate_fields :: "field list \<Rightarrow> ostream \<Rightarrow> ostream \<Rightarrow> fault + ostream \<times> ostream" where
  "generate_fields [] header source = Inr (header, source)"
| "generate_fields (f # fs) header source =
     (case generate_field f header source of
        Inl x \<Rightarrow> Inl x
      | Inr (header', source') \<Rightarrow> generate_fields fs header' source')"

fun generate_aliases :: "field list \<Rightarrow> string \<Rightarrow> ostream \<Rightarrow> fault + ostream" where
  "generate_aliases [] protocol header = Inr header"
| "generate_aliases (f # fs) protocol header =
     (case f of
        Message_field m \<Rightarrow>
          if f_type m = st_message
          then case generate_protocol_alias_define m protocol header of
                 Inl x \<Rightarrow> Inl x
               | Inr header' \<Rightarrow> generate_aliases fs protocol header'
          else generate_aliases fs protocol header
      | Data_field _ \<Rightarrow> generate_aliases fs protocol header)"

definition cpp_generator_run :: "ostream \<Rightarrow> ostream \<Rightarrow> field list \<Rightarrow> string \<Rightarrow> fault + ostream \<times> ostream" where
  "cpp_generator_run header source fs protocol =
     (case generate_fields fs header source of
        Inl x \<Rightarrow> Inl x
      | Inr (header1, source1) \<Rightarrow>
          (case generate_aliases fs protocol (emit [nl] header1) of
             Inl x \<Rightarrow> Inl x
           | Inr header2 \<Rightarrow> Inr (header2, source1)))"

end
