(* ===== verification/Generated_Code.thy ===== *)
theory Generated_Code
  imports Generator Schema_Properties Binary
begin

text \<open>
  What the generator writes and what it means. The first part gives the text of the generated
  files line by line and shows that the generator, which seeks back over a trailing comma,
  writes exactly this text. The second part is a meaning for the \<open>to_binary\<close> and \<open>from_binary\<close>
  functions of the text: their statements are calls of \<open>binary_parse\<close>, modelled in Binary.
\<close>

section \<open>Streams at their end\<close>

definition at_end :: "string \<Rightarrow> ostream" where
  "at_end t = \<lparr>out_text = t, out_pos = length t\<rparr>"

definition writes :: "(ostream \<Rightarrow> ostream) \<Rightarrow> string \<Rightarrow> bool" where
  "writes g s \<longleftrightarrow> (\<forall>t. g (at_end t) = at_end (t @ s))"

named_theorems written \<open>the effect of the pieces of the generator on a stream at its end\<close>

lemma writesI: "(\<And>t. g (at_end t) = at_end (t @ s)) \<Longrightarrow> writes g s"
  by (simp add: writes_def)

lemma writesD: "writes g s \<Longrightarrow> g (at_end t) = at_end (t @ s)"
  by (simp add: writes_def)

lemma emit_at_end [written]: "emit s (at_end t) = at_end (t @ s)"
  by (simp add: emit_def at_end_def)

lemma steps_rec [written]: "steps [] out = out" "steps (g # gs) out = steps gs (g out)"
  by (simp_all add: steps_def)

lemma writes_steps_map:
  "(\<And>x. x \<in> set xs \<Longrightarrow> writes (g x) (h x)) \<Longrightarrow> steps (map g xs) (at_end t) = at_end (t @ concat (map h xs))"
  by (induction xs arbitrary: t) (simp_all add: written writes_def)

lemma steps_emit_map [written]:
  "steps (map (\<lambda>(ty, nm). emit (h ty nm)) xs) (at_end t) = at_end (t @ concat (map (\<lambda>p. h (fst p) (snd p)) xs))"
  by (rule writes_steps_map) (auto simp: written intro!: writesI)

section \<open>Lines\<close>

definition unlines :: "string list \<Rightarrow> string" where
  "unlines ls = concat (map (\<lambda>l. l @ [nl]) ls)"

definition lines :: "string \<Rightarrow> string list" where
  "lines t = split_on [nl] t"

lemma unlines_simps [simp]: "unlines [] = []" "unlines (l # ls) = l @ nl # unlines ls" "unlines (ls @ ms) = unlines ls @ unlines ms"
  by (simp_all add: unlines_def)

lemma unlines_map: "unlines (map h xs) = concat (map (\<lambda>x. h x @ [nl]) xs)"
  by (simp add: unlines_def comp_def)

lemma lines_unlines:
  "list_all (\<lambda>l. nl \<notin> set l) ls \<Longrightarrow> lines (unlines ls @ t) = ls @ lines t"
proof (induction ls)
  case (Cons l ls)
  then show ?case using split_on_append [of "[nl]" l "unlines ls @ t"] by (simp add: lines_def)
qed simp

section \<open>The text of structures\<close>

definition macro_line :: "field_base \<Rightarrow> string \<Rightarrow> string" where
  "macro_line f sfx =
     ''AQUARIUS_SERIALIZE_'' @ (if f_type f = st_enumture then ''ENUM'' else ''STRUCT'') @ ''('' @ f_name f @ sfx @
     '', ('' @ join '', '' (map snd (f_fields f)) @ ''))''"

definition head_text :: "field_base \<Rightarrow> string \<Rightarrow> string" where
  "head_text f sfx =
     (if sfx \<noteq> [] then ''struct ''
      else case f_type f of st_enumture \<Rightarrow> ''enum class '' | st_structure \<Rightarrow> ''struct '' | _ \<Rightarrow> ''class '') @ f_name f @ sfx"

definition member_lines :: "field_base \<Rightarrow> string list" where
  "member_lines f =
     map (\<lambda>(ty, nm). [tab] @ ty @ '' '' @ nm @ [if f_type f = st_enumture then CHR '','' else CHR '';'']) (f_fields f)"

definition struct_lines :: "field_base \<Rightarrow> string \<Rightarrow> string list" where
  "struct_lines f sfx =
     [head_text f sfx, ''{''] @ member_lines f @
     (if sfx \<noteq> [] then [macro_line f sfx, ''};''] else [''};'', macro_line f sfx])"

lemma seek_back_overwrites:
  assumes "n \<le> length u" and "n \<le> length s"
  shows "emit s (seek_back n (at_end (t @ u))) = at_end (t @ take (length u - n) u @ s)"
  using assms by (simp add: seek_back_def emit_def at_end_def)

lemma serialize_macro_written [written]: "serialize_macro f sfx (at_end t) = at_end (t @ macro_line f sfx @ [nl])"
proof -
  let ?start = "''AQUARIUS_SERIALIZE_'' @ (if f_type f = st_enumture then ''ENUM'' else ''STRUCT'') @ ''('' @ f_name f @ sfx @ '', (''"
  let ?ns = "map snd (f_fields f)"
  have sfx: "(if sfx \<noteq> [] then emit sfx else id) (at_end u) = at_end (u @ sfx)" for u by (simp add: written)
  have names: "map (\<lambda>p. snd p @ '', '') (f_fields f) = map (\<lambda>x. x @ '', '') ?ns" by simp
  show ?thesis
  proof (cases "f_fields f = []")
    case True
    then show ?thesis by (simp add: serialize_macro_def written sfx macro_line_def del: if_image_distrib)
  next
    case False
    then have "concat (map (\<lambda>x. x @ '', '') ?ns) = join '', '' ?ns @ '', ''" by (intro concat_join) simp
    with False show ?thesis
      using seek_back_overwrites [of 2 "join '', '' ?ns @ '', ''" "''))'' @ [nl]" "t @ ?start"]
      by (simp add: serialize_macro_def written sfx macro_line_def names)
  qed
qed

lemma generate_header_written [written]: "generate_header f sfx (at_end t) = at_end (t @ head_text f sfx)"
  by (cases "f_type f") (simp_all add: generate_header_def head_text_def written)

lemma member_variables_written [written]:
  "generate_member_variable_define f (if f_type f = st_enumture then CHR '','' else CHR '';'') (at_end t) =
     at_end (t @ unlines (member_lines f))"
  by (simp add: generate_member_variable_define_def member_lines_def unlines_map written case_prod_beta)

lemma generate_normal_data_written [written]:
  "generate_normal_data f sfx (at_end t) = at_end (t @ unlines (struct_lines f sfx))"
  by (simp add: generate_normal_data_def struct_lines_def written)

section \<open>The text of classes\<close>

definition member_decl_lines :: "string \<times> string \<Rightarrow> string list" where
  "member_decl_lines p =
     [[tab] @ fst p @ '' '' @ snd p @ ''() const;'', [tab] @ fst p @ ''& '' @ snd p @ ''();'', []]"

definition class_lines :: "field_base \<Rightarrow> string list" where
  "class_lines f =
     [head_text f [] @ '': public aquarius::serialization'', ''{'', ''public:'',
      [tab] @ f_name f @ ''();'', [tab] @ ''virtual ~'' @ f_name f @ ''();'', [],
      [tab] @ f_name f @ ''('' @ f_name f @ ''&&) = default;'', [tab] @ f_name f @ ''& operator=('' @ f_name f @ ''&&) = default;'',
      ''public:''] @
     concat (map (\<lambda>n. [[tab] @ ''virtual void to_'' @ n @ ''(aquarius::flex_buffer& buffer) override;'', [],
                         [tab] @ ''virtual void from_'' @ n @ ''(aquarius::flex_buffer& buffer) override;'', []])
              [''binary'', ''json'', ''kv'']) @
     [[]] @ concat (map member_decl_lines (f_fields f)) @
     [''private:'', [tab] @ ''struct impl;'', [tab] @ ''std::shared_ptr<impl> impl_ptr_;'', ''};'']"

lemma unlines_concat_map: "unlines (concat (map h xs)) = concat (map (\<lambda>x. unlines (h x)) xs)"
  by (induction xs) simp_all

lemma member_func_define_written [written]:
  "generate_member_func_define f (at_end t) = at_end (t @ unlines (concat (map member_decl_lines (f_fields f))))"
proof -
  have "generate_member_func_define f (at_end t) = at_end (t @ concat (map (\<lambda>p. unlines (member_decl_lines p)) (f_fields f)))"
    unfolding generate_member_func_define_def
    by (cases "f_fields f = []", simp, simp only: if_False, rule writes_steps_map)
      (auto simp: member_decl_lines_def written intro!: writesI)
  then show ?thesis by (simp add: unlines_concat_map)
qed

lemma generate_data_field_define_written [written]:
  "generate_data_field_define f (at_end t) = at_end (t @ unlines (class_lines f))"
  by (simp add: generate_data_field_define_def class_lines_def generate_inheritance_serialize_define_def scope_public_def
      scope_private_def generate_construction_define_def generate_serialize_method_define_def serialize_method_pair_def
      generate_impl_member_variable_define_def written)

section \<open>The text of member functions\<close>

definition head_line :: "string \<Rightarrow> string \<Rightarrow> string" where
  "head_line nm fn = ''void '' @ nm @ ''::'' @ fn @ ''(flex_buffer& buffer)''"

definition function_lines :: "field_base \<Rightarrow> string \<Rightarrow> string list \<Rightarrow> string list" where
  "function_lines f fn body = [head_line (f_name f) fn, ''{''] @ body @ [''}'']"

definition to_binary_line :: "string \<times> string \<Rightarrow> string" where
  "to_binary_line p = [tab] @ ''binary_parse::to_datas(impl_ptr_->'' @ snd p @ '', buffer);''"

definition from_binary_line :: "string \<times> string \<Rightarrow> string" where
  "from_binary_line p = [tab] @ ''impl_ptr_->'' @ snd p @ '' = binary_parse::from_datas<'' @ fst p @ ''>(buffer);''"

definition to_json_line :: "string \<times> string \<Rightarrow> string" where
  "to_json_line p =
     [tab] @ ''jv_obj.emplace('' @ [dq] @ snd p @ [dq] @ '', '' @
     (case check_type (fst p) of
        json_integer \<Rightarrow> ''impl_ptr_->'' @ snd p @ '');''
      | json_string \<Rightarrow> ''impl_ptr_->'' @ snd p @ '');''
      | json_array \<Rightarrow> ''aquarius::json_value_from_array(impl_ptr_->'' @ snd p @ ''));''
      | json_object \<Rightarrow> ''aquarius::json_value_from_object<'' @ fst p @ ''>(impl_ptr_->'' @ snd p @ ''));'')"

definition json_at :: "string \<times> string \<Rightarrow> string" where
  "json_at p = ''jv_obj->at('' @ [dq] @ snd p @ [dq] @ '')''"

definition from_json_line :: "string \<times> string \<Rightarrow> string" where
  "from_json_line p =
     [tab] @ ''impl_ptr_->'' @ snd p @ '' = '' @
     (case check_type (fst p) of
        json_integer \<Rightarrow>
          if fst p \<in> {''int32'', ''uint32'', ''uint64''} then ''static_cast<'' @ fst p @ ''>('' @ json_at p @ ''.as_int64());''
          else if fst p = ''float'' then ''static_cast<float>('' @ json_at p @ ''.as_double());''
          else json_at p @ ''.as_'' @ fst p @ ''();''
      | json_string \<Rightarrow> ''static_cast<'' @ fst p @ ''>('' @ json_at p @ ''.as_string());''
      | json_array \<Rightarrow> ''aquarius::json_value_to_array('' @ json_at p @ '');''
      | json_object \<Rightarrow> ''aquarius::json::value_to<'' @ fst p @ ''>('' @ json_at p @ '');'')"

definition to_json_lines :: "field_base \<Rightarrow> string list" where
  "to_json_lines f =
     (if f_fields f = [] then []
      else [[tab] @ ''json::value jv{};'', [tab] @ ''auto& jv_obj = jv.emplace_object();''] @ map to_json_line (f_fields f) @
           [[tab] @ ''auto json_str = json::serialize(jv);'', [tab] @ ''buffer.sputn(json_str.data(), json_str.size());''])"

definition from_json_lines :: "field_base \<Rightarrow> string list" where
  "from_json_lines f =
     (if f_fields f = [] then []
      else [[tab] @ ''json::value jv = json::parse(std::string((char*)buffer.data().data(), buffer.size()));'',
            [tab] @ ''auto jv_obj = jv.try_as_object();'', [tab] @ ''if(jv_obj.has_error())'', [tab] @ ''{'',
            [tab, tab] @ ''return;'', [tab] @ ''}''] @ map from_json_line (f_fields f))"

fun to_kv_lines :: "nat \<Rightarrow> (string \<times> string) list \<Rightarrow> string list" where
  "to_kv_lines loop [] = []"
| "to_kv_lines loop (p # ps) =
     [(if loop = 0 then [tab] @ ''buffer.sputc('' @ [CHR 0x27] @ ''?'' @ [CHR 0x27] @ '');''
       else ''buffer.sputc('' @ [CHR 0x27] @ ''='' @ [CHR 0x27] @ '');''),
      [tab] @ ''kv_parse::to_datas(impl_ptr_->'' @ snd p @ '', buffer);''] @ to_kv_lines (Suc loop) ps"

definition from_kv_line :: "string \<times> string \<Rightarrow> string" where
  "from_kv_line p =
     [tab] @ ''impl_ptr_->'' @ snd p @ '' = kv_parse::from_datas<'' @ fst p @ ''>(buffer, impl_ptr_->'' @ snd p @ '');''"

definition accessor_lines :: "field_base \<Rightarrow> string \<times> string \<Rightarrow> string list" where
  "accessor_lines f p =
     [fst p @ '' '' @ f_name f @ ''::'' @ snd p @ ''() const'', ''{'', [tab] @ ''return impl_ptr_->'' @ snd p @ '';'', ''}'',
      fst p @ ''& '' @ f_name f @ ''::'' @ snd p @ ''()'', ''{'', [tab] @ ''return impl_ptr_->'' @ snd p @ '';'', ''}'']"

definition construction_lines :: "field_base \<Rightarrow> string list" where
  "construction_lines f =
     [f_name f @ ''::'' @ f_name f @ ''()'', [tab] @ '': impl_ptr_(std::make_shared<impl>())'', ''{}'', [],
      f_name f @ ''::~'' @ f_name f @ ''(){}'']"

definition source_lines :: "field_base \<Rightarrow> string list" where
  "source_lines f =
     struct_lines f ''::impl'' @ construction_lines f @ [[]] @
     function_lines f ''to_binary'' (map to_binary_line (f_fields f)) @
     function_lines f ''from_binary'' (map from_binary_line (f_fields f)) @
     function_lines f ''to_json'' (to_json_lines f) @
     function_lines f ''from_json'' (from_json_lines f) @
     function_lines f ''to_kv'' (to_kv_lines 0 (f_fields f)) @
     function_lines f ''from_kv'' (map from_kv_line (f_fields f)) @
     concat (map (accessor_lines f) (f_fields f))"

lemma function_head_written [written]:
  "function_head f fn (at_end t) = at_end (t @ unlines [head_line (f_name f) fn, ''{''])"
  by (simp add: function_head_def head_line_def written)

lemma binary_written [written]:
  "generate_seialize_method_binary f (at_end t) =
     at_end (t @ unlines (function_lines f ''to_binary'' (map to_binary_line (f_fields f)) @
                          function_lines f ''from_binary'' (map from_binary_line (f_fields f))))"
  by (simp add: generate_seialize_method_binary_def function_lines_def unlines_map to_binary_line_def from_binary_line_def written)

lemma check_type_integer:
  "check_type ty = json_integer \<longleftrightarrow> ty \<in> {''int32'', ''uint32'', ''int64'', ''uint64'', ''bool'', ''float'', ''double''}"
  by (simp add: check_type_def)

lemma json_member_to_written: "json_member_to p (at_end t) = at_end (t @ to_json_line p @ [nl])"
  by (cases p; cases "check_type (fst p)")
    (simp_all add: json_member_to_def to_json_line_def generate_from_int_def generate_from_string_def generate_from_array_def
      generate_from_object_def impl_prefix_def written)

lemma json_member_from_written: "json_member_from p (at_end t) = at_end (t @ from_json_line p @ [nl])"
proof (cases "check_type (fst p)")
  case json_integer
  moreover from this have "fst p \<in> {''int32'', ''uint32'', ''int64'', ''uint64'', ''bool'', ''float'', ''double''}"
    by (simp only: check_type_integer)
  ultimately show ?thesis
    by (cases p) (auto simp: json_member_from_def from_json_line_def json_at_def generate_to_int_def impl_prefix_def written)
qed (cases p; simp add: json_member_from_def from_json_line_def json_at_def generate_to_int_def generate_to_string_def
      generate_to_array_def generate_to_object_def impl_prefix_def written)+

lemma json_members_written [written]:
  "steps (map json_member_to ps) (at_end t) = at_end (t @ unlines (map to_json_line ps))"
  "steps (map json_member_from ps) (at_end t) = at_end (t @ unlines (map from_json_line ps))"
  by (simp_all add: unlines_map writes_steps_map [where h = "\<lambda>p. to_json_line p @ [nl]"]
      writes_steps_map [where h = "\<lambda>p. from_json_line p @ [nl]"] writes_def json_member_to_written json_member_from_written)

lemma json_written [written]:
  "generate_seialize_method_json f (at_end t) =
     at_end (t @ unlines (function_lines f ''to_json'' (to_json_lines f) @ function_lines f ''from_json'' (from_json_lines f)))"
  by (simp add: generate_seialize_method_json_def function_lines_def to_json_lines_def from_json_lines_def written)

lemma kv_to_members_written [written]: "kv_to_members i ps (at_end t) = at_end (t @ unlines (to_kv_lines i ps))"
  by (induction i ps arbitrary: t rule: kv_to_members.induct) (auto simp: written)

lemma kv_written [written]:
  "generate_seialize_method_kv f (at_end t) =
     at_end (t @ unlines (function_lines f ''to_kv'' (to_kv_lines 0 (f_fields f)) @
                          function_lines f ''from_kv'' (map from_kv_line (f_fields f))))"
  by (simp add: generate_seialize_method_kv_def function_lines_def unlines_map from_kv_line_def written)

lemma member_func_src_written [written]:
  "generate_member_func_src f (at_end t) = at_end (t @ unlines (concat (map (accessor_lines f) (f_fields f))))"
proof -
  have "generate_member_func_src f (at_end t) = at_end (t @ concat (map (\<lambda>p. unlines (accessor_lines f p)) (f_fields f)))"
    unfolding generate_member_func_src_def
    by (cases "f_fields f = []", simp, simp only: if_False, rule writes_steps_map)
      (auto simp: accessor_lines_def written intro!: writesI)
  then show ?thesis by (simp add: unlines_concat_map)
qed

lemma genetate_source_written [written]: "genetate_source f (at_end t) = at_end (t @ unlines (source_lines f))"
  by (simp add: genetate_source_def source_lines_def generate_serialize_method_src_def generate_construction_src_def
      construction_lines_def written)

section \<open>The text of files\<close>

definition alias_lines :: "string \<Rightarrow> message_field \<Rightarrow> string list" where
  "alias_lines protocol m =
     [''using '' @ f_name m @ ''_request = aquarius::'' @ protocol @ ''_request<'' @ [dq] @ m_router m @ [dq] @ '', '' @
        f_name (the (m_request m)) @ ''>;'',
      ''using '' @ f_name m @ ''_response = aquarius::'' @ protocol @ ''_response<'' @
        (if protocol = ''tcp'' then [dq] @ m_router m @ [dq] @ '', '' else []) @ f_name (the (m_response m)) @ ''>;'']"

fun header_lines :: "field \<Rightarrow> string list" where
  "header_lines (Data_field b) = [] # struct_lines b []"
| "header_lines (Message_field m) = [] # class_lines (the (m_request m)) @ class_lines (the (m_response m))"

fun body_lines :: "field \<Rightarrow> string list" where
  "body_lines (Data_field b) = [[]]"
| "body_lines (Message_field m) = [] # source_lines (the (m_request m)) @ source_lines (the (m_response m))"

fun all_alias_lines :: "string \<Rightarrow> field \<Rightarrow> string list" where
  "all_alias_lines protocol (Data_field b) = []"
| "all_alias_lines protocol (Message_field m) = alias_lines protocol m"

lemma generate_field_written:
  assumes "wf_field f"
  shows "generate_field f (at_end h) (at_end s) = Inr (at_end (h @ unlines (header_lines f)), at_end (s @ unlines (body_lines f)))"
proof (cases f)
  case (Data_field b)
  then show ?thesis using assms by (auto simp: generate_field_def field_type_def as_base_def written)
next
  case (Message_field m)
  then show ?thesis
    using assms by (auto simp: generate_field_def field_type_def generate_message_def wf_part_def written)
qed

lemma generate_fields_written:
  "list_all wf_field fs \<Longrightarrow>
     generate_fields fs (at_end h) (at_end s) =
       Inr (at_end (h @ unlines (concat (map header_lines fs))), at_end (s @ unlines (concat (map body_lines fs))))"
  by (induction fs arbitrary: h s) (simp_all add: generate_field_written)

lemma generate_aliases_written:
  "list_all wf_field fs \<Longrightarrow>
     generate_aliases fs protocol (at_end h) = Inr (at_end (h @ unlines (concat (map (all_alias_lines protocol) fs))))"
proof (induction fs arbitrary: h)
  case (Cons f fs)
  then show ?case
    by (cases f) (auto simp: generate_protocol_alias_define_def generate_request_alias_define_def
        generate_response_alias_define_def alias_lines_def wf_part_def written)
qed simp

section \<open>The meaning of the generated functions\<close>

text \<open>
  The body of a member function: the lines after its head and the opening brace, up to the
  closing one. A brace inside the function is indented.
\<close>

definition function_body :: "string \<Rightarrow> string \<Rightarrow> string list \<Rightarrow> string list" where
  "function_body nm fn ls =
     takeWhile (\<lambda>l. l \<noteq> ''}'') (drop 2 (dropWhile (\<lambda>l. l \<noteq> head_line nm fn) ls))"

text \<open>
  The C++ type a text denotes: the aliases of include/aquarius/serialize/scalar_type.hpp, the
  built-in types, and the two templates of the generator. \<open>custom\<close> are the structures the file
  defines. \<open>int32\<close> and \<open>int64\<close> are aliases of unsigned types.
\<close>

definition scalar_types :: "(string \<times> ty) list" where
  "scalar_types =
     [(''int32'', T_uint32), (''uint32'', T_uint32), (''sint32'', T_int32), (''int64'', T_uint64), (''uint64'', T_uint64),
      (''sint64'', T_int64), (''fixed32'', T_fixed32), (''fixed64'', T_fixed64), (''bool'', T_bool), (''float'', T_float),
      (''double'', T_double), (''string'', T_string), (''bytes'', T_vector T_char)]"

definition name_type :: "(string \<times> ty) list \<Rightarrow> string \<Rightarrow> ty option" where
  "name_type custom x = (case map_of scalar_types x of Some t \<Rightarrow> Some t | None \<Rightarrow> map_of custom x)"

definition denote :: "(string \<times> ty) list \<Rightarrow> string \<Rightarrow> ty option" where
  "denote custom s =
     (case cut_at ''std::vector<'' s of
        Some ([], r) \<Rightarrow>
          (case cut_at ''>'' r of Some (x, []) \<Rightarrow> map_option T_vector (name_type custom x) | _ \<Rightarrow> None)
      | _ \<Rightarrow>
          (case cut_at ''std::map<'' s of
             Some ([], r) \<Rightarrow>
               (case cut_at '', '' r of
                  Some (k, r2) \<Rightarrow>
                    (case cut_at ''>'' r2 of
                       Some (v, []) \<Rightarrow>
                         (case (name_type custom k, name_type custom v) of
                            (Some a, Some b) \<Rightarrow> Some (T_map a b)
                          | _ \<Rightarrow> None)
                     | _ \<Rightarrow> None)
                | None \<Rightarrow> None)
           | _ \<Rightarrow> name_type custom s))"

text \<open>
  The members of the object are a map from names to values. A statement that is not of the
  form the generator writes, or that names no member or type, has no meaning: \<open>None\<close>.
\<close>

definition exec_to_binary :: "string \<Rightarrow> (string \<rightharpoonup> val) \<Rightarrow> flex_buffer \<Rightarrow> flex_buffer option" where
  "exec_to_binary l obj buffer =
     (case cut_at ''binary_parse::to_datas(impl_ptr_->'' l of
        Some (w, r) \<Rightarrow>
          (case cut_at '', buffer);'' r of
             Some (nm, []) \<Rightarrow> (if w = [tab] then map_option (\<lambda>v. to_datas v buffer) (obj nm) else None)
           | _ \<Rightarrow> None)
      | None \<Rightarrow> None)"

fun run_to_binary :: "string list \<Rightarrow> (string \<rightharpoonup> val) \<Rightarrow> flex_buffer \<Rightarrow> flex_buffer option" where
  "run_to_binary [] obj buffer = Some buffer"
| "run_to_binary (l # ls) obj buffer =
     (case exec_to_binary l obj buffer of None \<Rightarrow> None | Some buffer' \<Rightarrow> run_to_binary ls obj buffer')"

definition exec_from_binary :: "limits \<Rightarrow> (string \<times> ty) list \<Rightarrow> string \<Rightarrow> (string \<rightharpoonup> val) loader option" where
  "exec_from_binary lim custom l =
     (case cut_at ''impl_ptr_->'' l of
        Some (w, r) \<Rightarrow>
          (case cut_at '' = binary_parse::from_datas<'' r of
             Some (nm, r2) \<Rightarrow>
               (case cut_at ''>(buffer);'' r2 of
                  Some (t, []) \<Rightarrow>
                    (if w = [tab]
                     then map_option (\<lambda>ty. l_assign (from_datas lim ty) (\<lambda>v obj. obj(nm \<mapsto> v))) (denote custom t)
                     else None)
                | _ \<Rightarrow> None)
           | None \<Rightarrow> None)
      | None \<Rightarrow> None)"

fun run_from_binary :: "limits \<Rightarrow> (string \<times> ty) list \<Rightarrow> string list \<Rightarrow> (string \<rightharpoonup> val) loader option" where
  "run_from_binary lim custom [] = Some l_skip"
| "run_from_binary lim custom (l # ls) =
     (case (exec_from_binary lim custom l, run_from_binary lim custom ls) of
        (Some a, Some b) \<Rightarrow> Some (l_then a b)
      | _ \<Rightarrow> None)"

section \<open>Finding a function in the text\<close>

text \<open>Only the heads of member functions end in \<open>r)\<close>.\<close>

definition head_like :: "string \<Rightarrow> bool" where
  "head_like l \<longleftrightarrow> take 2 (rev l) = rev ''r)''"

lemma head_like_head_line: "head_like (head_line nm fn)"
  by (simp add: head_like_def head_line_def)

lemma not_head_like [simp]:
  "\<not> head_like []" "\<not> head_like ''{''" "\<not> head_like ''}''" "\<not> head_like ''};''"
  "\<not> head_like (to_binary_line p)" "\<not> head_like (from_binary_line p)" "\<not> head_like (from_kv_line p)"
  "\<not> head_like (macro_line f sfx)" "\<not> head_like (head_text f ''::impl'')"
  by (simp_all add: head_like_def to_binary_line_def from_binary_line_def from_kv_line_def macro_line_def head_text_def)

lemma not_head_like_json [simp]: "\<not> head_like (to_json_line p)" "\<not> head_like (from_json_line p)"
  by (cases "check_type (fst p)"; simp add: head_like_def to_json_line_def from_json_line_def json_at_def)+

definition headless :: "string list \<Rightarrow> bool" where
  "headless ls \<longleftrightarrow> list_all (\<lambda>l. \<not> head_like l) ls"

lemma headless_simps [simp]:
  "headless []" "headless (l # ls) \<longleftrightarrow> \<not> head_like l \<and> headless ls" "headless (ls @ ms) \<longleftrightarrow> headless ls \<and> headless ms"
  by (simp_all add: headless_def)

lemma headless_map: "(\<And>p. \<not> head_like (h p)) \<Longrightarrow> headless (map h ps)"
  by (simp add: headless_def list_all_iff)

lemma headless_member_lines: "headless (member_lines f)"
proof (cases "f_type f = st_enumture")
  case True
  then show ?thesis by (auto simp: member_lines_def head_like_def intro!: headless_map)
next
  case False
  then show ?thesis by (auto simp: member_lines_def head_like_def intro!: headless_map)
qed

lemma headless_struct_lines: "headless (struct_lines f ''::impl'')"
  by (simp add: struct_lines_def headless_member_lines)

lemma headless_construction_lines: "headless (construction_lines f)"
  by (simp add: construction_lines_def head_like_def)

lemma headless_binary: "headless (map to_binary_line ps)" "headless (map from_binary_line ps)" "headless (map from_kv_line ps)"
  by (simp_all add: headless_map)

lemma headless_json: "headless (to_json_lines f)" "headless (from_json_lines f)"
  using headless_map [of to_json_line "f_fields f", OF not_head_like_json(1)]
    headless_map [of from_json_line "f_fields f", OF not_head_like_json(2)]
  by (simp_all add: to_json_lines_def from_json_lines_def head_like_def)

lemma headless_kv: "headless (to_kv_lines i ps)"
  by (induction i ps rule: to_kv_lines.induct) (simp_all add: head_like_def)

lemma headless_accessors: "headless (concat (map (accessor_lines f) ps))"
  by (induction ps) (simp_all add: accessor_lines_def head_like_def)

lemma head_notin_headless: "headless ls \<Longrightarrow> head_line nm fn \<notin> set ls"
  using head_like_head_line [of nm fn] by (auto simp: headless_def list_all_iff)

lemma head_in_function_lines:
  "head_line nm fn \<in> set (function_lines f fn' body) \<Longrightarrow> headless body \<Longrightarrow> head_line nm fn = head_line (f_name f) fn'"
  using head_notin_headless [of "''{'' # body @ [''}'']" nm fn] by (auto simp: function_lines_def)

lemma ident_char_colon: "\<not> ident_char (CHR '':'')"
  by (simp add: ident_char_def is_alnum_def is_alpha_def is_digit_def)

lemma head_line_inj:
  assumes "head_line nm fn = head_line nm' fn'" and "list_all ident_char nm" and "list_all ident_char nm'"
  shows "nm = nm'"
proof -
  have colon: "CHR '':'' \<notin> set nm" "CHR '':'' \<notin> set nm'"
    using assms(2,3) ident_char_colon unfolding list_all_iff by blast+
  have "nm @ ''::'' @ fn @ ''(flex_buffer& buffer)'' = nm' @ ''::'' @ fn' @ ''(flex_buffer& buffer)''"
    using assms(1) by (simp add: head_line_def)
  then have "cut_at ''::'' (nm @ ''::'' @ fn @ ''(flex_buffer& buffer)'') = cut_at ''::'' (nm' @ ''::'' @ fn' @ ''(flex_buffer& buffer)'')"
    by (rule arg_cong)
  moreover have "cut_at ''::'' (nm @ ''::'' @ fn @ ''(flex_buffer& buffer)'') = Some (nm, fn @ ''(flex_buffer& buffer)'')"
    using colon(1) by (intro cut_at_append) simp_all
  moreover have "cut_at ''::'' (nm' @ ''::'' @ fn' @ ''(flex_buffer& buffer)'') = Some (nm', fn' @ ''(flex_buffer& buffer)'')"
    using colon(2) by (intro cut_at_append) simp_all
  ultimately show ?thesis by (simp only: option.inject prod.inject)
qed

lemmas headless_parts = headless_struct_lines headless_construction_lines headless_binary headless_json headless_kv headless_accessors

lemma head_in_source_lines:
  assumes "head_line nm fn \<in> set (source_lines f)" and "list_all ident_char nm" and "list_all ident_char (f_name f)"
  shows "nm = f_name f"
proof -
  have nil: "head_line nm fn \<notin> set [[]]" by (simp add: head_line_def)
  have "\<exists>fn'. head_line nm fn = head_line (f_name f) fn'"
    using assms(1) nil headless_parts [THEN head_notin_headless, of nm fn] unfolding source_lines_def set_append Un_iff
    by (blast dest: head_in_function_lines [OF _ headless_binary(1)] head_in_function_lines [OF _ headless_binary(2)]
        head_in_function_lines [OF _ headless_binary(3)] head_in_function_lines [OF _ headless_json(1)]
        head_in_function_lines [OF _ headless_json(2)] head_in_function_lines [OF _ headless_kv])
  then show ?thesis using assms(2,3) by (auto dest: head_line_inj)
qed

lemma function_body_found:
  assumes "head_line (f_name f) fn \<notin> set pre" and "\<And>l. l \<in> set body \<Longrightarrow> l \<noteq> ''}''"
  shows "function_body (f_name f) fn (pre @ function_lines f fn body @ post) = body"
proof -
  have "dropWhile (\<lambda>l. l \<noteq> head_line (f_name f) fn) (pre @ function_lines f fn body @ post) =
      function_lines f fn body @ post"
    using assms(1) by (subst dropWhile_append2) (auto simp: function_lines_def)
  then show ?thesis
    using assms(2) by (simp add: function_body_def function_lines_def takeWhile_append2)
qed

lemma binary_bodies_found:
  assumes "head_line (f_name f) ''to_binary'' \<notin> set pre" and "head_line (f_name f) ''from_binary'' \<notin> set pre"
  shows "function_body (f_name f) ''to_binary'' (pre @ source_lines f @ post) = map to_binary_line (f_fields f)"
    and "function_body (f_name f) ''from_binary'' (pre @ source_lines f @ post) = map from_binary_line (f_fields f)"
proof -
  let ?start = "struct_lines f ''::impl'' @ construction_lines f @ [[]]"
  let ?to = "function_lines f ''to_binary'' (map to_binary_line (f_fields f))"
  let ?from = "function_lines f ''from_binary'' (map from_binary_line (f_fields f))"
  obtain rest where src: "source_lines f = ?start @ ?to @ ?from @ rest" by (simp add: source_lines_def)
  have start: "head_line (f_name f) fn \<notin> set ?start" for fn
    by (rule head_notin_headless) (simp add: headless_parts)
  have "head_line (f_name f) ''from_binary'' \<notin> set ?to"
  proof
    assume "head_line (f_name f) ''from_binary'' \<in> set ?to"
    from head_in_function_lines [OF this headless_binary(1)] show False by (simp add: head_line_def)
  qed
  then show "function_body (f_name f) ''from_binary'' (pre @ source_lines f @ post) = map from_binary_line (f_fields f)"
    using function_body_found [of f "''from_binary''" "pre @ ?start @ ?to" "map from_binary_line (f_fields f)" "rest @ post"]
      assms(2) start by (force simp add: src from_binary_line_def)
  show "function_body (f_name f) ''to_binary'' (pre @ source_lines f @ post) = map to_binary_line (f_fields f)"
    using function_body_found [of f "''to_binary''" "pre @ ?start" "map to_binary_line (f_fields f)" "?from @ rest @ post"]
      assms(1) start by (force simp add: src to_binary_line_def)
qed

end
