(* ===== verification/Generated_Properties.thy ===== *)
theory Generated_Properties
  imports Generated_Code
begin

text \<open>
  From the schema to the behaviour of the generated classes: a schema file is parsed, the
  source file is generated, and the \<open>to_binary\<close> and \<open>from_binary\<close> functions found in its text
  are inverse to each other.
\<close>

section \<open>One statement\<close>

lemma ident_chars_no:
  "list_all ident_char w \<Longrightarrow> CHR '','' \<notin> set w" "list_all ident_char w \<Longrightarrow> CHR '' '' \<notin> set w"
  "list_all ident_char w \<Longrightarrow> CHR ''>'' \<notin> set w" "list_all ident_char w \<Longrightarrow> nl \<notin> set w"
proof -
  have "\<not> ident_char nl" by (simp add: ident_char_def is_alnum_def is_alpha_def is_digit_def)
  then show "list_all ident_char w \<Longrightarrow> CHR '','' \<notin> set w" "list_all ident_char w \<Longrightarrow> CHR '' '' \<notin> set w"
    "list_all ident_char w \<Longrightarrow> CHR ''>'' \<notin> set w" "list_all ident_char w \<Longrightarrow> nl \<notin> set w"
    unfolding list_all_iff using separators by blast+
qed

lemma alpha_ident_chars: "list_all is_alpha w \<Longrightarrow> list_all ident_char w"
  by (auto simp: list_all_iff ident_char_def is_alnum_def)

lemma exec_to_binary_line:
  assumes "list_all ident_char (snd p)" and "obj (snd p) = Some v"
  shows "exec_to_binary (to_binary_line p) obj b = Some (b @ wire v)"
proof -
  have "cut_at ''binary_parse::to_datas(impl_ptr_->'' ([tab] @ ''binary_parse::to_datas(impl_ptr_->'' @ snd p @ '', buffer);'') =
      Some ([tab], snd p @ '', buffer);'')"
    by (rule cut_at_append) simp_all
  moreover have "cut_at '', buffer);'' (snd p @ '', buffer);'' @ []) = Some (snd p, [])"
    by (rule cut_at_append) (use ident_chars_no(1) [OF assms(1)] in simp_all)
  ultimately show ?thesis
    using assms(2) appendsD [OF appends_to_datas, of v b] by (simp add: exec_to_binary_def to_binary_line_def)
qed

lemma cut_type:
  assumes "type_text t"
  shows "cut_at ''>(buffer);'' (t @ ''>(buffer);'') = Some (t, [])"
proof -
  have plain: "cut_at ''>(buffer);'' (u @ ''>(buffer);'' @ []) = Some (u, [])" if "CHR ''>'' \<notin> set u" for u
    using that by (intro cut_at_append) simp_all
  have closed: "cut_at ''>(buffer);'' (u @ ''>'' @ ''>(buffer);'') = Some (u @ ''>'', [])" if "CHR ''>'' \<notin> set u" for u
    using that cut_at_skip [of "''>(buffer);''" u "''>'' @ ''>(buffer);''"] by simp
  from assms consider "list_all ident_char t" | x where "t = (''std::vector<'' @ x) @ ''>''" "list_all ident_char x"
    | k v where "t = (''std::map<'' @ k @ '', '' @ v) @ ''>''" "list_all ident_char k" "list_all ident_char v"
    unfolding type_text_def by (auto dest: alpha_ident_chars)
  then show ?thesis
  proof cases
    case 1
    then show ?thesis using plain [of t] ident_chars_no(3) by simp
  next
    case 2
    then show ?thesis using closed [of "''std::vector<'' @ x"] ident_chars_no(3) by simp
  next
    case 3
    then show ?thesis using closed [of "''std::map<'' @ k @ '', '' @ v"] ident_chars_no(3) by simp
  qed
qed

lemma exec_from_binary_line:
  assumes "list_all ident_char (snd p)" and "type_text (fst p)" and "denote custom (fst p) = Some ty"
  shows "exec_from_binary lim custom (from_binary_line p) =
           Some (l_assign (from_datas lim ty) (\<lambda>v obj. obj(snd p \<mapsto> v)))"
proof -
  let ?r = "fst p @ ''>(buffer);''"
  have "cut_at ''impl_ptr_->'' ([tab] @ ''impl_ptr_->'' @ snd p @ '' = binary_parse::from_datas<'' @ ?r) =
      Some ([tab], snd p @ '' = binary_parse::from_datas<'' @ ?r)"
    by (rule cut_at_append) simp_all
  moreover have "cut_at '' = binary_parse::from_datas<'' (snd p @ '' = binary_parse::from_datas<'' @ ?r) = Some (snd p, ?r)"
    by (rule cut_at_append) (use ident_chars_no(2) [OF assms(1)] in simp_all)
  ultimately show ?thesis
    using cut_type [OF assms(2)] assms(3) by (simp add: exec_from_binary_def from_binary_line_def)
qed

section \<open>All statements\<close>

text \<open>
  \<open>carries lim custom obj p\<close>: the member \<open>p\<close> has a type with a meaning and the object a value
  of this type that the wire format can carry.
\<close>

definition carries :: "limits \<Rightarrow> (string \<times> ty) list \<Rightarrow> (string \<rightharpoonup> val) \<Rightarrow> string \<times> string \<Rightarrow> bool" where
  "carries lim custom obj p \<longleftrightarrow>
     (\<exists>ty v. denote custom (fst p) = Some ty \<and> obj (snd p) = Some v \<and> fits lim v ty)"

definition payload :: "(string \<rightharpoonup> val) \<Rightarrow> (string \<times> string) list \<Rightarrow> string" where
  "payload obj ps = concat (map (\<lambda>p. wire (the (obj (snd p)))) ps)"

lemma run_to_binary_lines:
  "list_all (\<lambda>(t, n). type_text t \<and> list_all ident_char n) ps \<Longrightarrow> list_all (carries lim custom obj) ps \<Longrightarrow>
     run_to_binary (map to_binary_line ps) obj b = Some (b @ payload obj ps)"
proof (induction ps arbitrary: b)
  case (Cons p ps)
  then obtain v where "obj (snd p) = Some v" by (auto simp: carries_def)
  with Cons show ?case
    by (simp add: exec_to_binary_line [of p obj v] case_prod_beta payload_def)
qed (simp add: payload_def)

lemma run_from_binary_lines:
  "list_all (\<lambda>(t, n). type_text t \<and> list_all ident_char n) ps \<Longrightarrow> list_all (carries lim custom obj) ps \<Longrightarrow>
     \<exists>l. run_from_binary lim custom (map from_binary_line ps) = Some l \<and>
       (\<forall>obj0. loads l (payload obj ps) obj0 (override_on obj0 obj (snd ` set ps)))"
proof (induction ps)
  case Nil
  then show ?case by (simp add: loads_skip payload_def)
next
  case (Cons p ps)
  from Cons.prems(2) obtain ty v where p: "denote custom (fst p) = Some ty" "obj (snd p) = Some v" "fits lim v ty"
    by (auto simp: carries_def)
  from Cons obtain l where l: "run_from_binary lim custom (map from_binary_line ps) = Some l"
    "\<And>obj0. loads l (payload obj ps) obj0 (override_on obj0 obj (snd ` set ps))" by auto
  let ?a = "l_assign (from_datas lim ty) (\<lambda>v obj. obj(snd p \<mapsto> v))"
  have "loads (l_then ?a l) (wire v @ payload obj ps) obj0 (override_on obj0 obj (snd ` set (p # ps)))" for obj0
  proof (rule loads_then)
    show "loads ?a (wire v) obj0 (obj0(snd p \<mapsto> v))" by (rule loads_assign) (rule decodes_from_datas [OF p(3)])
    have "override_on (obj0(snd p \<mapsto> v)) obj (snd ` set ps) = override_on obj0 obj (snd ` set (p # ps))"
      using p(2) by (auto simp: override_on_def)
    then show "loads l (payload obj ps) (obj0(snd p \<mapsto> v)) (override_on obj0 obj (snd ` set (p # ps)))"
      using l(2) by metis
  qed
  then show ?case
    using exec_from_binary_line [of p custom ty lim] Cons.prems(1) p l(1) by (simp add: case_prod_beta payload_def)
qed

section \<open>The lines of the source file\<close>

definition one_line :: "string \<Rightarrow> bool" where
  "one_line l \<longleftrightarrow> nl \<notin> set l"

lemma one_line_type: "type_text t \<Longrightarrow> one_line t"
  using ident_chars_no(4) alpha_ident_chars by (auto simp: type_text_def one_line_def)

lemma one_line_ident: "list_all ident_char w \<Longrightarrow> one_line w"
  by (simp add: one_line_def ident_chars_no(4))

lemma one_line_join: "one_line d \<Longrightarrow> list_all one_line xs \<Longrightarrow> one_line (join d xs)"
  using set_join [of d xs] by (auto simp: one_line_def list_all_iff)

lemma one_line_members:
  assumes "one_line (fst p)" and "one_line (snd p)" and "one_line (f_name f)"
  shows "one_line (to_binary_line p)" and "one_line (from_binary_line p)" and "one_line (from_kv_line p)"
    and "one_line (to_json_line p)" and "one_line (from_json_line p)" and "list_all one_line (accessor_lines f p)"
proof -
  show "one_line (to_binary_line p)" "one_line (from_binary_line p)" "one_line (from_kv_line p)"
    "list_all one_line (accessor_lines f p)"
    using assms by (simp_all add: one_line_def to_binary_line_def from_binary_line_def from_kv_line_def accessor_lines_def)
  show "one_line (to_json_line p)" "one_line (from_json_line p)"
    using assms by (cases "check_type (fst p)"; simp add: one_line_def to_json_line_def from_json_line_def json_at_def)+
qed

lemma one_line_kv: "list_all (\<lambda>p. one_line (snd p)) ps \<Longrightarrow> list_all one_line (to_kv_lines i ps)"
  by (induction i ps rule: to_kv_lines.induct) (auto simp: one_line_def)

lemma one_line_map: "list_all P ps \<Longrightarrow> (\<And>p. P p \<Longrightarrow> one_line (h p)) \<Longrightarrow> list_all one_line (map h ps)"
  by (auto simp: list_all_iff)

lemma one_line_struct:
  assumes "list_all (\<lambda>p. one_line (fst p) \<and> one_line (snd p)) (f_fields f)" and "one_line (f_name f)"
  shows "list_all one_line (struct_lines f ''::impl'')"
proof -
  have "list_all one_line (map snd (f_fields f))" using assms(1) by (auto simp: list_all_iff)
  then have "one_line (join '', '' (map snd (f_fields f)))" by (intro one_line_join) (simp add: one_line_def)
  then have "one_line (macro_line f ''::impl'')" using assms(2) by (simp add: macro_line_def one_line_def)
  moreover have "list_all one_line (member_lines f)"
    unfolding member_lines_def using assms(1) by (rule one_line_map) (auto simp: one_line_def split: prod.splits)
  moreover have "one_line (head_text f ''::impl'')" using assms(2) by (simp add: head_text_def one_line_def)
  ultimately show ?thesis by (simp add: struct_lines_def) (simp add: one_line_def)
qed

lemma one_line_functions:
  assumes "one_line (f_name f)" and "one_line fn" and "list_all one_line body"
  shows "list_all one_line (function_lines f fn body)"
  using assms by (simp add: function_lines_def head_line_def) (simp add: one_line_def)

lemma one_line_source:
  assumes "wf_base f" and "list_all ident_char (f_name f)"
  shows "list_all one_line (source_lines f)"
proof -
  have n: "one_line (f_name f)" using assms(2) by (rule one_line_ident)
  have m: "list_all (\<lambda>p. one_line (fst p) \<and> one_line (snd p)) (f_fields f)"
    using assms(1) unfolding wf_base_def
    by (auto elim!: list.pred_mono_strong simp: one_line_type one_line_ident)
  note members = one_line_map [OF m]
  have lits: "list_all one_line [[tab] @ ''json::value jv{};'', [tab] @ ''auto& jv_obj = jv.emplace_object();'']"
    "list_all one_line [[tab] @ ''auto json_str = json::serialize(jv);'', [tab] @ ''buffer.sputn(json_str.data(), json_str.size());'']"
    "list_all one_line [[tab] @ ''json::value jv = json::parse(std::string((char*)buffer.data().data(), buffer.size()));'',
            [tab] @ ''auto jv_obj = jv.try_as_object();'', [tab] @ ''if(jv_obj.has_error())'', [tab] @ ''{'',
            [tab, tab] @ ''return;'', [tab] @ ''}'']"
    by (simp_all add: one_line_def)
  have "list_all one_line (map to_json_line (f_fields f))" "list_all one_line (map from_json_line (f_fields f))"
    by (rule members; use one_line_members(4,5) n in blast)+
  with lits have json: "list_all one_line (to_json_lines f)" "list_all one_line (from_json_lines f)"
    unfolding to_json_lines_def from_json_lines_def by (simp_all only: list_all_append list.pred_inject(1) split: if_split) simp_all
  have binary: "list_all one_line (map to_binary_line (f_fields f))" "list_all one_line (map from_binary_line (f_fields f))"
    "list_all one_line (map from_kv_line (f_fields f))"
    by (rule members; use one_line_members(1-3) n in blast)+
  have "list_all one_line (concat (map (accessor_lines f) (f_fields f)))"
    using m one_line_members(6) [OF _ _ n] unfolding list_all_iff by (auto simp: image_iff)
  moreover have "list_all one_line (construction_lines f @ [[]])"
    using n by (simp add: construction_lines_def one_line_def)
  moreover have "list_all (\<lambda>p. one_line (snd p)) (f_fields f)" using m by (auto simp: list_all_iff)
  moreover have "one_line ''to_binary''" "one_line ''from_binary''" "one_line ''to_json''" "one_line ''from_json''"
    "one_line ''to_kv''" "one_line ''from_kv''" by (simp_all add: one_line_def)
  ultimately show ?thesis
    unfolding source_lines_def
    using one_line_struct [OF m n] json binary n
    by (simp add: one_line_functions one_line_kv del: list.pred_map)
qed

lemma lines_of_file:
  assumes "list_all one_line ls"
  shows "lines (unlines ls) = ls @ [[]]"
  using lines_unlines [of ls "[]"] split_on_none [of "[nl]" "[]"] assms
  by (simp add: one_line_def [abs_def] lines_def)

section \<open>Both bodies of a message\<close>

lemma generated_body_roundtrip:
  assumes "wf_base f" and "list_all ident_char (f_name f)" and "list_all (carries lim custom obj) (f_fields f)"
    and "\<And>fn. head_line (f_name f) fn \<notin> set pre" and "list_all one_line (pre @ source_lines f @ post)"
    and "ls = lines (unlines (pre @ source_lines f @ post))"
  shows "\<exists>bs l. run_to_binary (function_body (f_name f) ''to_binary'' ls) obj [] = Some bs \<and>
           run_from_binary lim custom (function_body (f_name f) ''from_binary'' ls) = Some l \<and>
           (\<forall>obj0 rest. l obj0 (bs @ rest) = (None, override_on obj0 obj (snd ` set (f_fields f)), rest))"
proof -
  have ls: "ls = pre @ source_lines f @ (post @ [[]])" using lines_of_file [OF assms(5)] assms(6) by simp
  note found = binary_bodies_found [OF assms(4,4), of "post @ [[]]"]
  have m: "list_all (\<lambda>(t, n). type_text t \<and> list_all ident_char n) (f_fields f)" using assms(1) by (simp add: wf_base_def)
  obtain l where "run_from_binary lim custom (map from_binary_line (f_fields f)) = Some l"
    "\<And>obj0. loads l (payload obj (f_fields f)) obj0 (override_on obj0 obj (snd ` set (f_fields f)))"
    using run_from_binary_lines [OF m assms(3)] by auto
  moreover have "run_to_binary (map to_binary_line (f_fields f)) obj [] = Some (payload obj (f_fields f))"
    using run_to_binary_lines [OF m assms(3), of "[]"] by simp
  ultimately show ?thesis unfolding ls found by (auto simp: loads_def)
qed

lemma ident_names: "ident n \<Longrightarrow> list_all ident_char (n @ ''_req_body'')" "ident n \<Longrightarrow> list_all ident_char (n @ ''_resp_body'')"
  by (simp_all add: ident_def ident_char_def is_alnum_def is_alpha_def)

lemma wf_member_fields:
  assumes "members_ok ms"
  shows "wf_base \<lparr>f_type = t, f_name = n, f_fields = member_fields ms\<rparr>"
proof -
  have "type_text (cpp_type e)" if "type_ok e" for e
    using that type_text_intros by (cases e) (auto simp: ident_def)
  moreover have "map snd (member_fields ms) = map snd ms" by (simp add: member_fields_def)
  moreover have "list_all (\<lambda>(t, n). type_text t \<and> list_all ident_char n) (member_fields ms)"
    if "\<And>e. type_ok e \<Longrightarrow> type_text (cpp_type e)"
    using assms that by (fastforce simp: members_ok_def member_fields_def list_all_iff ident_def)
  ultimately show ?thesis using assms by (simp add: wf_base_def members_ok_def)
qed

lemma wf_field_of: "decl_ok d \<Longrightarrow> wf_field (field_of d)"
proof (cases d)
  case (Enum n xs)
  moreover assume "decl_ok d"
  ultimately show ?thesis
    by (auto simp: wf_base_def comp_def list_all_iff ident_def type_text_def)
qed (auto simp: wf_part_def wf_member_fields ident_def)

fun is_message :: "decl \<Rightarrow> bool" where
  "is_message (Message _ _ _ _) = True"
| "is_message _ = False"

lemma body_lines_types: "list_all (\<lambda>d. \<not> is_message d) ts \<Longrightarrow> concat (map (body_lines \<circ> field_of) ts) = replicate (length ts) []"
proof (induction ts)
  case (Cons d ts)
  then show ?case by (cases d) simp_all
qed simp

lemma cpp_generator_written:
  assumes "list_all wf_field fs"
  shows "cpp_generator_run ostream_new ostream_new fs protocol =
           Inr (at_end (unlines (concat (map header_lines fs) @ [[]] @ concat (map (all_alias_lines protocol) fs))),
                at_end (unlines (concat (map body_lines fs))))"
proof -
  have new: "ostream_new = at_end []" by (simp add: ostream_new_def at_end_def)
  show ?thesis
    using generate_fields_written [OF assms, of "[]" "[]"] generate_aliases_written [OF assms, of protocol]
    by (simp add: cpp_generator_run_def new written)
qed

section \<open>Properties\<close>

text \<open>
  C11. What the generator writes, for every schema the parser can return: the header is the
  declarations of the structures, enumerations and body classes, in order, followed by the
  aliases of the messages, and the source the member functions of the bodies, line by line; the
  overwriting of the last comma leaves a list of names separated by commas.
\<close>

theorem generated_files:
  assumes "list_all wf_field fs"
  shows "cpp_generator_run ostream_new ostream_new fs protocol =
           Inr (at_end (unlines (concat (map header_lines fs) @ [[]] @ concat (map (all_alias_lines protocol) fs))),
                at_end (unlines (concat (map body_lines fs))))"
  using assms by (rule cpp_generator_written)

theorem generated_files_witness:
  "cpp_generator_run ostream_new ostream_new
     [Data_field \<lparr>f_type = st_structure, f_name = ''p'', f_fields = [(''int32'', ''a''), (''string'', ''b'')]\<rparr>] ''tcp'' =
   Inr (at_end (unlines [[], ''struct p'', ''{'', [tab] @ ''int32 a;'', [tab] @ ''string b;'', ''};'',
                         ''AQUARIUS_SERIALIZE_STRUCT(p, (a, b))'', []]), at_end [nl])"
proof -
  have "list_all wf_field [Data_field \<lparr>f_type = st_structure, f_name = ''p'', f_fields = [(''int32'', ''a''), (''string'', ''b'')]\<rparr>]"
    by (simp add: wf_base_def type_text_def ident_char_def is_alnum_def is_alpha_def is_digit_def)
  from generated_files [OF this, of "''tcp''"] show ?thesis
    by (simp add: struct_lines_def head_text_def member_lines_def macro_line_def)
qed

text \<open>
  C6. From schema to behaviour. A schema file with structures, enumerations and one message is
  parsed, the source file is generated, and the functions \<open>to_binary\<close> and \<open>from_binary\<close> of the
  request and of the response body that are found in its text are inverse: whatever values the
  members have, as long as their types are known and the wire format can carry them, the bytes
  written are read back into the same members, and what follows is left in the buffer.
\<close>

theorem generated_codec_roundtrip:
  assumes "list_all decl_ok (ts @ [Message n r qs ps])" and "list_all (\<lambda>d. \<not> is_message d) ts"
    and "(sfx, ms) \<in> {(''_req_body'', qs), (''_resp_body'', ps)}"
    and "list_all (carries lim custom obj) (member_fields ms)"
  shows "\<exists>fs header source bs l.
           fst (schema_run (Some (concat (map print_decl (ts @ [Message n r qs ps])))) schema_new) = Inr fs \<and>
           cpp_generator_run ostream_new ostream_new fs protocol = Inr (header, source) \<and>
           run_to_binary (function_body (n @ sfx) ''to_binary'' (lines (out_text source))) obj [] = Some bs \<and>
           run_from_binary lim custom (function_body (n @ sfx) ''from_binary'' (lines (out_text source))) = Some l \<and>
           (\<forall>obj0 rest. l obj0 (bs @ rest) = (None, override_on obj0 obj (snd ` set (member_fields ms)), rest))"
proof -
  let ?fs = "map field_of (ts @ [Message n r qs ps])"
  let ?q = "\<lparr>f_type = st_request, f_name = n @ ''_req_body'', f_fields = member_fields qs\<rparr>"
  let ?p = "\<lparr>f_type = st_response, f_name = n @ ''_resp_body'', f_fields = member_fields ps\<rparr>"
  let ?start = "replicate (length ts) [] @ [[]]"
  have ok: "ident n" "members_ok qs" "members_ok ps" using assms(1) by simp_all
  note names = ident_names [OF ok(1)]
  have wf: "list_all wf_field ?fs"
    using assms(1) unfolding list.pred_map comp_def by (rule list.pred_mono_strong) (rule wf_field_of)
  have body: "concat (map body_lines ?fs) = ?start @ source_lines ?q @ source_lines ?p"
    using body_lines_types [OF assms(2)] by simp
  have run: "fst (schema_run (Some (concat (map print_decl (ts @ [Message n r qs ps])))) schema_new) = Inr ?fs"
    using schema_loop_decls [OF assms(1), of "[]" schema_new] by (auto simp: schema_run_def schema_new_def)
  have gen: "\<exists>header. cpp_generator_run ostream_new ostream_new ?fs protocol =
      Inr (header, at_end (unlines (?start @ source_lines ?q @ source_lines ?p)))"
    using cpp_generator_written [OF wf, of protocol] unfolding body by blast
  have start: "head_line nm fn \<notin> set ?start" for nm fn by (auto simp: head_line_def)
  have other: "head_line (n @ ''_resp_body'') fn \<notin> set (?start @ source_lines ?q)" for fn
    using start [of "n @ ''_resp_body''" fn] head_in_source_lines [of "n @ ''_resp_body''" fn ?q] names by auto
  have one: "list_all one_line (?start @ source_lines ?q @ source_lines ?p)"
  proof -
    have "list_all one_line ?start" by (simp add: list_all_iff one_line_def)
    moreover have "list_all one_line (source_lines ?q)" "list_all one_line (source_lines ?p)"
      using wf_member_fields [OF ok(2)] wf_member_fields [OF ok(3)] names by (simp_all add: one_line_source)
    ultimately show ?thesis by simp
  qed
  have "\<exists>bs l. run_to_binary (function_body (n @ sfx) ''to_binary'' (lines (unlines (?start @ source_lines ?q @ source_lines ?p)))) obj [] = Some bs \<and>
           run_from_binary lim custom (function_body (n @ sfx) ''from_binary'' (lines (unlines (?start @ source_lines ?q @ source_lines ?p)))) = Some l \<and>
           (\<forall>obj0 rest. l obj0 (bs @ rest) = (None, override_on obj0 obj (snd ` set (member_fields ms)), rest))"
    using assms(3)
  proof (elim insertE emptyE)
    assume "(sfx, ms) = (''_req_body'', qs)"
    then show ?thesis
      using generated_body_roundtrip [of ?q lim custom obj ?start "source_lines ?p"] wf_member_fields [OF ok(2)] names
        assms(4) start one by simp
  next
    assume "(sfx, ms) = (''_resp_body'', ps)"
    then show ?thesis
      using generated_body_roundtrip [of ?p lim custom obj "?start @ source_lines ?q" "[]"] wf_member_fields [OF ok(3)] names
        assms(4) other one by simp
  qed
  with run gen show ?thesis by (fastforce simp: at_end_def)
qed

theorem generated_codec_roundtrip_witness:
  "\<exists>fs header source bs l.
     fst (schema_run (Some (print_decl (Message ''login'' ''/login'' [(Plain ''string'', ''name''), (Repeated ''int32'', ''ids'')] []))) schema_new) = Inr fs \<and>
     cpp_generator_run ostream_new ostream_new fs ''tcp'' = Inr (header, source) \<and>
     run_to_binary (function_body ''login_req_body'' ''to_binary'' (lines (out_text source)))
       [''name'' \<mapsto> V_string ''ab'', ''ids'' \<mapsto> V_vector [V_uint32 1, V_uint32 300]] [] = Some bs \<and>
     run_from_binary \<lparr>string_max = 100, vector_max = 100\<rparr> [] (function_body ''login_req_body'' ''from_binary'' (lines (out_text source))) = Some l \<and>
     l (\<lambda>_. None) bs = (None, [''name'' \<mapsto> V_string ''ab'', ''ids'' \<mapsto> V_vector [V_uint32 1, V_uint32 300]], [])"
proof -
  let ?obj = "[''name'' \<mapsto> V_string ''ab'', ''ids'' \<mapsto> V_vector [V_uint32 1, V_uint32 300]]"
  let ?ms = "[(Plain ''string'', ''name''), (Repeated ''int32'', ''ids'')]"
  let ?lim = "\<lparr>string_max = 100, vector_max = 100\<rparr>"
  have ok: "list_all decl_ok ([] @ [Message ''login'' ''/login'' ?ms []])"
    by (simp add: ident_def ident_char_def is_alnum_def is_alpha_def is_digit_def router_ok_def token_char_def accepts_def
        classifiable_def is_space_def members_ok_def)
  have "denote [] ''string'' = Some T_string" "denote [] ''std::vector<int32>'' = Some (T_vector T_uint32)" by code_simp+
  then have "list_all (carries ?lim [] ?obj) (member_fields ?ms)" by (simp add: carries_def member_fields_def)
  from generated_codec_roundtrip [OF ok _ _ this, of "''_req_body''" "''tcp''"]
  obtain fs header source bs l where
    "fst (schema_run (Some (print_decl (Message ''login'' ''/login'' ?ms []))) schema_new) = Inr fs"
    "cpp_generator_run ostream_new ostream_new fs ''tcp'' = Inr (header, source)"
    "run_to_binary (function_body ''login_req_body'' ''to_binary'' (lines (out_text source))) ?obj [] = Some bs"
    "run_from_binary ?lim [] (function_body ''login_req_body'' ''from_binary'' (lines (out_text source))) = Some l"
    "\<forall>obj0 rest. l obj0 (bs @ rest) = (None, override_on obj0 ?obj (snd ` set (member_fields ?ms)), rest)"
    by (auto simp del: print_decl.simps)
  moreover from this(5) have "l (\<lambda>_. None) (bs @ []) = (None, override_on (\<lambda>_. None) ?obj (snd ` set (member_fields ?ms)), [])"
    by blast
  moreover have "override_on (\<lambda>_. None) ?obj (snd ` set (member_fields ?ms)) = ?obj"
    by (auto simp: override_on_def member_fields_def fun_eq_iff)
  ultimately show ?thesis by auto
qed

end
