(* ===== verification/Command_Interface.thy ===== *)
theory Command_Interface
  imports Generated_Properties
begin

text \<open>
  The command line of the code generator (src/lazytool/command_interface.h,
  src/lazytool/command_interface.cpp, src/lazytool/lazytool.cpp). A \<open>std::filesystem::path\<close> is
  its text, with the operations of a POSIX system. The file system is the contents of its
  files, and as parameters the current directory, which names are directories and which files
  can be opened for writing. What is printed on the standard output is left out.
\<close>

section \<open>Paths\<close>

definition path_append :: "string \<Rightarrow> string \<Rightarrow> string" where
  "path_append p q =
     (if q \<noteq> [] \<and> hd q = CHR ''/'' then q
      else if p \<noteq> [] \<and> last p \<noteq> CHR ''/'' then p @ ''/'' @ q
      else p @ q)"

definition path_filename :: "string \<Rightarrow> string" where
  "path_filename p = rev (takeWhile (\<lambda>c. c \<noteq> CHR ''/'') (rev p))"

definition parent_path :: "string \<Rightarrow> string" where
  "parent_path p =
     (let d = rev (dropWhile (\<lambda>c. c \<noteq> CHR ''/'') (rev p));
          d' = rev (dropWhile (\<lambda>c. c = CHR ''/'') (rev d))
      in if d' = [] \<and> d \<noteq> [] then ''/'' else d')"

definition path_extension :: "string \<Rightarrow> string" where
  "path_extension p =
     (let f = path_filename p; e = takeWhile (\<lambda>c. c \<noteq> CHR ''.'') (rev f)
      in if f = ''.'' \<or> f = ''..'' then []
         else if length e = length f \<or> Suc (length e) = length f then []
         else CHR ''.'' # rev e)"

section \<open>State\<close>

record environment =
  current_path :: string
  is_directory :: "string \<Rightarrow> bool"
  writable :: "string \<Rightarrow> bool"

type_synonym file_system = "string \<rightharpoonup> string"

text \<open>
  The only schema is registered under \<open>.virgo\<close> by the constructor, the only generator under
  \<open>--cpp_out\<close> by \<open>main\<close>.
\<close>

record command_interface =
  generators :: "string list"
  cli_schema :: schema
  input_files :: "string list"
  output_file_path :: string
  input_dir :: string
  cli_protocol :: string
  output_state :: string

definition command_interface_new :: command_interface where
  "command_interface_new =
     \<lparr>generators = [], cli_schema = schema_new, input_files = [], output_file_path = [], input_dir = [],
      cli_protocol = [], output_state = []\<rparr>"

definition cli_regist :: "string \<Rightarrow> command_interface \<Rightarrow> command_interface" where
  "cli_regist command c =
     (if List.member (generators c) command then c else c\<lparr>generators := generators c @ [command]\<rparr>)"

section \<open>Options\<close>

definition check_suffix :: "string \<Rightarrow> bool" where
  "check_suffix file_path \<longleftrightarrow> path_extension file_path = ''.virgo''"

definition path_absolute :: "environment \<Rightarrow> string \<Rightarrow> string" where
  "path_absolute env p = path_append (current_path env) p"

definition parse_line :: "environment \<Rightarrow> string \<Rightarrow> string \<Rightarrow> command_interface \<Rightarrow> bool \<times> command_interface" where
  "parse_line env command value c =
     (if command = ''--help'' \<or> command = ''-h'' then (False, c)
      else if command = ''--version'' \<or> command = ''-v'' then (False, c)
      else if command = ''--cpp_out''
      then if \<not> is_directory env value then (False, c)
           else if value = [] then (False, c)
           else (True, c\<lparr>output_file_path := path_absolute env value, output_state := command\<rparr>)
      else if command = ''--input_dir''
      then if \<not> is_directory env value then (False, c)
           else (True, c\<lparr>input_dir := path_absolute env value\<rparr>)
      else if command = ''--protocol'' \<or> command = ''-p'' then (True, c\<lparr>cli_protocol := value\<rparr>)
      else (True, c))"

text \<open>
  One argument. A long option needs an equals sign; a short one needs a space inside the same
  argument and is passed on without its dash.
\<close>

definition parse_argument :: "environment \<Rightarrow> string \<Rightarrow> command_interface \<Rightarrow> bool \<times> command_interface" where
  "parse_argument env line c =
     (if length line < 2 then (False, c)
      else if line ! 0 \<noteq> CHR ''-''
      then if \<not> check_suffix line then (False, c) else (True, c\<lparr>input_files := input_files c @ [line]\<rparr>)
      else if line ! 1 = CHR ''-''
      then (case cut_at ''='' line of
              None \<Rightarrow> (False, c)
            | Some (command, value) \<Rightarrow> parse_line env command value c)
      else (case find_first_of '' '' line 0 of
              None \<Rightarrow> (False, c)
            | Some pos \<Rightarrow>
                let line' = take (pos - 1) (drop 1 line)
                in if length line' \<noteq> 1 then (False, c) else parse_line env line' [] c))"

fun parse_arguments :: "environment \<Rightarrow> string list \<Rightarrow> command_interface \<Rightarrow> bool \<times> command_interface" where
  "parse_arguments env [] c = (True, c)"
| "parse_arguments env (line # rest) c =
     (case parse_argument env line c of
        (False, c') \<Rightarrow> (False, c')
      | (True, c') \<Rightarrow> parse_arguments env rest c')"

definition parse_command :: "environment \<Rightarrow> string list \<Rightarrow> command_interface \<Rightarrow> bool \<times> command_interface" where
  "parse_command env argv c =
     (if length argv < 2 then (False, c) else parse_arguments env (drop 1 argv) c)"

section \<open>Running\<close>

definition header_preamble :: "string \<Rightarrow> string" where
  "header_preamble protocol =
     ''#pragma once'' @ [nl] @ ''#include <aquarius/serialize/serialization.hpp>'' @ [nl] @
     ''#include <aquarius/virgo/'' @ protocol @ ''_request.hpp>'' @ [nl] @
     ''#include <aquarius/virgo/'' @ protocol @ ''_response.hpp>'' @ [nl] @ ''using namespace aquarius;'' @ [nl]"

definition source_preamble :: "string \<Rightarrow> string" where
  "source_preamble name =
     ''#include '' @ [dq] @ name @ ''.h'' @ [dq, nl] @ ''#include <aquarius/serialize/binary.hpp>'' @ [nl] @
     ''#include <aquarius/serialize/json.hpp>'' @ [nl] @ ''#include <aquarius/serialize/kv.hpp>'' @ [nl] @ [nl] @
     ''using namespace aquarius;'' @ [nl]"

text \<open>\<open>std::fstream(name, std::ios::out)\<close> creates or empties the file when it can be opened.\<close>

definition open_out :: "environment \<Rightarrow> string \<Rightarrow> file_system \<Rightarrow> bool \<times> file_system" where
  "open_out env name fs = (if writable env name then (True, fs(name \<mapsto> [])) else (False, fs))"

datatype cli_step = Cli_next | Cli_return int | Cli_fault fault

text \<open>One round of the loop of \<open>run\<close>; \<open>path\<close> is the variable that \<open>append\<close> changes.\<close>

definition run_file :: "environment \<Rightarrow> string \<Rightarrow> string \<Rightarrow> command_interface \<Rightarrow> file_system
    \<Rightarrow> cli_step \<times> string \<times> command_interface \<times> file_system" where
  "run_file env path file c fs =
     (let target = path_append path file
      in if path_extension target \<noteq> ''.virgo'' then (Cli_next, target, c, fs)
         else case schema_run (fs target) (cli_schema c) of
                (Inl x, sch) \<Rightarrow> (Cli_fault x, target, c\<lparr>cli_schema := sch\<rparr>, fs)
              | (Inr datas, sch) \<Rightarrow>
                  let c1 = c\<lparr>cli_schema := sch\<rparr>
                  in if \<not> List.member (generators c) (output_state c) then (Cli_next, target, c1, fs)
                     else
                       let target_path = path_append (parent_path target) (path_filename target);
                           (h_open, fs1) = open_out env (target_path @ ''.h'') fs;
                           (s_open, fs2) = open_out env (target_path @ ''.cpp'') fs1
                       in if \<not> h_open \<or> \<not> s_open then (Cli_return 0, target, c1, fs2)
                          else case cpp_generator_run
                                      (emit (header_preamble (cli_protocol c)) ostream_new)
                                      (emit (source_preamble (path_filename target_path)) ostream_new)
                                      datas (cli_protocol c) of
                                 Inl x \<Rightarrow> (Cli_fault x, target, c1, fs2)
                               | Inr (header, source) \<Rightarrow>
                                   (Cli_next, target, c1,
                                    fs2(target_path @ ''.h'' \<mapsto> out_text header, target_path @ ''.cpp'' \<mapsto> out_text source)))"

fun run_files :: "environment \<Rightarrow> string list \<Rightarrow> string \<Rightarrow> command_interface \<Rightarrow> file_system
    \<Rightarrow> (fault + int) \<times> command_interface \<times> file_system" where
  "run_files env [] path c fs = (Inr 0, c, fs)"
| "run_files env (file # rest) path c fs =
     (case run_file env path file c fs of
        (Cli_next, path', c', fs') \<Rightarrow> run_files env rest path' c' fs'
      | (Cli_return i, _, c', fs') \<Rightarrow> (Inr i, c', fs')
      | (Cli_fault x, _, c', fs') \<Rightarrow> (Inl x, c', fs'))"

definition cli_run :: "environment \<Rightarrow> string list \<Rightarrow> command_interface \<Rightarrow> file_system
    \<Rightarrow> (fault + int) \<times> command_interface \<times> file_system" where
  "cli_run env argv c fs =
     (case parse_command env argv c of
        (False, c') \<Rightarrow> (Inr 0, c', fs)
      | (True, c') \<Rightarrow>
          run_files env (input_files c') (if input_dir c' = [] then current_path env else input_dir c') c' fs)"

definition lazytool_main :: "environment \<Rightarrow> string list \<Rightarrow> file_system \<Rightarrow> (fault + int) \<times> command_interface \<times> file_system" where
  "lazytool_main env argv fs = cli_run env argv (cli_regist ''--cpp_out'' command_interface_new) fs"

section \<open>Paths of the inputs\<close>

text \<open>A directory name without a trailing slash, and the name of a file.\<close>

definition dir_name :: "string \<Rightarrow> bool" where
  "dir_name d \<longleftrightarrow> d \<noteq> [] \<and> hd d = CHR ''/'' \<and> last d \<noteq> CHR ''/''"

definition base_name :: "string \<Rightarrow> bool" where
  "base_name f \<longleftrightarrow> f \<noteq> [] \<and> CHR ''/'' \<notin> set f"

lemma path_append_base: "d \<noteq> [] \<Longrightarrow> last d \<noteq> CHR ''/'' \<Longrightarrow> base_name f \<Longrightarrow> path_append d f = d @ ''/'' @ f"
  by (cases f) (auto simp: path_append_def base_name_def)

lemma takeWhile_rev_base:
  assumes "base_name f"
  shows "takeWhile (\<lambda>c. c \<noteq> CHR ''/'') (rev f @ x) = rev f @ takeWhile (\<lambda>c. c \<noteq> CHR ''/'') x"
    and "dropWhile (\<lambda>c. c \<noteq> CHR ''/'') (rev f @ x) = dropWhile (\<lambda>c. c \<noteq> CHR ''/'') x"
  using assms by (auto simp: base_name_def intro!: takeWhile_append2 dropWhile_append2)

lemma path_filename_base: "base_name f \<Longrightarrow> path_filename (d @ ''/'' @ f) = f"
  by (simp add: path_filename_def takeWhile_rev_base)

lemma parent_path_base:
  assumes "base_name f" and "d \<noteq> []" and "last d \<noteq> CHR ''/''"
  shows "parent_path (d @ ''/'' @ f) = d"
  using assms by (cases d rule: rev_cases) (simp_all add: parent_path_def takeWhile_rev_base)

lemma path_extension_base:
  assumes "base_name f"
  shows "path_extension (d @ ''/'' @ f) = path_extension f"
proof -
  have "takeWhile (\<lambda>c. c \<noteq> CHR ''/'') (rev f) = rev f"
    using assms by (subst takeWhile_eq_all_conv) (auto simp: base_name_def)
  then have "path_filename f = f" by (simp only: path_filename_def rev_rev_ident)
  then show ?thesis using path_filename_base [OF assms, of d] by (simp add: path_extension_def)
qed

lemma target_path_base:
  "base_name f \<Longrightarrow> d \<noteq> [] \<Longrightarrow> last d \<noteq> CHR ''/'' \<Longrightarrow>
     path_append (parent_path (d @ ''/'' @ f)) (path_filename (d @ ''/'' @ f)) = d @ ''/'' @ f"
  using parent_path_base [of f d] path_filename_base [of f d] path_append_base [of d f] by simp

section \<open>Options and files\<close>

lemma parse_long_option:
  assumes "CHR ''='' \<notin> set cmd"
  shows "parse_argument env (CHR ''-'' # CHR ''-'' # cmd @ ''='' @ value) c = parse_line env (''--'' @ cmd) value c"
  using cut_at_append [of "''=''" "''--'' @ cmd" "value"] assms by (simp add: parse_argument_def)

definition generated_header :: "string \<Rightarrow> field list \<Rightarrow> string" where
  "generated_header protocol fds =
     header_preamble protocol @
     unlines (concat (map header_lines fds) @ [[]] @ concat (map (all_alias_lines protocol) fds))"

definition generated_source :: "string \<Rightarrow> field list \<Rightarrow> string" where
  "generated_source name fds = source_preamble name @ unlines (concat (map body_lines fds))"

lemma run_file_generates:
  assumes "dir_name d" and "base_name f" and "path_extension f = ''.virgo''"
    and "fs (d @ ''/'' @ f) = Some txt" and "schema_run (Some txt) (cli_schema c) = (Inr fds, sch)" and "list_all wf_field fds"
    and "writable env (d @ ''/'' @ f @ ''.h'')" and "writable env (d @ ''/'' @ f @ ''.cpp'')"
    and "output_state c \<in> set (generators c)"
  shows "run_file env d f c fs =
           (Cli_next, d @ ''/'' @ f, c\<lparr>cli_schema := sch\<rparr>,
            fs(d @ ''/'' @ f @ ''.h'' \<mapsto> generated_header (cli_protocol c) fds,
               d @ ''/'' @ f @ ''.cpp'' \<mapsto> generated_source f fds))"
proof -
  have d: "d \<noteq> []" "last d \<noteq> CHR ''/''" using assms(1) by (simp_all add: dir_name_def)
  have t: "path_append d f = d @ ''/'' @ f" using d assms(2) by (rule path_append_base)
  have new: "emit x ostream_new = at_end x" for x by (simp add: ostream_new_def at_end_def emit_def)
  have gen: "cpp_generator_run (at_end (header_preamble (cli_protocol c))) (at_end (source_preamble f)) fds (cli_protocol c) =
      Inr (at_end (generated_header (cli_protocol c) fds), at_end (generated_source f fds))"
    using generate_fields_written [OF assms(6)] generate_aliases_written [OF assms(6)]
    by (simp add: cpp_generator_run_def emit_at_end generated_header_def generated_source_def)
  have upd: "(fs(h \<mapsto> [], s \<mapsto> []))(h \<mapsto> x, s \<mapsto> y) = fs(h \<mapsto> x, s \<mapsto> y)" for h s x y by (auto simp: fun_eq_iff)
  show ?thesis
    unfolding run_file_def Let_def t target_path_base [OF assms(2) d]
    unfolding path_extension_base [OF assms(2)] path_filename_base [OF assms(2)] new
    using assms(3-9) gen upd [of "d @ ''/'' @ f @ ''.h''" "d @ ''/'' @ f @ ''.cpp''"]
    by (simp add: open_out_def at_end_def)
qed

text \<open>A second input is looked for under the name of the first, as if that were a directory.\<close>

lemma second_input_misplaced:
  assumes "run_file env d f1 c fs = (Cli_next, d @ ''/'' @ f1, c1, fs1)" and "dir_name d" and "base_name f1" and "base_name f2"
    and "path_extension f2 = ''.virgo''" and "fs1 (d @ ''/'' @ f1 @ ''/'' @ f2) = None"
    and "\<not> writable env (d @ ''/'' @ f1 @ ''/'' @ f2 @ ''.h'')" and "\<not> writable env (d @ ''/'' @ f1 @ ''/'' @ f2 @ ''.cpp'')"
  shows "run_files env [f1, f2] d c fs = (Inr 0, c1, fs1)"
proof -
  let ?d = "d @ ''/'' @ f1"
  have "f1 \<noteq> []" "last f1 \<noteq> CHR ''/''" using assms(3) last_in_set [of f1] unfolding base_name_def by metis+
  then have d: "?d \<noteq> []" "last ?d \<noteq> CHR ''/''" by simp_all
  have t: "path_append ?d f2 = ?d @ ''/'' @ f2" using d assms(4) by (rule path_append_base)
  have "\<exists>p. run_file env ?d f2 c1 fs1 = (Cli_return 0, p, c1, fs1) \<or> run_file env ?d f2 c1 fs1 = (Cli_next, p, c1, fs1)"
    unfolding run_file_def Let_def t target_path_base [OF assms(4) d] path_extension_base [OF assms(4)]
    using assms(5-8) by (simp add: schema_run_def open_out_def)
  then show ?thesis using assms(1) by auto
qed

section \<open>Properties\<close>

text \<open>
  C31. The tool from the command line: given the input directory, an output directory, the
  protocol and the name of a schema file with proper declarations, it writes the header and the
  source generated from them, with their preambles, next to the schema file, changes no other
  file and returns 0. The output directory has no effect on where they are written.
\<close>

theorem lazytool_generates:
  assumes "dir_name d" and "base_name f" and "check_suffix f" and "2 \<le> length f" and "f ! 0 \<noteq> CHR ''-''"
    and "is_directory env d" and "is_directory env out" and "out \<noteq> []"
    and "list_all decl_ok ds" and "fs (d @ ''/'' @ f) = Some (concat (map print_decl ds))"
    and "writable env (d @ ''/'' @ f @ ''.h'')" and "writable env (d @ ''/'' @ f @ ''.cpp'')"
  shows "\<exists>c. lazytool_main env [''lazytool'', ''--input_dir='' @ d, ''--cpp_out='' @ out, ''--protocol='' @ protocol, f] fs =
           (Inr 0, c, fs(d @ ''/'' @ f @ ''.h'' \<mapsto> generated_header protocol (map field_of ds),
                         d @ ''/'' @ f @ ''.cpp'' \<mapsto> generated_source f (map field_of ds)))"
proof -
  let ?c = "\<lparr>generators = [''--cpp_out''], cli_schema = schema_new, input_files = [f], output_file_path = path_absolute env out,
      input_dir = d, cli_protocol = protocol, output_state = ''--cpp_out''\<rparr>"
  have abs: "path_absolute env d = d" using assms(1) by (simp add: path_absolute_def path_append_def dir_name_def)
  have "parse_command env [''lazytool'', ''--input_dir='' @ d, ''--cpp_out='' @ out, ''--protocol='' @ protocol, f]
      (cli_regist ''--cpp_out'' command_interface_new) = (True, ?c)"
    using parse_long_option [of "''input_dir''" env d] parse_long_option [of "''cpp_out''" env out]
      parse_long_option [of "''protocol''" env protocol] assms(3-8) abs
    by (simp add: parse_command_def parse_line_def cli_regist_def command_interface_new_def parse_argument_def [of env f])
  moreover obtain sch where "schema_run (Some (concat (map print_decl ds))) schema_new = (Inr (map field_of ds), sch)"
    using schema_loop_decls [OF assms(9), of "[]" schema_new] by (auto simp: schema_run_def schema_new_def)
  moreover have "list_all wf_field (map field_of ds)"
    using assms(9) unfolding list.pred_map comp_def by (rule list.pred_mono_strong) (rule wf_field_of)
  moreover have "path_extension f = ''.virgo''" using assms(3) by (simp add: check_suffix_def)
  ultimately show ?thesis
    using run_file_generates [OF assms(1,2), of fs "concat (map print_decl ds)" ?c "map field_of ds" sch env] assms(1,10-12)
    by (simp add: lazytool_main_def cli_run_def dir_name_def)
qed

theorem lazytool_generates_witness:
  "\<exists>c. lazytool_main \<lparr>current_path = ''/home'', is_directory = (\<lambda>p. p \<in> {''/w'', ''/o''}), writable = (\<lambda>_. True)\<rparr>
     [''lazytool'', ''--input_dir=/w'', ''--cpp_out=/o'', ''--protocol=tcp'', ''a.virgo'']
     [''/w/a.virgo'' \<mapsto> print_decl (Enum ''e'' [''x''])] =
   (Inr 0, c, [''/w/a.virgo'' \<mapsto> print_decl (Enum ''e'' [''x'']),
               ''/w/a.virgo.h'' \<mapsto> generated_header ''tcp'' [field_of (Enum ''e'' [''x''])],
               ''/w/a.virgo.cpp'' \<mapsto> generated_source ''a.virgo'' [field_of (Enum ''e'' [''x''])]])"
proof -
  have "check_suffix ''a.virgo''" by code_simp
  moreover have "list_all decl_ok [Enum ''e'' [''x'']]"
    by (simp add: ident_def ident_char_def is_alnum_def is_alpha_def)
  ultimately show ?thesis
    using lazytool_generates [of "''/w''" "''a.virgo''"
        "\<lparr>current_path = ''/home'', is_directory = (\<lambda>p. p \<in> {''/w'', ''/o''}), writable = (\<lambda>_. True)\<rparr>" "''/o''"
        "[Enum ''e'' [''x'']]" "[''/w/a.virgo'' \<mapsto> print_decl (Enum ''e'' [''x''])]" "''tcp''"]
    by (simp add: dir_name_def base_name_def del: print_decl.simps field_of.simps)
qed

end
