(* ===== verification/Client.thy ===== *)
theory Client
  imports Rpc "HOL-Library.Multiset"
begin

text \<open>
  The client of a service (include/aquarius/basic_client.hpp) over TCP, and the sequence of
  calls and frames of one connection as a transition system.

  The functions set by \<open>set_close_func\<close> and \<open>set_accept_func\<close> are called and their result is
  dropped; each is its effect on the state \<open>'w\<close> of the program. Spawning the loop over \<open>query\<close>
  is the flag \<open>querying\<close>.
\<close>

section \<open>State\<close>

record ('s, 'w) client =
  proto_ptr :: "('s, 'w) tcp option"
  close_func :: "('w \<Rightarrow> 'w) option"
  accept_func :: "('w \<Rightarrow> 'w) option"
  client_host :: string
  client_port :: "16 word"
  client_timeout :: int
  querying :: bool

definition client_new :: "int \<Rightarrow> ('s, 'w) client" where
  "client_new dura =
     \<lparr>proto_ptr = None, close_func = None, accept_func = None, client_host = [], client_port = 0,
      client_timeout = dura, querying = False\<rparr>"

definition set_close_func :: "('w \<Rightarrow> 'w) \<Rightarrow> ('s, 'w) client \<Rightarrow> ('s, 'w) client" where
  "set_close_func f c = c\<lparr>close_func := Some f\<rparr>"

definition set_accept_func :: "('w \<Rightarrow> 'w) \<Rightarrow> ('s, 'w) client \<Rightarrow> ('s, 'w) client" where
  "set_accept_func f c = c\<lparr>accept_func := Some f\<rparr>"

definition close_invoke :: "('s, 'w) client \<Rightarrow> 'w \<Rightarrow> 'w" where
  "close_invoke c w = (case close_func c of None \<Rightarrow> w | Some f \<Rightarrow> f w)"

definition accept_invoke :: "('s, 'w) client \<Rightarrow> 'w \<Rightarrow> 'w" where
  "accept_invoke c w = (case accept_func c of None \<Rightarrow> w | Some f \<Rightarrow> f w)"

definition tcp_shutdown :: "'s socket_ops \<Rightarrow> ('s, 'w) tcp \<Rightarrow> (fault + bool) \<times> ('s, 'w) tcp" where
  "tcp_shutdown ops t =
     (case session_ptr t of
        None \<Rightarrow> (Inl Undefined, t)
      | Some s \<Rightarrow> (case session_shutdown ops s of (ok, s') \<Rightarrow> (Inr ok, t\<lparr>session_ptr := Some s'\<rparr>)))"

definition tcp_connect :: "'s socket_ops \<Rightarrow> string \<Rightarrow> string \<Rightarrow> ('s, 'w) tcp \<Rightarrow> (fault + error_code) \<times> ('s, 'w) tcp" where
  "tcp_connect ops host port t =
     (case session_ptr t of
        None \<Rightarrow> (Inl Undefined, t)
      | Some s \<Rightarrow> (case session_connect ops host port s of (ec, s') \<Rightarrow> (Inr ec, t\<lparr>session_ptr := Some s'\<rparr>)))"

section \<open>Errors and connection\<close>

definition make_error :: "'s socket_ops \<Rightarrow> error_code \<Rightarrow> ('s, 'w) client \<Rightarrow> 'w \<Rightarrow> (fault + bool) \<times> ('s, 'w) client \<times> 'w" where
  "make_error ops ec c w =
     (if \<not> failed ec then (Inr False, c, w)
      else let w' = close_invoke c w
           in case proto_ptr c of
                None \<Rightarrow> (Inl Undefined, c, w')
              | Some t \<Rightarrow>
                  (case tcp_shutdown ops t of
                     (Inl x, t') \<Rightarrow> (Inl x, c\<lparr>proto_ptr := Some t'\<rparr>, w')
                   | (Inr _, t') \<Rightarrow> (Inr True, c\<lparr>proto_ptr := Some t'\<rparr>, w')))"

text \<open>\<open>sock\<close> is the socket created on the executor, \<open>generated\<close> the number of the new session.\<close>

definition client_connect :: "'s socket_ops \<Rightarrow> 's \<Rightarrow> 32 word \<Rightarrow> string \<Rightarrow> 16 word \<Rightarrow> ('s, 'w) client \<Rightarrow> 'w
    \<Rightarrow> (fault + error_code) \<times> ('s, 'w) client \<times> 'w" where
  "client_connect ops sock generated host port c w =
     (case tcp_connect ops host (to_string (uint port)) (tcp_new (session_new sock (client_timeout c) generated)) of
        (Inl x, t) \<Rightarrow> (Inl x, c\<lparr>proto_ptr := Some t\<rparr>, w)
      | (Inr ec, t) \<Rightarrow>
          (case make_error ops ec (c\<lparr>proto_ptr := Some t\<rparr>) w of
             (Inl x, c', w') \<Rightarrow> (Inl x, c', w')
           | (Inr True, c', w') \<Rightarrow> (Inr ec, c', w')
           | (Inr False, c', w') \<Rightarrow>
               let c2 = c'\<lparr>client_host := host, client_port := port\<rparr>
               in (Inr ec, c2\<lparr>querying := True\<rparr>, accept_invoke c2 w')))"

definition client_close :: "'s socket_ops \<Rightarrow> ('s, 'w) client \<Rightarrow> fault option \<times> ('s, 'w) client" where
  "client_close ops c =
     (case proto_ptr c of
        None \<Rightarrow> (Some Undefined, c)
      | Some t \<Rightarrow> (case tcp_shutdown ops t of
                     (Inl x, t') \<Rightarrow> (Some x, c\<lparr>proto_ptr := Some t'\<rparr>)
                   | (Inr _, t') \<Rightarrow> (None, c\<lparr>proto_ptr := None\<rparr>)))"

section \<open>Calls\<close>

text \<open>
  A call either returns at once or is suspended in \<open>wait(src)\<close>; what the callback made of the
  reply is in the state \<open>'w\<close>.
\<close>

datatype call_state = Returned | Suspended "64 word"

definition async_call :: "'s socket_ops \<Rightarrow> (flex_buffer \<Rightarrow> (fault + error_code) \<times> flex_buffer) \<Rightarrow> 32 word
    \<Rightarrow> 'w callback_func \<Rightarrow> ('s, 'w) client \<Rightarrow> 'w \<Rightarrow> (fault + call_state) \<times> ('s, 'w) client \<times> 'w" where
  "async_call ops commit generated f c w =
     (case proto_ptr c of
        None \<Rightarrow> (Inl Undefined, c, w)
      | Some t \<Rightarrow>
          (case send_request ops commit generated f t of
             (Inl x, _, t') \<Rightarrow> (Inl x, c\<lparr>proto_ptr := Some t'\<rparr>, w)
           | (Inr ec, src, t') \<Rightarrow>
               (case make_error ops ec (c\<lparr>proto_ptr := Some t'\<rparr>) w of
                  (Inl x, c', w') \<Rightarrow> (Inl x, c', w')
                | (Inr True, c', w') \<Rightarrow> (Inr Returned, c', w')
                | (Inr False, c', w') \<Rightarrow> (Inr (Suspended src), c'\<lparr>proto_ptr := Some (tcp_wait src t')\<rparr>, w'))))"

text \<open>
  \<open>async_call_buffer\<close> waits whether or not the request was sent; it looks at the error code
  \<open>ec\<close> of the sending, its second result here, when \<open>wait\<close> has returned.
\<close>

definition async_call_buffer :: "'s socket_ops \<Rightarrow> flex_buffer \<Rightarrow> string \<Rightarrow> 32 word
    \<Rightarrow> 'w callback_func \<Rightarrow> ('s, 'w) client \<Rightarrow> (fault + call_state \<times> error_code) \<times> ('s, 'w) client" where
  "async_call_buffer ops req router generated f c =
     (case proto_ptr c of
        None \<Rightarrow> (Inl Undefined, c)
      | Some t \<Rightarrow>
          (case send_buffer ops req router generated f t of
             (Inl x, _, t') \<Rightarrow> (Inl x, c\<lparr>proto_ptr := Some t'\<rparr>)
           | (Inr ec, src, t') \<Rightarrow> (Inr (Suspended src, ec), c\<lparr>proto_ptr := Some (tcp_wait src t')\<rparr>)))"

definition async_call_buffer_resume :: "'s socket_ops \<Rightarrow> error_code \<Rightarrow> ('s, 'w) client \<Rightarrow> 'w
    \<Rightarrow> (fault + error_code) \<times> ('s, 'w) client \<times> 'w" where
  "async_call_buffer_resume ops ec c w =
     (case make_error ops ec c w of (Inl x, c', w') \<Rightarrow> (Inl x, c', w') | (Inr _, c', w') \<Rightarrow> (Inr ec, c', w'))"

section \<open>A connection as a transition system\<close>

text \<open>
  What happens on a connection, one resumption of a coroutine after the other. A call registers
  its callback and writes its request (\<open>Send\<close>); between this and its going on, other calls and the
  loop over \<open>query\<close> run. It goes on by waiting for its number (\<open>Wait\<close>) or, in \<open>async_call\<close> when
  the writing failed, by calling the close function, shutting the session down and returning
  (\<open>Fail\<close>). A frame arrives and is given to the callback of its number (\<open>Reply\<close>) or, when there is
  none, is treated as a push, after which the context it is for may change the state of the
  program in any way (\<open>Push\<close>). The session may be shut down at any time (\<open>Close\<close>): by the resumption
  of \<open>async_call_buffer\<close>, whose error is looked at after \<open>wait\<close>, or by the client.

  A state has the calls between writing and going on, with the error codes of their writes, and
  the numbers of calls that have returned while their callback may still be registered: such a
  callback refers to a response that is gone, and to run it is undefined, so that there is no
  step for a frame under such a number.
\<close>

datatype call_kind = Request_call | Buffer_call

datatype event = Send "64 word" | Wait "64 word" | Fail "64 word" | Reply "64 word" | Push | Close

type_synonym pending_call = "call_kind \<times> 64 word \<times> error_code"

type_synonym ('s, 'w) connection = "('s, 'w) tcp \<times> pending_call list \<times> 64 word set \<times> 'w"

inductive client_step :: "'s socket_ops \<Rightarrow> limits \<Rightarrow> event \<Rightarrow> ('s, 'w) connection \<Rightarrow> ('s, 'w) connection \<Rightarrow> bool"
  for ops :: "'s socket_ops" and lim :: limits where
  send: "send_request ops commit n f t = (Inr ec, src, t') \<Longrightarrow>
           client_step ops lim (Send src) (t, ps, gone, w) (t', ps @ [(Request_call, src, ec)], gone - {src}, w)"
| send_buf: "send_buffer ops req router n f t = (Inr ec, src, t') \<Longrightarrow>
           client_step ops lim (Send src) (t, ps, gone, w) (t', ps @ [(Buffer_call, src, ec)], gone - {src}, w)"
| wait: "(k, src, ec) \<in> set ps \<Longrightarrow> k = Buffer_call \<or> \<not> failed ec \<Longrightarrow>
           client_step ops lim (Wait src) (t, ps, gone, w) (tcp_wait src t, remove1 (k, src, ec) ps, gone, w)"
| fail: "(Request_call, src, ec) \<in> set ps \<Longrightarrow> failed ec \<Longrightarrow> tcp_shutdown ops t = (Inr ok, t') \<Longrightarrow>
           client_step ops lim (Fail src) (t, ps, gone, w) (t', remove1 (Request_call, src, ec) ps, insert src gone, w')"
| reply: "recv ops [] t = (Inr ec, buffer, src, t1) \<Longrightarrow> \<not> failed ec \<Longrightarrow>
            from_datas_string lim buffer = (Inr router, b) \<Longrightarrow> ucast src \<notin> gone \<Longrightarrow>
            filling_buffer (ucast src) b router t1 w = (True, t', w') \<Longrightarrow>
            client_step ops lim (Reply (ucast src)) (t, ps, gone, w) (t', ps, gone, w')"
| push: "recv ops [] t = (Inr ec, buffer, src, t1) \<Longrightarrow> \<not> failed ec \<Longrightarrow>
           from_datas_string lim buffer = (Inr router, b) \<Longrightarrow>
           filling_buffer (ucast src) b router t1 w = (False, t', w') \<Longrightarrow>
           client_step ops lim Push (t, ps, gone, w) (t', ps, if finished t' = finished t then gone else insert 0 gone, w'')"
| close: "tcp_shutdown ops t = (Inr ok, t') \<Longrightarrow>
            client_step ops lim Close (t, ps, gone, w) (t', ps, gone, w')"

inductive client_run :: "'s socket_ops \<Rightarrow> limits \<Rightarrow> ('s, 'w) connection \<Rightarrow> event list \<Rightarrow> ('s, 'w) connection \<Rightarrow> bool"
  for ops :: "'s socket_ops" and lim :: limits where
  start: "client_run ops lim x [] x"
| step: "client_run ops lim x es y \<Longrightarrow> client_step ops lim e y z \<Longrightarrow> client_run ops lim x (es @ [e]) z"

inductive_cases client_stepE: "client_step ops lim e x y"

lemma waiting_finished_try_send: "mset (waiting (try_send v t)) + mset (finished (try_send v t)) = mset (waiting t) + mset (finished t)"
  by (simp add: try_send_def split: list.splits)

lemma finished_try_send: "set (finished (try_send v t)) \<subseteq> insert v (set (finished t))"
  by (auto simp: try_send_def split: list.splits)

definition callback_keys :: "('s, 'w) tcp \<Rightarrow> 64 word set" where
  "callback_keys t = fst ` set (buffers t)"

lemma keep_regist [simp]:
  "waiting (regist_resp_func src f t) = waiting t" "finished (regist_resp_func src f t) = finished t"
  "callback_keys (regist_resp_func src f t) = insert src (callback_keys t)"
  by (auto simp: callback_keys_def regist_resp_func_def buffers_put_def Let_def image_iff)

lemma keep_tcp_send:
  assumes "tcp_send ops bss t = (r, t')"
  shows "waiting t' = waiting t \<and> finished t' = finished t \<and> callback_keys t' = callback_keys t"
  using assms by (auto simp: callback_keys_def tcp_send_def split: option.splits prod.splits)

text \<open>Both ways of sending a call register a callback and leave the waiting calls alone.\<close>

definition registers :: "64 word \<Rightarrow> ('s, 'w) tcp \<Rightarrow> ('s, 'w) tcp \<Rightarrow> bool" where
  "registers src t t' \<longleftrightarrow> waiting t' = waiting t \<and> finished t' = finished t \<and>
     callback_keys t' = insert src (callback_keys t)"

lemma registers_tcp_send: "tcp_send ops bss (regist_resp_func src f t) = (r, t') \<Longrightarrow> registers src t t'"
  using keep_tcp_send [of ops bss "regist_resp_func src f t" r t'] by (simp add: registers_def)

lemma registers_send_request:
  assumes "send_request ops commit n f t = (Inr ec, src, t')"
  shows "registers src t t'"
proof -
  obtain ec0 buffer where "commit [] = (Inr ec0, buffer)"
    using assms by (simp add: send_request_def split: prod.splits sum.splits)
  with assms show ?thesis
    by (auto simp: send_request_def Let_def split: prod.splits intro: registers_tcp_send)
qed

lemma registers_send_buffer: "send_buffer ops req router n f t = (r, src, t') \<Longrightarrow> registers src t t'"
  by (auto simp: send_buffer_def Let_def split: prod.splits intro: registers_tcp_send)

lemma keep_recv:
  assumes "recv ops b t = (r, b', src, t')"
  shows "waiting t' = waiting t \<and> finished t' = finished t \<and> callback_keys t' = callback_keys t"
  using assms by (auto simp: callback_keys_def recv_def split: option.splits prod.splits if_splits sum.splits)

lemma filling_found: "filling_buffer src b router t w = (found, t', w') \<Longrightarrow> found \<Longrightarrow> src \<in> callback_keys t"
  by (force simp: filling_buffer_def callback_keys_def dest: map_of_SomeD split: option.splits)

lemma keep_shutdown:
  assumes "tcp_shutdown ops t = (r, t')"
  shows "waiting t' = waiting t \<and> finished t' = finished t \<and> callback_keys t' = callback_keys t"
  using assms by (auto simp: callback_keys_def tcp_shutdown_def split: option.splits prod.splits)

text \<open>One round of the client's loop is such a step, unless it runs a callback whose call has returned.\<close>

lemma query_step_is_step:
  assumes "query_step ops lim get is_tcp complete t w = (Continue, t', w')" and "callback_keys t \<inter> gone = {}"
  shows "\<exists>e gone'. client_step ops lim e (t, ps, gone, w) (t', ps, gone', w')"
proof -
  obtain ec buffer src t1 where r: "recv ops [] t = (Inr ec, buffer, src, t1)" "\<not> failed ec"
    using assms(1) by (auto simp: query_step_def split: prod.splits sum.splits if_splits)
  moreover obtain router b where s: "from_datas_string lim buffer = (Inr router, b)"
    using assms(1) r by (auto simp: query_step_def split: prod.splits sum.splits)
  moreover obtain found t2 w2 where f: "filling_buffer (ucast src) b router t1 w = (found, t2, w2)"
    by (cases "filling_buffer (ucast src) b router t1 w")
  moreover have "t' = t2" "found \<Longrightarrow> w' = w2"
    using assms(1) r s f by (auto simp: query_step_def split: bool.splits option.splits if_splits prod.splits sum.splits)
  moreover have "ucast src \<notin> gone" if found
    using filling_found [OF f that] keep_recv [OF r(1)] assms(2) by auto
  ultimately show ?thesis
    by (cases found) (auto intro: client_step.reply client_step.push)
qed

text \<open>A call by \<open>async_call\<close> sends and then waits or, when the request was not written, fails.\<close>

lemma async_call_is_run:
  assumes "proto_ptr c = Some t" and "async_call ops commit n f c w = (Inr st, c', w')"
  shows "\<exists>src t' gone'. proto_ptr c' = Some t' \<and>
     client_run ops lim (t, [], gone, w) [Send src, case st of Returned \<Rightarrow> Fail src | Suspended _ \<Rightarrow> Wait src] (t', [], gone', w')"
proof -
  obtain ec src t1 where r: "send_request ops commit n f t = (Inr ec, src, t1)"
    using assms by (auto simp: async_call_def split: prod.splits sum.splits)
  have 1: "client_step ops lim (Send src) (t, [], gone, w) (t1, [(Request_call, src, ec)], gone - {src}, w)"
    using client_step.send [OF r, where ps = "[]"] by simp
  show ?thesis
  proof (cases "failed ec")
    case True
    then obtain ok t2 where 2: "tcp_shutdown ops t1 = (Inr ok, t2)" "st = Returned" "proto_ptr c' = Some t2"
      using assms r by (auto simp: async_call_def make_error_def Let_def split: prod.splits sum.splits)
    have "client_step ops lim (Fail src) (t1, [(Request_call, src, ec)], gone - {src}, w) (t2, [], insert src (gone - {src}), w')"
      using client_step.fail [OF _ True 2(1), where ps = "[(Request_call, src, ec)]" and gone = "gone - {src}"] by simp
    from client_run.step [OF client_run.step [OF client_run.start 1] this] 2 show ?thesis by auto
  next
    case False
    then have 2: "st = Suspended src" "proto_ptr c' = Some (tcp_wait src t1)" "w' = w"
      using assms r by (auto simp: async_call_def make_error_def split: prod.splits sum.splits)
    have "client_step ops lim (Wait src) (t1, [(Request_call, src, ec)], gone - {src}, w) (tcp_wait src t1, [], gone - {src}, w)"
      using client_step.wait [of Request_call src ec "[(Request_call, src, ec)]"] False by simp
    from client_run.step [OF client_run.step [OF client_run.start 1] this] 2 show ?thesis by auto
  qed
qed

text \<open>
  The invariant of a connection: \<open>es\<close> are the events so far. Every call that was sent is about to
  go on, has waited or has failed; calls of \<open>wait\<close> are neither lost nor invented, a frame wakes at
  most one of them, and every callback was registered by a call.
\<close>

definition connection_inv :: "event list \<Rightarrow> ('s, 'w) tcp \<Rightarrow> pending_call list \<Rightarrow> bool" where
  "connection_inv es t ps \<longleftrightarrow>
     (\<forall>src. count (mset (map (fst \<circ> snd) ps)) src + count (mset es) (Wait src) + count (mset es) (Fail src) =
        count (mset es) (Send src)) \<and>
     (\<forall>src. count (mset (waiting t)) src + count (mset (finished t)) src = count (mset es) (Wait src)) \<and>
     (\<forall>src. src \<noteq> 0 \<longrightarrow> count (mset (finished t)) src \<le> count (mset es) (Reply src)) \<and>
     (\<forall>src. count (mset es) (Reply src) + of_bool (src \<in> callback_keys t) \<le> count (mset es) (Send src))"

lemma connection_inv_same:
  assumes "waiting t' = waiting t \<and> finished t' = finished t \<and> callback_keys t' = callback_keys t"
  shows "connection_inv es t' ps = connection_inv es t ps"
  using assms by (simp add: connection_inv_def)

lemma connection_inv_close: "connection_inv es t ps \<Longrightarrow> connection_inv (es @ [Close]) t ps"
  by (simp add: connection_inv_def)

lemma connection_inv_send:
  assumes "registers src t t'" and "connection_inv es t ps"
  shows "connection_inv (es @ [Send src]) t' (ps @ [(k, src, ec)])"
proof -
  have "count (mset (es @ [Send src])) (Reply a) + of_bool (a \<in> callback_keys t') \<le> count (mset (es @ [Send src])) (Send a)" for a
    using assms by (auto simp: connection_inv_def registers_def of_bool_def dest!: spec [of _ a] split: if_splits)
  then show ?thesis using assms by (simp add: connection_inv_def registers_def)
qed

lemma count_pending_remove1:
  assumes "(k, src, ec) \<in> set ps"
  shows "count (mset (map (fst \<circ> snd) ps)) a = count (mset (map (fst \<circ> snd) (remove1 (k, src, ec) ps))) a + of_bool (a = src)"
  using assms by (induction ps) auto

lemma connection_inv_wait:
  assumes p: "(k, src, ec) \<in> set ps" and inv: "connection_inv es t ps"
  shows "connection_inv (es @ [Wait src]) (tcp_wait src t) (remove1 (k, src, ec) ps)"
proof -
  have "count (mset (map (fst \<circ> snd) (remove1 (k, src, ec) ps))) a + count (mset (es @ [Wait src])) (Wait a) +
      count (mset (es @ [Wait src])) (Fail a) = count (mset (es @ [Wait src])) (Send a)" for a
    using inv count_pending_remove1 [OF p, of a] by (auto simp: connection_inv_def dest!: spec [of _ a])
  then show ?thesis using inv by (simp add: connection_inv_def tcp_wait_def callback_keys_def)
qed

lemma connection_inv_fail:
  assumes p: "(k, src, ec) \<in> set ps" and inv: "connection_inv es t ps"
  shows "connection_inv (es @ [Fail src]) t (remove1 (k, src, ec) ps)"
proof -
  have "count (mset (map (fst \<circ> snd) (remove1 (k, src, ec) ps))) a + count (mset (es @ [Fail src])) (Wait a) +
      count (mset (es @ [Fail src])) (Fail a) = count (mset (es @ [Fail src])) (Send a)" for a
    using inv count_pending_remove1 [OF p, of a] by (auto simp: connection_inv_def dest!: spec [of _ a])
  then show ?thesis using inv by (simp add: connection_inv_def)
qed

lemma count_finished_try_send:
  "count (mset (finished (try_send v t))) src \<le> count (mset (finished t)) src + of_bool (src = v)"
  by (simp add: try_send_def split: list.splits)

lemma callback_keys_try_send [simp]: "callback_keys (try_send v t) = callback_keys t"
  by (simp add: callback_keys_def try_send_def split: list.splits)

lemma count_try_send:
  "count (mset (waiting (try_send v t))) a + count (mset (finished (try_send v t))) a =
     count (mset (waiting t)) a + count (mset (finished t)) a"
  by (simp flip: count_union add: waiting_finished_try_send)

lemma connection_inv_try_send:
  assumes "\<And>src. count (mset (map (fst \<circ> snd) ps)) src + count (mset es) (Wait src) + count (mset es) (Fail src) = count (mset es) (Send src)"
    and "\<And>src. count (mset (waiting t)) src + count (mset (finished t)) src = count (mset es) (Wait src)"
    and "\<And>src. src \<noteq> 0 \<Longrightarrow> count (mset (finished t)) src + of_bool (src = v) \<le> count (mset es) (Reply src)"
    and "\<And>src. count (mset es) (Reply src) + of_bool (src \<in> callback_keys t) \<le> count (mset es) (Send src)"
  shows "connection_inv es (try_send v t) ps"
  using assms le_trans [OF count_finished_try_send]
  unfolding connection_inv_def count_try_send callback_keys_try_send by metis

lemma connection_inv_filling:
  assumes fill: "filling_buffer src b router t w = (found, t', w')" and inv: "connection_inv es t ps"
  shows "connection_inv (es @ [if found then Reply src else Push]) t' ps"
proof (cases "map_of (buffers t) src")
  case None
  then have "\<not> found" "t' = try_send 0 t" using fill by (auto simp: filling_buffer_def)
  moreover have "connection_inv (es @ [Push]) (try_send 0 t) ps"
    using inv by (intro connection_inv_try_send) (auto simp: connection_inv_def)
  ultimately show ?thesis by simp
next
  case (Some cb)
  define t1 where "t1 = t\<lparr>buffers := buffers_erase src (buffers t)\<rparr>"
  have keys: "src \<in> callback_keys t" "callback_keys t1 = callback_keys t - {src}"
    using Some map_of_eq_None_iff [of "buffers t" src]
    by (auto simp: t1_def callback_keys_def buffers_erase_def image_iff)
  have "connection_inv (es @ [Reply src]) (try_send src t1) ps"
  proof (rule connection_inv_try_send)
    show "count (mset (es @ [Reply src])) (Reply a) + of_bool (a \<in> callback_keys t1)
        \<le> count (mset (es @ [Reply src])) (Send a)" for a
    proof -
      have "count (mset es) (Reply a) + of_bool (a \<in> callback_keys t) \<le> count (mset es) (Send a)"
        using inv by (simp add: connection_inv_def)
      then show ?thesis using keys by (cases "a = src") simp_all
    qed
  qed (use inv in \<open>auto simp: connection_inv_def t1_def\<close>)
  then show ?thesis using Some fill by (auto simp: filling_buffer_def t1_def)
qed

lemma client_step_inv:
  assumes "client_step ops lim e (t, ps, gone, w) (t', ps', gone', w')" and "connection_inv es t ps"
  shows "connection_inv (es @ [e]) t' ps'"
  using assms
proof (cases rule: client_step.cases)
  case (send commit n f ec src)
  then show ?thesis using assms(2) by (auto intro: connection_inv_send registers_send_request)
next
  case (send_buf req router n f ec src)
  then show ?thesis using assms(2) by (auto intro: connection_inv_send registers_send_buffer)
next
  case (wait k src ec)
  then show ?thesis using assms(2) by (auto intro: connection_inv_wait)
next
  case (fail src ec ok)
  then have "connection_inv es t' ps" using assms(2) connection_inv_same [OF keep_shutdown] by blast
  then show ?thesis using fail connection_inv_fail by blast
next
  case (reply ec buffer src t1 router b)
  then have "connection_inv es t1 ps" using assms(2) connection_inv_same [OF keep_recv] by blast
  then show ?thesis using reply connection_inv_filling by fastforce
next
  case (push ec buffer src t1 router b w1)
  then have "connection_inv es t1 ps" using assms(2) connection_inv_same [OF keep_recv] by blast
  then show ?thesis using push connection_inv_filling by fastforce
next
  case (close ok)
  then have "connection_inv es t' ps" using assms(2) connection_inv_same [OF keep_shutdown] by blast
  then show ?thesis using close connection_inv_close by blast
qed

lemma client_run_inv:
  "client_run ops lim x es y \<Longrightarrow> connection_inv [] (fst x) (fst (snd x)) \<Longrightarrow> connection_inv es (fst y) (fst (snd y))"
  by (induction rule: client_run.induct) (auto intro: client_step_inv)

text \<open>A call made while nothing else waits is answered by the frame under its number.\<close>

lemma client_run_call_reply:
  assumes st: "stream_socket ops incoming ending outgoing" and s: "session_ptr t = Some s"
    and i: "incoming (socket s) = frame n payload @ rest" and p: "sendable payload"
    and r: "from_datas_string lim payload = (Inr router, b)"
    and c: "(commit :: flex_buffer \<Rightarrow> (fault + error_code) \<times> flex_buffer) [] = (Inr ec0, buffer)" and w: "waiting t = []"
  shows "\<exists>t'. client_run ops lim (t, [], {}, w) [Send (ucast n), Wait (ucast n), Reply (ucast n)] (t', [], {}, f b router w) \<and>
           finished t' = finished t @ [ucast n] \<and> waiting t' = []"
proof -
  let ?src = "ucast n :: 64 word" and ?reg = "regist_resp_func (ucast n) (Some f) t"
  have "session_ptr ?reg = Some s" using s by (simp add: regist_resp_func_def)
  from tcp_send_ok [OF st this, of "commit_raw_header [] \<lparr>hdr_length = word_of_nat (length buffer), hdr_src = n\<rparr> @ [buffer]"]
  obtain s1 where
    1: "send_request ops commit n f t = (Inr no_error, ?src, ?reg\<lparr>session_ptr := Some s1\<rparr>)"
    and s1: "incoming (socket s1) = frame n payload @ rest"
    using c i by (auto simp: send_request_def Let_def)
  let ?t1 = "tcp_wait ?src (?reg\<lparr>session_ptr := Some s1\<rparr>)"
  have "session_ptr ?t1 = Some s1" by (simp add: tcp_wait_def)
  from recv_frame [OF st this s1 p] obtain s2 where
    2: "recv ops [] ?t1 = (Inr no_error, payload, n, ?t1\<lparr>session_ptr := Some s2\<rparr>)" by auto
  obtain t2 where 3: "filling_buffer ?src b router (?t1\<lparr>session_ptr := Some s2\<rparr>) w = (True, t2, f b router w)"
    and t2: "finished t2 = finished t @ [?src]" "waiting t2 = []"
    using w by (simp add: filling_buffer_def tcp_wait_def regist_resp_func_def Let_def try_send_def)
  let ?p = "(Request_call, ?src, no_error)"
  have 4: "client_step ops lim (Send ?src) (t, [], {}, w) (?reg\<lparr>session_ptr := Some s1\<rparr>, [?p], {}, w)"
    using client_step.send [OF 1, where ps = "[]" and gone = "{}"] by simp
  have 5: "client_step ops lim (Wait ?src) (?reg\<lparr>session_ptr := Some s1\<rparr>, [?p], {}, w) (?t1, [], {}, w)"
    using client_step.wait [of Request_call ?src no_error "[?p]"] by (simp add: failed_def no_error_def)
  have 6: "client_step ops lim (Reply ?src) (?t1, [], {}, w) (t2, [], {}, f b router w)"
    by (rule client_step.reply [OF 2 _ r _ 3]) (simp_all add: failed_def no_error_def)
  from client_run.step [OF client_run.step [OF client_run.step [OF client_run.start 4] 5] 6] t2 show ?thesis by auto
qed

section \<open>Properties\<close>

text \<open>
  C5. On a connection that started fresh, after any sequence of sends, resumptions and arriving
  frames: every call that was sent is still to be resumed, has gone on to wait or has returned
  because its request was not written, and exactly one of these as often as its number was sent;
  the calls that wait and those whose wait has ended are together exactly the ones that went on to
  wait, so that no call returns twice; a call that waited under a number other than 0 returns only
  for a frame that was given to the callback of its number, one frame for each; and no callback
  runs more often than its number was sent, even counting one that is still registered.
\<close>

theorem call_returns_once:
  assumes "client_run ops lim (tcp_new s, [], {}, w) es (t, ps, gone, w')"
  shows "(\<forall>src. count (mset (map (fst \<circ> snd) ps)) src + count (mset es) (Wait src) + count (mset es) (Fail src) =
        count (mset es) (Send src)) \<and>
     (\<forall>src. count (mset (waiting t)) src + count (mset (finished t)) src = count (mset es) (Wait src)) \<and>
     (\<forall>src. src \<noteq> 0 \<longrightarrow> count (mset (finished t)) src \<le> count (mset es) (Reply src)) \<and>
     (\<forall>src. count (mset es) (Reply src) + of_bool (map_of (buffers t) src \<noteq> None) \<le> count (mset es) (Send src))"
proof -
  have "connection_inv [] (tcp_new s :: ('a, 'b) tcp) []"
    by (simp add: connection_inv_def tcp_new_def callback_keys_def)
  with client_run_inv [OF assms] have "connection_inv es t ps" by simp
  moreover have "map_of (buffers t) src \<noteq> None \<longleftrightarrow> src \<in> callback_keys t" for src
    by (simp add: callback_keys_def map_of_eq_None_iff)
  ultimately show ?thesis by (simp add: connection_inv_def)
qed

theorem call_returns_once_witness:
  "\<exists>t. client_run script_ops sample_limits
       (tcp_new (sample_session (frame 9 (varint 1 @ ''a''))), [], {}, ''w'') [Send 9, Wait 9, Reply 9] (t, [], {}, ''w'') \<and>
     count (mset (waiting t)) 9 + count (mset (finished t)) 9 = 1 \<and> finished t = [9] \<and> map_of (buffers t) 9 = None"
proof -
  let ?s = "sample_session (frame 9 (varint 1 @ ''a''))"
  have "from_datas_string sample_limits (varint (length ''a'') @ ''a'' @ []) = (Inr ''a'', [])"
    using decodes_string [of "''a''" sample_limits] by (simp add: decodes_def sample_limits_def)
  then obtain t where t: "client_run script_ops sample_limits (tcp_new ?s, [], {}, ''w'') [Send 9, Wait 9, Reply 9] (t, [], {}, ''w'')"
      "finished t = [9]"
    using client_run_call_reply [OF stream_socket_script, of "tcp_new ?s" ?s 9 "varint 1 @ ''a''" "[]" sample_limits "''a''" "[]"
        "\<lambda>b. (Inr no_error, b)" no_error "[]" "''w''" "\<lambda>_ _ w. w"]
    by (auto simp: tcp_new_def sample_session_def sendable_def varint.simps)
  show ?thesis using call_returns_once [OF t(1)] t by (auto dest!: spec [of _ 9] split: if_splits)
qed

lemma async_call_unsent:
  assumes "proto_ptr c = Some t" and "session_ptr t = Some s" and "commit [] = (Inr ec0, buffer)"
    and "\<And>bytes. sock_write ops (socket s) bytes = (ec, sock)" and "failed ec"
  shows "\<exists>c'. async_call ops commit n f c w = (Inr Returned, c', close_invoke c w)"
proof -
  have send: "tcp_send ops bss (regist_resp_func src cb t) =
      (Inr ec, (regist_resp_func src cb t)\<lparr>session_ptr := Some (s\<lparr>socket := sock\<rparr>)\<rparr>)" for bss src cb
    using assms(2,4) by (simp add: tcp_send_def regist_resp_func_def async_send_def)
  show ?thesis
    using assms(1,3,5)
    by (simp add: async_call_def send_request_def send make_error_def close_invoke_def tcp_shutdown_def Let_def split: prod.splits)
qed

text \<open>
  When the request of a call cannot be written, \<open>async_call\<close> tells the close function,
  shuts the session down and returns. \<open>async_call_buffer\<close> does not look at the error before it
  waits: the call is suspended on the broken connection, and neither the close function nor the
  shutdown is reached.
\<close>

theorem failed_send_outcome:
  assumes "proto_ptr c = Some t" and "session_ptr t = Some s" and "commit [] = (Inr ec0, buffer)"
    and "\<And>bytes. sock_write ops (socket s) bytes = (ec, sock)" and "failed ec"
    and "sock_shutdown ops sock = (ec1, sock1)"
  shows "(\<exists>c' t'. async_call ops commit n f c w = (Inr Returned, c', close_invoke c w) \<and> proto_ptr c' = Some t' \<and>
            session_ptr t' = Some (s\<lparr>socket := sock1\<rparr>) \<and> waiting t' = waiting t) \<and>
         (\<exists>c' t'. async_call_buffer ops req router n f c = (Inr (Suspended (ucast n), ec), c') \<and> proto_ptr c' = Some t' \<and>
            session_ptr t' = Some (s\<lparr>socket := sock\<rparr>) \<and> waiting t' = waiting t @ [ucast n])"
proof -
  have send: "tcp_send ops bss (regist_resp_func src cb t) =
      (Inr ec, (regist_resp_func src cb t)\<lparr>session_ptr := Some (s\<lparr>socket := sock\<rparr>)\<rparr>)" for bss src cb
    using assms(2,4) by (simp add: tcp_send_def regist_resp_func_def async_send_def)
  show ?thesis
    using assms(1,3,5,6)
    by (simp add: async_call_def async_call_buffer_def send_request_def send_buffer_def send make_error_def
        close_invoke_def tcp_shutdown_def session_shutdown_def tcp_wait_def Let_def)
qed

theorem failed_send_outcome_witness:
  "let ops = script_ops\<lparr>sock_write := (\<lambda>s _. (eof, s))\<rparr>; s = sample_session [];
       c = (set_close_func (\<lambda>w. w @ ''closed'') (client_new 30))\<lparr>proto_ptr := Some (tcp_new s)\<rparr>
   in (\<exists>c' t'. async_call ops (\<lambda>b. (Inr no_error, b)) 9 (\<lambda>_ _ w. w) c [] = (Inr Returned, c', ''closed'') \<and>
         proto_ptr c' = Some t' \<and> waiting t' = []) \<and>
      (\<exists>c' t'. async_call_buffer ops ''q'' ''r'' 9 (\<lambda>_ _ w. w) c = (Inr (Suspended 9, eof), c') \<and>
         proto_ptr c' = Some t' \<and> waiting t' = [9])"
  unfolding Let_def
  using failed_send_outcome
    [of "(set_close_func (\<lambda>w. w @ ''closed'') (client_new 30))\<lparr>proto_ptr := Some (tcp_new (sample_session []))\<rparr>"
      "tcp_new (sample_session [])" "sample_session []" "\<lambda>b. (Inr no_error, b)" no_error "[]"
      "script_ops\<lparr>sock_write := (\<lambda>s _. (eof, s))\<rparr>" eof "socket (sample_session [])" no_error "socket (sample_session [])"
      9 "\<lambda>_ _ w. w" "[]" "''q''" "''r''"]
  by (fastforce simp: set_close_func_def close_invoke_def tcp_new_def script_ops_def failed_def eof_def)

end
