(* ===== verification/Server.thy ===== *)
theory Server
  imports Rpc Client Modules
begin

text \<open>
  The server (include/aquarius/basic_server.hpp) over TCP: its construction, the loop that
  accepts connections, the life of one connection, the global timer of the modules and the
  settings read from the environment.

  What is not code of the library is a parameter or an input: the results of \<open>async_accept\<close> and
  of \<open>async_wait\<close> of the timer are lists, in the order in which they arrive; the variables map
  of \<open>boost::program_options\<close> and its \<open>as<bool>\<close> are arguments of \<open>parse_env\<close>; \<open>bind\<close> tells
  whether the acceptor can be opened on a port. The coroutines that \<open>run\<close> spawns are the list
  \<open>tasks\<close>, each with the service it was given.
\<close>

section \<open>State\<close>

datatype server_task = Accepting | Run_modules nat | Global_timer nat

record ('s, 'w) server =
  io_pool :: io_service_pool
  server_port :: "16 word"
  server_name :: string
  global_time_dura :: int
  accept_callback :: "(('s, 'w) tcp \<Rightarrow> 'w \<Rightarrow> ('s, 'w) tcp \<times> 'w) option"
  close_callback :: "(('s, 'w) tcp \<Rightarrow> 'w \<Rightarrow> ('s, 'w) tcp \<times> 'w) option"
  keep_alive :: bool
  nodelay :: bool
  acceptor_open :: bool
  timer_armed :: bool
  tasks :: "server_task list"

definition next_service :: "('s, 'w) server \<Rightarrow> nat \<times> ('s, 'w) server" where
  "next_service srv = (case get_io_service (io_pool srv) of (i, p) \<Rightarrow> (i, srv\<lparr>io_pool := p\<rparr>))"

text \<open>
  The constructor takes three services: for the signals, the acceptor and the timer. The port
  and the size are \<open>int32_t\<close> and converted.
\<close>

definition basic_server_new :: "(16 word \<Rightarrow> bool) \<Rightarrow> 32 word \<Rightarrow> 32 word \<Rightarrow> string \<Rightarrow> int \<Rightarrow> fault + ('s, 'w) server" where
  "basic_server_new bind port pool_count name dura =
     (case io_service_pool_new (unat (scast pool_count :: 64 word)) of
        Inl f \<Rightarrow> Inl f
      | Inr p0 \<Rightarrow>
          let p1 = snd (get_io_service p0);
              p2 = snd (get_io_service p1)
          in if \<not> bind (ucast port) then Inl (Thrown runtime_error)
             else Inr \<lparr>io_pool = snd (get_io_service p2), server_port = ucast port, server_name = name,
                       global_time_dura = dura, accept_callback = None, close_callback = None,
                       keep_alive = True, nodelay = False, acceptor_open = True, timer_armed = True, tasks = []\<rparr>)"

definition server_set_accept_func :: "(('s, 'w) tcp \<Rightarrow> 'w \<Rightarrow> ('s, 'w) tcp \<times> 'w) \<Rightarrow> ('s, 'w) server \<Rightarrow> ('s, 'w) server" where
  "server_set_accept_func f srv = srv\<lparr>accept_callback := Some f\<rparr>"

definition server_set_close_func :: "(('s, 'w) tcp \<Rightarrow> 'w \<Rightarrow> ('s, 'w) tcp \<times> 'w) \<Rightarrow> ('s, 'w) server \<Rightarrow> ('s, 'w) server" where
  "server_set_close_func f srv = srv\<lparr>close_callback := Some f\<rparr>"

definition server_accept_func :: "('s, 'w) server \<Rightarrow> ('s, 'w) tcp option \<Rightarrow> 'w \<Rightarrow> ('s, 'w) tcp option \<times> 'w" where
  "server_accept_func srv proto w =
     (case (accept_callback srv, proto) of (Some f, Some t) \<Rightarrow> map_prod Some id (f t w) | _ \<Rightarrow> (proto, w))"

definition server_close_func :: "('s, 'w) server \<Rightarrow> ('s, 'w) tcp option \<Rightarrow> 'w \<Rightarrow> ('s, 'w) tcp option \<times> 'w" where
  "server_close_func srv proto w =
     (case (close_callback srv, proto) of (Some f, Some t) \<Rightarrow> map_prod Some id (f t w) | _ \<Rightarrow> (proto, w))"

section \<open>Settings from the environment\<close>

definition env_toupper :: "char \<Rightarrow> char" where
  "env_toupper c = (if of_char c \<ge> (97 :: nat) \<and> of_char c \<le> (122 :: nat) then char_of (of_char c - 32 :: nat) else c)"

definition mapper :: "string \<Rightarrow> string" where
  "mapper env_var =
     (let v = map env_toupper env_var
      in if v = ''KEEPALIVE'' then ''keepalive'' else if v = ''NODELAY'' then ''nodelay'' else [])"

text \<open>An exception ends the function where it is thrown; it is caught and logged.\<close>

definition parse_env :: "('a \<Rightarrow> fault + bool) \<Rightarrow> (string \<Rightarrow> 'a option) \<Rightarrow> ('s, 'w) server \<Rightarrow> ('s, 'w) server" where
  "parse_env cast_bool vm srv =
     (case (case vm ''keepalive'' of
              None \<Rightarrow> Inr srv
            | Some v \<Rightarrow> (case cast_bool v of Inl f \<Rightarrow> Inl srv | Inr b \<Rightarrow> Inr (srv\<lparr>keep_alive := b\<rparr>))) of
        Inl s \<Rightarrow> s
      | Inr s \<Rightarrow>
          (case vm ''nodelay'' of
             None \<Rightarrow> s
           | Some v \<Rightarrow> (case cast_bool v of Inl f \<Rightarrow> s | Inr b \<Rightarrow> s\<lparr>nodelay := b\<rparr>)))"

section \<open>Accepting connections\<close>

definition tcp_keepalive :: "'s socket_ops \<Rightarrow> bool \<Rightarrow> ('s, 'w) tcp \<Rightarrow> (fault + error_code) \<times> ('s, 'w) tcp" where
  "tcp_keepalive ops enable t =
     (case session_ptr t of
        None \<Rightarrow> (Inl Undefined, t)
      | Some s \<Rightarrow> (case session_keep_alive ops enable s of (ec, s') \<Rightarrow> (Inr ec, t\<lparr>session_ptr := Some s'\<rparr>)))"

definition tcp_nodelay :: "'s socket_ops \<Rightarrow> bool \<Rightarrow> ('s, 'w) tcp \<Rightarrow> (fault + error_code) \<times> ('s, 'w) tcp" where
  "tcp_nodelay ops enable t =
     (case session_ptr t of
        None \<Rightarrow> (Inl Undefined, t)
      | Some s \<Rightarrow> (case session_set_nodelay ops enable s of (ec, s') \<Rightarrow> (Inr ec, t\<lparr>session_ptr := Some s'\<rparr>)))"

definition accepted :: "'s socket_ops \<Rightarrow> ('s, 'w) server \<Rightarrow> 's \<Rightarrow> 32 word \<Rightarrow> ('s, 'w) tcp" where
  "accepted ops srv sock generated =
     snd (tcp_nodelay ops (nodelay srv)
       (snd (tcp_keepalive ops (keep_alive srv) (tcp_new (session_new sock (global_time_dura srv) generated)))))"

text \<open>
  The loop of \<open>start_accept\<close> over the results of \<open>async_accept\<close>: the error code, the socket and
  the number of the new session. The modules are started meanwhile and take their services from
  the same pool; the first component of a result is how many they took since the loop took its
  last one. Taking a service is atomic here. The result is whether the loop has ended, and the
  sessions that were spawned with the service their socket belongs to.
\<close>

definition others_take :: "nat \<Rightarrow> ('s, 'w) server \<Rightarrow> ('s, 'w) server" where
  "others_take k srv = srv\<lparr>io_pool := snd (take_services k (io_pool srv))\<rparr>"

fun start_accept :: "'s socket_ops \<Rightarrow> (nat \<times> error_code \<times> 's \<times> 32 word) list \<Rightarrow> ('s, 'w) server
    \<Rightarrow> bool \<times> (nat \<times> ('s, 'w) tcp) list \<times> ('s, 'w) server" where
  "start_accept ops [] srv = (False, [], snd (next_service srv))"
| "start_accept ops ((taken, ec, sock, generated) # results) srv =
     (case next_service (others_take taken srv) of (i, srv1) \<Rightarrow>
        if failed ec then (True, [], srv1)
        else case start_accept ops results srv1 of
               (ended, ts, srv2) \<Rightarrow> (ended, (i, accepted ops srv1 sock generated) # ts, srv2))"

text \<open>
  The life of a session: the accept function is awaited, then the loop of \<open>accept\<close>. Then the
  coroutine of \<open>close_func\<close> is made and dropped without being awaited, so that its body does not
  run, and the socket is shut down. An exception of the loop ends the session without either.
\<close>

definition serve :: "nat \<Rightarrow> 's socket_ops \<Rightarrow> (('s, 'w) tcp \<Rightarrow> 'w \<Rightarrow> loop \<times> ('s, 'w) tcp \<times> 'w)
    \<Rightarrow> ('s, 'w) server \<Rightarrow> ('s, 'w) tcp \<Rightarrow> 'w \<Rightarrow> ((fault + error_code) \<times> ('s, 'w) tcp \<times> 'w) option" where
  "serve fuel ops step srv t w =
     (case server_accept_func srv (Some t) w of
        (None, w1) \<Rightarrow> Some (Inl Undefined, t, w1)
      | (Some t1, w1) \<Rightarrow>
          (case run_loop fuel step t1 w1 of
             None \<Rightarrow> None
           | Some (Inl f, t', w') \<Rightarrow> Some (Inl f, t', w')
           | Some (Inr ec, t', w') \<Rightarrow>
               (case tcp_shutdown ops t' of
                  (Inl f, t2) \<Rightarrow> Some (Inl f, t2, w')
                | (Inr _, t2) \<Rightarrow> Some (Inr ec, t2, w'))))"

section \<open>Timer, signals, start and stop\<close>

text \<open>
  The timer is set once, by the constructor; \<open>waits\<close> are the results of waiting for it. The
  result is the code the coroutine returns, if it does, and the modules after the calls.
\<close>

fun init_global_timer :: "'m module_ops \<Rightarrow> int \<Rightarrow> error_code list \<Rightarrow> 'm module_router \<Rightarrow> error_code option \<times> 'm module_router" where
  "init_global_timer ops dura [] r = (None, r)"
| "init_global_timer ops dura (ec # waits) r =
     (if failed ec then (Some ec, r) else init_global_timer ops dura waits (module_timer ops dura r))"

definition server_run :: "('a \<Rightarrow> fault + bool) \<Rightarrow> (string \<Rightarrow> 'a option) \<Rightarrow> ('s, 'w) server \<Rightarrow> ('s, 'w) server" where
  "server_run cast_bool vm srv =
     (case next_service (parse_env cast_bool vm srv) of (io, srv') \<Rightarrow>
        srv'\<lparr>tasks := tasks srv' @ [Accepting, Run_modules io, Global_timer io]\<rparr>)"

definition server_stop :: "('s, 'w) server \<Rightarrow> ('s, 'w) server" where
  "server_stop srv = srv\<lparr>acceptor_open := False, timer_armed := False, io_pool := pool_stop (io_pool srv)\<rparr>"

text \<open>The handler of SIGINT and SIGTERM leaves the timer alone.\<close>

definition on_signal :: "('s, 'w) server \<Rightarrow> ('s, 'w) server" where
  "on_signal srv = srv\<lparr>acceptor_open := False, io_pool := pool_stop (io_pool srv)\<rparr>"

section \<open>Lemmas\<close>

lemma next_service_fields [simp]:
  "keep_alive (snd (next_service srv)) = keep_alive srv" "nodelay (snd (next_service srv)) = nodelay srv"
  "global_time_dura (snd (next_service srv)) = global_time_dura srv"
  "fst (next_service srv) = next_to_service (io_pool srv)"
  "io_pool (snd (next_service srv)) = snd (get_io_service (io_pool srv))"
  by (simp_all add: next_service_def get_io_service_def Let_def)

lemma accepted_next_service [simp]: "accepted ops (snd (next_service srv)) = accepted ops srv"
  by (simp add: accepted_def fun_eq_iff)

lemma others_take_fields [simp]:
  "keep_alive (others_take k srv) = keep_alive srv" "nodelay (others_take k srv) = nodelay srv"
  "global_time_dura (others_take k srv) = global_time_dura srv"
  "io_pool (others_take k srv) = snd (take_services k (io_pool srv))"
  by (simp_all add: others_take_def)

lemma accepted_others_take [simp]: "accepted ops (others_take k srv) = accepted ops srv"
  by (simp add: accepted_def fun_eq_iff)

text \<open>What is made of a socket: both options are set on it.\<close>

lemma accepted_session:
  "accepted ops srv sock u =
     tcp_new \<lparr>socket = snd (sock_no_delay ops (snd (sock_keep_alive ops sock (keep_alive srv))) (nodelay srv)),
              session_uuid = ucast u, timeout = global_time_dura srv\<rparr>"
  by (simp add: accepted_def tcp_nodelay_def tcp_keepalive_def tcp_new_def session_keep_alive_def session_set_nodelay_def
      session_new_def case_prod_beta)

lemma mod_add_first: "(a mod n + i + s) mod n = (a + i + s) mod (n :: nat)"
  by (metis mod_add_left_eq add.assoc)

lemma upt_Suc_map: "[0..<Suc n] = 0 # map Suc [0..<n]"
  by (simp only: upt_conv_Cons [OF zero_less_Suc] map_Suc_upt)

lemma start_accept_ok:
  assumes "failed ec" and "pool_ok (io_pool srv)"
  shows "\<exists>srv'. start_accept ops (map (\<lambda>(k, sock, u). (k, no_error, sock, u)) socks @ (k0, ec, x) # rest) srv =
     (True, zip (map (\<lambda>i. (next_to_service (io_pool srv) + i + sum_list (map fst (take (Suc i) socks))) mod pool_size (io_pool srv)) [0..<length socks])
               (map (\<lambda>(k, sock, u). accepted ops srv sock u) socks), srv')"
  using assms(2)
proof (induction socks arbitrary: srv)
  case Nil
  then show ?case using assms(1) by (cases x) (simp add: case_prod_beta)
next
  case (Cons a socks)
  obtain k sock n where a: "a = (k, sock, n)" by (cases a)
  let ?srv1 = "snd (next_service (others_take k srv))" and ?k = "next_to_service (io_pool srv)" and ?n = "pool_size (io_pool srv)"
  note taken = take_services_pool [OF Cons.prems, of k]
  have ok: "pool_ok (io_pool ?srv1)" using taken by (simp add: pool_ok_get)
  have next': "next_to_service (io_pool ?srv1) = (?k + k + 1) mod ?n" "pool_size (io_pool ?srv1) = ?n"
    using get_io_service_index [of "io_pool (others_take k srv)"] taken by (simp_all add: mod_simps)
  have "map (\<lambda>i. (?k + i + sum_list (map fst (take (Suc i) (a # socks)))) mod ?n) [0..<length (a # socks)] =
      ((?k + k) mod ?n) # map (\<lambda>i. ((?k + k + 1) mod ?n + i + sum_list (map fst (take (Suc i) socks))) mod ?n) [0..<length socks]"
    unfolding length_Cons upt_Suc_map mod_add_first by (simp add: a add.assoc add.left_commute add.commute [of k])
  then show ?case
    using Cons.IH [OF ok] next' taken by (auto simp: a case_prod_beta failed_def no_error_def simp del: upt_Suc)
qed

lemma basic_server_new_pool:
  assumes "basic_server_new bind port pool_count name dura = Inr srv"
  shows "pool_ok (io_pool srv)" and "pool_size (io_pool srv) = unat (scast pool_count :: 64 word)"
    and "next_to_service (io_pool srv) = 3 mod unat (scast pool_count :: 64 word)"
proof -
  let ?n = "unat (scast pool_count :: 64 word)"
  define p0 where "p0 = \<lparr>pool_size = ?n, next_to_service = 0, enabled = False\<rparr>"
  have n: "?n \<noteq> 0" and io: "io_pool srv = snd (get_io_service (snd (get_io_service (snd (get_io_service p0)))))"
    using assms by (auto simp: basic_server_new_def io_service_pool_new_def p0_def Let_def split: if_splits)
  have 0: "pool_ok p0" "pool_size p0 = ?n" "next_to_service p0 = 0" using n by (simp_all add: p0_def pool_ok_def)
  note 1 = pool_ok_get [OF 0(1)] get_io_service_index [OF 0(1)]
  note 2 = pool_ok_get [OF 1(1)] get_io_service_index [OF 1(1)]
  note 3 = pool_ok_get [OF 2(1)] get_io_service_index [OF 2(1)]
  show "pool_ok (io_pool srv)" "pool_size (io_pool srv) = ?n" using 0 1 2 3 by (simp_all add: io)
  show "next_to_service (io_pool srv) = 3 mod ?n" using 0 1 2 3 by (simp add: io mod_simps numeral_3_eq_3)
qed

lemma env_settings_ignored:
  assumes "\<And>v. cast_bool v = Inl (Thrown e)"
  shows "parse_env cast_bool vm srv = srv"
  using assms by (simp add: parse_env_def split: option.splits)

lemma global_timer_rounds:
  assumes "\<forall>ec \<in> set oks. \<not> failed ec" and "failed ec"
  shows "init_global_timer ops dura (oks @ ec # rest) r = (Some ec, (module_timer ops dura ^^ length oks) r)"
  using assms by (induction oks arbitrary: r) (auto simp: funpow_swap1)

lemma server_run_pool [simp]:
  "io_pool (server_run cast_bool vm srv) = snd (get_io_service (io_pool srv))"
proof -
  have "io_pool (parse_env cast_bool vm srv) = io_pool srv" by (auto simp: parse_env_def split: option.splits sum.splits)
  then show ?thesis by (simp add: server_run_def case_prod_beta)
qed

section \<open>Properties\<close>

text \<open>
  C26. A server that was built with \<open>n\<close> services and started makes one session of each connection, in
  the order in which they are accepted, until accepting fails, which ends the loop. The socket of a
  session has first its keep-alive option set, to the value from the environment and otherwise
  on, then its no-delay option, to the value from the environment and otherwise off; a value
  that is not boolean is skipped with everything after it. The session has the time-out of the
  server and its own number. It is on the service that is next in turn after the four that
  construction and start have taken, those of the sessions before it and those the modules took
  meanwhile.
\<close>

theorem connections_accepted:
  assumes "basic_server_new bind port n name dura = Inr srv0" and "failed ec"
    and "(keep, delay) =
      (case map_option cast_bool (vm ''keepalive'') of
         Some (Inl _) \<Rightarrow> (True, False)
       | Some (Inr b) \<Rightarrow> (b, (case map_option cast_bool (vm ''nodelay'') of Some (Inr d) \<Rightarrow> d | _ \<Rightarrow> False))
       | None \<Rightarrow> (True, (case map_option cast_bool (vm ''nodelay'') of Some (Inr d) \<Rightarrow> d | _ \<Rightarrow> False)))"
  shows "\<exists>srv' ts. start_accept ops (map (\<lambda>(k, sock, u). (k, no_error, sock, u)) socks @ (k0, ec, x) # rest)
       (server_run cast_bool vm srv0) = (True, ts, srv') \<and>
     map snd ts = map (\<lambda>(k, sock, u). tcp_new
       \<lparr>socket = snd (sock_no_delay ops (snd (sock_keep_alive ops sock keep)) delay), session_uuid = ucast u, timeout = dura\<rparr>) socks \<and>
     map fst ts = map (\<lambda>i. (4 + i + sum_list (map fst (take (Suc i) socks))) mod unat (scast n :: 64 word)) [0..<length socks]"
proof -
  let ?srv = "server_run cast_bool vm srv0"
  note pool = basic_server_new_pool [OF assms(1)]
  have new: "keep_alive srv0" "\<not> nodelay srv0" "global_time_dura srv0 = dura"
    using assms(1) by (auto simp: basic_server_new_def Let_def split: sum.splits if_splits)
  have set: "keep_alive ?srv = keep" "nodelay ?srv = delay" "global_time_dura ?srv = dura"
    using assms(3) new
    by (auto simp: server_run_def parse_env_def next_service_def case_prod_beta split: option.splits sum.splits)
  have ok: "pool_ok (io_pool ?srv)" using pool(1) by (simp add: pool_ok_get)
  have k: "next_to_service (io_pool ?srv) = 4 mod unat (scast n :: 64 word)" "pool_size (io_pool ?srv) = unat (scast n :: 64 word)"
    using get_io_service_index [OF pool(1)] pool(2,3) by (simp_all add: mod_simps)
  from start_accept_ok [OF assms(2) ok, of ops socks k0 x rest, unfolded k mod_add_first accepted_session set] show ?thesis
    by (elim exE) (intro exI conjI, assumption, simp_all)
qed

text \<open>Three services, two connections; the modules take two services between them.\<close>

theorem connections_accepted_witness:
  "\<exists>(srv0 :: (script, string) server) srv' ts.
     basic_server_new (\<lambda>_. True) 8100 3 ''srv'' 30 = Inr srv0 \<and>
     start_accept script_ops (map (\<lambda>(k, sock, u). (k, no_error, sock, u))
         [(0, \<lparr>script_in = ''a'', script_out = []\<rparr>, 1), (2, \<lparr>script_in = ''b'', script_out = []\<rparr>, 2)] @
           [(0, eof, \<lparr>script_in = [], script_out = []\<rparr>, 3)])
       (server_run (\<lambda>v. v) (\<lambda>k. if k = ''nodelay'' then Some (Inr True) else None) srv0) = (True, ts, srv') \<and>
     map fst ts = [1, 1]"
proof -
  obtain srv0 :: "(script, string) server" where 0: "basic_server_new (\<lambda>_. True) 8100 3 ''srv'' 30 = Inr srv0"
    by (simp add: basic_server_new_def io_service_pool_new_def Let_def)
  let ?socks = "[(0, \<lparr>script_in = ''a'', script_out = []\<rparr>, 1), (2, \<lparr>script_in = ''b'', script_out = []\<rparr>, 2)] :: (nat \<times> script \<times> 32 word) list"
  have i: "map (\<lambda>i. (4 + i + sum_list (map fst (take (Suc i) ?socks))) mod unat (scast (3 :: 32 word) :: 64 word)) [0..<length ?socks] = [1, 1]"
    by (simp add: upt_rec)
  have "failed eof" by (simp add: failed_def eof_def)
  from connections_accepted [OF 0 this, of True True "\<lambda>v. v" "\<lambda>k. if k = ''nodelay'' then Some (Inr True) else None" script_ops ?socks 0
      "(\<lparr>script_in = [], script_out = []\<rparr>, 3)" "[]", unfolded i]
  obtain srv' ts where "start_accept script_ops (map (\<lambda>(k, sock, u). (k, no_error, sock, u)) ?socks @ [(0, eof, \<lparr>script_in = [], script_out = []\<rparr>, 3)])
       (server_run (\<lambda>v. v) (\<lambda>k. if k = ''nodelay'' then Some (Inr True) else None) srv0) = (True, ts, srv')" "map fst ts = [1, 1]"
    by auto
  with 0 show ?thesis by (intro exI conjI)
qed

text \<open>
  C25. The life of a connection. The accept function of the server runs first; then every frame
  the peer sent is given to its context, in order; when the stream ends, the socket is shut down
  and the coroutine ends with the error that ended the stream. Whatever close function is set,
  it has no effect: the state of the program is what the last frame left.
\<close>

theorem connection_served:
  assumes "stream_socket ops incoming ending outgoing"
    and "accept_callback srv = Some f" and "f t w = (t1, w1)" and "session_ptr t1 = Some s"
    and "incoming (socket s) = concat (map (\<lambda>(src, p). frame src p) fs) @ tail" and "length tail < 8"
    and "\<forall>(src, p) \<in> set fs. sendable p \<and> routed lim p"
    and "\<And>c r n b w. \<exists>ec w'. complete c r n b w = (Inr ec, w')"
  shows "\<exists>s'. serve (Suc (length fs)) ops (accept_step ops lim get is_tcp complete) (srv\<lparr>close_callback := g\<rparr>) t w =
     Some (Inr (ending (socket s)), t1\<lparr>session_ptr := Some (snd (session_shutdown ops s'))\<rparr>,
           fold (deliver lim get is_tcp complete) fs w1)"
proof -
  obtain s' where "run_loop (Suc (length fs)) (accept_step ops lim get is_tcp complete) t1 w1 =
      Some (Inr (ending (socket s)), t1\<lparr>session_ptr := Some s'\<rparr>, fold (deliver lim get is_tcp complete) fs w1)"
    using accept_loop_frames [OF assms(1,4-7), where complete = complete and get = get and is_tcp = is_tcp and w = w1] assms(8)
    by blast
  then show ?thesis
    using assms(2,3)
    by (intro exI [of _ s']) (simp add: serve_def server_accept_func_def tcp_shutdown_def case_prod_beta del: run_loop.simps)
qed

definition sample_server :: "(script, string) server" where
  "sample_server =
     \<lparr>io_pool = \<lparr>pool_size = 3, next_to_service = 0, enabled = False\<rparr>, server_port = 8100, server_name = ''srv'',
      global_time_dura = 30, accept_callback = Some (\<lambda>t w. (t, w @ ''open '')), close_callback = None,
      keep_alive = True, nodelay = False, acceptor_open = True, timer_armed = True, tasks = []\<rparr>"

theorem connection_served_witness:
  "\<exists>t'. serve 2 script_ops (accept_step script_ops sample_limits (\<lambda>r. if r = ''a'' then Some () else None)
          (\<lambda>_. True) (\<lambda>c r n b w. (Inr no_error, w @ b)))
       (sample_server\<lparr>close_callback := Some (\<lambda>t w. (t, w @ ''closed''))\<rparr>)
       (tcp_new (sample_session (frame 9 (varint 1 @ ''aBody'')))) [] = Some (Inr eof, t', ''open Body'')"
proof -
  let ?get = "\<lambda>r. if r = ''a'' then Some () else None" and ?complete = "\<lambda>c r n b w. (Inr no_error, w @ b)"
  let ?s = "sample_session (frame 9 (varint 1 @ ''aBody''))" and ?fs = "[(9, varint 1 @ ''aBody'')] :: (32 word \<times> string) list"
  have 1: "from_datas_string sample_limits (varint (Suc 0) @ ''aBody'') = (Inr ''a'', ''Body'')"
    using decodesD [OF decodes_string [of "''a''" sample_limits], of "''Body''"] by (simp add: sample_limits_def)
  have 2: "fold (deliver sample_limits ?get (\<lambda>_. True) ?complete) ?fs ''open '' = ''open Body''"
    by (simp add: deliver_def 1)
  have n: "Suc (length ?fs) = 2" by simp
  have length_one: "length (varint (Suc 0)) = 1" by (simp add: varint_small)
  have "\<exists>s'. serve (Suc (length ?fs)) script_ops (accept_step script_ops sample_limits ?get (\<lambda>_. True) ?complete)
       (sample_server\<lparr>close_callback := Some (\<lambda>t w. (t, w @ ''closed''))\<rparr>) (tcp_new ?s) [] =
     Some (Inr eof, (tcp_new ?s)\<lparr>session_ptr := Some (snd (session_shutdown script_ops s'))\<rparr>,
           fold (deliver sample_limits ?get (\<lambda>_. True) ?complete) ?fs ''open '')"
    by (rule connection_served [OF stream_socket_script, of _ "\<lambda>t w. (t, w @ ''open '')" _ _ _ _ ?s _ "[]"])
      (simp_all add: sample_server_def tcp_new_def sample_session_def sendable_def routed_def 1 length_one)
  then show ?thesis unfolding 2 n by blast
qed

end
