(* ===== verification/Sql_Views.thy ===== *)
theory Sql_Views
  imports Text Decimal
begin

text \<open>
  The builders of SQL statements (include/aquarius/tbl/*_view.hpp, add_string.hpp) and the names
  they take from the compiler (include/aquarius/detail/struct_name.hpp, member_pointer.hpp,
  concat.hpp).

  A struct is its name and its members in order, with the values of one object; members are
  strings and integers of 16 bits and more, which the stream prints in decimal. Members of 8 bits
  (\<open>int8_t\<close>, \<open>uint8_t\<close>, \<open>char\<close>) are left out: the stream writes them as a character without quotes.
  A string stream that is only written and read whole is a string. \<open>str(d)\<close> with the empty string is the assignment of the
  empty string.

  A reference reader of the statements stands at the end: \<open>read_literal\<close> reads an integer or a
  double-quoted string of SQL, in which a backslash escapes the next character and two quotes
  are one.
\<close>

section \<open>Names\<close>

definition find_last_of :: "char list \<Rightarrow> string \<Rightarrow> nat option" where
  "find_last_of cs s =
     (case dropWhile (\<lambda>c. c \<notin> set cs) (rev s) of [] \<Rightarrow> None | r \<Rightarrow> Some (length r - 1))"

definition find_first :: "char list \<Rightarrow> string \<Rightarrow> nat option" where
  "find_first cs s = find_first_of cs s 0"

text \<open>
  \<open>npos\<close> is \<open>2^64 - 1\<close>; the positions that follow from it wrap. \<open>substr\<close> beyond the end of the
  string is an error, which the compiler reports as the strings are constants.
\<close>

definition npos_add :: "nat option \<Rightarrow> int \<Rightarrow> nat" where
  "npos_add p k = nat (((case p of None \<Rightarrow> 2 ^ 64 - 1 | Some i \<Rightarrow> int i) + k) mod 2 ^ 64)"

definition substr :: "string \<Rightarrow> nat \<Rightarrow> nat \<Rightarrow> string option" where
  "substr s pos n = (if pos \<le> length s then Some (take n (drop pos s)) else None)"

definition struct_name :: "string \<Rightarrow> string option" where
  "struct_name pretty =
     (let left_bracket = find_last_of ''['' pretty; right_bracket = find_last_of '']'' pretty
      in case substr pretty (npos_add left_bracket 1)
                (npos_add right_bracket (- int (npos_add left_bracket 1))) of
           None \<Rightarrow> None
         | Some name_in_bracket \<Rightarrow>
             let left_equ = find_first ''='' name_in_bracket; right_f = find_first '';'' name_in_bracket
             in case substr name_in_bracket (npos_add left_equ 2)
                       (npos_add right_f (- int (npos_add left_equ 2))) of
                  None \<Rightarrow> None
                | Some first_name \<Rightarrow>
                    (case find_last_of '':'' first_name of
                       None \<Rightarrow> Some first_name
                     | Some sp \<Rightarrow> Some (drop (sp + 1) first_name)))"

definition get_member_pointer_name :: "string \<Rightarrow> string option" where
  "get_member_pointer_name func_line =
     (let start_pos = find_last_of '':'' func_line
      in substr func_line (npos_add start_pos 1)
           (npos_add (find_last_of '']'' func_line) (- int (npos_add start_pos 1))))"

definition concat_v :: "string list \<Rightarrow> string" where
  "concat_v args = concat args"

section \<open>Values\<close>

datatype sql_value = Str string | Num int

type_synonym members = "(string \<times> sql_value) list"

definition add_string :: "sql_value \<Rightarrow> string" where
  "add_string v = (case v of Str s \<Rightarrow> [dq] @ s @ [dq] | Num i \<Rightarrow> to_string i)"

section \<open>Conditions\<close>

record grep_view =
  member_name :: string
  grep_stream :: string
  has_aggr :: bool

definition grep_new :: "string \<Rightarrow> grep_view" where
  "grep_new member = \<lparr>member_name = member, grep_stream = [], has_aggr = False\<rparr>"

definition grep_less :: "sql_value \<Rightarrow> grep_view \<Rightarrow> grep_view" where
  "grep_less v g = g\<lparr>grep_stream := member_name g @ '' < '' @ add_string v\<rparr>"

definition grep_less_equal :: "sql_value \<Rightarrow> grep_view \<Rightarrow> grep_view" where
  "grep_less_equal v g = g\<lparr>grep_stream := member_name g @ '' <= '' @ add_string v\<rparr>"

definition grep_greater :: "sql_value \<Rightarrow> grep_view \<Rightarrow> grep_view" where
  "grep_greater v g = g\<lparr>grep_stream := member_name g @ '' > '' @ add_string v\<rparr>"

definition grep_greater_equal :: "sql_value \<Rightarrow> grep_view \<Rightarrow> grep_view" where
  "grep_greater_equal v g = g\<lparr>grep_stream := member_name g @ '' >= '' @ add_string v\<rparr>"

definition grep_equal :: "sql_value \<Rightarrow> grep_view \<Rightarrow> grep_view" where
  "grep_equal v g = g\<lparr>grep_stream := member_name g @ '' = '' @ add_string v\<rparr>"

definition grep_text :: "grep_view \<Rightarrow> string" where
  "grep_text g = (if has_aggr g then ''('' @ grep_stream g @ '')'' else grep_stream g)"

definition grep_or :: "grep_view \<Rightarrow> grep_view \<Rightarrow> grep_view" where
  "grep_or g1 g2 = g1\<lparr>has_aggr := True, grep_stream := grep_stream g1 @ '' or '' @ grep_text g2\<rparr>"

section \<open>Statements\<close>

definition comma_list :: "string list \<Rightarrow> string" where
  "comma_list xs = concat (map (\<lambda>(i, x). x @ (if length xs \<noteq> i + 1 then '','' else [])) (enumerate 0 xs))"

definition insert_view :: "string \<Rightarrow> members \<Rightarrow> string" where
  "insert_view tbl ms =
     ''insert into '' @ tbl @ ''('' @ comma_list (map fst ms) @ '') values('' @
     comma_list (map (add_string \<circ> snd) ms) @ '')''"

record sql_view =
  complete_sql :: string
  has_condition :: bool

definition update_view :: "string \<Rightarrow> members \<Rightarrow> sql_view" where
  "update_view tbl ms =
     \<lparr>complete_sql = ''update '' @ tbl @
        concat (map (\<lambda>(i, n, v). (if i = 0 then '' set '' else '' and '') @ n @ '' = '' @ add_string v)
                    (enumerate 0 ms)),
      has_condition = False\<rparr>"

definition update_merge :: "sql_view \<Rightarrow> grep_view \<Rightarrow> sql_view" where
  "update_merge u g =
     (let u1 = (if \<not> has_condition u then u\<lparr>complete_sql := complete_sql u @ '' where '', has_condition := True\<rparr>
                else u\<lparr>complete_sql := complete_sql u @ '' and ''\<rparr>)
      in u1\<lparr>complete_sql := complete_sql u1 @ grep_text g\<rparr>)"

definition remove_view :: "string \<Rightarrow> sql_view" where
  "remove_view tbl = \<lparr>complete_sql = ''delete from '' @ tbl, has_condition = False\<rparr>"

definition remove_merge :: "sql_view \<Rightarrow> grep_view \<Rightarrow> sql_view" where
  "remove_merge u g =
     (let u1 = (if \<not> has_condition u then u\<lparr>complete_sql := complete_sql u @ '' where '', has_condition := True\<rparr>
                else u\<lparr>complete_sql := complete_sql u @ '' and ''\<rparr>)
      in u1\<lparr>complete_sql := complete_sql u1 @ grep_text g\<rparr>)"

record select_view =
  sel_content :: string
  sel_condition :: bool
  sel_stream :: string

definition make_member_names :: "string list \<Rightarrow> string" where
  "make_member_names args = (let result = concat_v (map (\<lambda>m. concat_v [m, '','']) args) in take (length result - 1) result)"

definition select_content :: "string \<Rightarrow> string list \<Rightarrow> string" where
  "select_content name args =
     (if args = [] then concat_v [''select * from '', name]
      else concat_v [''select '', make_member_names args, '' from '', name])"

definition select_new :: "string \<Rightarrow> string list \<Rightarrow> select_view" where
  "select_new name args = \<lparr>sel_content = select_content name args, sel_condition = False, sel_stream = []\<rparr>"

definition select_reset :: "select_view \<Rightarrow> select_view" where
  "select_reset v = v\<lparr>sel_stream := [], sel_condition := False\<rparr>"

definition select_text :: "select_view \<Rightarrow> string" where
  "select_text v = sel_content v @ sel_stream v"

definition select_merge :: "select_view \<Rightarrow> grep_view \<Rightarrow> select_view" where
  "select_merge v g =
     (let v1 = (if \<not> sel_condition v then v\<lparr>sel_stream := sel_stream v @ '' where'', sel_condition := True\<rparr>
                else v\<lparr>sel_stream := sel_stream v @ '' and''\<rparr>)
      in v1\<lparr>sel_stream := sel_stream v1 @ '' '' @ grep_text g\<rparr>)"

section \<open>Joining conditions\<close>

text \<open>The three views take conditions in the same way: the first after \<open>where\<close>, the others after \<open>and\<close>.\<close>

locale conditioned_view =
  fixes merge :: "'v \<Rightarrow> grep_view \<Rightarrow> 'v" and statement :: "'v \<Rightarrow> string" and conditioned :: "'v \<Rightarrow> bool"
  assumes merge_first: "\<not> conditioned v \<Longrightarrow> statement (merge v g) = statement v @ '' where '' @ grep_text g"
    and merge_next: "conditioned v \<Longrightarrow> statement (merge v g) = statement v @ '' and '' @ grep_text g"
    and conditioned_merge: "conditioned (merge v g)"
begin

lemma statement_next:
  "conditioned v \<Longrightarrow> statement (foldl merge v gs) = statement v @ concat (map (\<lambda>g. '' and '' @ grep_text g) gs)"
  by (induction gs arbitrary: v) (simp_all add: merge_next conditioned_merge)

lemma statement_where:
  assumes "\<not> conditioned v" and "gs \<noteq> []"
  shows "statement (foldl merge v gs) = statement v @ '' where '' @ join '' and '' (map grep_text gs)"
proof -
  obtain g hs where gs: "gs = g # hs" using assms(2) by (cases gs) auto
  show ?thesis
    using assms(1) statement_next [OF conditioned_merge]
    by (simp add: gs merge_first join_Cons comp_def)
qed

end

interpretation update: conditioned_view update_merge complete_sql has_condition
  by unfold_locales (simp_all add: update_merge_def)

interpretation remove: conditioned_view remove_merge complete_sql has_condition
  by unfold_locales (simp_all add: remove_merge_def)

interpretation select: conditioned_view select_merge select_text sel_condition
  by unfold_locales (simp_all add: select_merge_def select_text_def)

section \<open>What the conditions say\<close>

text \<open>
  The abstract view: a comparison of a member with a value, a disjunction of comparisons, and a
  statement restricted by a list of disjunctions. \<open>grep_of\<close> makes the disjunction with the
  operations of the library, as in \<open>(grep<&T::a>() < x) || (grep<&T::b>() == y)\<close>.
\<close>

datatype cmp = Lt | Le | Gt | Ge | Eq

datatype comparison = Comparison string cmp sql_value

fun cmp_text :: "cmp \<Rightarrow> string" where
  "cmp_text Lt = ''<''" | "cmp_text Le = ''<=''" | "cmp_text Gt = ''>''" | "cmp_text Ge = ''>=''" | "cmp_text Eq = ''=''"

fun comparison_text :: "comparison \<Rightarrow> string" where
  "comparison_text (Comparison m c v) = m @ '' '' @ cmp_text c @ '' '' @ add_string v"

fun grep_comparison :: "comparison \<Rightarrow> grep_view" where
  "grep_comparison (Comparison m c v) =
     (case c of Lt \<Rightarrow> grep_less | Le \<Rightarrow> grep_less_equal | Gt \<Rightarrow> grep_greater | Ge \<Rightarrow> grep_greater_equal | Eq \<Rightarrow> grep_equal)
       v (grep_new m)"

fun grep_of :: "comparison \<times> comparison list \<Rightarrow> grep_view" where
  "grep_of (c, cs) = foldl grep_or (grep_comparison c) (map grep_comparison cs)"

fun disjunction_text :: "comparison \<times> comparison list \<Rightarrow> string" where
  "disjunction_text (c, cs) =
     (if cs = [] then comparison_text c else ''('' @ join '' or '' (map comparison_text (c # cs)) @ '')'')"

definition where_text :: "(comparison \<times> comparison list) list \<Rightarrow> string" where
  "where_text ds = (if ds = [] then [] else '' where '' @ join '' and '' (map disjunction_text ds))"

lemma grep_comparison_fields [simp]:
  "grep_stream (grep_comparison c) = comparison_text c" "has_aggr (grep_comparison c) = False"
  by (cases c; auto simp: grep_new_def grep_less_def grep_less_equal_def grep_greater_def grep_greater_equal_def
      grep_equal_def split: cmp.splits)+

lemma grep_text_comparison [simp]: "grep_text (grep_comparison c) = comparison_text c"
  by (simp add: grep_text_def)

lemma grep_or_list:
  "grep_stream (foldl grep_or g (map grep_comparison cs)) = grep_stream g @ concat (map (\<lambda>c. '' or '' @ comparison_text c) cs) \<and>
   has_aggr (foldl grep_or g (map grep_comparison cs)) = (has_aggr g \<or> cs \<noteq> [])"
  by (induction cs arbitrary: g) (simp_all add: grep_or_def)

lemma grep_text_of [simp]: "grep_text (grep_of d) = disjunction_text d"
  using grep_or_list by (cases d) (simp add: grep_text_def join_Cons comp_def)

section \<open>Reading a statement back\<close>

fun sql_escape :: "char \<Rightarrow> char" where
  "sql_escape c =
     (if c = CHR ''n'' then CHR 0x0A else if c = CHR ''t'' then CHR 0x09 else if c = CHR ''r'' then CHR 0x0D
      else if c = CHR ''b'' then CHR 0x08 else if c = CHR ''0'' then CHR 0x00 else if c = CHR ''Z'' then CHR 0x1A else c)"

text \<open>What follows the opening quote: the string and the text after the closing quote.\<close>

fun read_quoted :: "string \<Rightarrow> (string \<times> string) option" where
  "read_quoted [] = None"
| "read_quoted [c] = (if c = dq then Some ([], []) else None)"
| "read_quoted (c # d # s) =
     (if c = dq then (if d = dq then map_option (apfst ((#) dq)) (read_quoted s) else Some ([], d # s))
      else if c = CHR 0x5C then map_option (apfst ((#) (sql_escape d))) (read_quoted s)
      else map_option (apfst ((#) c)) (read_quoted (d # s)))"

definition read_literal :: "string \<Rightarrow> (sql_value \<times> string) option" where
  "read_literal s =
     (case s of
        [] \<Rightarrow> None
      | c # r \<Rightarrow>
          if c = dq then map_option (apfst Str) (read_quoted r)
          else let (neg, t) = (if c = CHR ''-'' then (True, r) else (False, s)); ds = takeWhile is_digit t
               in if ds = [] then None
                  else Some (Num (if neg then - int (digits_value ds) else int (digits_value ds)), dropWhile is_digit t))"

fun read_values :: "nat \<Rightarrow> string \<Rightarrow> sql_value list option" where
  "read_values 0 s = (if s = '')'' then Some [] else None)"
| "read_values (Suc n) s =
     (case read_literal s of
        None \<Rightarrow> None
      | Some (v, r) \<Rightarrow>
          if n = 0 then map_option ((#) v) (read_values 0 r)
          else (case r of
                  c # r' \<Rightarrow> if c = CHR '','' then map_option ((#) v) (read_values n r') else None
                | [] \<Rightarrow> None))"

definition read_insert :: "string \<Rightarrow> (string \<times> string list \<times> sql_value list) option" where
  "read_insert s =
     (if \<not> prefix ''insert into '' s then None
      else case cut_at ''('' (drop 12 s) of
             None \<Rightarrow> None
           | Some (tbl, r) \<Rightarrow>
               (case cut_at '') values('' r of
                  None \<Rightarrow> None
                | Some (cols, r') \<Rightarrow>
                    (let names = split_on '','' cols
                     in case read_values (length names) r' of None \<Rightarrow> None | Some vs \<Rightarrow> Some (tbl, names, vs))))"

text \<open>Strings without the characters that end or change a quoted string.\<close>

fun quotable :: "sql_value \<Rightarrow> bool" where
  "quotable (Str s) \<longleftrightarrow> dq \<notin> set s \<and> CHR 0x5C \<notin> set s"
| "quotable (Num _) \<longleftrightarrow> True"

definition sql_name :: "string \<Rightarrow> bool" where
  "sql_name n \<longleftrightarrow> set n \<inter> {CHR ''('', CHR '')'', CHR '',''} = {}"

lemma read_quoted_plain:
  assumes "dq \<notin> set s" "CHR 0x5C \<notin> set s" "r = [] \<or> hd r \<noteq> dq"
  shows "read_quoted (s @ dq # r) = Some (s, r)"
  using assms
proof (induction s)
  case Nil
  then show ?case by (cases r) auto
next
  case (Cons c s)
  then obtain d t where "s @ dq # r = d # t" by (cases s) auto
  with Cons show ?case by auto
qed

lemma read_literal_add_string:
  assumes "quotable v" and "r = [] \<or> hd r = CHR '','' \<or> hd r = CHR '')''"
  shows "read_literal (add_string v @ r) = Some (v, r)"
proof (cases v)
  case (Str s)
  then show ?thesis
    using assms read_quoted_plain [of s r] by (auto simp: read_literal_def add_string_def)
next
  case (Num i)
  have r: "takeWhile is_digit r = []" "dropWhile is_digit r = r"
    using assms(2) by (cases r; auto simp: is_digit_def)+
  have d: "takeWhile is_digit (decimal n @ r) = decimal n" "dropWhile is_digit (decimal n @ r) = r" for n
    using decimal_digits [of n] r by (simp_all add: list_all_iff takeWhile_append2 dropWhile_append2)
  show ?thesis
  proof (cases "i < 0")
    case True
    then show ?thesis using d by (simp add: Num read_literal_def add_string_def to_string_def)
  next
    case False
    obtain c t where c: "decimal (nat i) = c # t" by (cases "decimal (nat i)") auto
    have "is_digit c" using decimal_digits [of "nat i"] c by simp
    then have "c \<noteq> dq" "c \<noteq> CHR ''-''" by (auto simp: is_digit_def)
    with False c d [of "nat i"] digits_value_decimal [of "nat i"] show ?thesis
      by (simp add: Num read_literal_def add_string_def to_string_def)
  qed
qed

lemma read_values_list:
  "list_all quotable vs \<Longrightarrow> vs \<noteq> [] \<Longrightarrow> read_values (length vs) (join '','' (map add_string vs) @ '')'') = Some vs"
proof (induction vs)
  case (Cons v vs)
  show ?case
  proof (cases vs)
    case Nil
    then show ?thesis using Cons.prems read_literal_add_string [of v "'')''"] by simp
  next
    case (Cons v' vs')
    then show ?thesis
      using Cons.prems Cons.IH read_literal_add_string [of v "'','' @ join '','' (map add_string vs) @ '')''"] by simp
  qed
qed simp

lemma comma_list_join: "comma_list xs = join '','' xs"
proof -
  have "concat (map (\<lambda>(i, x). x @ (if n + length xs \<noteq> i + 1 then '','' else [])) (enumerate n xs)) = join '','' xs" for n
  proof (induction xs arbitrary: n)
    case (Cons x xs)
    from Cons [of "Suc n"] show ?case by (cases xs) simp_all
  qed simp
  from this [of 0] show ?thesis by (simp add: comma_list_def)
qed

lemma split_on_join: "xs \<noteq> [] \<Longrightarrow> list_all sql_name xs \<Longrightarrow> split_on '','' (join '','' xs) = xs"
proof (induction "'',''" xs rule: join.induct)
  case (3 x y xs)
  then show ?case using split_on_append [of "'',''" x "join '','' (y # xs)"] by (simp add: sql_name_def)
qed (auto simp: split_on_none sql_name_def)

section \<open>Properties\<close>

text \<open>
  C23. The conditions of a statement refine their abstract form. A statement to select, update
  or remove, restricted one after the other by disjunctions of comparisons that were built with
  the comparison operators and \<open>||\<close>, reads as the statement followed by one \<open>where\<close> with all of
  them joined by \<open>and\<close>, in order, each disjunction of several comparisons in parentheses; without
  conditions there is no \<open>where\<close>.
\<close>

theorem where_clause:
  "select_text (foldl select_merge (select_new t ms) (map grep_of ds)) = select_text (select_new t ms) @ where_text ds \<and>
   complete_sql (foldl update_merge (update_view t vs) (map grep_of ds)) = complete_sql (update_view t vs) @ where_text ds \<and>
   complete_sql (foldl remove_merge (remove_view t) (map grep_of ds)) = complete_sql (remove_view t) @ where_text ds"
proof (cases "ds = []")
  case False
  then have "map grep_of ds \<noteq> []" by simp
  moreover have "\<not> sel_condition (select_new t ms)" "\<not> has_condition (update_view t vs)" "\<not> has_condition (remove_view t)"
    by (simp_all add: select_new_def update_view_def remove_view_def)
  ultimately show ?thesis
    using False by (simp add: select.statement_where update.statement_where remove.statement_where where_text_def comp_def)
qed (simp add: where_text_def)

text \<open>
  C22. An insert statement means the object it was made from: for every table and struct with
  members whose names have no parenthesis or comma and whose strings have no double quote and no
  backslash, the statement is read back as the same table, the names of the members and their
  values, in order.
\<close>

theorem insert_roundtrip:
  assumes "ms \<noteq> []" and "sql_name tbl" and "list_all (\<lambda>(n, v). sql_name n \<and> quotable v) ms"
  shows "read_insert (insert_view tbl ms) = Some (tbl, map fst ms, map snd ms)"
proof -
  have names: "list_all sql_name (map fst ms)" and vals: "list_all quotable (map snd ms)"
    using assms(3) by (auto simp: list_all_iff)
  let ?cols = "join '','' (map fst ms)" and ?vals = "join '','' (map add_string (map snd ms)) @ '')''"
  have "CHR '')'' \<notin> set ?cols"
    using names set_join [of "'',''" "map fst ms"] by (fastforce simp: list_all_iff sql_name_def)
  then have "cut_at '') values('' (?cols @ '') values('' @ ?vals) = Some (?cols, ?vals)"
    by (intro cut_at_append) simp_all
  moreover have "cut_at ''('' (tbl @ ''('' @ ?cols @ '') values('' @ ?vals) = Some (tbl, ?cols @ '') values('' @ ?vals)"
    using assms(2) by (intro cut_at_append) (simp_all add: sql_name_def)
  ultimately show ?thesis
    using split_on_join [OF _ names] read_values_list [OF vals] assms(1)
    by (simp add: read_insert_def insert_view_def comma_list_join comp_def)
qed

theorem insert_roundtrip_witness:
  "read_insert (insert_view ''account'' [(''id'', Num 0), (''acc'', Str ''bob''), (''password'', Str ''a,b'')]) =
     Some (''account'', [''id'', ''acc'', ''password''], [Num 0, Str ''bob'', Str ''a,b''])"
  using insert_roundtrip [of "[(''id'', Num 0), (''acc'', Str ''bob''), (''password'', Str ''a,b'')]" "''account''"]
  by (simp add: sql_name_def)

text \<open>A quote in a value ends the string: here the password is read from the account name.\<close>

lemma quote_escapes_value:
  "read_insert (insert_view ''account'' [(''acc'', Str (''x'' @ [dq] @ '','' @ [dq] @ ''y'')), (''password'', Str ''p'')]) = None \<and>
   read_values 2 (comma_list [add_string (Str (''x'' @ [dq] @ '','' @ [dq] @ ''y''))] @ '')'') = Some [Str ''x'', Str ''y'']"
  by code_simp

text \<open>The name of a struct, from the text GCC gives for the function.\<close>

lemma struct_name_example:
  "struct_name ''constexpr std::string_view aquarius::detail::struct_name() [with T = login::account; std::string_view = x]''
     = Some ''account'' \<and>
   get_member_pointer_name ''auto get_member_pointer_name() [with T = person; auto Ptr = &person::age]'' = Some ''age''"
  by code_simp

end
