(* ===== verification/Database.thy ===== *)
theory Database
  imports Modules Messages
begin

text \<open>
  The database service: the connector (include/aquarius/tbl/mysql_io_service.hpp), the module
  around it (src/database/mysql_module.cpp, mysql_module.h) and its two handlers
  (src/database/ctx_sql.cpp).

  The connection pool of Boost.MySQL is a parameter: its state \<open>'d\<close>, the result of asking for a
  connection and the result of executing a statement, with the rows as the text each field is
  streamed to and the number of affected rows.
\<close>

record query_result =
  result_rows :: "string list list"
  affected_rows :: "64 word"

record 'd pool_ops =
  get_connection :: "'d \<Rightarrow> error_code \<times> 'd"
  pool_execute :: "string \<Rightarrow> 'd \<Rightarrow> error_code \<times> query_result \<times> 'd"

section \<open>The connector\<close>

text \<open>Each field is printed on its own; the fields of all rows come in one list.\<close>

definition make_bytes_result :: "string list \<Rightarrow> string list \<Rightarrow> string list" where
  "make_bytes_result results row = results @ row"

definition io_query_only :: "'d pool_ops \<Rightarrow> string \<Rightarrow> 'd \<Rightarrow> string list \<times> error_code \<times> 'd" where
  "io_query_only ops sql d =
     (case get_connection ops d of (ec, d1) \<Rightarrow>
        if failed ec then ([], ec, d1)
        else case pool_execute ops sql d1 of (ec2, res, d2) \<Rightarrow>
               (if failed ec2 then [] else foldl make_bytes_result [] (result_rows res), ec2, d2))"

definition io_execute :: "'d pool_ops \<Rightarrow> string \<Rightarrow> 'd \<Rightarrow> 64 word \<times> error_code \<times> 'd" where
  "io_execute ops sql d =
     (case get_connection ops d of (ec, d1) \<Rightarrow>
        if failed ec then (0, ec, d1)
        else case pool_execute ops sql d1 of (ec2, res, d2) \<Rightarrow>
               (if failed ec2 then 0 else affected_rows res, ec2, d2))"

text \<open>
  \<open>transation\<close> keeps a reference to its argument. \<open>begin\<close>, \<open>commit\<close> and \<open>rollback\<close> are not coroutines: they
  make a \<open>std::string\<close> of a literal, pass it, and return the coroutine of \<open>transation\<close>, which starts
  only when it is awaited. By then the string is destroyed. The argument is the string the
  reference refers to, if it still exists.
\<close>

definition transation :: "'d pool_ops \<Rightarrow> string option \<Rightarrow> 'd \<Rightarrow> (fault + error_code) \<times> 'd" where
  "transation ops option d =
     (case get_connection ops d of (ec, d1) \<Rightarrow>
        if failed ec then (Inr ec, d1)
        else case option of
               None \<Rightarrow> (Inl Undefined, d1)
             | Some s \<Rightarrow> (case pool_execute ops s d1 of (ec2, res, d2) \<Rightarrow> (Inr ec2, d2)))"

definition destroyed :: "string \<Rightarrow> string option" where
  "destroyed temporary = None"


definition io_commit :: "'d pool_ops \<Rightarrow> 'd \<Rightarrow> (fault + error_code) \<times> 'd" where
  "io_commit ops = transation ops (destroyed ''COMMIT'')"

definition io_rollback :: "'d pool_ops \<Rightarrow> 'd \<Rightarrow> (fault + error_code) \<times> 'd" where
  "io_rollback ops = transation ops (destroyed ''ROLLBACK'')"

section \<open>The module\<close>

definition mysql_query_only :: "'d pool_ops \<Rightarrow> string \<Rightarrow> 'd \<Rightarrow> string list \<times> 'd" where
  "mysql_query_only ops sql d = (case io_query_only ops sql d of (results, ec, d') \<Rightarrow> (results, d'))"

definition mysql_execute :: "'d pool_ops \<Rightarrow> string \<Rightarrow> 'd \<Rightarrow> 64 word \<times> 'd" where
  "mysql_execute ops sql d = (case io_execute ops sql d of (affected, ec, d') \<Rightarrow> (affected, d'))"



section \<open>The handlers\<close>

definition ctx_execute :: "'d pool_ops \<Rightarrow> execute_sql_req_body \<Rightarrow> execute_sql_resp_body \<Rightarrow> 'd
    \<Rightarrow> error_code \<times> execute_sql_resp_body \<times> 'd" where
  "ctx_execute ops req resp d =
     (case mysql_execute ops (execute_sql req) d of (n, d') \<Rightarrow>
        (no_error, resp\<lparr>execute_affected := ucast n\<rparr>, d'))"

definition ctx_query :: "'d pool_ops \<Rightarrow> query_sql_req_body \<Rightarrow> query_sql_resp_body \<Rightarrow> 'd
    \<Rightarrow> error_code \<times> query_sql_resp_body \<times> 'd" where
  "ctx_query ops req resp d =
     (case mysql_query_only ops (query_sql req) d of (rs, d') \<Rightarrow> (no_error, resp\<lparr>query_results := rs\<rparr>, d'))"

section \<open>What is sent to the database\<close>




section \<open>Properties\<close>





end
