(* ===== verification/Query_Result.thy ===== *)
theory Query_Result
  imports Database Decimal
begin

text \<open>
  Rows as objects: \<open>async_query<T>\<close> of include/aquarius/tbl/mysql_io_service.hpp with its two
  functions \<open>make_result\<close> and with \<open>cast\<close>, and the function of src/database/mysql_module.h around it.
  A class \<open>T\<close> of which \<open>boost::pfr\<close> lists the members is the list of the types of its columns, and an
  object of it the list of its members. The types are those of mysql_type.hpp that can be
  extracted from a stream. A row is the list of the texts its fields are printed as.
\<close>

datatype column_type = Col_uint64 | Col_int64 | Col_string

datatype column = Uint64 "64 word" | Int64 "64 word" | Text string

primrec cast :: "column_type \<Rightarrow> string \<Rightarrow> column" where
  "cast Col_uint64 field = Uint64 (extract_unsigned field)"
| "cast Col_int64 field = Int64 (extract_signed field)"
| "cast Col_string field = Text (extract_word field)"

text \<open>\<open>row[I]\<close> of a row that has fewer fields is not checked.\<close>

definition make_struct_result :: "column_type list \<Rightarrow> column list list \<Rightarrow> string list \<Rightarrow> fault + column list list" where
  "make_struct_result tys results row =
     (if length row < length tys then Inl Undefined
      else Inr (results @ [map2 cast tys row]))"

text \<open>The overload for integers, at \<open>int64_t\<close>: the first field of every row.\<close>

definition make_integral_result :: "column list \<Rightarrow> string list \<Rightarrow> fault + column list" where
  "make_integral_result results row =
     (case row of [] \<Rightarrow> Inl Undefined | field # _ \<Rightarrow> Inr (results @ [cast Col_int64 field]))"

text \<open>The loop over the rows.\<close>

fun make_results :: "('r \<Rightarrow> string list \<Rightarrow> fault + 'r) \<Rightarrow> string list list \<Rightarrow> 'r \<Rightarrow> fault + 'r" where
  "make_results mk [] results = Inr results"
| "make_results mk (row # rows) results =
     (case mk results row of Inl f \<Rightarrow> Inl f | Inr results' \<Rightarrow> make_results mk rows results')"

definition io_query :: "'d pool_ops \<Rightarrow> ('t list \<Rightarrow> string list \<Rightarrow> fault + 't list) \<Rightarrow> string \<Rightarrow> 'd
    \<Rightarrow> (fault + 't list) \<times> error_code \<times> 'd" where
  "io_query ops mk sql d =
     (case get_connection ops d of (ec, d1) \<Rightarrow>
        if failed ec then (Inr [], ec, d1)
        else case pool_execute ops sql d1 of (ec2, res, d2) \<Rightarrow>
               (if failed ec2 then Inr [] else make_results mk (result_rows res) [], ec2, d2))"

text \<open>The function of the module logs the error and returns the objects.\<close>

definition mysql_query :: "'d pool_ops \<Rightarrow> ('t list \<Rightarrow> string list \<Rightarrow> fault + 't list) \<Rightarrow> string \<Rightarrow> 'd
    \<Rightarrow> (fault + 't list) \<times> 'd" where
  "mysql_query ops mk sql d = (case io_query ops mk sql d of (results, ec, d') \<Rightarrow> (results, d'))"

section \<open>Printing\<close>

primrec column_text :: "column \<Rightarrow> string" where
  "column_text (Uint64 n) = to_string (uint n)"
| "column_text (Int64 n) = to_string (sint n)"
| "column_text (Text s) = s"

primrec column_type_of :: "column \<Rightarrow> column_type" where
  "column_type_of (Uint64 n) = Col_uint64"
| "column_type_of (Int64 n) = Col_int64"
| "column_type_of (Text s) = Col_string"

primrec single_word :: "column \<Rightarrow> bool" where
  "single_word (Uint64 n) = True"
| "single_word (Int64 n) = True"
| "single_word (Text s) = list_all (\<lambda>c. \<not> is_space c) s"

lemma cast_column_text: "cast (column_type_of x) (column_text x) = x \<longleftrightarrow> single_word x"
  by (cases x) (simp_all add: extract_unsigned_decimal extract_signed_decimal extract_word_iff list_all_iff)

lemma cast_row: "map2 cast (map column_type_of row) (map column_text row) = row \<longleftrightarrow> list_all single_word row"
  by (induction row) (simp_all add: cast_column_text)

lemma make_results_struct:
  assumes "\<forall>row \<in> set rows. length tys \<le> length row"
  shows "make_results (make_struct_result tys) rows results = Inr (results @ map (map2 cast tys) rows)"
  using assms by (induction rows arbitrary: results) (auto simp: make_struct_result_def)

lemma make_results_rows:
  assumes "\<forall>row \<in> set rows. map column_type_of row = tys"
  shows "make_results (make_struct_result tys) (map (map column_text) rows) [] = Inr rows \<longleftrightarrow>
         list_all (list_all single_word) rows"
proof -
  from assms have "\<forall>row \<in> set (map (map column_text) rows). length tys \<le> length row" by fastforce
  from make_results_struct [OF this, of "[]"]
  have "make_results (make_struct_result tys) (map (map column_text) rows) [] = Inr rows \<longleftrightarrow>
        map (\<lambda>row. map2 cast tys (map column_text row)) rows = rows" by (simp add: comp_def)
  also have "\<dots> \<longleftrightarrow> (\<forall>row \<in> set rows. map2 cast tys (map column_text row) = row)" by (auto simp: list_eq_iff_nth_eq all_set_conv_all_nth)
  also have "\<dots> \<longleftrightarrow> list_all (list_all single_word) rows"
    using assms by (auto simp: list_all_iff [of _ rows] simp flip: cast_row)
  finally show ?thesis .
qed

section \<open>Properties\<close>

text \<open>
  C32. A query returns the objects that are stored, except for texts with white space. When the
  statement succeeds and its rows hold objects of the class asked for, the query returns just
  these objects, in order, if and only if none of their strings has a white-space character in
  it; the numbers are never changed.
\<close>

theorem query_returns_objects:
  assumes "get_connection ops d = (no_error, d1)" and "pool_execute ops sql d1 = (no_error, res, d2)"
    and "result_rows res = map (map column_text) rows" and "\<forall>row \<in> set rows. map column_type_of row = tys"
  shows "io_query ops (make_struct_result tys) sql d = (Inr rows, no_error, d2) \<longleftrightarrow> list_all (list_all single_word) rows"
  using assms make_results_rows [OF assms(4)] by (simp add: io_query_def failed_def no_error_def)

definition sample_rows :: "unit pool_ops" where
  "sample_rows = \<lparr>get_connection = (\<lambda>d. (no_error, d)),
     pool_execute = (\<lambda>_ d. (no_error, \<lparr>result_rows = [[''ann lee'']], affected_rows = 0\<rparr>, d))\<rparr>"

theorem query_returns_objects_witness:
  "io_query sample_rows (make_struct_result [Col_string]) ''select'' () =
     (Inr [[Text ''ann'']], no_error, ()) \<and>
   \<not> (io_query sample_rows (make_struct_result [Col_string]) ''select'' () =
     (Inr [[Text ''ann lee'']], no_error, ()))"
proof (rule conjI)
  show "io_query sample_rows (make_struct_result [Col_string]) ''select'' () =
     (Inr [[Text ''ann'']], no_error, ())" by code_simp
  have 1: "get_connection sample_rows () = (no_error, ())"
    and 2: "pool_execute sample_rows ''select'' () = (no_error, \<lparr>result_rows = [[''ann lee'']], affected_rows = 0\<rparr>, ())"
    by (simp_all add: sample_rows_def)
  have 3: "result_rows \<lparr>result_rows = [[''ann lee'']], affected_rows = 0\<rparr> = map (map column_text) [[Text ''ann lee'']]"
    by code_simp
  have 4: "\<forall>row \<in> set [[Text ''ann lee'']]. map column_type_of row = [Col_string]" by simp
  have "\<not> list_all (list_all single_word) [[Text ''ann lee'']]" by code_simp
  with query_returns_objects [OF 1 2 3 4]
  show "\<not> (io_query sample_rows (make_struct_result [Col_string]) ''select'' () =
     (Inr [[Text ''ann lee'']], no_error, ()))" by blast
qed

end
