(* ===== verification/Login.thy ===== *)
theory Login
  imports Database Sql_Views Http_Tables
begin

text \<open>
  The login service: the accounts (src/login/auth_module.cpp, auth_module.h), the execution of
  statements by the database service (src/login/enter_view.hpp) and the login handler
  (src/login/ctx_login.cpp).

  A call to the database service is a parameter: \<open>call_query\<close> and \<open>call_execute\<close> take the body of
  the request and the state \<open>'w\<close> of the rest of the system and return the body of the response.
\<close>

section \<open>Data\<close>

record account =
  acc_id :: "64 word"
  acc :: string
  acc_password :: string

type_synonym accounts = "string \<rightharpoonup> account"

definition account_members :: "account \<Rightarrow> members" where
  "account_members a = [(''id'', Num (uint (acc_id a))), (''acc'', Str (acc a)), (''password'', Str (acc_password a))]"

section \<open>Executing statements\<close>

text \<open>\<open>make_result\<close> for an account: at most one object is made, from the first three strings.\<close>

definition make_result :: "account list \<Rightarrow> string list \<Rightarrow> fault + account list" where
  "make_result results row =
     (if row = [] then Inr results
      else if length row < 3 then Inl Undefined
      else Inr (results @ [\<lparr>acc_id = extract_unsigned (row ! 0), acc = extract_word (row ! 1),
                            acc_password = extract_word (row ! 2)\<rparr>]))"

definition enter_query :: "(query_sql_req_body \<Rightarrow> 'w \<Rightarrow> query_sql_resp_body \<times> 'w) \<Rightarrow> string \<Rightarrow> 'w
    \<Rightarrow> (fault + account list) \<times> 'w" where
  "enter_query call_query sql w =
     (case call_query (query_sql_req_body_default\<lparr>query_sql := sql\<rparr>) w of
        (resp, w') \<Rightarrow> (make_result [] (query_results resp), w'))"

definition enter_execute :: "(execute_sql_req_body \<Rightarrow> 'w \<Rightarrow> execute_sql_resp_body \<times> 'w) \<Rightarrow> string \<Rightarrow> 'w
    \<Rightarrow> 64 word \<times> 'w" where
  "enter_execute call_execute sql w =
     (case call_execute (execute_sql_req_body_default\<lparr>execute_sql := sql\<rparr>) w of
        (resp, w') \<Rightarrow> (ucast (execute_affected resp), w'))"

section \<open>Accounts\<close>

definition fill_account :: "account \<Rightarrow> accounts \<Rightarrow> accounts" where
  "fill_account a m =
     (let old = (case m (acc a) of None \<Rightarrow> \<lparr>acc_id = 0, acc = [], acc_password = []\<rparr> | Some x \<Rightarrow> x)
      in m(acc a \<mapsto> old\<lparr>acc := acc a, acc_password := acc_password a\<rparr>))"

definition load_account :: "(query_sql_req_body \<Rightarrow> 'w \<Rightarrow> query_sql_resp_body \<times> 'w) \<Rightarrow> accounts \<Rightarrow> 'w
    \<Rightarrow> fault option \<times> accounts \<times> 'w" where
  "load_account call_query m w =
     (case enter_query call_query (select_text (select_reset (select_new ''account'' []))) w of
        (Inl f, w') \<Rightarrow> (Some f, m, w')
      | (Inr res, w') \<Rightarrow> (None, fold fill_account res m, w'))"

definition sql_insert :: "(execute_sql_req_body \<Rightarrow> 'w \<Rightarrow> execute_sql_resp_body \<times> 'w) \<Rightarrow> account \<Rightarrow> accounts \<Rightarrow> 'w
    \<Rightarrow> error_code \<times> accounts \<times> 'w" where
  "sql_insert call_execute a m w =
     (case enter_execute call_execute (insert_view ''account'' (account_members a)) w of
        (affected, w') \<Rightarrow> (no_error, if affected \<noteq> 0 then fill_account a m else m, w'))"

text \<open>\<open>sql_remove\<close> executes the same insert statement.\<close>

definition sql_remove :: "(execute_sql_req_body \<Rightarrow> 'w \<Rightarrow> execute_sql_resp_body \<times> 'w) \<Rightarrow> account \<Rightarrow> accounts \<Rightarrow> 'w
    \<Rightarrow> error_code \<times> accounts \<times> 'w" where
  "sql_remove call_execute a m w =
     (case enter_execute call_execute (insert_view ''account'' (account_members a)) w of
        (affected, w') \<Rightarrow> (no_error, if affected \<noteq> 0 then m(acc a := None) else m, w'))"

definition sql_update :: "(execute_sql_req_body \<Rightarrow> 'w \<Rightarrow> execute_sql_resp_body \<times> 'w) \<Rightarrow> account \<Rightarrow> 'w \<Rightarrow> 64 word \<times> 'w" where
  "sql_update call_execute a w = enter_execute call_execute (complete_sql (update_view ''account'' (account_members a))) w"

definition create_account :: "(execute_sql_req_body \<Rightarrow> 'w \<Rightarrow> execute_sql_resp_body \<times> 'w) \<Rightarrow> string \<Rightarrow> string
    \<Rightarrow> accounts \<Rightarrow> 'w \<Rightarrow> error_code \<times> accounts \<times> 'w" where
  "create_account call_execute username passwd m w =
     sql_insert call_execute \<lparr>acc_id = 0, acc = username, acc_password = passwd\<rparr> m w"

definition remove_account :: "(execute_sql_req_body \<Rightarrow> 'w \<Rightarrow> execute_sql_resp_body \<times> 'w) \<Rightarrow> string
    \<Rightarrow> accounts \<Rightarrow> 'w \<Rightarrow> error_code \<times> accounts \<times> 'w" where
  "remove_account call_execute username m w =
     sql_remove call_execute \<lparr>acc_id = 0, acc = username, acc_password = []\<rparr> m w"

text \<open>After the update the function ends without \<open>co_return\<close>, which is undefined.\<close>

definition change_password :: "(execute_sql_req_body \<Rightarrow> 'w \<Rightarrow> execute_sql_resp_body \<times> 'w) \<Rightarrow> string \<Rightarrow> string \<Rightarrow> string
    \<Rightarrow> string \<Rightarrow> accounts \<Rightarrow> 'w \<Rightarrow> (fault + error_code) \<times> accounts \<times> 'w" where
  "change_password call_execute username old_passwd new_passwd new_passwd_sec m w =
     (if new_passwd \<noteq> new_passwd_sec then (Inr (make_error_code_login login_not_exist_account), m, w)
      else case m username of
             None \<Rightarrow> (Inr (make_error_code_login login_not_exist_account), m, w)
           | Some a \<Rightarrow>
               if acc_password a \<noteq> old_passwd then (Inr (make_error_code_login login_incorrect_passwd), m, w)
               else let a' = a\<lparr>acc_password := new_passwd\<rparr>
                    in case sql_update call_execute a' w of
                         (affected, w') \<Rightarrow>
                           (Inl Undefined,
                            if affected = 0 then m(username \<mapsto> a'\<lparr>acc_password := old_passwd\<rparr>) else m(username \<mapsto> a'), w'))"

definition check_password :: "string \<Rightarrow> string \<Rightarrow> accounts \<Rightarrow> error_code" where
  "check_password username passwd m =
     (case m username of
        None \<Rightarrow> make_error_code_login login_not_exist_account
      | Some a \<Rightarrow> if acc_password a = passwd then make_error_code_login login_success
                  else make_error_code_login login_incorrect_passwd)"

text \<open>
  The login handler calls the module by name; without the module the call returns
  \<open>error_code{}\<close>, which is not the code \<open>success\<close> of the login category.
\<close>

definition ctx_login :: "accounts option \<Rightarrow> login_req_body \<Rightarrow> error_code" where
  "ctx_login auth req =
     (let is_exist = (case auth of None \<Rightarrow> no_error | Some m \<Rightarrow> check_password (login_username req) (login_password req) m)
      in make_error_code_http (if is_exist \<noteq> make_error_code_login login_success then 401 else 200))"

section \<open>The abstract store\<close>

text \<open>What the service promises: a map from user names to passwords.\<close>

definition store :: "accounts \<Rightarrow> (string \<rightharpoonup> string)" where
  "store m = (\<lambda>u. map_option acc_password (m u))"

definition store_create :: "bool \<Rightarrow> string \<Rightarrow> string \<Rightarrow> (string \<rightharpoonup> string) \<Rightarrow> (string \<rightharpoonup> string)" where
  "store_create accepted_by_db u p s = (if accepted_by_db then s(u \<mapsto> p) else s)"

definition store_remove :: "bool \<Rightarrow> string \<Rightarrow> (string \<rightharpoonup> string) \<Rightarrow> (string \<rightharpoonup> string)" where
  "store_remove accepted_by_db u s = (if accepted_by_db then s(u := None) else s)"

text \<open>The database affected a row with the statement.\<close>

definition affects :: "(execute_sql_req_body \<Rightarrow> 'w \<Rightarrow> execute_sql_resp_body \<times> 'w) \<Rightarrow> string \<Rightarrow> 'w \<Rightarrow> bool" where
  "affects call_execute sql w \<longleftrightarrow> fst (enter_execute call_execute sql w) \<noteq> 0"

lemma store_fill: "store (fill_account a m) = (store m)(acc a \<mapsto> acc_password a)"
  by (auto simp: store_def fill_account_def Let_def)

lemma store_upd: "store (m(u \<mapsto> a)) = (store m)(u \<mapsto> acc_password a)" "store (m(u := None)) = (store m)(u := None)"
  by (auto simp: store_def)

section \<open>Properties\<close>

text \<open>
  C21. The accounts refine a map from names to passwords. Creating and removing act on the map as
  their abstract counterparts, where an operation counts as accepted when the database affected
  a row with the statement it was sent, and leave it unchanged otherwise. Changing a password is
  refused, with its code and without any effect, unless both new passwords are the same and the old
  one is in the map; a change that is not refused has undefined behaviour. A check succeeds
  exactly when the map has that password under that name, and the login handler answers 200
  exactly then.
\<close>

theorem accounts_refine_store:
  "store (fst (snd (create_account ex u p m w))) =
           store_create (affects ex (insert_view ''account'' (account_members \<lparr>acc_id = 0, acc = u, acc_password = p\<rparr>)) w) u p (store m) \<and>
         store (fst (snd (remove_account ex u m w))) =
           store_remove (affects ex (insert_view ''account'' (account_members \<lparr>acc_id = 0, acc = u, acc_password = []\<rparr>)) w) u (store m) \<and>
         (if new = new2 \<and> store m u = Some old then fst (change_password ex u old new new2 m w) = Inl Undefined
          else change_password ex u old new new2 m w =
            (Inr (make_error_code_login (if new = new2 \<and> store m u \<noteq> None then login_incorrect_passwd else login_not_exist_account)), m, w)) \<and>
         (check_password u p m = make_error_code_login login_success \<longleftrightarrow> store m u = Some p) \<and>
         (ctx_login (Some m) \<lparr>login_username = u, login_password = p\<rparr> = make_error_code_http 200 \<longleftrightarrow> store m u = Some p)"
proof (intro conjI)
  show "store (fst (snd (create_account ex u p m w))) =
      store_create (affects ex (insert_view ''account'' (account_members \<lparr>acc_id = 0, acc = u, acc_password = p\<rparr>)) w) u p (store m)"
    by (simp add: create_account_def sql_insert_def affects_def case_prod_beta store_fill store_create_def)
  show "store (fst (snd (remove_account ex u m w))) =
      store_remove (affects ex (insert_view ''account'' (account_members \<lparr>acc_id = 0, acc = u, acc_password = []\<rparr>)) w) u (store m)"
    by (simp add: remove_account_def sql_remove_def affects_def case_prod_beta store_upd store_remove_def)
  show ch: "check_password u p m = make_error_code_login login_success \<longleftrightarrow> store m u = Some p"
    by (simp add: check_password_def store_def make_error_code_login_def enum_value_def login_errors_def split: option.splits)
  then show "ctx_login (Some m) \<lparr>login_username = u, login_password = p\<rparr> = make_error_code_http 200 \<longleftrightarrow> store m u = Some p"
    by (simp add: ctx_login_def make_error_code_http_def)
  show "if new = new2 \<and> store m u = Some old then fst (change_password ex u old new new2 m w) = Inl Undefined
      else change_password ex u old new new2 m w =
        (Inr (make_error_code_login (if new = new2 \<and> store m u \<noteq> None then login_incorrect_passwd else login_not_exist_account)), m, w)"
    by (auto simp: change_password_def store_def Let_def split: option.splits prod.splits)
qed

text \<open>
  C38. The service knows one account at most after it started. Whatever rows with id, name and
  password the account table has, the database answers with one list of all their fields, and
  \<open>load_account\<close> makes one account of it: the first. Names and passwords without white space are
  taken as they are.
\<close>

theorem only_first_account_loaded:
  assumes "get_connection ops d = (no_error, d1)"
    and "pool_execute ops ''select * from account'' d1 = (no_error, \<lparr>result_rows = [i, u, p] # rows, affected_rows = n\<rparr>, d2)"
    and "\<forall>c \<in> set u \<union> set p. \<not> is_space c"
  shows "\<exists>m. load_account (\<lambda>req d. snd (ctx_query ops req query_sql_resp_body_default d)) Map.empty d = (None, m, d2) \<and>
     store m = [u \<mapsto> p]"
proof -
  have sql: "select_text (select_reset (select_new ''account'' [])) = ''select * from account''"
    by (simp add: select_text_def select_reset_def select_new_def select_content_def concat_v_def)
  have flat: "foldl make_bytes_result r rows = r @ concat rows" for r rows
    by (induction rows arbitrary: r) (simp_all add: make_bytes_result_def)
  have w: "extract_word u = u" "extract_word p = p"
    using assms(3) by (auto simp: extract_word_iff)
  have "snd (ctx_query ops (query_sql_req_body_default\<lparr>query_sql := ''select * from account''\<rparr>) query_sql_resp_body_default d) =
      (query_sql_resp_body_default\<lparr>query_results := i # u # p # concat rows\<rparr>, d2)"
    using assms(1,2) by (simp add: ctx_query_def mysql_query_only_def io_query_only_def flat make_bytes_result_def failed_def no_error_def)
  then have "load_account (\<lambda>req d. snd (ctx_query ops req query_sql_resp_body_default d)) Map.empty d =
      (None, fill_account \<lparr>acc_id = extract_unsigned i, acc = u, acc_password = p\<rparr> Map.empty, d2)"
    by (simp add: load_account_def enter_query_def sql make_result_def w)
  then show ?thesis by (auto simp: store_fill) (simp add: store_def fun_eq_iff)
qed

theorem only_first_account_loaded_witness:
  "\<exists>m. load_account (\<lambda>req d. snd (ctx_query
         \<lparr>get_connection = (\<lambda>d. (no_error, d)),
          pool_execute = (\<lambda>sql d. (no_error, \<lparr>result_rows = [[''1'', ''bob'', ''pw''], [''2'', ''eve'', ''px'']], affected_rows = 0\<rparr>, d))\<rparr>
         req query_sql_resp_body_default d)) Map.empty () = (None, m, ()) \<and> store m = [''bob'' \<mapsto> ''pw'']"
  using only_first_account_loaded
    [of "\<lparr>get_connection = (\<lambda>d. (no_error, d)),
          pool_execute = (\<lambda>sql d. (no_error, \<lparr>result_rows = [[''1'', ''bob'', ''pw''], [''2'', ''eve'', ''px'']], affected_rows = 0\<rparr>, d))\<rparr>"
      "()" "()" "''1''" "''bob''" "''pw''" "[[''2'', ''eve'', ''px'']]" 0 "()"]
  by (simp add: is_space_def)

end
