(* ===== verification/Client_Pool.thy ===== *)
theory Client_Pool
  imports Client Registry Messages
begin

text \<open>
  Service discovery. The selectors (src/serviced/payload.hpp and its copies in src/gateway and
  src/login), the pool of clients and the registration handler of the service directory
  (src/serviced/client_pool.h, client_pool.cpp, ctx_regist.cpp, make_host_and_port.hpp), the
  shaking handler that every service has (ctx_shake.cpp), and the topics of the gateway
  (src/gateway/client_pool.cpp, ctx_serviced.cpp). The call that the registration makes is a parameter
  here; \<open>Discovery\<close> has it.

  A transfer context is what it forwards to: the group and instance on the directory, the
  directory itself on the gateway. The conversions of Asio between the text of an IPv4 address
  and its number are parameters, as are the sockets and session numbers of new connections.
\<close>

section \<open>Selectors\<close>

definition round_robin_invoke :: "nat \<Rightarrow> 'a list \<Rightarrow> 'a option \<times> nat" where
  "round_robin_invoke index entities =
     (if entities = [] then (None, index)
      else let i = (if index \<ge> length entities then 0 else index) in (Some (entities ! i), Suc i))"

text \<open>\<open>weight\<close> is the number drawn between 0 and 100.\<close>

definition weight_first_invoke :: "int \<Rightarrow> ('a \<Rightarrow> int) \<Rightarrow> 'a list \<Rightarrow> 'a option" where
  "weight_first_invoke weight weight_of entities = find (\<lambda>s. weight < weight_of s) entities"

definition uuid_hash_invoke :: "32 word \<Rightarrow> 'a list \<Rightarrow> 'a option" where
  "uuid_hash_invoke generated entities =
     (if entities = [] then None else Some (entities ! (unat generated mod length entities)))"

fun some_min_loop :: "('a \<Rightarrow> 64 word) \<Rightarrow> 'a list \<Rightarrow> nat \<Rightarrow> nat \<Rightarrow> 64 word \<Rightarrow> nat" where
  "some_min_loop f [] index target max_total = target"
| "some_min_loop f (s # ss) index target max_total =
     (if f s < max_total then some_min_loop f ss (Suc index) index (f s)
      else some_min_loop f ss (Suc index) target max_total)"

definition some_min_invoke :: "('a \<Rightarrow> 64 word) \<Rightarrow> 'a list \<Rightarrow> 'a option" where
  "some_min_invoke f entities =
     (if entities = [] then None
      else let target = some_min_loop f entities 0 0 (- 1)
           in if target \<ge> length entities then None else Some (entities ! target))"

section \<open>Addresses\<close>

text \<open>
  The port is an \<open>int32_t\<close>; in the disjunction with the 64-bit host it is sign-extended. An
  address that is not one throws.
\<close>

definition make_host_and_port :: "(string \<Rightarrow> 32 word option) \<Rightarrow> string \<Rightarrow> 32 word \<Rightarrow> fault + 64 word" where
  "make_host_and_port make_address host port =
     (case make_address host of
        None \<Rightarrow> Inl (Thrown runtime_error)
      | Some a \<Rightarrow> Inr (or (push_bit 32 (ucast a)) (scast port)))"

definition instance_to_host :: "(32 word \<Rightarrow> string) \<Rightarrow> 64 word \<Rightarrow> string \<times> 32 word" where
  "instance_to_host address_text host_and_port =
     (address_text (ucast (drop_bit 32 host_and_port)), ucast host_and_port)"

section \<open>The pool\<close>

record ('s, 'w) client_info =
  host_port :: "64 word"
  info_name :: string
  healthy :: bool
  info_weight :: "32 word"
  info_version :: string
  clients :: "('s, 'w) client option list"

type_synonym ('s, 'w) pool = "string \<rightharpoonup> ('s, 'w) client_info list"

definition max_connection :: nat where
  "max_connection = 2"

definition pool_remove :: "string \<Rightarrow> 64 word \<Rightarrow> ('s, 'w) pool \<Rightarrow> ('s, 'w) pool" where
  "pool_remove grp hp p =
     (case p grp of
        None \<Rightarrow> p
      | Some infos \<Rightarrow>
          (case List.extract (\<lambda>i. host_port i = hp) infos of
             None \<Rightarrow> p
           | Some (before, _, after) \<Rightarrow> p(grp \<mapsto> before @ after)))"

text \<open>
  The loop of \<open>add\<close> over the two clients: a client is made, given its close function and
  connected; a failure leaves the rest of the list null. The close function is a coroutine given
  to a \<open>std::function<void(...)>\<close>, which drops it unstarted, so that calling it does nothing.
  \<open>socks\<close> are the socket and the session number of each connection.
\<close>

fun add_clients :: "'s socket_ops \<Rightarrow> string \<Rightarrow> 16 word \<Rightarrow> ('s \<times> 32 word) list \<Rightarrow> 'w
    \<Rightarrow> fault option \<times> ('s, 'w) client option list \<times> 'w" where
  "add_clients ops host port [] w = (None, [], w)"
| "add_clients ops host port ((sock, generated) # socks) w =
     (case client_connect ops sock generated host port (set_close_func (\<lambda>w. w) (client_new 30)) w of
        (Inl f, c, w') \<Rightarrow> (Some f, Some c # replicate (length socks) None, w')
      | (Inr ec, c, w') \<Rightarrow>
          if failed ec then (None, Some c # replicate (length socks) None, w')
          else case add_clients ops host port socks w' of (r, cs, w'') \<Rightarrow> (r, Some c # cs, w''))"

text \<open>\<open>weight\<close> is not stored; the member keeps the 0 it is created with.\<close>

definition pool_add :: "'s socket_ops \<Rightarrow> (32 word \<Rightarrow> string) \<Rightarrow> string \<Rightarrow> 64 word \<Rightarrow> string \<Rightarrow> bool \<Rightarrow> 32 word \<Rightarrow> string
    \<Rightarrow> ('s \<times> 32 word) \<times> ('s \<times> 32 word) \<Rightarrow> ('s, 'w) pool \<Rightarrow> 'w \<Rightarrow> fault option \<times> ('s, 'w) pool \<times> 'w" where
  "pool_add ops address_text grp hp name is_healthy weight version socks p w =
     (case instance_to_host address_text hp of (host, port) \<Rightarrow>
        case add_clients ops host (ucast port) [fst socks, snd socks] w of
          (r, cs, w') \<Rightarrow>
            (r, p(grp \<mapsto> (case p grp of None \<Rightarrow> [] | Some infos \<Rightarrow> infos) @
                   [\<lparr>host_port = hp, info_name = name, healthy = is_healthy, info_weight = 0,
                     info_version = version, clients = cs\<rparr>]), w'))"

text \<open>
  The choice of \<open>invoke\<close>: with instance 0 the selector is a fresh \<open>round_robin\<close>, otherwise the
  first entry of that instance; then a fresh \<open>round_robin\<close> over its connections. The result is
  the position of the entry and of the connection.
\<close>

definition pool_entry :: "string \<Rightarrow> 64 word \<Rightarrow> ('s, 'w) pool \<Rightarrow> nat option" where
  "pool_entry grp hp p =
     (case p grp of
        None \<Rightarrow> None
      | Some infos \<Rightarrow>
          if hp = 0 then fst (round_robin_invoke 0 [0..<length infos])
          else find (\<lambda>i. host_port (infos ! i) = hp) [0..<length infos])"

text \<open>
  Both forms of \<open>invoke\<close> run \<open>call\<close> on the chosen connection, a null pointer being undefined. A call
  that does not return is \<open>None\<close>, and nothing after it happens.
  Without a choice the first returns the empty response; the second returns
  \<open>not_exist_in_pool\<close> when the group is unknown and otherwise ends without \<open>co_return\<close>.
\<close>

definition pool_call :: "(('s, 'w) client \<Rightarrow> 'w \<Rightarrow> ((fault + 'r) \<times> ('s, 'w) client \<times> 'w) option) \<Rightarrow> string \<Rightarrow> nat
    \<Rightarrow> ('s, 'w) pool \<Rightarrow> 'w \<Rightarrow> ((fault + 'r) \<times> ('s, 'w) pool \<times> 'w) option" where
  "pool_call call grp i p w =
     (let infos = the (p grp); info = infos ! i
      in case fst (round_robin_invoke 0 (clients info)) of
           Some (Some c) \<Rightarrow>
             map_option (\<lambda>(r, c', w'). (r, p(grp \<mapsto> infos[i := info\<lparr>clients := (clients info)[0 := Some c']\<rparr>]), w')) (call c w)
         | _ \<Rightarrow> Some (Inl Undefined, p, w))"

definition pool_invoke :: "(('s, 'w) client \<Rightarrow> 'w \<Rightarrow> ((fault + 'r) \<times> ('s, 'w) client \<times> 'w) option) \<Rightarrow> 'r \<Rightarrow> string \<Rightarrow> 64 word
    \<Rightarrow> ('s, 'w) pool \<Rightarrow> 'w \<Rightarrow> ((fault + 'r) \<times> ('s, 'w) pool \<times> 'w) option" where
  "pool_invoke call resp0 grp hp p w =
     (case pool_entry grp hp p of
        None \<Rightarrow> Some (Inr resp0, p, w)
      | Some i \<Rightarrow> pool_call call grp i p w)"

definition pool_invoke_buffer :: "(('s, 'w) client \<Rightarrow> 'w \<Rightarrow> ((fault + 'r) \<times> ('s, 'w) client \<times> 'w) option) \<Rightarrow> (error_code \<Rightarrow> 'r)
    \<Rightarrow> string \<Rightarrow> 64 word \<Rightarrow> ('s, 'w) pool \<Rightarrow> 'w \<Rightarrow> ((fault + 'r) \<times> ('s, 'w) pool \<times> 'w) option" where
  "pool_invoke_buffer call refuse grp hp p w =
     (case p grp of
        None \<Rightarrow> Some (Inr (refuse (make_error_code_serviced srvd_not_exist_in_pool)), p, w)
      | Some _ \<Rightarrow>
          (case pool_entry grp hp p of
             None \<Rightarrow> Some (Inl Undefined, p, w)
           | Some i \<Rightarrow> pool_call call grp i p w))"

section \<open>Registration and topics\<close>

datatype transfer = To_instance string "64 word" | To_directory

datatype 'h service_context = Handler 'h | Transfer transfer

text \<open>The loop at the end of \<open>shake\<close>, and \<open>set_topics\<close> of the gateway.\<close>

definition regist_topics :: "string \<Rightarrow> 64 word \<Rightarrow> string list \<Rightarrow> 'h service_context context_reg \<Rightarrow> 'h service_context context_reg" where
  "regist_topics grp hp topics r =
     fold (\<lambda>topic r. snd (mpc_put_context topic (Transfer (To_instance grp hp)) False r)) topics r"

definition set_topics :: "string list \<Rightarrow> 'h service_context context_reg \<Rightarrow> 'h service_context context_reg" where
  "set_topics topics r = fold (\<lambda>topic r. snd (mpc_put_context topic (Transfer To_directory) True r)) topics r"

text \<open>
  \<open>call\<close> is \<open>async_call\<close> of a shake request on a connection, up to its return: the body of the
  response, which is the empty one when nothing was sent.
\<close>

definition shake :: "'s socket_ops \<Rightarrow> (32 word \<Rightarrow> string)
    \<Rightarrow> (('s, 'w) client \<Rightarrow> 'w \<Rightarrow> ((fault + shake_resp_body) \<times> ('s, 'w) client \<times> 'w) option)
    \<Rightarrow> string \<Rightarrow> 64 word \<Rightarrow> string \<Rightarrow> bool \<Rightarrow> 32 word \<Rightarrow> string \<Rightarrow> ('s \<times> 32 word) \<times> ('s \<times> 32 word)
    \<Rightarrow> ('s, 'w) pool \<Rightarrow> 'h service_context context_reg \<Rightarrow> 'w
    \<Rightarrow> (fault option \<times> ('s, 'w) pool \<times> 'h service_context context_reg \<times> 'w) option" where
  "shake ops address_text call grp hp name is_healthy weight version socks p r w =
     (case pool_add ops address_text grp hp name is_healthy weight version socks p w of
        (Some f, p1, w1) \<Rightarrow> Some (Some f, p1, r, w1)
      | (None, p1, w1) \<Rightarrow>
          (case pool_invoke call shake_resp_body_default grp hp p1 w1 of
             None \<Rightarrow> None
           | Some (Inl f, p2, w2) \<Rightarrow> Some (Some f, p2, r, w2)
           | Some (Inr resp, p2, w2) \<Rightarrow> Some (None, p2, regist_topics grp hp (shake_topics resp) r, w2)))"

definition ctx_regist :: "(string \<Rightarrow> 32 word option) \<Rightarrow> 's socket_ops \<Rightarrow> (32 word \<Rightarrow> string)
    \<Rightarrow> (('s, 'w) client \<Rightarrow> 'w \<Rightarrow> ((fault + shake_resp_body) \<times> ('s, 'w) client \<times> 'w) option)
    \<Rightarrow> ('s \<times> 32 word) \<times> ('s \<times> 32 word) \<Rightarrow> regist_req_body
    \<Rightarrow> ('s, 'w) pool \<Rightarrow> 'h service_context context_reg \<Rightarrow> 'w
    \<Rightarrow> ((fault + error_code) \<times> ('s, 'w) pool \<times> 'h service_context context_reg \<times> 'w) option" where
  "ctx_regist make_address ops address_text call socks req p r w =
     (if regist_group req \<noteq> ''gateway''
      then case make_host_and_port make_address (regist_host req) (regist_port req) of
             Inl f \<Rightarrow> Some (Inl f, p, r, w)
           | Inr hp \<Rightarrow>
               (case shake ops address_text call (regist_group req) hp (regist_name req) (regist_healthy req)
                       (regist_weight req) (regist_version req) socks p r w of
                  None \<Rightarrow> None
                | Some (Some f, p', r', w') \<Rightarrow> Some (Inl f, p', r', w')
                | Some (None, p', r', w') \<Rightarrow> Some (Inr (make_error_code_serviced srvd_success), p', r', w'))
      else Some (Inr (make_error_code_serviced srvd_success), p, r, w))"

definition ctx_shake :: "'c context_reg \<Rightarrow> shake_resp_body \<Rightarrow> error_code \<times> shake_resp_body" where
  "ctx_shake r resp = (no_error, resp\<lparr>shake_topics := generate_topics r (shake_topics resp)\<rparr>)"

definition ctx_publish :: "publish_req_body \<Rightarrow> 'h service_context context_reg \<Rightarrow> error_code \<times> 'h service_context context_reg" where
  "ctx_publish req r = (make_error_code_gate gate_success, set_topics (publish_topics req) r)"

section \<open>Lemmas\<close>

lemma regist_topics_contexts:
  "map_of (contexts (regist_topics grp hp topics r)) t =
     (case map_of (contexts r) t of Some c \<Rightarrow> Some c
      | None \<Rightarrow> if t \<in> set topics then Some (Transfer (To_instance grp hp)) else None)"
  "sys_contexts (regist_topics grp hp topics r) = sys_contexts r"
proof -
  show "map_of (contexts (regist_topics grp hp topics r)) t =
     (case map_of (contexts r) t of Some c \<Rightarrow> Some c
      | None \<Rightarrow> if t \<in> set topics then Some (Transfer (To_instance grp hp)) else None)"
    by (induction topics arbitrary: r)
      (auto simp: regist_topics_def mpc_put_context_def ctx.lookup_put split: option.splits)
  show "sys_contexts (regist_topics grp hp topics r) = sys_contexts r"
    by (induction topics arbitrary: r) (simp_all add: regist_topics_def mpc_put_context_def)
qed

lemma set_topics_sys_contexts:
  "map_of (sys_contexts (set_topics topics r)) t =
     (case map_of (sys_contexts r) t of Some c \<Rightarrow> Some c
      | None \<Rightarrow> if t \<in> set topics then Some (Transfer To_directory) else None)"
  by (induction topics arbitrary: r)
    (auto simp: set_topics_def mpc_put_context_def sys_ctx.lookup_put split: option.splits)

lemma topics_are_contexts: "t \<in> set (generate_topics r []) \<longleftrightarrow> map_of (contexts r) t \<noteq> None"
  by (simp add: generate_topics_def map_of_eq_None_iff)

lemma bit_scast_32_64: "bit (scast (w :: 32 word) :: 64 word) n \<longleftrightarrow> n < 64 \<and> bit w (min n 31)"
  by (cases "n = 31") (auto simp: bit_simps min_def not_less le_less)

lemma drop_scast: "drop_bit 32 (scast (w :: 32 word) :: 64 word) = (if bit w 31 then mask 32 else 0)"
  by (rule bit_word_eqI) (auto simp: bit_simps bit_scast_32_64 min_def)

lemma low_scast: "ucast (scast (w :: 32 word) :: 64 word) = w"
  by (rule bit_word_eqI) (simp add: bit_simps bit_scast_32_64 min.absorb1)

lemma instance_to_host_parts:
  assumes "make_address host = Some a" and "make_host_and_port make_address host port = Inr hp"
  shows "instance_to_host address_text hp = (address_text (if bit port 31 then - 1 else a), port)"
proof -
  have hp: "hp = or (push_bit 32 (ucast a)) (scast port)" using assms by (simp add: make_host_and_port_def)
  have "ucast (drop_bit 32 hp) = (if bit port 31 then - 1 else a)"
    by (rule bit_word_eqI) (auto simp: hp bit_simps bit_scast_32_64 min_def)
  moreover have "ucast hp = port"
    by (rule bit_word_eqI) (simp add: hp bit_simps bit_scast_32_64 min.absorb1)
  ultimately show ?thesis by (simp add: instance_to_host_def)
qed

lemma some_min_loop_spec:
  assumes "xs = ys @ zs" and "index = length ys" and "target < length xs"
    and "max_total = f (xs ! target) \<or> ys = [] \<and> target = 0 \<and> max_total = - 1"
    and "\<forall>y \<in> set ys. max_total \<le> f y"
  shows "some_min_loop f zs index target max_total < length xs \<and>
     (\<forall>x \<in> set xs. f (xs ! some_min_loop f zs index target max_total) \<le> f x)"
  using assms
proof (induction zs arbitrary: ys index target max_total)
  case Nil
  then show ?case by auto
next
  case (Cons z zs)
  show ?case
  proof (cases "f z < max_total")
    case True
    have "xs ! index = z" "index < length xs" using Cons.prems(1,2) by simp_all
    with True show ?thesis using Cons.prems(1,2,5) Cons.IH [of "ys @ [z]" "Suc index" index "f z"] by (fastforce simp: le_less)
  next
    case False
    have "max_total = f (xs ! target)"
      using Cons.prems(1,4) False by (auto simp: not_less intro: antisym)
    moreover have "some_min_loop f (z # zs) index target max_total = some_min_loop f zs (Suc index) target max_total"
      using False by simp
    ultimately show ?thesis
      using Cons.prems False Cons.IH [of "ys @ [z]" "Suc index" target max_total] by (auto simp: not_less)
  qed
qed

text \<open>The entry that \<open>add\<close> has made is chosen when no other was before.\<close>

lemma pool_entry_added:
  assumes "pool_entry grp hp p = None"
  shows "pool_entry grp hp (p(grp \<mapsto> (case p grp of None \<Rightarrow> [] | Some infos \<Rightarrow> infos) @ [info])) =
     (if hp = 0 \<or> host_port info = hp then Some (length (case p grp of None \<Rightarrow> [] | Some infos \<Rightarrow> infos)) else None)"
proof -
  define infos where "infos = (case p grp of None \<Rightarrow> [] | Some infos \<Rightarrow> infos)"
  have n: "hp = 0 \<Longrightarrow> infos = []" "hp \<noteq> 0 \<Longrightarrow> \<forall>i < length infos. host_port (infos ! i) \<noteq> hp"
    using assms by (auto simp: pool_entry_def infos_def round_robin_invoke_def find_None_iff Let_def split: option.splits if_splits)
  have "find (\<lambda>i. host_port ((infos @ [info]) ! i) = hp) [0..<Suc (length infos)] =
      (if host_port info = hp then Some (length infos) else None)" if "hp \<noteq> 0"
  proof -
    have "find (\<lambda>i. host_port ((infos @ [info]) ! i) = hp) [0..<length infos] = None"
      using n(2) [OF that] by (auto simp: find_None_iff nth_append)
    moreover have "find P (xs @ ys) = (case find P xs of None \<Rightarrow> find P ys | Some x \<Rightarrow> Some x)" for P :: "nat \<Rightarrow> bool" and xs ys
      by (induction xs) auto
    ultimately show ?thesis by simp
  qed
  then show ?thesis unfolding infos_def [symmetric]
    using n(1) by (simp add: pool_entry_def round_robin_invoke_def del: upt_Suc)
qed

section \<open>Properties\<close>

text \<open>
  The selectors choose a member. On a non-empty list, the turn selector returns the entry
  of its index or, when the index has run out, the first, and moves on; the hash selector returns
  some member; the minimum selector returns a member with the least measure; on an empty list
  none returns anything. A selector by weight returns a member that weighs more than the number
  drawn, or nothing.
\<close>

theorem selectors_choose_member:
  assumes "xs \<noteq> []"
  shows "round_robin_invoke i xs = (if i < length xs then (Some (xs ! i), Suc i) else (Some (xs ! 0), 1)) \<and>
     (\<exists>x \<in> set xs. uuid_hash_invoke g xs = Some x) \<and>
     (\<exists>x \<in> set xs. some_min_invoke f xs = Some x \<and> (\<forall>y \<in> set xs. f x \<le> f y)) \<and>
     (\<forall>x. weight_first_invoke d wt xs = Some x \<longrightarrow> x \<in> set xs \<and> d < wt x) \<and>
     fst (round_robin_invoke i ([] :: 'a list)) = None \<and> uuid_hash_invoke g ([] :: 'a list) = None \<and>
     some_min_invoke f [] = None"
proof -
  have "some_min_loop f xs 0 0 (- 1) < length xs \<and> (\<forall>x \<in> set xs. f (xs ! some_min_loop f xs 0 0 (- 1)) \<le> f x)"
    using assms by (intro some_min_loop_spec [of _ "[]"]) simp_all
  moreover have "unat g mod length xs < length xs" using assms by simp
  ultimately show ?thesis
    using assms
    by (auto simp: round_robin_invoke_def uuid_hash_invoke_def some_min_invoke_def weight_first_invoke_def find_Some_iff
        not_less Let_def)
qed

theorem selectors_choose_member_witness:
  "some_min_invoke (\<lambda>x. x) [3, 1, 2 :: 64 word] = Some 1 \<and> round_robin_invoke 5 [3, 1, 2 :: 64 word] = (Some 3, 1)"
  using selectors_choose_member [of "[3, 1, 2 :: 64 word]" 5 0 "\<lambda>x. x" 0 "\<lambda>_. 0"] by (auto simp: some_min_invoke_def)

text \<open>
  C35. An instance number holds the address and the port of a service. For a port that is not
  negative the directory connects to the address and port that were registered; a negative port
  is kept too, but the address becomes 255.255.255.255.
\<close>

theorem instance_number_roundtrip:
  assumes "make_address host = Some a" and "\<And>h x. make_address h = Some x \<Longrightarrow> address_text x = h"
  shows "\<exists>hp. make_host_and_port make_address host port = Inr hp \<and>
     (0 \<le> sint port \<longrightarrow> instance_to_host address_text hp = (host, port)) \<and>
     (sint port < 0 \<longrightarrow> instance_to_host address_text hp = (address_text (- 1), port))"
proof -
  obtain hp where hp: "make_host_and_port make_address host port = Inr hp"
    using assms(1) by (simp add: make_host_and_port_def)
  have "bit port 31 \<longleftrightarrow> sint port < 0"
    using bit_last_iff [of port] by simp
  then show ?thesis
    using instance_to_host_parts [OF assms(1) hp, of address_text] assms hp by auto
qed

theorem instance_number_roundtrip_witness:
  "\<exists>hp. make_host_and_port (\<lambda>h. if h = ''127.0.0.1'' then Some 0x7F000001 else None) ''127.0.0.1'' 3344 = Inr hp \<and>
     instance_to_host (\<lambda>a. if a = 0x7F000001 then ''127.0.0.1'' else []) hp = (''127.0.0.1'', 3344)"
proof -
  let ?make = "\<lambda>h. if h = ''127.0.0.1'' then Some 0x7F000001 else None"
  let ?text = "\<lambda>a :: 32 word. if a = 0x7F000001 then ''127.0.0.1'' else []"
  have "\<exists>hp. make_host_and_port ?make ''127.0.0.1'' 3344 = Inr hp \<and>
     (0 \<le> sint (3344 :: 32 word) \<longrightarrow> instance_to_host ?text hp = (''127.0.0.1'', 3344)) \<and>
     (sint (3344 :: 32 word) < 0 \<longrightarrow> instance_to_host ?text hp = (?text (- 1), 3344))"
    by (rule instance_number_roundtrip) (auto split: if_splits)
  then show ?thesis by simp
qed

end
