(* ===== verification/Directory_Client.thy ===== *)
theory Directory_Client
  imports Client_Pool
begin

text \<open>
  The module through which a service talks to the directory (src/serviced/srvd_client.hpp):
  a connection made when the module runs, the registration of the service, and calls on behalf of
  others. \<open>host\<close> and \<open>port\<close> of \<open>init\<close> are those of the singleton \<open>srv_config\<close>.
\<close>

section \<open>State and operations\<close>

record ('s, 'w) srvd_client =
  srvd_conn :: "('s, 'w) client option"
  srvd_host :: string
  srvd_port :: "32 word"
  healthy_check_func :: "(64 word \<Rightarrow> bool \<Rightarrow> 'w \<Rightarrow> 'w) option"

definition srvd_init :: "string \<Rightarrow> 32 word \<Rightarrow> ('s, 'w) srvd_client \<Rightarrow> bool \<times> ('s, 'w) srvd_client" where
  "srvd_init host port c = (True, c\<lparr>srvd_host := host, srvd_port := port\<rparr>)"

text \<open>\<open>static_cast<uint16_t>(port_)\<close> keeps the low bits of the port.\<close>

definition srvd_run :: "'s socket_ops \<Rightarrow> 's \<Rightarrow> 32 word \<Rightarrow> ('s, 'w) srvd_client \<Rightarrow> 'w
    \<Rightarrow> (fault + bool) \<times> ('s, 'w) srvd_client \<times> 'w" where
  "srvd_run ops sock generated c w =
     (case client_connect ops sock generated (srvd_host c) (ucast (srvd_port c)) (client_new 30) w of
        (Inl x, conn, w') \<Rightarrow> (Inl x, c\<lparr>srvd_conn := Some conn\<rparr>, w')
      | (Inr ec, conn, w') \<Rightarrow> (Inr (\<not> failed ec), c\<lparr>srvd_conn := Some conn\<rparr>, w'))"

text \<open>
  Until the reply is there a call is suspended; the callback \<open>f\<close> is what reads the response. Without
  a connection the null pointer is dereferenced.
\<close>

definition srvd_async_call :: "'s socket_ops \<Rightarrow> (flex_buffer \<Rightarrow> (fault + error_code) \<times> flex_buffer) \<Rightarrow> 32 word
    \<Rightarrow> 'w callback_func \<Rightarrow> ('s, 'w) srvd_client \<Rightarrow> 'w \<Rightarrow> (fault + call_state) \<times> ('s, 'w) srvd_client \<times> 'w" where
  "srvd_async_call ops commit generated f c w =
     (case srvd_conn c of
        None \<Rightarrow> (Inl Undefined, c, w)
      | Some conn \<Rightarrow> (case async_call ops commit generated f conn w of
                        (r, conn', w') \<Rightarrow> (r, c\<lparr>srvd_conn := Some conn'\<rparr>, w')))"

definition srvd_async_call_buffer :: "'s socket_ops \<Rightarrow> flex_buffer \<Rightarrow> string \<Rightarrow> 32 word
    \<Rightarrow> 'w callback_func \<Rightarrow> ('s, 'w) srvd_client \<Rightarrow> (fault + call_state \<times> error_code) \<times> ('s, 'w) srvd_client" where
  "srvd_async_call_buffer ops req router generated f c =
     (case srvd_conn c of
        None \<Rightarrow> (Inl Undefined, c)
      | Some conn \<Rightarrow> (case async_call_buffer ops req router generated f conn of
                        (r, conn') \<Rightarrow> (r, c\<lparr>srvd_conn := Some conn'\<rparr>)))"

definition publish_message :: "string \<Rightarrow> string \<Rightarrow> 32 word \<Rightarrow> regist_req_body tcp_request" where
  "publish_message grp host port =
     \<lparr>header = tcp_header_default,
      body = regist_req_body_default\<lparr>regist_host := host, regist_port := port, regist_group := grp\<rparr>\<rparr>"

definition srvd_publish :: "'s socket_ops \<Rightarrow> regist_req_body serialization \<Rightarrow> 32 word \<Rightarrow> string \<Rightarrow> string \<Rightarrow> 32 word
    \<Rightarrow> 'w callback_func \<Rightarrow> ('s, 'w) srvd_client \<Rightarrow> 'w \<Rightarrow> (fault + call_state) \<times> ('s, 'w) srvd_client \<times> 'w" where
  "srvd_publish ops regist_ops generated grp host port f c w =
     srvd_async_call ops (commit_request regist_router regist_ops (publish_message grp host port)) generated f c w"

definition set_healty_check :: "(64 word \<Rightarrow> bool \<Rightarrow> 'w \<Rightarrow> 'w) \<Rightarrow> ('s, 'w) srvd_client \<Rightarrow> ('s, 'w) srvd_client" where
  "set_healty_check f c = c\<lparr>healthy_check_func := Some f\<rparr>"

text \<open>
  The function returns a coroutine that has not started, and \<open>healty_check\<close> drops it: nothing of the
  function is executed.
\<close>

definition healty_check :: "64 word \<Rightarrow> bool \<Rightarrow> ('s, 'w) srvd_client \<Rightarrow> 'w \<Rightarrow> 'w" where
  "healty_check hp ok c w = (case healthy_check_func c of None \<Rightarrow> w | Some f \<Rightarrow> w)"

section \<open>Lemmas\<close>

lemma client_connected:
  assumes "sock_connect ops sock host (to_string (uint port)) = (no_error, sock')" and "accept_func c = None"
  shows "client_connect ops sock g host port c w =
    (Inr no_error,
     c\<lparr>proto_ptr := Some (tcp_new \<lparr>socket = sock', session_uuid = ucast g, timeout = client_timeout c\<rparr>),
       client_host := host, client_port := port, querying := True\<rparr>, w)"
  using assms
  by (simp add: client_connect_def tcp_connect_def session_connect_def session_new_def tcp_new_def make_error_def
      accept_invoke_def failed_def no_error_def)

lemma client_connect_new:
  assumes "sock_connect ops sock host (to_string (uint port)) = (no_error, sock')"
  shows "client_connect ops sock g host port (client_new dura) w =
    (Inr no_error,
     (client_new dura)\<lparr>proto_ptr := Some (tcp_new \<lparr>socket = sock', session_uuid = ucast g, timeout = dura\<rparr>),
       client_host := host, client_port := port, querying := True\<rparr>, w)"
  using client_connected [OF assms, of "client_new dura" g w] by (simp add: client_new_def)

lemma async_call_sent:
  assumes "proto_ptr c = Some t" and "send_request ops commit n f t = (Inr no_error, src, t')"
  shows "async_call ops commit n f c w = (Inr (Suspended src), c\<lparr>proto_ptr := Some (tcp_wait src t')\<rparr>, w)"
  using assms by (simp add: async_call_def make_error_def failed_def no_error_def)

lemma send_request_waiting:
  assumes "send_request ops commit n f t = (Inr ec, src, t')"
  shows "waiting t' = waiting t"
  using registers_send_request [OF assms] by (simp add: registers_def)

section \<open>Properties\<close>

text \<open>
  C27. A service that has the address of the directory registers there. When the connection to the
  port, modulo \<open>2^16\<close>, is accepted, running the module succeeds, and the publication that follows
  writes one frame to it and nothing else: under its number, the registration request in whose body
  the host, the port and the group are those of the service and every other member has its
  initial value. The call then waits for the reply to that number.
\<close>

theorem service_registers:
  assumes st: "stream_socket ops incoming ending outgoing"
    and con: "sock_connect ops sock host (to_string (uint (ucast port :: 16 word))) = (no_error, sock')"
    and fit: "fits_string lim grp" "fits_string lim own_host"
  shows "\<exists>c1 c2 conn t s.
     srvd_run ops sock g (snd (srvd_init host port c)) w = (Inr True, c1, w) \<and>
     srvd_publish ops (regist_req_body_ops lim par ser) n grp own_host own_port f c1 w = (Inr (Suspended (ucast n)), c2, w) \<and>
     srvd_conn c2 = Some conn \<and> proto_ptr conn = Some t \<and> session_ptr t = Some s \<and>
     outgoing (socket s) = outgoing sock' @
       frame n (request_payload regist_router regist_req_body_bytes
         \<lparr>header = \<lparr>uuid = 0, timestamp = 0, way = 0\<rparr>,
          body = \<lparr>regist_name = [], regist_host = own_host, regist_port = own_port, regist_healthy = False,
                  regist_group = grp, regist_weight = 0, regist_version = []\<rparr>\<rparr>) \<and>
     waiting t = [ucast n]"
proof -
  have m: "publish_message grp own_host own_port =
      \<lparr>header = \<lparr>uuid = 0, timestamp = 0, way = 0\<rparr>,
       body = \<lparr>regist_name = [], regist_host = own_host, regist_port = own_port, regist_healthy = False,
               regist_group = grp, regist_weight = 0, regist_version = []\<rparr>\<rparr>"
    by (simp add: publish_message_def tcp_header_default_def regist_req_body_default_def)
  have valid: "regist_req_body_valid lim (body (publish_message grp own_host own_port))"
    using fit by (simp add: m regist_req_body_valid_def fits_string_def)
  let ?s = "\<lparr>socket = sock', session_uuid = ucast g, timeout = 30\<rparr>"
  let ?conn = "(client_new 30)\<lparr>proto_ptr := Some (tcp_new ?s), client_host := host, client_port := ucast port, querying := True\<rparr>"
  let ?c1 = "c\<lparr>srvd_host := host, srvd_port := port, srvd_conn := Some ?conn\<rparr>"
  have r: "srvd_run ops sock g (snd (srvd_init host port c)) w = (Inr True, ?c1, w)"
    using client_connect_new [OF con, of g 30 w] by (simp add: srvd_run_def srvd_init_def failed_def no_error_def)
  have "session_ptr (tcp_new ?s) = Some ?s" "way (header (publish_message grp own_host own_port)) = 0"
    by (simp_all add: tcp_new_def publish_message_def tcp_header_default_def)
  from regist_call.request_sent [OF st this(1) valid this(2), of par ser n f]
  obtain s' t' where
    q: "send_request ops (commit_request regist_router (regist_req_body_ops lim par ser) (publish_message grp own_host own_port))
          n f (tcp_new ?s) = (Inr no_error, ucast n, t')"
    and s': "session_ptr t' = Some s'"
      "outgoing (socket s') = outgoing sock' @
         frame n (request_payload regist_router regist_req_body_bytes (publish_message grp own_host own_port))"
    by (auto simp: tcp_new_def)
  have "waiting t' = []" using send_request_waiting [OF q] by (simp add: tcp_new_def)
  moreover have "proto_ptr ?conn = Some (tcp_new ?s)" by simp
  from async_call_sent [OF this q, of w]
  have "srvd_publish ops (regist_req_body_ops lim par ser) n grp own_host own_port f ?c1 w =
      (Inr (Suspended (ucast n)), ?c1\<lparr>srvd_conn := Some (?conn\<lparr>proto_ptr := Some (tcp_wait (ucast n) t')\<rparr>)\<rparr>, w)"
    by (simp add: srvd_publish_def srvd_async_call_def)
  ultimately show ?thesis using r s' unfolding m
    by (intro exI [of _ ?c1] exI [of _ "?c1\<lparr>srvd_conn := Some (?conn\<lparr>proto_ptr := Some (tcp_wait (ucast n) t')\<rparr>)\<rparr>"]
        exI [of _ "?conn\<lparr>proto_ptr := Some (tcp_wait (ucast n) t')\<rparr>"] exI [of _ "tcp_wait (ucast n) t'"] exI [of _ s'])
      (simp add: tcp_wait_def)
qed

text \<open>A directory at port 9000 and a login service at port 80.\<close>

theorem service_registers_witness:
  "\<exists>c1 c2 conn t s.
     srvd_run script_ops \<lparr>script_in = [], script_out = []\<rparr> 5
       (snd (srvd_init ''127.0.0.1'' 9000 \<lparr>srvd_conn = None, srvd_host = [], srvd_port = 0, healthy_check_func = None\<rparr>)) (0::nat) =
       (Inr True, c1, 0) \<and>
     srvd_publish script_ops (regist_req_body_ops sample_limits (\<lambda>_. Inr J_null) (\<lambda>_. [])) 7 ''login'' ''127.0.0.1'' 80
       (\<lambda>_ _ w. w) c1 0 = (Inr (Suspended (ucast (7 :: 32 word))), c2, 0) \<and>
     srvd_conn c2 = Some conn \<and> proto_ptr conn = Some t \<and> session_ptr t = Some s \<and>
     script_out (socket s) = script_out \<lparr>script_in = [], script_out = []\<rparr> @
       frame 7 (request_payload regist_router regist_req_body_bytes
         \<lparr>header = \<lparr>uuid = 0, timestamp = 0, way = 0\<rparr>,
          body = \<lparr>regist_name = [], regist_host = ''127.0.0.1'', regist_port = 80, regist_healthy = False,
                  regist_group = ''login'', regist_weight = 0, regist_version = []\<rparr>\<rparr>) \<and>
     waiting t = [ucast (7 :: 32 word)]"
  by (rule service_registers [OF stream_socket_script])
    (simp_all add: script_ops_def fits_string_def sample_limits_def)

end
