(* ===== verification/Service_Handlers.thy ===== *)
theory Service_Handlers
  imports Client_Pool "HOL-Library.Multiset"
begin

text \<open>
  The handlers the services register (include/aquarius/ip/handler_reg.hpp): the macros
  \<open>AQUARIUS_HANDLER\<close> and \<open>AQUARIUS_SYS_HANDLER\<close> define a static object whose constructor puts a
  context under the router of the request. The objects of a program are in several source files,
  so that the order of their construction is not determined; the theorem is about every order.
\<close>

section \<open>Registration\<close>

datatype handler_class = Ctx_regist | Ctx_shake | Ctx_publish | Ctx_login | Ctx_execute | Ctx_query

definition auto_handler_register :: "string \<Rightarrow> bool \<Rightarrow> 'c \<Rightarrow> 'c context_reg \<Rightarrow> 'c context_reg" where
  "auto_handler_register proto system c r = snd (mpc_put_context proto c system r)"

definition aquarius_handler :: "string \<Rightarrow> 'c \<Rightarrow> 'c context_reg \<Rightarrow> 'c context_reg" where
  "aquarius_handler this_router c = auto_handler_register this_router False c"

definition aquarius_sys_handler :: "string \<Rightarrow> 'c \<Rightarrow> 'c context_reg \<Rightarrow> 'c context_reg" where
  "aquarius_sys_handler this_router c = auto_handler_register this_router True c"

section \<open>The services\<close>

datatype service = Serviced | Gateway_service | Login_service | Database_service

text \<open>The router, the class and the macro of every handler of a service.\<close>

primrec service_handlers :: "service \<Rightarrow> (string \<times> handler_class \<times> bool) list" where
  "service_handlers Serviced = [(regist_router, Ctx_regist, True), (shake_router, Ctx_shake, True)]"
| "service_handlers Gateway_service = [(publish_router, Ctx_publish, True)]"
| "service_handlers Login_service = [(login_router, Ctx_login, False), (shake_router, Ctx_shake, True)]"
| "service_handlers Database_service =
     [(execute_sql_router, Ctx_execute, False), (query_sql_router, Ctx_query, False), (shake_router, Ctx_shake, True)]"

definition static_init :: "(string \<times> 'c \<times> bool) list \<Rightarrow> 'c context_reg" where
  "static_init ps =
     fold (\<lambda>(t, c, sys). if sys then aquarius_sys_handler t c else aquarius_handler t c) ps
       \<lparr>contexts = [], sys_contexts = []\<rparr>"

lemma static_init_regist_all: "static_init ps = regist_all ps \<lparr>contexts = [], sys_contexts = []\<rparr>"
  unfolding static_init_def regist_all_def
  by (rule fold_cong)
    (auto simp: fun_eq_iff aquarius_handler_def aquarius_sys_handler_def auto_handler_register_def)

section \<open>Any order\<close>

lemma in_registered: "(t, c) \<in> set (registered sys ps) \<longleftrightarrow> (t, c, sys) \<in> set ps"
  by (force simp: registered_def)

lemma distinct_registered: "distinct (map fst ps) \<Longrightarrow> distinct (map fst (registered sys ps))"
proof -
  have "map fst (registered sys ps) = map fst (filter (\<lambda>(_, _, s). s = sys) ps)" by (simp add: registered_def)
  moreover assume "distinct (map fst ps)"
  ultimately show ?thesis by (simp only: distinct_map_filter)
qed

lemma map_of_registered:
  assumes "distinct (map fst ps)" and "(t, c, sys) \<in> set ps"
  shows "map_of (registered sys ps) t = Some c" "map_of (registered (\<not> sys) ps) t = None"
proof -
  show "map_of (registered sys ps) t = Some c"
    using assms by (simp add: map_of_is_SomeI distinct_registered in_registered)
  have "(t, c', \<not> sys) \<notin> set ps" for c'
    using eq_key_imp_eq_value [OF assms, of "(c', \<not> sys)"] by auto
  then show "map_of (registered (\<not> sys) ps) t = None"
    by (auto simp: map_of_eq_None_iff in_registered)
qed

lemma get_static_init:
  assumes "distinct (map fst ps)" and "(t, c, sys) \<in> set ps"
  shows "context_reg_get (static_init ps) t = Some c"
  using map_of_registered [OF assms]
  by (cases sys) (simp_all add: static_init_regist_all context_reg_get_def regist_all_contexts regist_all_sys_contexts)

lemma topics_static_init: "set (generate_topics (static_init ps) []) = fst ` set (registered False ps)"
proof -
  have "t \<in> set (generate_topics (static_init ps) []) \<longleftrightarrow> map_of (registered False ps) t \<noteq> None" for t
    by (simp add: topics_are_contexts static_init_regist_all regist_all_contexts)
  then show ?thesis by (auto simp: map_of_eq_None_iff)
qed

lemma distinct_topics_static_init: "distinct (generate_topics (static_init ps) [])"
  using regist_all_distinct [of "\<lparr>contexts = [], sys_contexts = []\<rparr>" ps]
  by (simp add: generate_topics_def static_init_regist_all)

lemma service_routers_distinct: "distinct (map fst (service_handlers s))"
  by (cases s) (simp_all add: regist_router_def shake_router_def publish_router_def login_router_def
      execute_sql_router_def query_sql_router_def)

section \<open>Properties\<close>

text \<open>
  C17. Every service finds its handlers. In whatever order the static objects of a service are
  constructed, a request with the router of one of its handlers is given to that handler; and
  what the service tells the directory are the routers of its handlers that are not system
  handlers, each once. A second request for them repeats all of them, because the response of the
  handler is kept and extended.
\<close>

theorem services_find_handlers:
  assumes "mset ps = mset (service_handlers s)"
  shows "(\<forall>(t, c, sys) \<in> set (service_handlers s). context_reg_get (static_init ps) t = Some c) \<and>
         mset (generate_topics (static_init ps) []) = mset (map fst (filter (\<lambda>(_, _, sys). \<not> sys) (service_handlers s))) \<and>
         shake_topics (snd (ctx_shake (static_init ps) (snd (ctx_shake (static_init ps) shake_resp_body_default)))) =
           generate_topics (static_init ps) [] @ generate_topics (static_init ps) []"
proof (intro conjI)
  have set: "set ps = set (service_handlers s)" using assms by (metis set_mset_mset)
  have "mset (map fst ps) = mset (map fst (service_handlers s))" using assms by simp
  then have d: "distinct (map fst ps)" using service_routers_distinct by (metis mset_eq_imp_distinct_iff)
  then show "\<forall>(t, c, sys) \<in> set (service_handlers s). context_reg_get (static_init ps) t = Some c"
    using get_static_init [OF d] set by auto
  let ?topics = "map fst (filter (\<lambda>(_, _, sys). \<not> sys) (service_handlers s))"
  have "distinct ?topics" using service_routers_distinct [of s] by (rule distinct_map_filter)
  moreover have "set (generate_topics (static_init ps) []) = set ?topics"
    using set by (force simp: topics_static_init registered_def)
  ultimately show "mset (generate_topics (static_init ps) []) = mset ?topics"
    using distinct_topics_static_init by (metis set_eq_iff_mset_eq_distinct)
qed (simp add: ctx_shake_def generate_topics_def shake_resp_body_default_def)

theorem services_find_handlers_witness:
  "context_reg_get (static_init [(shake_router, Ctx_shake, True), (login_router, Ctx_login, False)]) login_router = Some Ctx_login \<and>
   mset (generate_topics (static_init [(shake_router, Ctx_shake, True), (login_router, Ctx_login, False)]) []) = {#login_router#}"
  using services_find_handlers [of "[(shake_router, Ctx_shake, True), (login_router, Ctx_login, False)]" Login_service]
  by (simp add: add_mset_commute)

end
