(* ===== verification/Service_Calls.thy ===== *)
theory Service_Calls
  imports Directory_Client Database
begin

text \<open>
  A whole call, with a client (include/aquarius/basic_client.hpp), a service
  (include/aquarius/ip/tcp.hpp, basic_context.hpp) and the handler of the service together: the two
  ends of a connection are two sessions, and the bytes one is about to receive are those the other
  has sent. The call that is followed is a query to the database service (src/database/ctx_sql.cpp).
\<close>

section \<open>Calls on both sides\<close>

text \<open>A connection on which one call waits for the reply to its number, and no other call.\<close>

definition awaits :: "32 word \<Rightarrow> 'w callback_func \<Rightarrow> ('s, 'w) tcp \<Rightarrow> bool" where
  "awaits n f t \<longleftrightarrow> waiting t = [ucast n] \<and>
     (\<exists>cb. map_of (buffers t) (ucast n) = Some cb \<and> cb_func cb = Some f)"

context rpc
begin

lemma call_sent:
  assumes st: "stream_socket ops incoming ending outgoing" and c: "proto_ptr c = Some t" "session_ptr t = Some s"
    and idle: "waiting t = []" and m: "qvalid (body m)" "way (header m) = 0"
  shows "\<exists>c' t' s'. async_call ops (commit_request router qops m) n f c w = (Inr (Suspended (ucast n)), c', w) \<and>
     proto_ptr c' = Some t' \<and> session_ptr t' = Some s' \<and> incoming (socket s') = incoming (socket s) \<and>
     outgoing (socket s') = outgoing (socket s) @ frame n (request_payload router qbytes m) \<and>
     awaits n f t' \<and> finished t' = finished t"
proof -
  from request_sent [OF st c(2) m, of n f] obtain s' t' cb where
    sent: "send_request ops (commit_request router qops m) n f t = (Inr no_error, ucast n, t')"
      "session_ptr t' = Some s'" "incoming (socket s') = incoming (socket s)"
      "outgoing (socket s') = outgoing (socket s) @ frame n (request_payload router qbytes m)"
      "map_of (buffers t') (ucast n) = Some cb" "cb_func cb = Some f"
    by fastforce
  moreover have "awaits n f (tcp_wait (ucast n) t') \<and> finished (tcp_wait (ucast n) t') = finished t"
    using sent(5,6) registers_send_request [OF sent(1)] idle by (simp add: awaits_def tcp_wait_def registers_def)
  moreover have "session_ptr (tcp_wait (ucast n) t') = Some s'" using sent(2) by (simp add: tcp_wait_def)
  ultimately show ?thesis using async_call_sent [OF c(1) sent(1), of w] by fastforce
qed

lemma reply_wakes:
  assumes st: "stream_socket ops incoming ending outgoing" and s: "session_ptr t = Some s"
    and i: "incoming (socket s) = frame n (response_payload router pbytes r) @ rest" "sendable (response_payload router pbytes r)"
    and r: "pvalid (body r)" "way (header r) = 0" "- (2 ^ 30) \<le> sint (result r)" "sint (result r) < 2 ^ 30"
    and l: "length router \<le> string_max lim" and a: "awaits n f t"
  shows "\<exists>t' s' b. query_step ops lim get is_tcp complete t w = (Continue, t', f b router w) \<and> session_ptr t' = Some s' \<and>
     incoming (socket s') = rest \<and> outgoing (socket s') = outgoing (socket s) \<and> waiting t' = [] \<and>
     finished t' = finished t @ [ucast n] \<and> (\<forall>r0. call_back pops b router r0 = r)"
proof -
  obtain cb where cb: "map_of (buffers t) (ucast n) = Some cb" "cb_func cb = Some f"
    using a by (auto simp: awaits_def)
  from reply_reaches [OF st s i r l cb] obtain s' b where
    q: "query_step ops lim get is_tcp complete t w =
       (Continue, try_send (ucast n) (t\<lparr>session_ptr := Some s', buffers := buffers_erase (ucast n) (buffers t)\<rparr>), f b router w)"
      "incoming (socket s') = rest" "outgoing (socket s') = outgoing (socket s)" "\<forall>r0. call_back pops b router r0 = r"
    by blast
  moreover have "waiting t = [ucast n]" using a by (simp add: awaits_def)
  ultimately show ?thesis
    by (intro exI [of _ "try_send (ucast n) (t\<lparr>session_ptr := Some s', buffers := buffers_erase (ucast n) (buffers t)\<rparr>)"]
        exI [of _ s'] exI [of _ b]) (simp add: try_send_def)
qed

lemma call_answered:
  assumes "stream_socket ops incoming ending outgoing" and "session_ptr t = Some s"
    and i: "incoming (socket s) = frame n (response_payload router pbytes r)" and "sendable (response_payload router pbytes r)"
    and "pvalid (body r)" "way (header r) = 0" "- (2 ^ 30) \<le> sint (result r)" "sint (result r) < 2 ^ 30"
    and "length router \<le> string_max lim" and "awaits n (call_back pops) t"
  shows "\<exists>t'. query_step ops lim get is_tcp complete t r0 = (Continue, t', r) \<and> waiting t' = [] \<and>
     finished t' = finished t @ [ucast n]"
proof -
  from i have "incoming (socket s) = frame n (response_payload router pbytes r) @ []" by simp
  from reply_wakes [OF assms(1,2) this assms(4-), of get is_tcp complete r0] show ?thesis by auto
qed

lemma call_served:
  assumes st: "stream_socket ops incoming ending outgoing" and s: "session_ptr t = Some s"
    and i: "incoming (socket s) = frame n (request_payload router qbytes m)" "sendable (request_payload router qbytes m)"
    and m: "qvalid (body m)" "way (header m) = 0" and g: "get router = Some x" "is_tcp x" and l: "length router \<le> string_max lim"
    and h: "handle ((handlers w x)\<lparr>request := m\<rparr>) = (ec, h1)" "pvalid (body (response h1))" "way (header (request h1)) = 0"
    and r: "r = (response h1)\<lparr>result := word_of_int (ec_value ec), header := (header (response h1))\<lparr>way := 0\<rparr>\<rparr>"
  shows "\<exists>t1 w1 h2 t2 s2. accept_step ops lim get is_tcp (do_complete (handler_visit qops)) t w = (Continue, t1, w1) \<and>
     spawned w1 = spawned w @ [(x, n)] \<and>
     handle_request ops router pops handle n (handlers w1 x) t1 = (Inr no_error, h2, t2) \<and> session_ptr t2 = Some s2 \<and>
     outgoing (socket s2) = outgoing (socket s) @ frame n (response_payload router pbytes r)"
proof -
  from i(1) have "incoming (socket s) = frame n (request_payload router qbytes m) @ []" by simp
  from request_served [where get = get and is_tcp = is_tcp and c = x and w = w, OF st s this i(2) m g l]
  obtain s' where served: "accept_step ops lim get is_tcp (do_complete (handler_visit qops)) t w =
      (Continue, t\<lparr>session_ptr := Some s'\<rparr>,
       w\<lparr>routers := (routers w)(x := router), handlers := (handlers w)(x := (handlers w x)\<lparr>request := m\<rparr>),
         spawned := spawned w @ [(x, n)]\<rparr>)" "outgoing (socket s') = outgoing (socket s)"
    by blast
  have "session_ptr (t\<lparr>session_ptr := Some s'\<rparr>) = Some s'" by simp
  from request_handled [where handle = handle and n = n, OF st this h r] served show ?thesis by fastforce
qed

end

section \<open>The handler of a query\<close>

text \<open>\<open>ctx_query\<close> on the handler object, in a state \<open>d\<close> of the database.\<close>

definition query_handle :: "'d pool_ops \<Rightarrow> 'd \<Rightarrow> (query_sql_req_body, query_sql_resp_body) handler
    \<Rightarrow> error_code \<times> (query_sql_req_body, query_sql_resp_body) handler" where
  "query_handle db d h =
     (case ctx_query db (body (request h)) (body (response h)) d of
        (ec, resp, d') \<Rightarrow> (ec, h\<lparr>response := (response h)\<lparr>body := resp\<rparr>\<rparr>))"

lemma foldl_make_bytes_result: "foldl make_bytes_result acc rows = acc @ concat rows"
  by (induction rows arbitrary: acc) (simp_all add: make_bytes_result_def)

lemma query_handle_rows:
  assumes "get_connection db d = (no_error, d1)" and "pool_execute db (query_sql (body (request h))) d1 = (no_error, res, d2)"
  shows "query_handle db d h =
     (no_error, h\<lparr>response := (response h)\<lparr>body := (body (response h))\<lparr>query_results := concat (result_rows res)\<rparr>\<rparr>\<rparr>)"
  using assms
  by (simp add: query_handle_def ctx_query_def mysql_query_only_def io_query_only_def foldl_make_bytes_result
      failed_def no_error_def)

text \<open>The response that a query with these rows is answered with.\<close>

definition query_answer :: "query_sql_resp_body tcp_response \<Rightarrow> query_result \<Rightarrow> query_sql_resp_body tcp_response" where
  "query_answer resp res =
     resp\<lparr>result := 0, header := (header resp)\<lparr>way := 0\<rparr>,
          body := (body resp)\<lparr>query_results := concat (result_rows res)\<rparr>\<rparr>"

section \<open>Overlapping handlings\<close>

text \<open>
  The handler object of a context keeps the session callback that was attached last
  (\<open>attach_session\<close>, include/aquarius/ip/handler.hpp): here the connection and the number it
  replies to. A handling attaches its callback, runs \<open>handle\<close>, which suspends in the query, and
  when \<open>handle\<close> has returned sends the response through the callback the handler has by then. The
  contexts and their handlers are shared by all connections.
\<close>

definition attach_session :: "'c \<Rightarrow> 'k \<Rightarrow> 32 word \<Rightarrow> ('c \<Rightarrow> 'k \<times> 32 word) \<Rightarrow> 'c \<Rightarrow> 'k \<times> 32 word" where
  "attach_session x k src cbs = cbs(x := (k, src))"

text \<open>The rest of \<open>handle_request\<close>, when \<open>handle\<close> has returned \<open>ec\<close>.\<close>

definition handle_finish :: "'s socket_ops \<Rightarrow> string \<Rightarrow> 'p serialization \<Rightarrow> error_code \<Rightarrow> 'c \<Rightarrow> ('c \<Rightarrow> 'k \<times> 32 word)
    \<Rightarrow> ('c, ('q, 'p) handler) contexts_state \<Rightarrow> ('k \<Rightarrow> ('s, 'w) tcp)
    \<Rightarrow> (fault + error_code) \<times> ('c, ('q, 'p) handler) contexts_state \<times> ('k \<Rightarrow> ('s, 'w) tcp)" where
  "handle_finish ops router resp_ops ec x cbs w conns =
     (case cbs x of (k, src) \<Rightarrow>
        case handle_request ops router resp_ops (\<lambda>h. (ec, h)) src (handlers w x) (conns k) of
          (r, h, t) \<Rightarrow> (r, w\<lparr>handlers := (handlers w)(x := h)\<rparr>, conns(k := t)))"

text \<open>\<open>ctx_query\<close> when its query has returned.\<close>

definition query_resume :: "'c \<Rightarrow> query_result \<Rightarrow> ('c, (query_sql_req_body, query_sql_resp_body) handler) contexts_state
    \<Rightarrow> ('c, (query_sql_req_body, query_sql_resp_body) handler) contexts_state" where
  "query_resume x res w =
     w\<lparr>handlers := (handlers w)(x := (handlers w x)\<lparr>response := (response (handlers w x))
         \<lparr>body := (body (response (handlers w x)))\<lparr>query_results := concat (result_rows res)\<rparr>\<rparr>\<rparr>)\<rparr>"

text \<open>
  A handling that is not overlapped is \<open>handle_request\<close>: attaching, the query and the rest give
  the same reply, handler and connection.
\<close>

lemma handle_request_parts:
  assumes "get_connection db d = (no_error, d1)" and "pool_execute db (query_sql (body (request (handlers w x)))) d1 = (no_error, res, d2)"
  shows "handle_finish ops router pops no_error x (attach_session x k n cbs) (query_resume x res w) conns =
     (case handle_request ops router pops (query_handle db d) n (handlers w x) (conns k) of
        (r, h, t) \<Rightarrow> (r, w\<lparr>handlers := (handlers w)(x := h)\<rparr>, conns(k := t)))"
  using query_handle_rows [OF assms]
  by (simp add: handle_finish_def attach_session_def query_resume_def handle_request_def Let_def split: prod.splits sum.splits)

text \<open>The rest of a handling replies to the connection and the number that are attached.\<close>

lemma query_finish:
  assumes st: "stream_socket ops incoming ending outgoing" and k: "cbs x = (k, n)" "session_ptr (conns k) = Some s"
    and r: "query_sql_resp_body_valid lim (body (query_answer (response (handlers w x)) res))" "way (header (request (handlers w x))) = 0"
  shows "\<exists>s' t'. handle_finish ops query_sql_router (query_sql_resp_body_ops lim par ser) no_error x cbs (query_resume x res w) conns =
       (Inr no_error,
        w\<lparr>handlers := (handlers w)(x := (handlers w x)\<lparr>response := query_answer (response (handlers w x)) res\<rparr>)\<rparr>, conns(k := t')) \<and>
     session_ptr t' = Some s' \<and> incoming (socket s') = incoming (socket s) \<and>
     outgoing (socket s') = outgoing (socket s) @
       frame n (response_payload query_sql_router query_sql_resp_body_bytes (query_answer (response (handlers w x)) res))"
proof -
  let ?h = "handlers (query_resume x res w) x" and ?r = "query_answer (response (handlers w x)) res"
  have h: "query_sql_resp_body_valid lim (body (response ?h))" "way (header (request ?h)) = 0"
    "?r = (response ?h)\<lparr>result := word_of_int (ec_value no_error), header := (header (response ?h))\<lparr>way := 0\<rparr>\<rparr>"
    using r by (simp_all add: query_resume_def query_answer_def no_error_def)
  have "(\<lambda>h. (no_error, h)) ?h = (no_error, ?h)" by simp
  from query_sql_call.request_handled [where n = n and par = par and ser = ser and handle = "\<lambda>h. (no_error, h)" and h = ?h, OF st k(2) this h]
  obtain s' t' where r: "handle_request ops query_sql_router (query_sql_resp_body_ops lim par ser) (\<lambda>h. (no_error, h)) n ?h (conns k) =
        (Inr no_error, ?h\<lparr>response := ?r\<rparr>, t')" "session_ptr t' = Some s'" "incoming (socket s') = incoming (socket s)"
      "outgoing (socket s') = outgoing (socket s) @ frame n (response_payload query_sql_router query_sql_resp_body_bytes ?r)"
    by blast
  have "handle_finish ops query_sql_router (query_sql_resp_body_ops lim par ser) no_error x cbs (query_resume x res w) conns =
      (Inr no_error, w\<lparr>handlers := (handlers w)(x := (handlers w x)\<lparr>response := ?r\<rparr>)\<rparr>, conns(k := t'))"
    using k(1) r(1) by (simp add: handle_finish_def query_resume_def)
  with r(2-) show ?thesis by blast
qed

section \<open>Properties\<close>

text \<open>
  C1. A query to the database returns the rows of the database. A client calls over a connection on
  which nothing waits; the service receives what the client sent, and the client what the service
  sends. The call is suspended; the service parses the request into the handler of the router and
  spawns the handling under the number of the call; the handling executes the statement and
  replies; and the client's loop gives the caller the fields of all rows, with the result 0, and wakes
  the call up. Each side writes exactly the one frame the other one reads.
\<close>

theorem database_call:
  assumes c: "stream_socket cops cin cend cout" "proto_ptr c = Some tc" "session_ptr tc = Some sc" "waiting tc = []" "finished tc = []"
    and s: "stream_socket sops sin send sout" "session_ptr ts = Some ss"
    and q: "sin (socket ss) = frame n (request_payload query_sql_router query_sql_req_body_bytes m)"
    and a: "cin (socket sc) = frame n (response_payload query_sql_router query_sql_resp_body_bytes
              (query_answer (response (handlers w x)) res))"
    and m: "query_sql_req_body_valid lim (body m)" "way (header m) = 0"
      "sendable (request_payload query_sql_router query_sql_req_body_bytes m)"
    and r: "query_sql_resp_body_valid lim (body (query_answer (response (handlers w x)) res))"
      "sendable (response_payload query_sql_router query_sql_resp_body_bytes (query_answer (response (handlers w x)) res))"
    and g: "get query_sql_router = Some x" "is_tcp x" and l: "4 \<le> string_max lim"
    and db: "get_connection db d = (no_error, d1)" "pool_execute db (query_sql (body m)) d1 = (no_error, res, d2)"
  shows "\<exists>c1 tc1 sc1 ts1 w1 h2 ts2 ss2 tc2 r.
     async_call cops (commit_request query_sql_router (query_sql_req_body_ops lim par ser) m) n
       (call_back (query_sql_resp_body_ops lim par ser)) c r0 = (Inr (Suspended (ucast n)), c1, r0) \<and>
     proto_ptr c1 = Some tc1 \<and> session_ptr tc1 = Some sc1 \<and> cout (socket sc1) = cout (socket sc) @ sin (socket ss) \<and>
     accept_step sops lim get is_tcp (do_complete (handler_visit (query_sql_req_body_ops lim par ser))) ts w =
       (Continue, ts1, w1) \<and> spawned w1 = spawned w @ [(x, n)] \<and>
     handle_request sops query_sql_router (query_sql_resp_body_ops lim par ser) (query_handle db d) n (handlers w1 x) ts1 =
       (Inr no_error, h2, ts2) \<and> session_ptr ts2 = Some ss2 \<and> sout (socket ss2) = sout (socket ss) @ cin (socket sc) \<and>
     query_step cops lim cget ctcp ccomplete tc1 r0 = (Continue, tc2, r) \<and>
     waiting tc2 = [] \<and> finished tc2 = [ucast n] \<and>
     result r = 0 \<and> query_results (body r) = concat (result_rows res)"
proof -
  let ?r = "query_answer (response (handlers w x)) res" and ?h = "(handlers w x)\<lparr>request := m\<rparr>"
  have l': "length query_sql_router \<le> string_max lim" using l by (simp add: query_sql_router_def)
  let ?h1 = "?h\<lparr>response := (response ?h)\<lparr>body := (body (response ?h))\<lparr>query_results := concat (result_rows res)\<rparr>\<rparr>\<rparr>"
  have h: "query_handle db d ?h = (no_error, ?h1)" using db by (intro query_handle_rows) simp_all
  have h1: "query_sql_resp_body_valid lim (body (response ?h1))" "way (header (request ?h1)) = 0"
    "?r = (response ?h1)\<lparr>result := word_of_int (ec_value no_error), header := (header (response ?h1))\<lparr>way := 0\<rparr>\<rparr>"
    using r(1) m(2) by (simp_all add: query_answer_def no_error_def)
  have r': "way (header ?r) = 0" "- (2 ^ 30) \<le> sint (result ?r)" "sint (result ?r) < 2 ^ 30" "result ?r = 0"
    "query_results (body ?r) = concat (result_rows res)" by (simp_all add: query_answer_def)
  from query_sql_call.call_sent [OF c(1-4) m(1,2), of par ser n "call_back (query_sql_resp_body_ops lim par ser)" r0]
  obtain c1 tc1 sc1 where 1: "async_call cops (commit_request query_sql_router (query_sql_req_body_ops lim par ser) m) n
       (call_back (query_sql_resp_body_ops lim par ser)) c r0 = (Inr (Suspended (ucast n)), c1, r0)"
      "proto_ptr c1 = Some tc1" "session_ptr tc1 = Some sc1" "cin (socket sc1) = cin (socket sc)"
      "cout (socket sc1) = cout (socket sc) @ sin (socket ss)" "awaits n (call_back (query_sql_resp_body_ops lim par ser)) tc1"
      "finished tc1 = finished tc"
    unfolding q by blast
  have a1: "cin (socket sc1) = frame n (response_payload query_sql_router query_sql_resp_body_bytes ?r)" using 1(4) a by simp
  from query_sql_call.call_answered [OF c(1) 1(3) a1 r(2,1) r'(1-3) l' 1(6)]
  obtain tc2 where 2: "query_step cops lim cget ctcp ccomplete tc1 r0 = (Continue, tc2, ?r)"
      "waiting tc2 = []" "finished tc2 = [ucast n]" unfolding 1(7) c(5) by fastforce
  from query_sql_call.call_served [where handle = "query_handle db d" and incoming = sin and get = get and is_tcp = is_tcp and x = x and w = w and par = par and ser = ser,
      OF s q m(3,1,2) g l' h h1]
  show ?thesis using 1(1-3,5) 2 r'(4,5) unfolding a by blast
qed

text \<open>The call of a client that asks for one row.\<close>

definition sample_handlers :: "(unit, (query_sql_req_body, query_sql_resp_body) handler) contexts_state" where
  "sample_handlers =
     \<lparr>handlers = (\<lambda>_. \<lparr>handler_name = ''q'', request = \<lparr>header = tcp_header_default, body = query_sql_req_body_default\<rparr>,
                        response = sample_answer\<rparr>),
      routers = (\<lambda>_. []), spawned = []\<rparr>"

definition one_row :: "unit pool_ops" where
  "one_row = \<lparr>get_connection = (\<lambda>d. (no_error, d)),
     pool_execute = (\<lambda>_ d. (no_error, \<lparr>result_rows = [[''1'']], affected_rows = 0\<rparr>, d))\<rparr>"

definition one_answer :: "query_sql_resp_body tcp_response" where
  "one_answer = \<lparr>header = \<lparr>uuid = 0, timestamp = 0, way = 0\<rparr>, body = \<lparr>query_results = [''1'']\<rparr>, result = 0\<rparr>"

lemma one_answer_is: "query_answer (response (handlers sample_handlers ())) \<lparr>result_rows = [[''1'']], affected_rows = 0\<rparr> = one_answer"
  by (simp add: query_answer_def sample_handlers_def sample_answer_def one_answer_def)

lemma one_answer_sendable: "sendable (response_payload query_sql_router query_sql_resp_body_bytes one_answer)"
  using length_header_bytes [of "header one_answer"] length_varint_word [of "zig_zag32 (result one_answer)"]
  by (simp add: sendable_def response_payload_def router_bytes_def query_sql_router_def one_answer_def
      query_sql_resp_body_bytes_def string_bytes_def strings_bytes_def varint_small)

lemma one_answer_valid: "query_sql_resp_body_valid sample_limits (body one_answer)"
  by (simp add: query_sql_resp_body_valid_def fits_string_def fits_strings_def sample_limits_def one_answer_def)

theorem database_call_witness:
  "\<exists>c1 tc1 sc1 ts1 w1 h2 ts2 ss2 tc2 r.
     async_call script_ops (commit_request query_sql_router (query_sql_req_body_ops sample_limits (\<lambda>_. Inr J_null) (\<lambda>_. [])) sample_query) 9
       (call_back (query_sql_resp_body_ops sample_limits (\<lambda>_. Inr J_null) (\<lambda>_. [])))
       ((client_new 30)\<lparr>proto_ptr := Some (tcp_new (sample_session
          (frame 9 (response_payload query_sql_router query_sql_resp_body_bytes one_answer))))\<rparr>) sample_answer =
       (Inr (Suspended (ucast (9 :: 32 word))), c1, sample_answer) \<and>
     proto_ptr c1 = Some tc1 \<and> session_ptr tc1 = Some sc1 \<and>
     accept_step script_ops sample_limits (\<lambda>r. if r = ''7000'' then Some () else None) (\<lambda>_. True)
       (do_complete (handler_visit (query_sql_req_body_ops sample_limits (\<lambda>_. Inr J_null) (\<lambda>_. []))))
       (tcp_new (sample_session (script_out (socket sc1)))) sample_handlers = (Continue, ts1, w1) \<and> spawned w1 = [((), 9)] \<and>
     handle_request script_ops query_sql_router (query_sql_resp_body_ops sample_limits (\<lambda>_. Inr J_null) (\<lambda>_. []))
       (query_handle one_row ()) 9 (handlers w1 ()) ts1 = (Inr no_error, h2, ts2) \<and> session_ptr ts2 = Some ss2 \<and>
     script_out (socket ss2) = frame 9 (response_payload query_sql_router query_sql_resp_body_bytes one_answer) \<and>
     query_step script_ops sample_limits (\<lambda>_. None :: unit option) (\<lambda>_. True) (\<lambda>_ _ _ _ w. (Inr no_error, w)) tc1 sample_answer =
       (Continue, tc2, r) \<and>
     waiting tc2 = [] \<and> finished tc2 = [ucast (9 :: 32 word)] \<and> result r = 0 \<and> query_results (body r) = [''1'']"
proof -
  let ?sc = "sample_session (frame 9 (response_payload query_sql_router query_sql_resp_body_bytes one_answer))"
  let ?ss = "sample_session (frame 9 (request_payload query_sql_router query_sql_req_body_bytes sample_query))"
  let ?c = "(client_new 30)\<lparr>proto_ptr := Some (tcp_new ?sc)\<rparr> :: (script, query_sql_resp_body tcp_response) client"
  let ?ts = "tcp_new ?ss :: (script, (unit, (query_sql_req_body, query_sql_resp_body) handler) contexts_state) tcp"
  have c: "proto_ptr ?c = Some (tcp_new ?sc)" "session_ptr (tcp_new ?sc :: (script, query_sql_resp_body tcp_response) tcp) = Some ?sc"
    "waiting (tcp_new ?sc :: (script, query_sql_resp_body tcp_response) tcp) = []"
    "finished (tcp_new ?sc :: (script, query_sql_resp_body tcp_response) tcp) = []"
    "script_in (socket ?sc) = frame 9 (response_payload query_sql_router query_sql_resp_body_bytes one_answer)" "script_out (socket ?sc) = []"
    by (simp_all add: tcp_new_def sample_session_def)
  have s: "session_ptr ?ts = Some ?ss" "script_in (socket ?ss) = frame 9 (request_payload query_sql_router query_sql_req_body_bytes sample_query)"
    "script_out (socket ?ss) = []"
    by (simp_all add: tcp_new_def sample_session_def)
  have db: "get_connection one_row () = (no_error, ())"
    "pool_execute one_row (query_sql (body sample_query)) () = (no_error, \<lparr>result_rows = [[''1'']], affected_rows = 0\<rparr>, ())"
    by (simp_all add: one_row_def)
  have m: "way (header sample_query) = 0" "4 \<le> string_max sample_limits" "(\<lambda>r. if r = ''7000'' then Some () else None) query_sql_router = Some ()"
    by (simp_all add: sample_query_def sample_limits_def query_sql_router_def)
  note d = database_call [where cin = script_in and cout = script_out and sin = script_in and sout = script_out
      and is_tcp = "\<lambda>_. True" and par = "\<lambda>_. Inr J_null" and ser = "\<lambda>_. []" and ?r0.0 = sample_answer
      and res = "\<lparr>result_rows = [[''1'']], affected_rows = 0\<rparr>"
      and get = "\<lambda>r. if r = ''7000'' then Some () else None" and x = "()" and w = sample_handlers and db = one_row
      and cget = "\<lambda>_. None :: unit option" and ctcp = "\<lambda>_. True" and ccomplete = "\<lambda>_ _ _ _ w. (Inr no_error, w)",
      unfolded one_answer_is, OF stream_socket_script c(1-4) stream_socket_script s(1,2) c(5) sample_valid(1) m(1) sample_sendable(1)
        one_answer_valid one_answer_sendable m(3) TrueI m(2) db]
  have "spawned sample_handlers = []" by (simp add: sample_handlers_def)
  with d show ?thesis unfolding c(5,6) s(2,3) by (elim exE conjE) (intro exI conjI, assumption+, auto)
qed

text \<open>
  C40. Handlings that overlap answer the wrong caller. Two clients query the database over two
  connections; the second request arrives, and its handling starts, while the first handling waits
  for its query. Both requests are parsed into the one handler of the router, and both handlings are
  spawned, each under the number of its call. But the handler has the session of the second one:
  when the queries return, whatever rows they have and whatever number the first call had, both
  responses are written to the second connection under the second number, the rows of the first
  query first. Nothing is written to the first connection.
\<close>

theorem overlapping_requests:
  assumes st: "stream_socket ops incoming ending outgoing" and k: "k1 \<noteq> k2" "session_ptr (conns k1) = Some s1" "session_ptr (conns k2) = Some s2"
    and i: "incoming (socket s1) = frame n1 (request_payload query_sql_router query_sql_req_body_bytes m1)"
      "incoming (socket s2) = frame n2 (request_payload query_sql_router query_sql_req_body_bytes m2)"
    and z: "sendable (request_payload query_sql_router query_sql_req_body_bytes m1)"
      "sendable (request_payload query_sql_router query_sql_req_body_bytes m2)"
    and m: "query_sql_req_body_valid lim (body m1)" "way (header m1) = 0" "query_sql_req_body_valid lim (body m2)" "way (header m2) = 0"
    and g: "get query_sql_router = Some x" "is_tcp x" and l: "4 \<le> string_max lim"
    and r: "query_sql_resp_body_valid lim (body (query_answer (response (handlers w x)) res1))"
      "query_sql_resp_body_valid lim (body (query_answer (response (handlers w x)) res2))"
  shows "\<exists>t1 w1 t2 w2 w3 conns3 w4 conns4 s1' s2'.
     accept_step ops lim get is_tcp (do_complete (handler_visit (query_sql_req_body_ops lim par ser))) (conns k1) w = (Continue, t1, w1) \<and>
     accept_step ops lim get is_tcp (do_complete (handler_visit (query_sql_req_body_ops lim par ser))) (conns k2) w1 = (Continue, t2, w2) \<and>
     spawned w2 = spawned w @ [(x, n1), (x, n2)] \<and> request (handlers w1 x) = m1 \<and> request (handlers w2 x) = m2 \<and>
     handle_finish ops query_sql_router (query_sql_resp_body_ops lim par ser) no_error x
       (attach_session x k2 n2 (attach_session x k1 n1 cbs)) (query_resume x res1 w2) (conns(k1 := t1, k2 := t2)) =
       (Inr no_error, w3, conns3) \<and>
     handle_finish ops query_sql_router (query_sql_resp_body_ops lim par ser) no_error x
       (attach_session x k2 n2 (attach_session x k1 n1 cbs)) (query_resume x res2 w3) conns3 = (Inr no_error, w4, conns4) \<and>
     session_ptr (conns4 k1) = Some s1' \<and> outgoing (socket s1') = outgoing (socket s1) \<and>
     session_ptr (conns4 k2) = Some s2' \<and> outgoing (socket s2') = outgoing (socket s2) @
       frame n2 (response_payload query_sql_router query_sql_resp_body_bytes
         ((response (handlers w x))\<lparr>header := (header (response (handlers w x)))\<lparr>way := 0\<rparr>, result := 0,
            body := \<lparr>query_results = concat (result_rows res1)\<rparr>\<rparr>)) @
       frame n2 (response_payload query_sql_router query_sql_resp_body_bytes
         ((response (handlers w x))\<lparr>header := (header (response (handlers w x)))\<lparr>way := 0\<rparr>, result := 0,
            body := \<lparr>query_results = concat (result_rows res2)\<rparr>\<rparr>))"
proof -
  let ?cbs = "attach_session x k2 n2 (attach_session x k1 n1 cbs)" and ?visit = "handler_visit (query_sql_req_body_ops lim par ser)"
  let ?a = "query_answer (response (handlers w x))"
  have l': "length query_sql_router \<le> string_max lim" using l by (simp add: query_sql_router_def)
  have i': "incoming (socket s1) = frame n1 (request_payload query_sql_router query_sql_req_body_bytes m1) @ []"
    "incoming (socket s2) = frame n2 (request_payload query_sql_router query_sql_req_body_bytes m2) @ []" using i by simp_all
  from query_sql_call.request_served [where get = get and is_tcp = is_tcp and c = x and w = w, OF st k(2) i'(1) z(1) m(1,2) g l']
  obtain s1' w1 where 1: "accept_step ops lim get is_tcp (do_complete ?visit) (conns k1) w = (Continue, (conns k1)\<lparr>session_ptr := Some s1'\<rparr>, w1)"
      "w1 = w\<lparr>routers := (routers w)(x := query_sql_router), handlers := (handlers w)(x := (handlers w x)\<lparr>request := m1\<rparr>),
              spawned := spawned w @ [(x, n1)]\<rparr>" "outgoing (socket s1') = outgoing (socket s1)" by blast
  from query_sql_call.request_served [where get = get and is_tcp = is_tcp and c = x and w = w1, OF st k(3) i'(2) z(2) m(3,4) g l']
  obtain s2' w2 where 2: "accept_step ops lim get is_tcp (do_complete ?visit) (conns k2) w1 = (Continue, (conns k2)\<lparr>session_ptr := Some s2'\<rparr>, w2)"
      "w2 = w1\<lparr>routers := (routers w1)(x := query_sql_router), handlers := (handlers w1)(x := (handlers w1 x)\<lparr>request := m2\<rparr>),
               spawned := spawned w1 @ [(x, n2)]\<rparr>" "outgoing (socket s2') = outgoing (socket s2)" by blast
  let ?conns = "conns(k1 := (conns k1)\<lparr>session_ptr := Some s1'\<rparr>, k2 := (conns k2)\<lparr>session_ptr := Some s2'\<rparr>)"
  have w2: "response (handlers w2 x) = response (handlers w x)" "request (handlers w2 x) = m2" using 1(2) 2(2) by simp_all
  have c: "?cbs x = (k2, n2)" "session_ptr (?conns k2) = Some s2'" by (simp_all add: attach_session_def)
  have "query_sql_resp_body_valid lim (body (query_answer (response (handlers w2 x)) res1))" "way (header (request (handlers w2 x))) = 0"
    using r(1) m(4) w2 by simp_all
  from query_finish [where cbs = ?cbs and conns = ?conns and w = w2 and x = x and par = par and ser = ser, OF st c this] obtain s3 t3 w3 where
    3: "handle_finish ops query_sql_router (query_sql_resp_body_ops lim par ser) no_error x ?cbs (query_resume x res1 w2) ?conns =
          (Inr no_error, w3, ?conns(k2 := t3))"
      "w3 = w2\<lparr>handlers := (handlers w2)(x := (handlers w2 x)\<lparr>response := ?a res1\<rparr>)\<rparr>" "session_ptr t3 = Some s3"
      "outgoing (socket s3) = outgoing (socket s2) @ frame n2 (response_payload query_sql_router query_sql_resp_body_bytes (?a res1))"
    unfolding w2 2(3) by blast
  have w3: "query_answer (response (handlers w3 x)) res2 = ?a res2" "request (handlers w3 x) = m2"
    using 3(2) w2 by (simp_all add: query_answer_def)
  have c3: "session_ptr ((?conns(k2 := t3)) k2) = Some s3" using 3(3) by simp
  have "query_sql_resp_body_valid lim (body (query_answer (response (handlers w3 x)) res2))" "way (header (request (handlers w3 x))) = 0"
    using r(2) m(4) w3 by simp_all
  from query_finish [where cbs = ?cbs and conns = "?conns(k2 := t3)" and w = w3 and x = x and par = par and ser = ser, OF st c(1) c3 this] obtain s4 t4 w4 where
    4: "handle_finish ops query_sql_router (query_sql_resp_body_ops lim par ser) no_error x ?cbs (query_resume x res2 w3) (?conns(k2 := t3)) =
          (Inr no_error, w4, ?conns(k2 := t3, k2 := t4))" "session_ptr t4 = Some s4"
      "outgoing (socket s4) = outgoing (socket s3) @ frame n2 (response_payload query_sql_router query_sql_resp_body_bytes (?a res2))"
    unfolding w3 by blast
  have a: "?a res = (response (handlers w x))\<lparr>header := (header (response (handlers w x)))\<lparr>way := 0\<rparr>, result := 0,
      body := \<lparr>query_results = concat (result_rows res)\<rparr>\<rparr>" for res
    by (simp add: query_answer_def)
  have 5: "session_ptr ((?conns(k2 := t3, k2 := t4)) k1) = Some s1'" "session_ptr ((?conns(k2 := t3, k2 := t4)) k2) = Some s4"
    using k(1) 4(2) by simp_all
  have 6: "spawned w2 = spawned w @ [(x, n1), (x, n2)]" "request (handlers w1 x) = m1" using 1(2) 2(2) by simp_all
  show ?thesis
    by (intro exI conjI) (rule 1(1) 2(1) 6 w2(2) 3(1) 4(1) 5 1(3) | simp only: 3(4) 4(3) a append_assoc)+
qed

text \<open>Two clients, \<open>False\<close> and \<open>True\<close>, that query under the numbers 5 and 6.\<close>

theorem overlapping_requests_witness:
  "let q = query_sql_req_body_ops sample_limits (\<lambda>_. Inr J_null) (\<lambda>_. []); p = query_sql_resp_body_ops sample_limits (\<lambda>_. Inr J_null) (\<lambda>_. []);
       get = (\<lambda>r. if r = ''7000'' then Some () else None);
       conns = (\<lambda>k. tcp_new (sample_session (frame (if k then 6 else 5)
         (request_payload query_sql_router query_sql_req_body_bytes sample_query))));
       cbs = attach_session () True 6 (attach_session () False 5 (\<lambda>_. (False, 0)));
       answer = (\<lambda>v. \<lparr>header = \<lparr>uuid = 0, timestamp = 0, way = 0\<rparr>, body = \<lparr>query_results = [v]\<rparr>, result = 0\<rparr>)
   in \<exists>t1 w1 t2 w2 w3 conns3 w4 conns4 s1 s2.
     accept_step script_ops sample_limits get (\<lambda>_. True) (do_complete (handler_visit q)) (conns False) sample_handlers = (Continue, t1, w1) \<and>
     accept_step script_ops sample_limits get (\<lambda>_. True) (do_complete (handler_visit q)) (conns True) w1 = (Continue, t2, w2) \<and>
     handle_finish script_ops query_sql_router p no_error () cbs
       (query_resume () \<lparr>result_rows = [[''a'']], affected_rows = 0\<rparr> w2) (conns(False := t1, True := t2)) = (Inr no_error, w3, conns3) \<and>
     handle_finish script_ops query_sql_router p no_error () cbs
       (query_resume () \<lparr>result_rows = [[''b'']], affected_rows = 0\<rparr> w3) conns3 = (Inr no_error, w4, conns4) \<and>
     session_ptr (conns4 False) = Some s1 \<and> script_out (socket s1) = [] \<and>
     session_ptr (conns4 True) = Some s2 \<and> script_out (socket s2) =
       frame 6 (response_payload query_sql_router query_sql_resp_body_bytes (answer ''a'')) @
       frame 6 (response_payload query_sql_router query_sql_resp_body_bytes (answer ''b''))"
proof -
  let ?s = "\<lambda>k. sample_session (frame (if k then 6 else 5) (request_payload query_sql_router query_sql_req_body_bytes sample_query))"
  let ?conns = "\<lambda>k. tcp_new (?s k) :: (script, (unit, (query_sql_req_body, query_sql_resp_body) handler) contexts_state) tcp"
  have k: "session_ptr (?conns False) = Some (?s False)" "session_ptr (?conns True) = Some (?s True)"
    "script_in (socket (?s False)) = frame 5 (request_payload query_sql_router query_sql_req_body_bytes sample_query)"
    "script_in (socket (?s True)) = frame 6 (request_payload query_sql_router query_sql_req_body_bytes sample_query)"
    "script_out (socket (?s False)) = []" "script_out (socket (?s True)) = []"
    by (simp_all add: tcp_new_def sample_session_def)
  have m: "way (header sample_query) = 0" "4 \<le> string_max sample_limits" "(\<lambda>r. if r = ''7000'' then Some () else None) query_sql_router = Some ()"
    by (simp_all add: sample_query_def sample_limits_def query_sql_router_def)
  have r: "query_sql_resp_body_valid sample_limits
      (body (query_answer (response (handlers sample_handlers ())) \<lparr>result_rows = [[[c]]], affected_rows = 0\<rparr>))" for c
    by (simp add: query_sql_resp_body_valid_def fits_string_def fits_strings_def sample_limits_def query_answer_def)
  note t = overlapping_requests [where x = "()" and w = sample_handlers and get = "\<lambda>r. if r = ''7000'' then Some () else None"
      and is_tcp = "\<lambda>_. True" and conns = ?conns and par = "\<lambda>_. Inr J_null" and ser = "\<lambda>_. []" and cbs = "\<lambda>_. (False, 0)",
      OF stream_socket_script _ k(1-4) sample_sendable(1,1) sample_valid(1) m(1) sample_valid(1) m(1,3) TrueI m(2) r r]
  have h: "response (handlers sample_handlers ()) = sample_answer" by (simp add: sample_handlers_def)
  show ?thesis
    using t [of "CHR ''a''" "CHR ''b''"] unfolding Let_def h k(5,6) by (simp add: sample_answer_def) blast
qed

end
