(* ===== verification/Discovery.thy ===== *)
theory Discovery
  imports Service_Calls
begin

text \<open>
  Service discovery with the calls it makes: a service registers at the directory
  (src/serviced/ctx_regist.cpp), the directory connects to it, asks it for its routers
  (src/serviced/client_pool.cpp, ctx_shake.cpp) and forwards requests for them from then on.

  The calls are those of include/aquarius/basic_client.hpp up to their return. While a call waits,
  the loop over \<open>query\<close> of its connection runs, and nothing else uses the connection; a call that is
  still waiting when the loop has ended never returns. \<open>rounds\<close> bounds the frames that are looked at.
\<close>

section \<open>Calls up to their return\<close>

fun await_reply :: "nat \<Rightarrow> (('s, 'w) tcp \<Rightarrow> 'w \<Rightarrow> loop \<times> ('s, 'w) tcp \<times> 'w) \<Rightarrow> 64 word \<Rightarrow> nat
    \<Rightarrow> ('s, 'w) tcp \<Rightarrow> 'w \<Rightarrow> (('s, 'w) tcp \<times> 'w) option" where
  "await_reply rounds step src before t w =
     (if before < count_list (finished t) src then Some (t, w)
      else case rounds of
             0 \<Rightarrow> None
           | Suc n \<Rightarrow> (case step t w of
                         (Stop _, _, _) \<Rightarrow> None
                       | (Continue, t', w') \<Rightarrow> await_reply n step src before t' w'))"

declare await_reply.simps [simp del]

definition completed_call :: "'s socket_ops \<Rightarrow> nat \<Rightarrow> (('s, 'w) tcp \<Rightarrow> 'w \<Rightarrow> loop \<times> ('s, 'w) tcp \<times> 'w)
    \<Rightarrow> (flex_buffer \<Rightarrow> (fault + error_code) \<times> flex_buffer) \<Rightarrow> 32 word \<Rightarrow> 'w callback_func
    \<Rightarrow> ('s, 'w) client \<Rightarrow> 'w \<Rightarrow> ((fault + unit) \<times> ('s, 'w) client \<times> 'w) option" where
  "completed_call ops rounds step commit generated f c w =
     (case async_call ops commit generated f c w of
        (Inl x, c', w') \<Rightarrow> Some (Inl x, c', w')
      | (Inr Returned, c', w') \<Rightarrow> Some (Inr (), c', w')
      | (Inr (Suspended src), c', w') \<Rightarrow>
          (case proto_ptr c' of
             None \<Rightarrow> None
           | Some t \<Rightarrow> map_option (\<lambda>(t', w''). (Inr (), c'\<lparr>proto_ptr := Some t'\<rparr>, w''))
                         (await_reply rounds step src (count_list (finished t) src) t w')))"

text \<open>
  \<open>async_call<shake_response>\<close> of a new request: the state of the connection's callbacks is the
  response object of the call, which starts with its default value.
\<close>

definition shake_request :: "unit tcp_request" where
  "shake_request = \<lparr>header = tcp_header_default, body = ()\<rparr>"

definition shake_response_default :: "shake_resp_body tcp_response" where
  "shake_response_default = \<lparr>header = tcp_header_default, body = shake_resp_body_default, result = 0\<rparr>"

definition shake_complete :: "'s socket_ops \<Rightarrow> nat
    \<Rightarrow> (('s, shake_resp_body tcp_response) tcp \<Rightarrow> shake_resp_body tcp_response
        \<Rightarrow> loop \<times> ('s, shake_resp_body tcp_response) tcp \<times> shake_resp_body tcp_response)
    \<Rightarrow> shake_resp_body serialization \<Rightarrow> 32 word \<Rightarrow> ('s, shake_resp_body tcp_response) client \<Rightarrow> shake_resp_body tcp_response
    \<Rightarrow> ((fault + shake_resp_body) \<times> ('s, shake_resp_body tcp_response) client \<times> shake_resp_body tcp_response) option" where
  "shake_complete ops rounds step pops generated c w =
     map_option (\<lambda>(r, c', resp). (case r of Inl x \<Rightarrow> Inl x | Inr _ \<Rightarrow> Inr (body resp), c', resp))
       (completed_call ops rounds step (commit_request shake_router shake_req_body_ops shake_request) generated
          (call_back pops) c shake_response_default)"

text \<open>The handler that every service has for it, with the contexts \<open>srv\<close> of the service.\<close>

definition shake_handle :: "'c context_reg \<Rightarrow> (unit, shake_resp_body) handler \<Rightarrow> error_code \<times> (unit, shake_resp_body) handler" where
  "shake_handle srv h =
     (case ctx_shake srv (body (response h)) of
        (ec, resp) \<Rightarrow> (ec, h\<lparr>response := (response h)\<lparr>body := resp\<rparr>\<rparr>))"

definition shake_answer :: "'c context_reg \<Rightarrow> shake_resp_body tcp_response \<Rightarrow> shake_resp_body tcp_response" where
  "shake_answer srv resp =
     resp\<lparr>result := 0, header := (header resp)\<lparr>way := 0\<rparr>, body := snd (ctx_shake srv (body resp))\<rparr>"

text \<open>
  The gateway (\<open>client_pool::run\<close>, src/gateway/client_pool.cpp) registers at the directory, asks it
  for its routers and forwards the requests for them there. Both calls go through the module of the
  directory's client; when there is no such module, \<open>mpc_async_call\<close> returns empty results.
\<close>

record gate_replies =
  regist_reply :: "unit tcp_response"
  shake_reply :: "shake_resp_body tcp_response"

definition gate_replies_default :: gate_replies where
  "gate_replies_default = \<lparr>regist_reply = \<lparr>header = tcp_header_default, body = (), result = 0\<rparr>, shake_reply = shake_response_default\<rparr>"

definition srvd_completed_call :: "'s socket_ops \<Rightarrow> nat \<Rightarrow> (('s, 'w) tcp \<Rightarrow> 'w \<Rightarrow> loop \<times> ('s, 'w) tcp \<times> 'w)
    \<Rightarrow> (flex_buffer \<Rightarrow> (fault + error_code) \<times> flex_buffer) \<Rightarrow> 32 word \<Rightarrow> 'w callback_func
    \<Rightarrow> ('s, 'w) srvd_client \<Rightarrow> 'w \<Rightarrow> ((fault + unit) \<times> ('s, 'w) srvd_client \<times> 'w) option" where
  "srvd_completed_call ops rounds step commit generated f c w =
     (case srvd_conn c of
        None \<Rightarrow> Some (Inl Undefined, c, w)
      | Some conn \<Rightarrow> map_option (\<lambda>(r, conn', w'). (r, c\<lparr>srvd_conn := Some conn'\<rparr>, w'))
                       (completed_call ops rounds step commit generated f conn w))"

definition gateway_run :: "'s socket_ops \<Rightarrow> nat
    \<Rightarrow> (('s, gate_replies) tcp \<Rightarrow> gate_replies \<Rightarrow> loop \<times> ('s, gate_replies) tcp \<times> gate_replies)
    \<Rightarrow> regist_req_body serialization \<Rightarrow> shake_resp_body serialization \<Rightarrow> 32 word \<Rightarrow> 32 word
    \<Rightarrow> ('s, gate_replies) srvd_client option \<Rightarrow> 'h service_context context_reg
    \<Rightarrow> ((fault + bool) \<times> ('s, gate_replies) srvd_client option \<times> 'h service_context context_reg) option" where
  "gateway_run ops rounds step regist_ops pops n1 n2 srvd r =
     (case srvd of
        None \<Rightarrow> Some (Inr True, None, set_topics (shake_topics shake_resp_body_default) r)
      | Some c \<Rightarrow>
          (case srvd_completed_call ops rounds step
                  (commit_request regist_router regist_ops (publish_message ''gateway'' ''127.0.0.1'' 3399)) n1
                  (\<lambda>b router w. w\<lparr>regist_reply := call_back regist_resp_body_ops b router (regist_reply w)\<rparr>) c gate_replies_default of
             None \<Rightarrow> None
           | Some (Inl x, c1, _) \<Rightarrow> Some (Inl x, Some c1, r)
           | Some (Inr _, c1, w1) \<Rightarrow>
               (case srvd_completed_call ops rounds step
                       (commit_request shake_router shake_req_body_ops shake_request) n2
                       (\<lambda>b router w. w\<lparr>shake_reply := call_back pops b router (shake_reply w)\<rparr>) c1 w1 of
                  None \<Rightarrow> None
                | Some (Inl x, c2, _) \<Rightarrow> Some (Inl x, Some c2, r)
                | Some (Inr _, c2, w2) \<Rightarrow> Some (Inr True, Some c2, set_topics (shake_topics (body (shake_reply w2))) r))))"

section \<open>Lemmas\<close>

text \<open>A call whose reply is the first frame to come returns after one round.\<close>

context rpc
begin

lemma call_completes:
  assumes st: "stream_socket ops incoming ending outgoing" and c: "proto_ptr c = Some t" "session_ptr t = Some s" "waiting t = []"
    and m: "qvalid (body m)" "way (header m) = 0"
    and i: "incoming (socket s) = frame n (response_payload router pbytes r) @ rest" "sendable (response_payload router pbytes r)"
    and r: "pvalid (body r)" "way (header r) = 0" "- (2 ^ 30) \<le> sint (result r)" "sint (result r) < 2 ^ 30"
    and l: "length router \<le> string_max lim"
  shows "\<exists>c' t' s' b. completed_call ops (Suc rounds) (query_step ops lim get is_tcp complete)
        (commit_request router qops m) n f c w = Some (Inr (), c', f b router w) \<and> (\<forall>r0. call_back pops b router r0 = r) \<and>
     proto_ptr c' = Some t' \<and> session_ptr t' = Some s' \<and> incoming (socket s') = rest \<and> waiting t' = [] \<and>
     outgoing (socket s') = outgoing (socket s) @ frame n (request_payload router qbytes m)"
proof -
  from call_sent [OF st c m, of n f w] obtain c1 t1 s1 where
    1: "async_call ops (commit_request router qops m) n f c w = (Inr (Suspended (ucast n)), c1, w)" "proto_ptr c1 = Some t1"
      "session_ptr t1 = Some s1" "incoming (socket s1) = incoming (socket s)"
      "outgoing (socket s1) = outgoing (socket s) @ frame n (request_payload router qbytes m)" "awaits n f t1" by blast
  have "incoming (socket s1) = frame n (response_payload router pbytes r) @ rest" using 1(4) i(1) by simp
  from reply_wakes [where get = get and is_tcp = is_tcp and complete = complete and w = w, OF st 1(3) this i(2) r l 1(6)]
  obtain t2 s2 b where
    2: "query_step ops lim get is_tcp complete t1 w = (Continue, t2, f b router w)" "session_ptr t2 = Some s2"
      "incoming (socket s2) = rest" "outgoing (socket s2) = outgoing (socket s1)" "waiting t2 = []"
      "finished t2 = finished t1 @ [ucast n]" "\<forall>r0. call_back pops b router r0 = r" by blast
  have "await_reply (Suc rounds) (query_step ops lim get is_tcp complete) (ucast n) (count_list (finished t1) (ucast n)) t1 w =
      Some (t2, f b router w)"
    using 2(1,6) by (simp add: await_reply.simps [of "Suc rounds"] await_reply.simps [of rounds])
  then have "completed_call ops (Suc rounds) (query_step ops lim get is_tcp complete) (commit_request router qops m) n f c w =
      Some (Inr (), c1\<lparr>proto_ptr := Some t2\<rparr>, f b router w)"
    using 1(1,2) by (simp add: completed_call_def)
  with 1(5) 2 show ?thesis
    by (intro exI [of _ "c1\<lparr>proto_ptr := Some t2\<rparr>"] exI [of _ t2] exI [of _ s2] exI [of _ b]) simp
qed

end

text \<open>
  What \<open>shake\<close> does for an instance that the directory does not know, from the clients made for it
  and from the call on the first of them.
\<close>

abbreviation pool_group :: "('s, 'w) pool \<Rightarrow> string \<Rightarrow> ('s, 'w) client_info list" where
  "pool_group p grp \<equiv> (case p grp of None \<Rightarrow> [] | Some infos \<Rightarrow> infos)"

lemma shake_new:
  assumes "instance_to_host address_text hp = (host, port)" and "add_clients ops host (ucast port) [fst socks, snd socks] w = (None, Some c # cs, w1)"
    and "pool_entry grp hp p = None" and "call c w1 = Some (Inr resp, c', w2)"
  shows "shake ops address_text call grp hp name ok weight version socks p dir w =
     Some (None, p(grp \<mapsto> pool_group p grp @
                     [\<lparr>host_port = hp, info_name = name, healthy = ok, info_weight = 0, info_version = version, clients = Some c' # cs\<rparr>]),
           regist_topics grp hp (shake_topics resp) dir, w2)"
proof -
  let ?info = "\<lparr>host_port = hp, info_name = name, healthy = ok, info_weight = 0, info_version = version, clients = Some c # cs\<rparr>"
  let ?p = "p(grp \<mapsto> pool_group p grp @ [?info])"
  have a: "pool_add ops address_text grp hp name ok weight version socks p w = (None, ?p, w1)"
    using assms(1,2) by (simp add: pool_add_def)
  have e: "pool_entry grp hp ?p = Some (length (pool_group p grp))"
    using pool_entry_added [OF assms(3), of ?info] by (simp only: client_info.simps) simp
  have "pool_invoke call shake_resp_body_default grp hp ?p w1 =
      Some (Inr resp, ?p(grp \<mapsto> pool_group p grp @ [?info\<lparr>clients := Some c' # cs\<rparr>]), w2)"
    using assms(4) by (simp add: pool_invoke_def e pool_call_def round_robin_invoke_def)
  then show ?thesis using a by (simp add: shake_def)
qed

lemma ctx_regist_new:
  assumes "regist_group req \<noteq> ''gateway''" and "make_host_and_port make_address (regist_host req) (regist_port req) = Inr hp"
    and "instance_to_host address_text hp = (host, port)" and "add_clients ops host (ucast port) [fst socks, snd socks] w = (None, Some c # cs, w1)"
    and "pool_entry (regist_group req) hp p = None" and "call c w1 = Some (Inr resp, c', w2)"
  shows "ctx_regist make_address ops address_text call socks req p dir w =
     Some (Inr (make_error_code_serviced srvd_success),
       p(regist_group req \<mapsto> pool_group p (regist_group req) @
           [\<lparr>host_port = hp, info_name = regist_name req, healthy = regist_healthy req, info_weight = 0,
             info_version = regist_version req, clients = Some c' # cs\<rparr>]),
       regist_topics (regist_group req) hp (shake_topics resp) dir, w2)"
  using assms(1,2) shake_new [where call = call and socks = socks and dir = dir, OF assms(3-6)] by (simp add: ctx_regist_def)

lemma shake_handled:
  "shake_handle srv h = (no_error, h\<lparr>response := (response h)\<lparr>body := snd (ctx_shake srv (body (response h)))\<rparr>\<rparr>)"
  by (simp add: shake_handle_def ctx_shake_def)

text \<open>Which requests the directory forwards after the routers of a service have been registered.\<close>

lemma routes_added:
  "context_reg_get (regist_topics grp hp topics dir) t =
     (case context_reg_get dir t of
        Some x \<Rightarrow> Some x
      | None \<Rightarrow> if t \<in> set topics then Some (Transfer (To_instance grp hp)) else None)"
  by (simp add: context_reg_get_def regist_topics_contexts split: option.splits)

text \<open>The client of a new connection, and both clients of an instance when the connections are accepted.\<close>

definition pool_client :: "string \<Rightarrow> 16 word \<Rightarrow> 's \<Rightarrow> 32 word \<Rightarrow> ('s, 'w) client" where
  "pool_client host port sock g =
     (set_close_func (\<lambda>w. w) (client_new 30))
       \<lparr>proto_ptr := Some (tcp_new \<lparr>socket = sock, session_uuid = ucast g, timeout = 30\<rparr>),
        client_host := host, client_port := port, querying := True\<rparr>"

lemma add_clients_connected:
  assumes "sock_connect ops sock1 host (to_string (uint port)) = (no_error, sock1')"
    and "sock_connect ops sock2 host (to_string (uint port)) = (no_error, sock2')"
  shows "add_clients ops host port [(sock1, g1), (sock2, g2)] w =
     (None, [Some (pool_client host port sock1' g1), Some (pool_client host port sock2' g2)], w)"
  using client_connected [OF assms(1), of "set_close_func (\<lambda>w. w) (client_new 30)" g1 w]
    client_connected [OF assms(2), of "set_close_func (\<lambda>w. w) (client_new 30)" g2 w]
  by (simp add: pool_client_def failed_def no_error_def set_close_func_def client_new_def)

lemma shake_request_plain: "way (header shake_request) = 0" "sendable (request_payload shake_router (\<lambda>_. []) shake_request)"
proof -
  show "way (header shake_request) = 0" by (simp add: shake_request_def tcp_header_default_def)
  show "sendable (request_payload shake_router (\<lambda>_. []) shake_request)"
    using length_header_bytes [of "header shake_request"]
    by (simp add: sendable_def request_payload_def router_bytes_def shake_router_def varint_small)
qed

lemma shake_answer_plain [simp]: "way (header (shake_answer srv resp)) = 0" "result (shake_answer srv resp) = 0"
  by (simp_all add: shake_answer_def)

text \<open>The call on a new connection on which the answer is the first frame to come.\<close>

lemma shake_completes:
  fixes pops :: "shake_resp_body serialization"
  assumes st: "stream_socket ops incoming ending outgoing" and pops: "pops = shake_resp_body_ops lim par ser"
    and i: "incoming sock = frame n (response_payload shake_router shake_resp_body_bytes (shake_answer srv resp)) @ rest"
    and z: "sendable (response_payload shake_router shake_resp_body_bytes (shake_answer srv resp))"
    and v: "shake_resp_body_valid lim (body (shake_answer srv resp))" and l: "4 \<le> string_max lim"
  shows "\<exists>c' t' s'. shake_complete ops (Suc rounds) (query_step ops lim get is_tcp complete) pops n (pool_client host port sock g) w =
       Some (Inr (body (shake_answer srv resp)), c', shake_answer srv resp) \<and>
     proto_ptr c' = Some t' \<and> session_ptr t' = Some s' \<and>
     outgoing (socket s') = outgoing sock @ frame n (request_payload shake_router (\<lambda>_. []) shake_request)"
proof -
  let ?s = "\<lparr>socket = sock, session_uuid = ucast g, timeout = 30\<rparr>"
  have c: "proto_ptr (pool_client host port sock g) = Some (tcp_new ?s)"
    "session_ptr (tcp_new ?s :: ('a, shake_resp_body tcp_response) tcp) = Some ?s"
    "waiting (tcp_new ?s :: ('a, shake_resp_body tcp_response) tcp) = []"
    "incoming (socket ?s) = frame n (response_payload shake_router shake_resp_body_bytes (shake_answer srv resp)) @ rest"
    using i by (simp_all add: pool_client_def tcp_new_def)
  have l': "length shake_router \<le> string_max lim" using l by (simp add: shake_router_def)
  have r: "way (header (shake_answer srv resp)) = 0" "- (2 ^ 30) \<le> sint (result (shake_answer srv resp))"
    "sint (result (shake_answer srv resp)) < 2 ^ 30" by simp_all
  from shake_call.call_completes [where rounds = rounds and get = get and is_tcp = is_tcp and complete = complete and par = par and ser = ser
      and f = "call_back (shake_resp_body_ops lim par ser)" and w = shake_response_default,
      OF st c(1-3) TrueI shake_request_plain(1) c(4) z v r l']
  show ?thesis unfolding pops by (auto simp: shake_complete_def)
qed

text \<open>The service's side of it.\<close>

lemma shake_served:
  assumes s: "stream_socket sops sin send sout" "session_ptr ts = Some ss"
      "sin (socket ss) = frame n (request_payload shake_router (\<lambda>_. []) shake_request)"
    and v: "shake_resp_body_valid lim (body (shake_answer srv (response (handlers w x))))"
    and g: "get shake_router = Some x" "is_tcp x" and l: "4 \<le> string_max lim"
  shows "\<exists>ts1 w1 h2 ts2 ss2. accept_step sops lim get is_tcp (do_complete (handler_visit shake_req_body_ops)) ts w = (Continue, ts1, w1) \<and>
     spawned w1 = spawned w @ [(x, n)] \<and>
     handle_request sops shake_router (shake_resp_body_ops lim par ser) (shake_handle srv) n (handlers w1 x) ts1 =
       (Inr no_error, h2, ts2) \<and> session_ptr ts2 = Some ss2 \<and>
     sout (socket ss2) = sout (socket ss) @ frame n (response_payload shake_router shake_resp_body_bytes (shake_answer srv (response (handlers w x))))"
proof -
  let ?h = "(handlers w x)\<lparr>request := shake_request\<rparr>"
  have h: "shake_handle srv ?h = (no_error, snd (shake_handle srv ?h))" by (simp add: shake_handled)
  have h1: "shake_resp_body_valid lim (body (response (snd (shake_handle srv ?h))))" "way (header (request (snd (shake_handle srv ?h)))) = 0"
    "shake_answer srv (response (handlers w x)) = (response (snd (shake_handle srv ?h)))\<lparr>result := word_of_int (ec_value no_error),
        header := (header (response (snd (shake_handle srv ?h))))\<lparr>way := 0\<rparr>\<rparr>"
    using v shake_request_plain(1) by (simp_all add: shake_handled shake_answer_def no_error_def)
  have l': "length shake_router \<le> string_max lim" using l by (simp add: shake_router_def)
  from shake_call.call_served [where handle = "shake_handle srv" and incoming = sin and get = get and is_tcp = is_tcp and x = x and w = w
      and par = par and ser = ser, OF s shake_request_plain(2) TrueI shake_request_plain(1) g l' h h1]
  show ?thesis .
qed

section \<open>Properties\<close>

text \<open>
  C12. A service that registers is found. The directory does not know the instance yet, both its
  connections to the registered address and port are accepted, and the service receives what the
  directory sends it on the first of them, and the directory what the service sends back. Then
  the registration is answered with success; the directory has sent one frame, the request for the routers,
  which the service, asked for the first time, parses, handles and answers with the routers of its contexts; and from then
  on the directory forwards to the instance the requests for every router of the service for
  which it had no context itself, while all other routers have the context they had.
\<close>

theorem discovery_routes:
  assumes d: "stream_socket ops incoming ending outgoing"
    and con: "sock_connect ops sock1 (regist_host req) (to_string (uint (ucast (regist_port req) :: 16 word))) = (no_error, sock1')"
      "sock_connect ops sock2 (regist_host req) (to_string (uint (ucast (regist_port req) :: 16 word))) = (no_error, sock2')"
    and adr: "make_address (regist_host req) = Some a" "address_text a = regist_host req" "0 \<le> sint (regist_port req)"
    and new: "regist_group req \<noteq> ''gateway''" "make_host_and_port make_address (regist_host req) (regist_port req) = Inr hp"
      "pool_entry (regist_group req) hp p = None"
    and s: "stream_socket sops sin send sout" "session_ptr ts = Some ss"
      "sin (socket ss) = frame n (request_payload shake_router (\<lambda>_. []) shake_request)"
    and ans: "incoming sock1' = frame n (response_payload shake_router shake_resp_body_bytes (shake_answer srv (response (handlers w x))))"
      "sendable (response_payload shake_router shake_resp_body_bytes (shake_answer srv (response (handlers w x))))"
      "shake_resp_body_valid lim (body (shake_answer srv (response (handlers w x))))"
    and g: "get shake_router = Some x" "is_tcp x" and fresh: "shake_topics (body (response (handlers w x))) = []" and l: "4 \<le> string_max lim"
  shows "\<exists>p' info c t s dir' resp ts1 w1 h2 ts2 ss2.
     ctx_regist make_address ops address_text
       (shake_complete ops (Suc rounds) (query_step ops lim dget dtcp dcomplete) (shake_resp_body_ops lim par ser) n)
       ((sock1, g1), (sock2, g2)) req p dir resp0 = Some (Inr (make_error_code_serviced srvd_success), p', dir', resp) \<and>
     p' = p(regist_group req \<mapsto> pool_group p (regist_group req) @ [info]) \<and> host_port info = hp \<and>
     clients info ! 0 = Some c \<and> proto_ptr c = Some t \<and> session_ptr t = Some s \<and> outgoing (socket s) = outgoing sock1' @ sin (socket ss) \<and>
     accept_step sops lim get is_tcp (do_complete (handler_visit shake_req_body_ops)) ts w = (Continue, ts1, w1) \<and>
     spawned w1 = spawned w @ [(x, n)] \<and>
     handle_request sops shake_router (shake_resp_body_ops lim par ser) (shake_handle srv) n (handlers w1 x) ts1 =
       (Inr no_error, h2, ts2) \<and> session_ptr ts2 = Some ss2 \<and> sout (socket ss2) = sout (socket ss) @ incoming sock1' \<and>
     (\<forall>r. context_reg_get dir' r =
        (case context_reg_get dir r of
           Some y \<Rightarrow> Some y
         | None \<Rightarrow> if map_of (contexts srv) r \<noteq> None then Some (Transfer (To_instance (regist_group req) hp)) else None))"
proof -
  let ?c = "pool_client (regist_host req) (ucast (regist_port req)) sock1' g1" and ?socks = "((sock1, g1), (sock2, g2))"
  let ?call = "shake_complete ops (Suc rounds) (query_step ops lim dget dtcp dcomplete) (shake_resp_body_ops lim par ser) n"
  have i: "incoming sock1' = frame n (response_payload shake_router shake_resp_body_bytes (shake_answer srv (response (handlers w x)))) @ []"
    using ans(1) by simp
  from shake_completes [where rounds = rounds and get = dget and is_tcp = dtcp and complete = dcomplete and w = resp0
      and host = "regist_host req" and port = "ucast (regist_port req)" and g = g1 and par = par and ser = ser, OF d refl i ans(2,3) l]
  obtain c' t' s' where call: "?call ?c resp0 = Some (Inr (body (shake_answer srv (response (handlers w x)))), c',
        shake_answer srv (response (handlers w x)))" "proto_ptr c' = Some t'" "session_ptr t' = Some s'"
      "outgoing (socket s') = outgoing sock1' @ sin (socket ss)"
    unfolding s(3) by blast
  have h: "instance_to_host address_text hp = (regist_host req, regist_port req)"
    using instance_to_host_parts [OF adr(1) new(2), of address_text] adr(2,3) bit_last_iff [of "regist_port req"] by auto
  have 2: "add_clients ops (regist_host req) (ucast (regist_port req)) [fst ?socks, snd ?socks] resp0 =
      (None, [Some ?c, Some (pool_client (regist_host req) (ucast (regist_port req)) sock2' g2)], resp0)"
    using add_clients_connected [OF con] by simp
  have topics: "shake_topics (body (shake_answer srv (response (handlers w x)))) = generate_topics srv []"
    by (simp add: shake_answer_def ctx_shake_def fresh)
  note reg = ctx_regist_new [where call = ?call and socks = ?socks and dir = dir, OF new(1,2) h 2 new(3) call(1), unfolded topics]
  have routes: "\<forall>r. context_reg_get (regist_topics (regist_group req) hp (generate_topics srv []) dir) r =
      (case context_reg_get dir r of Some y \<Rightarrow> Some y
       | None \<Rightarrow> if map_of (contexts srv) r \<noteq> None then Some (Transfer (To_instance (regist_group req) hp)) else None)"
    unfolding routes_added topics_are_contexts by simp
  from shake_served [where get = get and is_tcp = is_tcp and par = par and ser = ser, OF s ans(3) g l] obtain ts1 w1 h2 ts2 ss2 where 3:
      "accept_step sops lim get is_tcp (do_complete (handler_visit shake_req_body_ops)) ts w = (Continue, ts1, w1)" "spawned w1 = spawned w @ [(x, n)]"
      "handle_request sops shake_router (shake_resp_body_ops lim par ser) (shake_handle srv) n (handlers w1 x) ts1 = (Inr no_error, h2, ts2)"
      "session_ptr ts2 = Some ss2" "sout (socket ss2) = sout (socket ss) @ incoming sock1'"
    unfolding ans(1) by blast
  show ?thesis by (intro exI conjI) (rule reg routes 3 call(2-4) | simp)+
qed

text \<open>A login service with one router, at port 3344 of the same machine, and a directory without contexts.\<close>

definition sample_regist :: regist_req_body where
  "sample_regist = regist_req_body_default\<lparr>regist_host := ''127.0.0.1'', regist_port := 3344, regist_group := ''login''\<rparr>"

definition sample_service :: "nat service_context context_reg" where
  "sample_service = \<lparr>contexts = [(''20'', Handler 1)], sys_contexts = []\<rparr>"

definition sample_directory :: "nat service_context context_reg" where
  "sample_directory = \<lparr>contexts = [], sys_contexts = []\<rparr>"

definition shake_handlers :: "(unit, (unit, shake_resp_body) handler) contexts_state" where
  "shake_handlers =
     \<lparr>handlers = (\<lambda>_. \<lparr>handler_name = ''ctx_shake'', request = shake_request, response = shake_response_default\<rparr>),
      routers = (\<lambda>_. []), spawned = []\<rparr>"

abbreviation sample_make_address :: "string \<Rightarrow> 32 word option" where
  "sample_make_address h \<equiv> if h = ''127.0.0.1'' then Some 0x7F000001 else None"

abbreviation sample_address_text :: "32 word \<Rightarrow> string" where
  "sample_address_text a \<equiv> if a = 0x7F000001 then ''127.0.0.1'' else []"

abbreviation sample_shake_frame :: string where
  "sample_shake_frame \<equiv>
     frame 9 (response_payload shake_router shake_resp_body_bytes (shake_answer sample_service shake_response_default))"

lemma sample_shake:
  "sendable (response_payload shake_router shake_resp_body_bytes (shake_answer sample_service shake_response_default))"
  "shake_resp_body_valid sample_limits (body (shake_answer sample_service shake_response_default))"
  "make_host_and_port sample_make_address ''127.0.0.1'' 3344 = Inr 0x7F00000100000D10"
proof -
  have b: "body (shake_answer sample_service shake_response_default) = \<lparr>shake_topics = [''20'']\<rparr>"
    by (simp add: shake_answer_def sample_service_def shake_response_default_def shake_resp_body_default_def ctx_shake_def generate_topics_def)
  show "sendable (response_payload shake_router shake_resp_body_bytes (shake_answer sample_service shake_response_default))"
    using length_header_bytes [of "header (shake_answer sample_service shake_response_default)"] length_varint_word [of "zig_zag32 0"]
    by (simp add: sendable_def response_payload_def router_bytes_def shake_router_def b
        shake_resp_body_bytes_def string_bytes_def strings_bytes_def varint_small)
  show "shake_resp_body_valid sample_limits (body (shake_answer sample_service shake_response_default))"
    by (simp add: b shake_resp_body_valid_def fits_string_def fits_strings_def sample_limits_def)
  show "make_host_and_port sample_make_address ''127.0.0.1'' 3344 = Inr 0x7F00000100000D10"
    by (simp add: make_host_and_port_def)
qed

theorem discovery_routes_witness:
  "\<exists>p' info c t s dir' resp ts1 w1 h2 ts2 ss2.
     ctx_regist sample_make_address script_ops sample_address_text
       (shake_complete script_ops 1 (query_step script_ops sample_limits (\<lambda>_. None :: unit option) (\<lambda>_. True) (\<lambda>_ _ _ _ w. (Inr no_error, w)))
          (shake_resp_body_ops sample_limits (\<lambda>_. Inr J_null) (\<lambda>_. [])) 9)
       ((\<lparr>script_in = sample_shake_frame, script_out = []\<rparr>, 1), (\<lparr>script_in = [], script_out = []\<rparr>, 2)) sample_regist (\<lambda>_. None)
       sample_directory shake_response_default = Some (Inr (make_error_code_serviced srvd_success), p', dir', resp) \<and>
     p' ''login'' = Some [info] \<and> host_port info = 0x7F00000100000D10 \<and>
     clients info ! 0 = Some c \<and> proto_ptr c = Some t \<and> session_ptr t = Some s \<and>
     accept_step script_ops sample_limits (\<lambda>r. if r = ''8000'' then Some () else None) (\<lambda>_. True)
       (do_complete (handler_visit shake_req_body_ops)) (tcp_new (sample_session (script_out (socket s)))) shake_handlers = (Continue, ts1, w1) \<and>
     handle_request script_ops shake_router (shake_resp_body_ops sample_limits (\<lambda>_. Inr J_null) (\<lambda>_. [])) (shake_handle sample_service) 9
       (handlers w1 ()) ts1 = (Inr no_error, h2, ts2) \<and> session_ptr ts2 = Some ss2 \<and> script_out (socket ss2) = sample_shake_frame \<and>
     context_reg_get dir' ''20'' = Some (Transfer (To_instance ''login'' 0x7F00000100000D10)) \<and> context_reg_get dir' ''21'' = None"
proof -
  let ?ss = "sample_session (frame 9 (request_payload shake_router (\<lambda>_. []) shake_request))"
  let ?sock1 = "\<lparr>script_in = sample_shake_frame, script_out = []\<rparr>" and ?sock2 = "\<lparr>script_in = [], script_out = []\<rparr>"
  have h: "response (handlers shake_handlers ()) = shake_response_default" by (simp add: shake_handlers_def)
  have q: "regist_host sample_regist = ''127.0.0.1''" "regist_port sample_regist = 3344" "regist_group sample_regist = ''login''"
    by (simp_all add: sample_regist_def)
  have con: "sock_connect script_ops sock host port = (no_error, sock)" for sock host port by (simp add: script_ops_def)
  have s: "session_ptr (tcp_new ?ss :: (script, (unit, (unit, shake_resp_body) handler) contexts_state) tcp) = Some ?ss"
    "script_in (socket ?ss) = frame 9 (request_payload shake_router (\<lambda>_. []) shake_request)" "script_out (socket ?ss) = []"
    by (simp_all add: tcp_new_def sample_session_def)
  have o: "script_in ?sock1 = sample_shake_frame" "script_out ?sock1 = []" "pool_entry ''login'' 0x7F00000100000D10 (\<lambda>_. None) = None"
    "0 \<le> sint (3344 :: 32 word)" "''login'' \<noteq> ''gateway''" "sample_make_address ''127.0.0.1'' = Some 0x7F000001"
    "sample_address_text 0x7F000001 = ''127.0.0.1''" "(\<lambda>r. if r = ''8000'' then Some () else None) shake_router = Some ()"
    "4 \<le> string_max sample_limits" "shake_topics (body shake_response_default) = []"
    by (simp_all add: pool_entry_def shake_router_def sample_limits_def shake_response_default_def shake_resp_body_default_def)
  note d = discovery_routes [where req = sample_regist and ?resp0.0 = shake_response_default and x = "()" and w = shake_handlers
      and get = "\<lambda>r. if r = ''8000'' then Some () else None" and is_tcp = "\<lambda>_. True" and srv = sample_service and p = "\<lambda>_. None"
      and make_address = sample_make_address and address_text = sample_address_text and hp = "0x7F00000100000D10" and rounds = 0
      and dget = "\<lambda>_. None :: unit option" and dtcp = "\<lambda>_. True" and dcomplete = "\<lambda>_ _ _ _ w. (Inr no_error, w)" and dir = sample_directory
      and par = "\<lambda>_. Inr J_null" and ser = "\<lambda>_. []" and ?g1.0 = 1 and ?g2.0 = 2 and ?sock1.0 = ?sock1 and ?sock2.0 = ?sock2,
      unfolded h q, OF stream_socket_script con con o(6,7,4,5) sample_shake(3) o(3) stream_socket_script s(1,2) o(1) sample_shake(1,2) o(8) TrueI o(10,9)]
  have r: "context_reg_get sample_directory r = None" for r by (simp add: sample_directory_def context_reg_get_def)
  from d show ?thesis
    unfolding s(2,3) o(1,2) r
    by (elim exE conjE) (intro exI conjI, (assumption | simp add: sample_service_def)+)
qed

text \<open>
  A service that cannot be reached registers with success and is not found. When the first
  connection to the instance fails, and writing to its socket after that, the registration
  is answered with success as well; the instance is in the pool, and the contexts of the directory
  are what they were.
\<close>

theorem unreachable_registers:
  assumes new: "regist_group req \<noteq> ''gateway''" "make_host_and_port make_address (regist_host req) (regist_port req) = Inr hp"
      "pool_entry (regist_group req) hp p = None"
    and h: "instance_to_host address_text hp = (host, port)"
    and con: "sock_connect ops sock1 host (to_string (uint (ucast port :: 16 word))) = (ec, sock)" "failed ec" "sock_shutdown ops sock = (ec1, sock')"
    and wr: "\<And>bytes. sock_write ops sock' bytes = (ec2, sock'')" "failed ec2"
  shows "\<exists>p' info resp. ctx_regist make_address ops address_text (shake_complete ops rounds step pops n) ((sock1, g1), sock2) req p dir resp0 =
       Some (Inr (make_error_code_serviced srvd_success), p', dir, resp) \<and>
     p' = p(regist_group req \<mapsto> pool_group p (regist_group req) @ [info]) \<and> host_port info = hp"
proof -
  let ?s = "\<lparr>socket = sock', session_uuid = ucast g1, timeout = 30\<rparr>" and ?socks = "((sock1, g1), sock2)"
  let ?c = "(set_close_func (\<lambda>w. w) (client_new 30))\<lparr>proto_ptr := Some (tcp_new ?s)\<rparr>"
  have "client_connect ops sock1 g1 host (ucast port) (set_close_func (\<lambda>w. w) (client_new 30)) resp0 = (Inr ec, ?c, resp0)"
    using con by (simp add: client_connect_def tcp_connect_def session_connect_def session_new_def tcp_new_def make_error_def
        tcp_shutdown_def session_shutdown_def close_invoke_def set_close_func_def client_new_def)
  then have 1: "add_clients ops host (ucast port) [fst ?socks, snd ?socks] resp0 = (None, Some ?c # [None], resp0)"
    using con(2) by (cases sock2) simp
  obtain buffer where "commit_request shake_router shake_req_body_ops shake_request [] = (Inr no_error, buffer)"
    using shake_req_body.commit_request_bytes [of shake_request shake_router "[]"] shake_request_plain(1) by (auto simp: shake_router_def)
  moreover have "proto_ptr ?c = Some (tcp_new ?s)" "session_ptr (tcp_new ?s :: ('a, shake_resp_body tcp_response) tcp) = Some ?s" "socket ?s = sock'"
    by (simp_all add: tcp_new_def)
  ultimately obtain c' where "async_call ops (commit_request shake_router shake_req_body_ops shake_request) n (call_back pops) ?c
        shake_response_default = (Inr Returned, c', close_invoke ?c shake_response_default)"
    using async_call_unsent wr by metis
  then have 2: "shake_complete ops rounds step pops n ?c resp0 = Some (Inr (body shake_response_default), c', shake_response_default)"
    by (simp add: shake_complete_def completed_call_def close_invoke_def set_close_func_def)
  have 3: "regist_topics (regist_group req) hp (shake_topics (body shake_response_default)) dir = dir"
    by (simp add: shake_response_default_def shake_resp_body_default_def regist_topics_def)
  from ctx_regist_new [where call = "shake_complete ops rounds step pops n" and socks = ?socks and dir = dir, OF new(1,2) h 1 new(3) 2, unfolded 3]
  show ?thesis by fastforce
qed

text \<open>
  The gateway forwards to the directory. When the answers of the directory to the registration and
  to the request for its routers are what comes on the connection, \<open>run\<close> writes the two requests and
  returns true; from then on the gateway forwards to the directory the requests for every router of the
  directory for which it has no system context, and all others have the context they had.
\<close>

theorem gateway_routes:
  fixes rr :: "unit tcp_response"
  assumes st: "stream_socket ops incoming ending outgoing"
    and c: "srvd_conn c = Some conn" "proto_ptr conn = Some t" "session_ptr t = Some s" "waiting t = []"
    and i: "incoming (socket s) = frame n1 (response_payload regist_router (\<lambda>_. []) rr) @
              frame n2 (response_payload shake_router shake_resp_body_bytes (shake_answer dir resp))"
    and rr: "way (header rr) = 0" "- (2 ^ 30) \<le> sint (result rr)" "sint (result rr) < 2 ^ 30" "sendable (response_payload regist_router (\<lambda>_. []) rr)"
    and a: "sendable (response_payload shake_router shake_resp_body_bytes (shake_answer dir resp))"
      "shake_resp_body_valid lim (body (shake_answer dir resp))" "shake_topics (body resp) = []"
    and l: "9 \<le> string_max lim"
  shows "\<exists>c' gw'. gateway_run ops (Suc rounds) (query_step ops lim get is_tcp complete) (regist_req_body_ops lim par ser)
       (shake_resp_body_ops lim par ser) n1 n2 (Some c) gw = Some (Inr True, Some c', gw') \<and>
     (\<forall>r. context_reg_get gw' r =
        (if map_of (sys_contexts gw) r = None \<and> map_of (contexts dir) r \<noteq> None then Some (Transfer To_directory)
         else context_reg_get gw r))"
proof -
  let ?m = "publish_message ''gateway'' ''127.0.0.1'' 3399" and ?step = "query_step ops lim get is_tcp complete"
  let ?f1 = "\<lambda>b router w. w\<lparr>regist_reply := call_back regist_resp_body_ops b router (regist_reply w)\<rparr>"
  let ?f2 = "\<lambda>b router w. w\<lparr>shake_reply := call_back (shake_resp_body_ops lim par ser) b router (shake_reply w)\<rparr>"
  have m: "regist_req_body_valid lim (body ?m)" "way (header ?m) = 0"
    using l by (simp_all add: publish_message_def regist_req_body_valid_def regist_req_body_default_def fits_string_def tcp_header_default_def)
  have l': "length regist_router \<le> string_max lim" "length shake_router \<le> string_max lim" using l by (simp_all add: regist_router_def shake_router_def)
  from regist_call.call_completes [where rounds = rounds and get = get and is_tcp = is_tcp and complete = complete and par = par and ser = ser
      and f = ?f1 and w = gate_replies_default, OF st c(2-) m i rr(4) TrueI rr(1-3) l'(1)]
  obtain conn1 t1 s1 b1 where 1: "completed_call ops (Suc rounds) ?step (commit_request regist_router (regist_req_body_ops lim par ser) ?m) n1 ?f1 conn
        gate_replies_default = Some (Inr (), conn1, ?f1 b1 regist_router gate_replies_default)" "proto_ptr conn1 = Some t1" "session_ptr t1 = Some s1"
      "waiting t1 = []" "incoming (socket s1) = frame n2 (response_payload shake_router shake_resp_body_bytes (shake_answer dir resp)) @ []"
    by auto
  have r: "way (header (shake_answer dir resp)) = 0" "- (2 ^ 30) \<le> sint (result (shake_answer dir resp))"
    "sint (result (shake_answer dir resp)) < 2 ^ 30" by simp_all
  from shake_call.call_completes [where rounds = rounds and get = get and is_tcp = is_tcp and complete = complete and par = par and ser = ser
      and f = ?f2 and w = "?f1 b1 regist_router gate_replies_default", OF st 1(2-4) TrueI shake_request_plain(1) 1(5) a(1,2) r l'(2)]
  obtain conn2 b2 where 2: "completed_call ops (Suc rounds) ?step (commit_request shake_router shake_req_body_ops shake_request) n2 ?f2 conn1
        (?f1 b1 regist_router gate_replies_default) = Some (Inr (), conn2, ?f2 b2 shake_router (?f1 b1 regist_router gate_replies_default))"
      "\<forall>r0. call_back (shake_resp_body_ops lim par ser) b2 shake_router r0 = shake_answer dir resp"
    by blast
  have topics: "shake_topics (body (shake_answer dir resp)) = generate_topics dir []" using a(3) by (simp add: shake_answer_def ctx_shake_def)
  have "gateway_run ops (Suc rounds) ?step (regist_req_body_ops lim par ser) (shake_resp_body_ops lim par ser) n1 n2 (Some c) gw =
      Some (Inr True, Some (c\<lparr>srvd_conn := Some conn2\<rparr>), set_topics (generate_topics dir []) gw)"
    using 1(1) 2 c(1) by (simp add: gateway_run_def srvd_completed_call_def topics)
  moreover have "contexts (set_topics ts gw) = contexts gw" for ts
    by (induction ts arbitrary: gw) (simp_all add: set_topics_def mpc_put_context_def)
  ultimately show ?thesis
    using topics_are_contexts [of _ dir] by (auto simp: context_reg_get_def set_topics_sys_contexts split: option.splits)
qed

end
