(* ===== verification/Gateway.thy ===== *)
theory Gateway
  imports Http_Session Client_Pool
begin

text \<open>
  The gateway between HTTP and TCP: the conversion of messages (src/gateway/convert.hpp), the
  transfer contexts (src/gateway/basic_transfer_context.hpp and its copy in src/serviced) and the
  forwarding function of \<open>set_topics\<close> (src/gateway/client_pool.cpp).

  The configuration of the cross-origin fields is a singleton and the parameter \<open>cfg\<close>. The
  transferring function and the callback of the session are parameters of what uses them.
\<close>

section \<open>Conversion\<close>

definition from_tcp_to_http :: "http_config \<Rightarrow> flex_buffer \<Rightarrow> flex_buffer
    \<Rightarrow> (fault + error_code) \<times> flex_buffer \<times> flex_buffer" where
  "from_tcp_to_http cfg input output =
     (case (from_datas_zig_zag :: 32 word reader) input of
        (Inl f, input1) \<Rightarrow> (Inl f, input1, output)
      | (Inr ec, input1) \<Rightarrow>
          (case tcp_header_deserialize tcp_header_default input1 of
             (Some f, _, input2) \<Rightarrow> (Inl f, input2, output)
           | (None, _, input2) \<Rightarrow>
               let h = set_options_header
                         (set_content_length (word_of_nat (length input2))
                           (set_content_type ''application/json'' http_header_default)) True cfg
               in (Inr (make_error_code_http (sint ec)), input2, sputn input2 (http_serialize h output))))"

definition from_http_to_tcp :: "http_method \<Rightarrow> flex_buffer \<Rightarrow> flex_buffer
    \<Rightarrow> (fault + error_code) \<times> flex_buffer \<times> flex_buffer" where
  "from_http_to_tcp meth input output =
     (case http_deserialize http_header_default input of
        (Some f, _, input1) \<Rightarrow> (Inl f, input1, output)
      | (None, _, input1) \<Rightarrow>
          (case tcp_header_serialize (tcp_header_default\<lparr>way := if meth = m_get then 2 else 1\<rparr>) output of
             (Some f, output1) \<Rightarrow> (Inl f, input1, output1)
           | (None, output1) \<Rightarrow> (Inr no_error, input1, sputn input1 output1)))"

section \<open>Transfer\<close>

text \<open>
  \<open>do_complete\<close> of the transfer contexts: on TCP the buffer goes on as it is, on HTTP it is
  converted first. \<open>func\<close> is the transferring function with the session callback applied.
\<close>

definition transfer_tcp :: "(flex_buffer \<Rightarrow> string \<Rightarrow> 'w \<Rightarrow> (fault + error_code) \<times> 'w) \<Rightarrow> string \<Rightarrow> flex_buffer \<Rightarrow> 'w
    \<Rightarrow> (fault + error_code) \<times> 'w" where
  "transfer_tcp func router buffer w = func buffer router w"

definition transfer_http :: "(flex_buffer \<Rightarrow> string \<Rightarrow> 'w \<Rightarrow> (fault + error_code) \<times> 'w) \<Rightarrow> http_method \<Rightarrow> string
    \<Rightarrow> flex_buffer \<Rightarrow> 'w \<Rightarrow> (fault + error_code) \<times> 'w" where
  "transfer_http func meth router buffer w =
     (case from_http_to_tcp meth buffer [] of
        (Inl f, _, _) \<Rightarrow> (Inl f, w)
      | (Inr _, _, transfer_buffer) \<Rightarrow> func transfer_buffer router w)"

text \<open>What \<open>set_topics\<close> does with the reply of the directory, and the sending before it.\<close>

definition transfer_reply :: "http_config \<Rightarrow> (flex_buffer \<Rightarrow> error_code \<Rightarrow> 'w \<Rightarrow> 'w) \<Rightarrow> flex_buffer \<Rightarrow> 'w \<Rightarrow> fault + 'w" where
  "transfer_reply cfg func buf w =
     (case from_tcp_to_http cfg buf [] of
        (Inl f, _, _) \<Rightarrow> Inl f
      | (Inr ec, _, out) \<Rightarrow> Inr (func out ec w))"

section \<open>Checks\<close>

text \<open>The modules that are to guard the gateway accept everything.\<close>

definition gateway_auth :: "string \<Rightarrow> string \<Rightarrow> bool" where
  "gateway_auth username passwd = True"

definition check_ip :: "string \<Rightarrow> bool" where
  "check_ip ip = True"

definition check_mac :: "string \<Rightarrow> bool" where
  "check_mac mac = True"

section \<open>Lemmas\<close>

lemma http_deserialize_default:
  assumes "transmissible (hdr_fields h)"
  shows "http_deserialize http_header_default (http_serialize h [] @ rest) = (None, \<lparr>hdr_fields = hdr_fields h, http_way = 0\<rparr>, rest)"
  using http_header_fields [OF assms, of 0 rest] by (simp add: http_header_default_def)

lemma consume_after_header:
  "consume_request ops m (header_bytes h @ rest) =
     (case body_load ops (way h) (body m) rest of
        (f, x, b) \<Rightarrow> (catch_all (make_error_code_ip ip_consume) f, m\<lparr>header := h, body := x\<rparr>, b))"
  by (simp add: consume_request_def consume_body_def l_then_def l_focus_def loadsD [OF loads_header] split: prod.splits)

definition gateway_header :: "http_config \<Rightarrow> string \<Rightarrow> http_header" where
  "gateway_header cfg payload =
     set_options_header (set_content_length (word_of_nat (length payload))
       (set_content_type ''application/json'' http_header_default)) True cfg"

lemma content_length_gateway: "content_length (gateway_header cfg payload) = Inr (word_of_nat (length payload))"
proof -
  have "field_find (gateway_header cfg payload) ''Content-Length'' = to_string (uint (word_of_nat (length payload) :: 64 word))"
    by (simp add: gateway_header_def set_options_header_def set_content_length_def field_find_set Let_def)
  moreover have "to_string (uint (word_of_nat (length payload) :: 64 word)) \<noteq> []"
    by (simp add: to_string_def)
  ultimately show ?thesis by (simp add: content_length_def to_integer_decimal)
qed

section \<open>Properties\<close>

text \<open>
  C19. A request through the gateway. An HTTP request with any fields that can be transmitted,
  once its first line is read, is handed to the transferring function as a TCP message with the
  same body and the way of the method: key-value for \<open>GET\<close>, JSON otherwise. The service that
  consumes this message reads the body from exactly these bytes in that way.
\<close>

theorem gateway_request_forwarded:
  assumes "transmissible (hdr_fields h)"
  shows "\<exists>buf. transfer_http func meth router (http_serialize h [] @ payload) w = func buf router w \<and>
     consume_request ops m buf =
       (case (if meth = m_get then from_kv ops else from_json ops) (body m) payload of
          (f, x, rest) \<Rightarrow> (catch_all (make_error_code_ip ip_consume) f,
             m\<lparr>header := tcp_header_default\<lparr>way := if meth = m_get then 2 else 1\<rparr>, body := x\<rparr>, rest))"
proof -
  let ?t = "tcp_header_default\<lparr>way := if meth = m_get then 2 else 1\<rparr>"
  have "transfer_http func meth router (http_serialize h [] @ payload) w = func (header_bytes ?t @ payload) router w"
    by (simp add: transfer_http_def from_http_to_tcp_def http_deserialize_default [OF assms] savesD [OF saves_header] sputn_def)
  then show ?thesis
    by (intro exI [of _ "header_bytes ?t @ payload"]) (simp add: consume_after_header body_load_def)
qed

theorem gateway_request_forwarded_witness:
  "\<exists>buf. transfer_http (\<lambda>buf router w. (Inr no_error, w @ [(buf, router)])) m_post ''7000''
       (http_serialize \<lparr>hdr_fields = [(''Host'', ''localhost'')], http_way = 0\<rparr> [] @ ''{}'') [] = (Inr no_error, [(buf, ''7000'')]) \<and>
     consume_request (query_sql_req_body_ops sample_limits (\<lambda>_. Inr J_null) (\<lambda>_. [])) sample_query buf =
       (case from_json (query_sql_req_body_ops sample_limits (\<lambda>_. Inr J_null) (\<lambda>_. [])) (body sample_query) ''{}'' of
          (f, x, rest) \<Rightarrow> (catch_all (make_error_code_ip ip_consume) f,
             sample_query\<lparr>header := tcp_header_default\<lparr>way := 1\<rparr>, body := x\<rparr>, rest))"
  using gateway_request_forwarded
    [of "\<lparr>hdr_fields = [(''Host'', ''localhost'')], http_way = 0\<rparr>" "\<lambda>buf router w. (Inr no_error, w @ [(buf, router)])"
      m_post "''7000''" "''{}''" "[]" "query_sql_req_body_ops sample_limits (\<lambda>_. Inr J_null) (\<lambda>_. [])" sample_query]
  by (simp add: transmissible_def)

text \<open>
  C20. A reply through the gateway. When a service answers with a result in \<open>[-2^30, 2^30)\<close>, the
  gateway hands the session a buffer and an HTTP status: the status is the result, and the buffer
  is a header block that says that the body is JSON and how long it is, followed by the body of
  the answer unchanged.
\<close>

theorem gateway_reply_converted:
  assumes "- (2 ^ 30) \<le> sint r" and "sint r < 2 ^ 30"
  shows "\<exists>hdr. transfer_reply cfg func (varint (unat (zig_zag32 r)) @ header_bytes t @ payload) w =
       Inr (func (http_serialize hdr [] @ payload) (make_error_code_http (sint r)) w) \<and>
     content_length hdr = Inr (word_of_nat (length payload)) \<and> content_type hdr = ''application/json''"
proof -
  have "transfer_reply cfg func (varint (unat (zig_zag32 r)) @ header_bytes t @ payload) w =
       Inr (func (http_serialize (gateway_header cfg payload) [] @ payload) (make_error_code_http (sint r)) w)"
    by (simp add: transfer_reply_def from_tcp_to_http_def decodesD [OF sint32_zig_zag [OF assms]] loadsD [OF loads_header]
        gateway_header_def Let_def sputn_def)
  moreover have "content_type (gateway_header cfg payload) = ''application/json''"
    by (simp add: gateway_header_def content_type_def set_options_header_def set_content_length_def set_content_type_def
        field_find_set Let_def)
  ultimately show ?thesis using content_length_gateway by blast
qed

theorem gateway_reply_converted_witness:
  "\<exists>hdr. transfer_reply \<lparr>control_allow_origin = ''*'', control_allow_methods = ''GET'', control_allow_headers = ''X'',
          control_max_age = ''1'', control_allow_credentials = True\<rparr> (\<lambda>out ec w. w @ [(out, ec)])
        (varint (unat (zig_zag32 200)) @ header_bytes tcp_header_default @ ''{}'') [] =
       Inr [(http_serialize hdr [] @ ''{}'', make_error_code_http 200)] \<and> content_length hdr = Inr 2"
  using gateway_reply_converted
    [of 200 "\<lparr>control_allow_origin = ''*'', control_allow_methods = ''GET'', control_allow_headers = ''X'',
          control_max_age = ''1'', control_allow_credentials = True\<rparr>" "\<lambda>out ec w. w @ [(out, ec)]" tcp_header_default "''{}''" "[]"]
  by auto

end
