(* ===== verification/Programs.thy ===== *)
theory Programs
  imports Http_Session Server
begin

text \<open>
  The main functions of the four services (src/serviced/serviced.cpp, src/gateway/gateway.cpp,
  src/login/login.cpp, src/database/database.cpp): from the options to the server that is run,
  and the singletons they fill for the modules.

  The command line is parsed by \<open>boost::program_options\<close>; the record \<open>options\<close> is the variables
  map it returns, with the types under which the options are declared. \<open>hardware\<close> is
  \<open>std::thread::hardware_concurrency()\<close>.
\<close>

record options =
  opt_help :: bool
  opt_listen :: "16 word option"
  opt_pool_size :: "32 word option"
  opt_name :: "string option"
  opt_proto :: "string option"
  opt_srvd_host :: "string option"
  opt_srvd_port :: "16 word option"
  opt_db_host :: "string option"
  opt_db_port :: "16 word option"
  opt_db_user :: "string option"
  opt_db_passwd :: "string option"
  opt_db_schema :: "string option"

record config =
  srv_host :: string
  srv_port :: "32 word"
  mysql_host :: string
  mysql_port :: "32 word"
  mysql_user :: string
  mysql_password :: string
  mysql_db :: string
  http_cfg :: http_config

datatype protocol = Tcp | Http

datatype outcome = Help | Refused string | Unsupported string | Served protocol "16 word" "32 word" string

definition refuse :: "string \<Rightarrow> outcome" where
  "refuse what = Refused (''the '' @ what @ '' is invalid'')"

text \<open>The options every service takes: the size of the pool and the name have defaults.\<close>

definition serve_with :: "32 word \<Rightarrow> string \<Rightarrow> options \<Rightarrow> protocol \<Rightarrow> 16 word \<Rightarrow> outcome" where
  "serve_with hardware default_name vm proto port =
     Served proto port (case opt_pool_size vm of None \<Rightarrow> hardware | Some n \<Rightarrow> n)
       (case opt_name vm of None \<Rightarrow> default_name | Some n \<Rightarrow> n)"

definition serviced_main :: "32 word \<Rightarrow> options \<Rightarrow> config \<Rightarrow> outcome \<times> config" where
  "serviced_main hardware vm cfg =
     (if opt_help vm then (Help, cfg)
      else case opt_listen vm of
             None \<Rightarrow> (refuse ''listen port'', cfg)
           | Some port \<Rightarrow> (serve_with hardware ''serviced'' vm Tcp port, cfg))"

text \<open>Where the directory is.\<close>

definition with_directory :: "options \<Rightarrow> config \<Rightarrow> (config \<Rightarrow> outcome \<times> config) \<Rightarrow> outcome \<times> config" where
  "with_directory vm cfg k =
     (case opt_srvd_host vm of
        None \<Rightarrow> (refuse ''srvd_host'', cfg)
      | Some h \<Rightarrow>
          (case opt_srvd_port vm of
             None \<Rightarrow> (refuse ''srvd_port'', cfg\<lparr>srv_host := h\<rparr>)
           | Some p \<Rightarrow> k (cfg\<lparr>srv_host := h, srv_port := ucast p\<rparr>)))"

definition login_main :: "32 word \<Rightarrow> options \<Rightarrow> config \<Rightarrow> outcome \<times> config" where
  "login_main hardware vm cfg =
     (if opt_help vm then (Help, cfg)
      else case opt_listen vm of
             None \<Rightarrow> (refuse ''listen port'', cfg)
           | Some port \<Rightarrow> with_directory vm cfg (\<lambda>cfg. (serve_with hardware ''login'' vm Tcp port, cfg)))"

definition gateway_http_config :: "http_config \<Rightarrow> http_config" where
  "gateway_http_config h =
     h\<lparr>control_allow_origin := ''http://localhost:5173'', control_allow_methods := ''POST,GET,PUT'',
       control_allow_credentials := True, control_max_age := ''86400'', control_allow_headers := ''content-type''\<rparr>"

definition gateway_main :: "32 word \<Rightarrow> options \<Rightarrow> config \<Rightarrow> outcome \<times> config" where
  "gateway_main hardware vm cfg0 =
     (let cfg = cfg0\<lparr>http_cfg := gateway_http_config (http_cfg cfg0)\<rparr>
      in if opt_help vm then (Help, cfg)
         else case opt_listen vm of
                None \<Rightarrow> (refuse ''listen port'', cfg)
              | Some port \<Rightarrow>
                  (case opt_proto vm of
                     None \<Rightarrow> (refuse ''proto'', cfg)
                   | Some proto \<Rightarrow>
                       with_directory vm cfg (\<lambda>cfg.
                         (if proto = ''tcp'' then serve_with hardware ''gateway'' vm Tcp port
                          else if proto = ''http1.1'' then serve_with hardware ''gateway'' vm Http port
                          else Unsupported proto, cfg))))"

definition database_main :: "32 word \<Rightarrow> options \<Rightarrow> config \<Rightarrow> outcome \<times> config" where
  "database_main hardware vm cfg =
     (if opt_help vm then (Help, cfg)
      else case opt_listen vm of
             None \<Rightarrow> (refuse ''listen port'', cfg)
           | Some port \<Rightarrow>
               with_directory vm cfg (\<lambda>cfg.
                 case opt_db_host vm of
                   None \<Rightarrow> (refuse ''db_host'', cfg)
                 | Some h \<Rightarrow>
                     let cfg = cfg\<lparr>mysql_host := h\<rparr> in
                     (case opt_db_port vm of
                        None \<Rightarrow> (refuse ''db_port'', cfg)
                      | Some p \<Rightarrow>
                          let cfg = cfg\<lparr>mysql_port := ucast p\<rparr> in
                          (case opt_db_user vm of
                             None \<Rightarrow> (refuse ''db_user'', cfg)
                           | Some u \<Rightarrow>
                               let cfg = cfg\<lparr>mysql_user := u\<rparr> in
                               (case opt_db_passwd vm of
                                  None \<Rightarrow> (refuse ''db_passwd'', cfg)
                                | Some w \<Rightarrow>
                                    let cfg = cfg\<lparr>mysql_password := w\<rparr> in
                                    (case opt_db_schema vm of
                                       None \<Rightarrow> (refuse ''db_schema'', cfg)
                                     | Some d \<Rightarrow>
                                         (serve_with hardware ''gateway'' vm Tcp port, cfg\<lparr>mysql_db := d\<rparr>)))))))"

section \<open>Properties\<close>

text \<open>
  Which programs start. Without \<open>help\<close>, the directory needs a port to listen on; the login
  service also the host and port of the directory; the database service these and all five
  options of its database; the gateway the directory and a protocol that is \<open>tcp\<close> or \<open>http1.1\<close>,
  which decides the kind of server. A program runs its server exactly when it has them all, on
  the port it was given, and what it then leaves for its modules is what the options say.
\<close>

theorem programs_start:
  "((\<exists>n nm. fst (serviced_main hw vm cfg) = Served proto port n nm) \<longleftrightarrow>
     \<not> opt_help vm \<and> opt_listen vm = Some port \<and> proto = Tcp) \<and>
   ((\<exists>n nm. fst (login_main hw vm cfg) = Served proto port n nm) \<longleftrightarrow>
     \<not> opt_help vm \<and> opt_listen vm = Some port \<and> proto = Tcp \<and> opt_srvd_host vm \<noteq> None \<and> opt_srvd_port vm \<noteq> None) \<and>
   ((\<exists>n nm. gateway_main hw vm cfg = (Served proto port n nm, cfg')) \<longleftrightarrow>
     \<not> opt_help vm \<and> opt_listen vm = Some port \<and>
     (\<exists>h p. opt_srvd_host vm = Some h \<and> opt_srvd_port vm = Some p \<and>
        cfg' = cfg\<lparr>http_cfg := gateway_http_config (http_cfg cfg), srv_host := h, srv_port := ucast p\<rparr>) \<and>
     opt_proto vm = Some (case proto of Tcp \<Rightarrow> ''tcp'' | Http \<Rightarrow> ''http1.1'')) \<and>
   ((\<exists>n nm. database_main hw vm cfg = (Served proto port n nm, cfg')) \<longleftrightarrow>
     \<not> opt_help vm \<and> opt_listen vm = Some port \<and> proto = Tcp \<and>
     (\<exists>h p dh dp du dw ds. opt_srvd_host vm = Some h \<and> opt_srvd_port vm = Some p \<and> opt_db_host vm = Some dh \<and>
        opt_db_port vm = Some dp \<and> opt_db_user vm = Some du \<and> opt_db_passwd vm = Some dw \<and> opt_db_schema vm = Some ds \<and>
        cfg' = cfg\<lparr>srv_host := h, srv_port := ucast p, mysql_host := dh, mysql_port := ucast dp, mysql_user := du,
                   mysql_password := dw, mysql_db := ds\<rparr>))"
proof (intro conjI)
  show "(\<exists>n nm. gateway_main hw vm cfg = (Served proto port n nm, cfg')) \<longleftrightarrow>
     \<not> opt_help vm \<and> opt_listen vm = Some port \<and>
     (\<exists>h p. opt_srvd_host vm = Some h \<and> opt_srvd_port vm = Some p \<and>
        cfg' = cfg\<lparr>http_cfg := gateway_http_config (http_cfg cfg), srv_host := h, srv_port := ucast p\<rparr>) \<and>
     opt_proto vm = Some (case proto of Tcp \<Rightarrow> ''tcp'' | Http \<Rightarrow> ''http1.1'')"
    by (cases proto) (auto simp: gateway_main_def with_directory_def serve_with_def refuse_def Let_def split: option.splits)
qed (auto simp: serviced_main_def login_main_def database_main_def with_directory_def serve_with_def refuse_def Let_def
      split: option.splits)

end
