(* ===== verification/Command_Options.thy ===== *)
theory Command_Options
  imports Prelude
begin

text \<open>
  \<open>cmd_options\<close> (include/aquarius/cmd_options.hpp), a wrapper around \<open>boost::program_options\<close>. The
  functions of the library are parameters: \<open>store\<close> parses the arguments by the declared options
  and adds what it finds to the variables map, and \<open>notify\<close> copies the values of the declared options
  in the map to the variables whose addresses were given with them.
\<close>

section \<open>The class\<close>

text \<open>
  An option has a name, a description and the address of a variable; of the address only whether the
  variable still exists is kept.
\<close>

record 'v cmd_options =
  desc_str :: string
  opt_desc :: "(string \<times> string \<times> bool) list"
  opt_vm :: "string \<rightharpoonup> 'v"

definition cmd_options_new :: "string \<Rightarrow> 'v cmd_options" where
  "cmd_options_new d = \<lparr>desc_str = d, opt_desc = [], opt_vm = Map.empty\<rparr>"

text \<open>
  \<open>value<T>(&default_value)\<close> passes the address of the parameter \<open>default_value\<close>, which does not live
  on after the call; its value is not made the default of the option.
\<close>

definition add_option :: "string \<Rightarrow> string \<Rightarrow> 't \<Rightarrow> 'v cmd_options \<Rightarrow> 'v cmd_options" where
  "add_option name d default_value c = c\<lparr>opt_desc := opt_desc c @ [(name, d, False)]\<rparr>"

text \<open>Both overloads of \<open>load_options\<close>, which differ in the parser: \<open>store\<close> is that of the overload.\<close>

definition load_options :: "((string \<times> string \<times> bool) list \<Rightarrow> 'a \<Rightarrow> (string \<rightharpoonup> 'v) \<Rightarrow> fault + (string \<rightharpoonup> 'v))
    \<Rightarrow> ((string \<times> string \<times> bool) list \<Rightarrow> (string \<rightharpoonup> 'v) \<Rightarrow> fault option) \<Rightarrow> 'a \<Rightarrow> 'v cmd_options
    \<Rightarrow> fault option \<times> 'v cmd_options" where
  "load_options store notify argv c =
     (case store (opt_desc c) argv (opt_vm c) of
        Inl f \<Rightarrow> (Some f, c)
      | Inr vm \<Rightarrow> (notify (opt_desc c) vm, c\<lparr>opt_vm := vm\<rparr>))"

text \<open>\<open>as_T\<close> is \<open>as<T>()\<close> and \<open>zero\<close> is \<open>T{}\<close>.\<close>

definition get_option :: "('v \<Rightarrow> fault + 't) \<Rightarrow> 't \<Rightarrow> string \<Rightarrow> 'v cmd_options \<Rightarrow> fault + 't" where
  "get_option as_T zero op c = (case opt_vm c op of None \<Rightarrow> Inr zero | Some v \<Rightarrow> as_T v)"

section \<open>What loading does\<close>

text \<open>What is documented of \<open>notify\<close>: it writes to the variable of every declared option that has a value.\<close>

definition notify_writes :: "((string \<times> string \<times> bool) list \<Rightarrow> (string \<rightharpoonup> 'v) \<Rightarrow> fault option) \<Rightarrow> bool" where
  "notify_writes notify \<longleftrightarrow>
     (\<forall>ds vm. notify ds vm = (if \<exists>(name, _, alive) \<in> set ds. \<not> alive \<and> vm name \<noteq> None then Some Undefined else None))"

text \<open>No option of a \<open>cmd_options\<close> has a variable that exists.\<close>

definition dangling :: "'v cmd_options \<Rightarrow> bool" where
  "dangling c \<longleftrightarrow> (\<forall>(_, _, alive) \<in> set (opt_desc c). \<not> alive)"

lemma dangling_new: "dangling (cmd_options_new d)"
  by (simp add: dangling_def cmd_options_new_def)

lemma dangling_add: "dangling c \<Longrightarrow> dangling (add_option name d v c)"
  by (auto simp: dangling_def add_option_def)

text \<open>
  Loading is undefined as soon as a declared option has a value, and otherwise ends well; an option
  without a value is \<open>T{}\<close>, whatever default it was declared with.
\<close>

theorem options_outcome:
  assumes "notify_writes notify" and "dangling c" and "store (opt_desc c) argv (opt_vm c) = Inr vm"
  shows "fst (load_options store notify argv c) =
           (if \<exists>op \<in> fst ` set (opt_desc c). vm op \<noteq> None then Some Undefined else None) \<and>
         (vm op = None \<longrightarrow> get_option as_T zero op (snd (load_options store notify argv c)) = Inr zero)"
proof -
  have "(\<exists>(name, _, alive) \<in> set (opt_desc c). \<not> alive \<and> vm name \<noteq> None) \<longleftrightarrow> (\<exists>op \<in> fst ` set (opt_desc c). vm op \<noteq> None)"
  proof -
    have "\<not> snd (snd d)" if "d \<in> set (opt_desc c)" for d
      using assms(2) that by (auto simp: dangling_def)
    then show ?thesis by (auto simp: split_beta)
  qed
  then show ?thesis using assms(1,3) by (simp add: load_options_def get_option_def notify_writes_def)
qed

end
