(* ===== verification/Console_Client.thy ===== *)
theory Console_Client
  imports Service_Calls Login Text
begin

text \<open>
  The console client (src/aquarius-cli/aquarius-cli.cpp): the loop over the words of the standard
  input, the login it spawns, and that login together with the handler of the login service
  (src/login/ctx_login.cpp) at the other end of the connection.
\<close>

section \<open>The program\<close>

text \<open>
  The coroutine of a login. Its response starts as \<open>login_response{}\<close> and is filled by the callback
  of the call; \<open>cli_report\<close> is what is printed of it when the call returns, at once or after it was
  suspended.
\<close>

definition cli_report :: "unit tcp_response \<Rightarrow> string" where
  "cli_report resp = (if result resp = 0 then ''login success;'' @ [nl] else ''login failed!'' @ [nl])"

definition login_response_default :: "unit tcp_response" where
  "login_response_default = \<lparr>header = tcp_header_default, body = (), result = 0\<rparr>"

definition cli_request :: "login_req_body tcp_request" where
  "cli_request = \<lparr>header = tcp_header_default, body = \<lparr>login_username = ''test'', login_password = ''test''\<rparr>\<rparr>"

definition cli_login :: "'s socket_ops \<Rightarrow> login_req_body serialization \<Rightarrow> 32 word \<Rightarrow> ('s, unit tcp_response) client
    \<Rightarrow> (fault + string option) \<times> ('s, unit tcp_response) client" where
  "cli_login ops qops generated c =
     (case async_call ops (commit_request login_router qops cli_request) generated (call_back empty_body_ops) c login_response_default of
        (Inl f, c', _) \<Rightarrow> (Inl f, c')
      | (Inr Returned, c', resp) \<Rightarrow> (Inr (Some (cli_report resp)), c')
      | (Inr (Suspended _), c', _) \<Rightarrow> (Inr None, c'))"

text \<open>
  The loop over the words of the input, with the number of logins spawned; at the end of the input
  every read leaves the word empty and the loop goes on.
\<close>

fun cli_loop :: "string list \<Rightarrow> nat \<Rightarrow> nat option" where
  "cli_loop [] n = None"
| "cli_loop (input # rest) n =
     (if input = ''quit'' then Some n else if input = ''login'' then cli_loop rest (Suc n) else cli_loop rest n)"

text \<open>
  \<open>connected\<close> is the outcome of connecting, when it is known within five seconds. Both ways out of
  \<open>main\<close> destroy the running thread \<open>t\<close>, which ends the program by \<open>std::terminate\<close>: it never ends with
  an exit status.
\<close>

datatype cli_end = Terminated string nat

definition cli_main :: "error_code option \<Rightarrow> string list \<Rightarrow> cli_end option" where
  "cli_main connected input =
     (case connected of
        None \<Rightarrow> Some (Terminated (''connect timeout!'' @ [nl]) 0)
      | Some ec \<Rightarrow>
          map_option (Terminated (if ec_value ec = 0 then ''connect success;'' @ [nl] else ''connect failed!'' @ [nl]))
            (cli_loop input 0))"

text \<open>\<open>ctx_login\<close> on the handler object.\<close>

definition login_handle :: "accounts option \<Rightarrow> (login_req_body, unit) handler \<Rightarrow> error_code \<times> (login_req_body, unit) handler" where
  "login_handle auth h = (ctx_login auth (body (request h)), h)"

section \<open>What it does\<close>

lemma cli_loop_outcome:
  "cli_loop ws n = (if ''quit'' \<in> set ws then Some (n + length (filter (\<lambda>w. w = ''login'') (takeWhile (\<lambda>w. w \<noteq> ''quit'') ws))) else None)"
  by (induction ws n rule: cli_loop.induct) auto

text \<open>
  The program ends when connecting takes too long or after the word \<open>quit\<close>; without it the loop
  does not end, even when the input has ended.
\<close>

theorem cli_ends: "cli_main connected input = None \<longleftrightarrow> connected \<noteq> None \<and> ''quit'' \<notin> set input"
  by (auto simp: cli_main_def cli_loop_outcome split: option.split)

lemma ctx_login_value:
  "ctx_login auth req = make_error_code_http
     (if \<exists>m. auth = Some m \<and> store m (login_username req) = Some (login_password req) then 200 else 401)"
  by (auto simp: ctx_login_def check_password_def store_def make_error_code_login_def no_error_def enum_value_def
      login_errors_def split: option.splits)

lemma cli_request_valid: "4 \<le> string_max lim \<Longrightarrow> login_req_body_valid lim (body cli_request)" "way (header cli_request) = 0"
  by (simp_all add: cli_request_def login_req_body_valid_def fits_string_def tcp_header_default_def)

lemma cli_request_sendable: "sendable (request_payload login_router login_req_body_bytes cli_request)"
  using length_header_bytes [of "header cli_request"]
  by (simp add: sendable_def request_payload_def router_bytes_def login_router_def cli_request_def
      login_req_body_bytes_def string_bytes_def varint_small)

definition login_answer :: "accounts option \<Rightarrow> unit tcp_response \<Rightarrow> unit tcp_response" where
  "login_answer auth resp = resp\<lparr>header := (header resp)\<lparr>way := 0\<rparr>,
     result := if \<exists>m. auth = Some m \<and> store m ''test'' = Some ''test'' then 200 else 401\<rparr>"

lemma login_answer_sendable: "sendable (response_payload login_router (\<lambda>_. []) (login_answer auth resp))"
  using length_header_bytes [of "header (login_answer auth resp)"] length_varint_word [of "zig_zag32 (result (login_answer auth resp))"]
  by (simp add: sendable_def response_payload_def router_bytes_def login_router_def string_bytes_def varint_small)

text \<open>
  C37. A login from the console reaches the login service and is answered, and is never reported as
  a success. Over a connection on which nothing waits, the coroutine is suspended after it has
  sent the request for the user \<open>test\<close>; the service parses it into the handler of \<open>/login\<close>, which
  answers with the result 200 when \<open>test\<close> is the stored password of that user and 401 otherwise; the
  client's loop gives the caller that result and wakes it up. The console takes only the result 0
  as a success, so that it prints \<open>login failed!\<close> in both cases.
\<close>

theorem console_login:
  assumes c: "stream_socket cops cin cend cout" "proto_ptr c = Some tc" "session_ptr tc = Some sc" "waiting tc = []" "finished tc = []"
    and s: "stream_socket sops sin send sout" "session_ptr ts = Some ss"
    and q: "sin (socket ss) = frame n (request_payload login_router login_req_body_bytes cli_request)"
    and a: "cin (socket sc) = frame n (response_payload login_router (\<lambda>_. []) (login_answer auth (response (handlers w x))))"
    and g: "get login_router = Some x" "is_tcp x" and l: "6 \<le> string_max lim"
  shows "\<exists>c1 tc1 sc1 ts1 w1 h2 ts2 ss2 tc2 r.
     cli_login cops (login_req_body_ops lim par ser) n c = (Inr None, c1) \<and>
     proto_ptr c1 = Some tc1 \<and> session_ptr tc1 = Some sc1 \<and> cout (socket sc1) = cout (socket sc) @ sin (socket ss) \<and>
     accept_step sops lim get is_tcp (do_complete (handler_visit (login_req_body_ops lim par ser))) ts w = (Continue, ts1, w1) \<and>
     spawned w1 = spawned w @ [(x, n)] \<and>
     handle_request sops login_router empty_body_ops (login_handle auth) n (handlers w1 x) ts1 = (Inr no_error, h2, ts2) \<and>
     session_ptr ts2 = Some ss2 \<and> sout (socket ss2) = sout (socket ss) @ cin (socket sc) \<and>
     query_step cops lim cget ctcp ccomplete tc1 login_response_default = (Continue, tc2, r) \<and>
     waiting tc2 = [] \<and> finished tc2 = [ucast n] \<and>
     result r = (if \<exists>m. auth = Some m \<and> store m ''test'' = Some ''test'' then 200 else 401) \<and>
     cli_report r = ''login failed!'' @ [nl]"
proof -
  let ?r = "login_answer auth (response (handlers w x))" and ?h = "(handlers w x)\<lparr>request := cli_request\<rparr>"
  have l': "length login_router \<le> string_max lim" "4 \<le> string_max lim" using l by (simp_all add: login_router_def)
  have h: "login_handle auth ?h = (ctx_login auth (body cli_request), ?h)" by (simp add: login_handle_def)
  have h1: "way (header (request ?h)) = 0"
    "?r = (response ?h)\<lparr>result := word_of_int (ec_value (ctx_login auth (body cli_request))),
                         header := (header (response ?h))\<lparr>way := 0\<rparr>\<rparr>"
    by (simp_all add: login_answer_def ctx_login_value make_error_code_http_def cli_request_def tcp_header_default_def)
  have r': "way (header ?r) = 0" "- (2 ^ 30) \<le> sint (result ?r)" "sint (result ?r) < 2 ^ 30"
    "cli_report ?r = ''login failed!'' @ [nl]"
    by (simp_all add: login_answer_def cli_report_def)
  note v = cli_request_valid(1) [OF l'(2)] cli_request_valid(2)
  from login_call.call_sent [OF c(1-4) v, of par ser n "call_back empty_body_ops" login_response_default]
  obtain c1 tc1 sc1 where 1: "async_call cops (commit_request login_router (login_req_body_ops lim par ser) cli_request) n
       (call_back empty_body_ops) c login_response_default = (Inr (Suspended (ucast n)), c1, login_response_default)"
      "proto_ptr c1 = Some tc1" "session_ptr tc1 = Some sc1" "cin (socket sc1) = cin (socket sc)"
      "cout (socket sc1) = cout (socket sc) @ sin (socket ss)" "awaits n (call_back empty_body_ops) tc1"
      "finished tc1 = finished tc"
    unfolding q by blast
  have a1: "cin (socket sc1) = frame n (response_payload login_router (\<lambda>_. []) ?r)" using 1(4) a by simp
  from login_call.call_answered [OF c(1) 1(3) a1 login_answer_sendable TrueI r'(1-3) l'(1) 1(6)]
  obtain tc2 where 2: "query_step cops lim cget ctcp ccomplete tc1 login_response_default = (Continue, tc2, ?r)"
      "waiting tc2 = []" "finished tc2 = [ucast n]" unfolding 1(7) c(5) by fastforce
  have 3: "cli_login cops (login_req_body_ops lim par ser) n c = (Inr None, c1)" using 1(1) by (simp add: cli_login_def)
  from login_call.call_served [where handle = "login_handle auth" and incoming = sin and get = get and is_tcp = is_tcp and x = x
      and w = w and par = par and ser = ser, OF s q cli_request_sendable v g l'(1) h TrueI h1]
  obtain ts1 w1 h2 ts2 ss2 where 4:
      "accept_step sops lim get is_tcp (do_complete (handler_visit (login_req_body_ops lim par ser))) ts w = (Continue, ts1, w1)"
      "spawned w1 = spawned w @ [(x, n)]"
      "handle_request sops login_router empty_body_ops (login_handle auth) n (handlers w1 x) ts1 = (Inr no_error, h2, ts2)"
      "session_ptr ts2 = Some ss2" "sout (socket ss2) = sout (socket ss) @ cin (socket sc)"
    unfolding a by blast
  have 5: "result ?r = (if \<exists>m. auth = Some m \<and> store m ''test'' = Some ''test'' then 200 else 401)" by (simp add: login_answer_def)
  show ?thesis using 1(2,3,5) 2 3 4 5 r'(4) by blast
qed

text \<open>The login of a user whose password is stored: answered with 200 and reported as failed.\<close>

definition test_accounts :: accounts where
  "test_accounts = [''test'' \<mapsto> \<lparr>acc_id = 1, acc = ''test'', acc_password = ''test''\<rparr>]"

definition login_handlers :: "(unit, (login_req_body, unit) handler) contexts_state" where
  "login_handlers =
     \<lparr>handlers = (\<lambda>_. \<lparr>handler_name = ''ctx_login'', request = \<lparr>header = tcp_header_default, body = login_req_body_default\<rparr>,
                        response = login_response_default\<rparr>),
      routers = (\<lambda>_. []), spawned = []\<rparr>"

definition ok_answer :: "unit tcp_response" where
  "ok_answer = \<lparr>header = tcp_header_default, body = (), result = 200\<rparr>"

lemma test_accounts_has: "store test_accounts ''test'' = Some ''test''"
  by (simp add: store_def test_accounts_def)

lemma ok_answer_is: "login_answer (Some test_accounts) (response (handlers login_handlers ())) = ok_answer"
  by (simp add: login_answer_def test_accounts_has login_handlers_def login_response_default_def tcp_header_default_def ok_answer_def)

theorem console_login_witness:
  "\<exists>c1 tc1 sc1 ts1 w1 h2 ts2 ss2 tc2 r.
     cli_login script_ops (login_req_body_ops sample_limits (\<lambda>_. Inr J_null) (\<lambda>_. [])) 9
       ((client_new 30)\<lparr>proto_ptr := Some (tcp_new (sample_session (frame 9 (response_payload login_router (\<lambda>_. []) ok_answer))))\<rparr>) =
       (Inr None, c1) \<and>
     proto_ptr c1 = Some tc1 \<and> session_ptr tc1 = Some sc1 \<and>
     accept_step script_ops sample_limits (\<lambda>r. if r = ''/login'' then Some () else None) (\<lambda>_. True)
       (do_complete (handler_visit (login_req_body_ops sample_limits (\<lambda>_. Inr J_null) (\<lambda>_. []))))
       (tcp_new (sample_session (script_out (socket sc1)))) login_handlers = (Continue, ts1, w1) \<and> spawned w1 = [((), 9)] \<and>
     handle_request script_ops login_router empty_body_ops (login_handle (Some test_accounts)) 9 (handlers w1 ()) ts1 =
       (Inr no_error, h2, ts2) \<and> session_ptr ts2 = Some ss2 \<and>
     script_out (socket ss2) = frame 9 (response_payload login_router (\<lambda>_. []) ok_answer) \<and>
     query_step script_ops sample_limits (\<lambda>_. None :: unit option) (\<lambda>_. True) (\<lambda>_ _ _ _ w. (Inr no_error, w)) tc1 login_response_default =
       (Continue, tc2, r) \<and>
     waiting tc2 = [] \<and> finished tc2 = [ucast (9 :: 32 word)] \<and> result r = 200 \<and> cli_report r = ''login failed!'' @ [nl]"
proof -
  let ?sc = "sample_session (frame 9 (response_payload login_router (\<lambda>_. []) ok_answer))"
  let ?ss = "sample_session (frame 9 (request_payload login_router login_req_body_bytes cli_request))"
  let ?c = "(client_new 30)\<lparr>proto_ptr := Some (tcp_new ?sc)\<rparr> :: (script, unit tcp_response) client"
  let ?ts = "tcp_new ?ss :: (script, (unit, (login_req_body, unit) handler) contexts_state) tcp"
  have c: "proto_ptr ?c = Some (tcp_new ?sc)" "session_ptr (tcp_new ?sc :: (script, unit tcp_response) tcp) = Some ?sc"
    "waiting (tcp_new ?sc :: (script, unit tcp_response) tcp) = []" "finished (tcp_new ?sc :: (script, unit tcp_response) tcp) = []"
    "script_in (socket ?sc) = frame 9 (response_payload login_router (\<lambda>_. []) ok_answer)" "script_out (socket ?sc) = []"
    by (simp_all add: tcp_new_def sample_session_def)
  have s: "session_ptr ?ts = Some ?ss" "script_in (socket ?ss) = frame 9 (request_payload login_router login_req_body_bytes cli_request)"
    "script_out (socket ?ss) = []"
    by (simp_all add: tcp_new_def sample_session_def)
  have m: "6 \<le> string_max sample_limits" "(\<lambda>r. if r = ''/login'' then Some () else None) login_router = Some ()"
    by (simp_all add: sample_limits_def login_router_def)
  have e: "\<exists>m. Some test_accounts = Some m \<and> store m ''test'' = Some ''test''" using test_accounts_has by blast
  note d = console_login [where cin = script_in and cout = script_out and sin = script_in and sout = script_out
      and is_tcp = "\<lambda>_. True" and par = "\<lambda>_. Inr J_null" and ser = "\<lambda>_. []" and auth = "Some test_accounts"
      and get = "\<lambda>r. if r = ''/login'' then Some () else None" and x = "()" and w = login_handlers
      and cget = "\<lambda>_. None :: unit option" and ctcp = "\<lambda>_. True" and ccomplete = "\<lambda>_ _ _ _ w. (Inr no_error, w)",
      unfolded ok_answer_is if_P [OF e], OF stream_socket_script c(1-4) stream_socket_script s(1,2) c(5) m(2) TrueI m(1)]
  have "spawned login_handlers = []" by (simp add: login_handlers_def)
  with d show ?thesis unfolding c(5,6) s(2,3) by (elim exE conjE) (intro exI conjI, assumption+, auto)
qed

text \<open>
  A login whose request cannot be written is reported as a success: the call returns the response
  it started with, whose result is 0.
\<close>

theorem unsent_login_reported:
  assumes "proto_ptr c = Some t" and "session_ptr t = Some s" and "close_func c = None" and "4 \<le> string_max lim"
    and "\<And>bytes. sock_write ops (socket s) bytes = (ec, sock)" and "failed ec"
  shows "fst (cli_login ops (login_req_body_ops lim par ser) n c) = Inr (Some (''login success;'' @ [nl]))"
proof -
  have send: "tcp_send ops bss (regist_resp_func src cb t) =
      (Inr ec, (regist_resp_func src cb t)\<lparr>session_ptr := Some (s\<lparr>socket := sock\<rparr>)\<rparr>)" for bss src cb
    using assms(2,5) by (simp add: tcp_send_def regist_resp_func_def async_send_def)
  obtain b where b: "commit_request login_router (login_req_body_ops lim par ser) cli_request [] = (Inr no_error, b)"
    using login_req_body.commit_request_bytes [OF cli_request_valid(1) [OF assms(4)] cli_request_valid(2), of login_router par ser "[]"]
    by (auto simp: login_router_def)
  show ?thesis
    using assms(1,3,6)
    by (simp add: cli_login_def async_call_def send_request_def b send make_error_def close_invoke_def tcp_shutdown_def
        session_shutdown_def cli_report_def login_response_default_def Let_def split: prod.split)
qed

end
