(* ===== verification/Spec2Isabelle.thy ===== *)
theory Spec2Isabelle
  imports Prelude Varint Key_Order Binary Binary_Types Error_Code Tcp_Protocol Decimal Key_Value Json Message_Contracts Messages
    Session Registry Ssl_Session Modules Tcp_Session Loop_Termination Rpc Text
    Http_Tables Http_Header Http_Session Http_Properties Http_Delivery Http_Loop Message_Moves
    Schema Schema_Properties Generator Generated_Code Generated_Properties Command_Interface Client Server
    Sql_Views Database Query_Result Login Client_Pool Directory_Client Service_Handlers Service_Calls Discovery
    Gateway Programs Command_Options Console_Client
begin

text \<open>
  Verification of aquarius, a C++ framework for services that talk to each other over TCP and
  HTTP, of the code generator it comes with, and of four services built on it.

  \<^bold>\<open>The program.\<close>
  A service is a \<open>basic_server\<close> (include/aquarius/basic_server.hpp) that accepts connections and
  gives each a \<open>tcp\<close> or \<open>http\<close> object (include/aquarius/ip/tcp.hpp, http.hpp) over a
  \<open>basic_session\<close>. The loop of that object, \<open>accept\<close>, reads a message, looks up the context of its
  router in \<open>context_reg\<close>, lets it parse the message into its handler and spawns the handling,
  which sends the reply. A \<open>basic_client\<close> sends calls and runs the loop \<open>query\<close>, which gives each
  reply to the callback of its call. What travels is a frame header, a router, a message header
  and a body; bodies are classes that lazytool (src/lazytool) generates from schema files, with
  a binary, a JSON and a key-value form each (include/aquarius/serialize). Background work of a
  service is in modules (include/aquarius/module). The services under src are the directory
  (serviced), the gateway between HTTP and TCP, the login service and the database service, which
  builds SQL with the views of include/aquarius/tbl.

  \<^bold>\<open>Conventions.\<close>
  A struct or class is a record, an enumeration a datatype, an integer a word of its width,
  \<open>flex_buffer\<close> the list of its unread bytes. A function that changes an object takes and returns
  it. A coroutine is the function that its completion computes; spawned work is put in a list; what
  user code and callbacks do is a state \<open>'w\<close> that is passed along. An exception is \<open>Thrown\<close>,
  undefined behaviour is \<open>Undefined\<close>, both of the type \<open>fault\<close>; \<open>catch (...)\<close> turns only the first
  into a code. Code that is not in the repository is a parameter: the sockets of Asio
  (\<open>socket_ops\<close>, with \<open>stream_socket\<close> for what is relied on), OpenSSL, Boost.JSON, Boost.URL,
  Boost.MySQL, Boost.Program_options, the random numbers, the sizes the host can allocate.

  \<^bold>\<open>The theories.\<close>
  \<^item> \<open>Prelude\<close>: faults, buffers, and the calculus of readers, writers, loaders and savers with the
    collection \<open>codec\<close>; \<open>Text\<close> and \<open>Decimal\<close>: the string functions and the printing and scanning of
    numbers of the C++ library.
  \<^item> \<open>Varint\<close>, \<open>Binary\<close> (serialize/binary.hpp): every overload of \<open>binary_parse\<close>. Reading inverts
    writing at every type and leaves the rest of the buffer; when a reader throws or is undefined;
    the range in which \<open>int32\<close> survives. \<open>Key_Order\<close> is the linear order of map keys, into which the
    keys of every type with a \<open><\<close> are mapped; a key that is not a number is undefined in a \<open>std::map\<close>.
    \<open>Binary_Types\<close>: what a reader returns has its type.
  \<^item> \<open>Key_Value\<close> (kv.hpp, cookie.hpp) and \<open>Json\<close> (json.hpp): the text forms.
  \<^item> \<open>Error_Code\<close>: the error enumerations with codes and messages, by the locale \<open>error_enum\<close>.
  \<^item> \<open>Tcp_Protocol\<close> (basic_tcp_protocol.hpp, tcp_header.hpp): messages, and the locale \<open>body_codec\<close>
    with the round trip of requests and responses; \<open>Message_Contracts\<close>: \<open>json_codec\<close> and \<open>kv_codec\<close>
    likewise; \<open>Messages\<close>: the generated bodies (src/*/proto), each interpreting the contracts.
    \<open>Message_Moves\<close> (basic_protocol.hpp, basic_http_protocol.hpp): moves of messages, whose bodies are
    behind a pointer, refine moves of values; no message is left without a body.
  \<^item> \<open>Session\<close> and \<open>Ssl_Session\<close> (basic_session.hpp, basic_ssl_session.hpp): plain and encrypted
    sessions, the latter with the context they share.
  \<^item> \<open>Registry\<close> (context_reg.hpp, io_service_pool.hpp, player_module.hpp) and \<open>Modules\<close>
    (module_router.hpp, schedule.hpp): tables in which the first registration wins (the locale
    \<open>first_wins\<close>), services in turn, modules started once, in the stable order of their priorities, and run only
    when their \<open>init\<close> succeeds.
  \<^item> \<open>Tcp_Session\<close> (ip/tcp.hpp, basic_context.hpp, handler.hpp): framing, calls, the two loops,
    contexts and replies. Frames are delivered in order; \<open>Loop_Termination\<close>: both loops end on any
    input. \<open>Rpc\<close>: the locale \<open>rpc\<close> joins request and response bodies; for every message pair of the
    services a request reaches the handler and the reply the caller.
  \<^item> \<open>Client\<close> (basic_client.hpp): connecting, calling, and a connection as a transition system, with
    the sending of a call, its resumption, its failure and the arriving frames as separate steps, whose
    invariant is that calls are neither lost nor answered twice. \<open>Server\<close> (basic_server.hpp):
    accepting, while the modules take services from the same pool, the life of a connection, the
    timer, the environment.
  \<^item> \<open>Http_Tables\<close>, \<open>Http_Header\<close>, \<open>Http_Session\<close>, \<open>Http_Properties\<close>, \<open>Http_Delivery\<close> (virgo/http_*.hpp,
    ip/http.hpp, http_options_handler.hpp): the HTTP side, from the tables to a request that is
    written by a client and reaches the context of its path. \<open>Http_Loop\<close>: the loops of an HTTP
    connection end on any input.
  \<^item> \<open>Schema\<close>, \<open>Schema_Properties\<close> (schema.cpp, field.cpp): the parser of lazytool inverts a printer,
    and its results are well formed. \<open>Generator\<close> (cpp_generator.cpp), \<open>Generated_Code\<close>,
    \<open>Generated_Properties\<close>: the generator writes the text of line templates, and the functions
    \<open>to_binary\<close> and \<open>from_binary\<close> in that text, given a meaning, are inverse to each other.
    \<open>Command_Interface\<close>: the command line and the files written.
  \<^item> \<open>Sql_Views\<close> (include/aquarius/tbl): statements; the conditions refine a list of disjunctions (the
    locale \<open>conditioned_view\<close>), an insert statement can be read back. \<open>Database\<close>, \<open>Query_Result\<close>
    (mysql_io_service.hpp, src/database): transactions, rows as strings and as objects.
  \<^item> \<open>Login\<close> (src/login): the accounts refine a map from names to passwords. \<open>Client_Pool\<close>,
    \<open>Directory_Client\<close> (src/serviced, src/gateway/client_pool.cpp): the pool of the directory, its
    registration handler, and the module that registers a service there. \<open>Service_Handlers\<close> (ip/handler_reg.hpp): the handlers each service
    registers, found in every order of static initialisation. \<open>Service_Calls\<close>: a call with both ends
    of the connection, from \<open>async_call\<close> over the handler of the database service to the caller; and
    two handlings that overlap. \<open>Discovery\<close>: the registration of a service with the calls it makes, up
    to the requests that are forwarded, for the directory and for the gateway.
    \<open>Gateway\<close> (src/gateway): conversion between HTTP and TCP. \<open>Programs\<close>: the main functions.
  \<^item> \<open>Command_Options\<close> (cmd_options.hpp): declared options and what loading them does.
    \<open>Console_Client\<close> (src/aquarius-cli): the loop over the console, and its login together with the
    login service.

  \<^bold>\<open>Bounds.\<close>
  \<open>run_loop\<close> has a number of rounds as fuel and is \<open>None\<close> without an end. One round for each frame and
  one more are enough for a stream of frames (\<open>Tcp_Session\<close>), one for every nine bytes and one
  more for any bytes (\<open>Loop_Termination\<close>), because a round that goes on has read a header of
  eight bytes and a body; one for every four bytes on an HTTP connection (\<open>Http_Loop\<close>), because a
  round has read the four characters that end a header. A call up to its return
  (\<open>Discovery\<close>) has the number of frames that are looked at as fuel; one is enough when its reply is
  the first frame to come, and a call that never returns is \<open>None\<close>. The loop of the console client is
  \<open>None\<close> when it does not end. All other functions are total. Lengths below \<open>2^32\<close> are what a frame can
  carry (\<open>sendable\<close>); lengths below \<open>2^64\<close> are those of a \<open>size_t\<close>.

  \<^bold>\<open>Where the code does not do what it means to.\<close>
  Definitions follow the code, so that some theorems say what goes wrong: an \<open>int32\<close> outside
  \<open>[-2^30, 2^30)\<close> is changed by its encoding, a transaction and an accepted change of a password
  are undefined, of the account table one row is loaded, overlapping handlings answer the wrong client,
  a service that cannot be reached is registered with success, a handler that returns the
  status 200 sends no HTTP reply, the console reports every answered login as failed, a text with white space is cut when it is read from the database.

  \<^bold>\<open>Not modelled.\<close>
  \<^item> The player of the gateway (player.h): its behaviour is that of Boost.MSM on a table with two
    initial regions and deferred events that also have transitions; its actions only log.
  \<^item> The template \<open>node\<close> of context_reg.hpp, which is not used and cannot be instantiated, and the class
    in flex_buffer.hpp that is commented out; \<open>flex_buffer\<close> is \<open>asio::streambuf\<close>.
  \<^item> logger.hpp and udp.hpp, which wrap or rename library classes; default_selector.hpp, whose one
    function has its body commented out; serviced-ssh, whose headers are missing; the samples and the
    tests. The files payload.hpp of gateway and login are copies of the one of serviced.
  \<^item> Threads and locks: every operation of a shared table, the taking of a service from the pool
    included, is atomic, and a coroutine runs from one suspension to the next without interference. Time-outs show as error codes of the socket.
  \<^item> Members of 8 bits in SQL statements, which the views stream as characters (\<open>Sql_Views\<close>).
\<close>

end
